(* ===== verification/Hive_Prelude.thy ===== *)
theory Hive_Prelude
  imports "HOL-Library.Word"
begin

text \<open>
  Shared vocabulary of the development: the C integer types of an LP64 platform as words, byte
  buffers with bounds-checked stores, C strings, and the generic lemmas the component theories
  share. A store that leaves its buffer is the value \<open>None\<close>: in C it is undefined behaviour.
\<close>

unbundle bit_operations_syntax

named_theorems hive_simps \<open>unfoldings of the small wrappers every operation goes through\<close>

subsection \<open>Machine integers\<close>

type_synonym c_int = "32 word"
type_synonym c_uint = "32 word"
type_synonym c_long = "64 word"
type_synonym size_t = "64 word"
type_synonym ssize_t = "64 word"
type_synonym byte = char
type_synonym bytes = "char list"

definition neg :: "'a::len word \<Rightarrow> bool" where
  \<comment> \<open>\<open>rc < 0\<close> for a signed C integer\<close>
  "neg x \<longleftrightarrow> sint x < 0"

definition int_to_ssize :: "c_int \<Rightarrow> ssize_t" where
  \<comment> \<open>conversion of an \<open>int\<close> to \<open>ssize_t\<close>: sign extension\<close>
  "int_to_ssize x = signed x"

definition uint_to_ssize :: "c_uint \<Rightarrow> ssize_t" where
  \<comment> \<open>conversion of an \<open>unsigned int\<close> to \<open>ssize_t\<close>: the value is kept, so no sign bit appears\<close>
  "uint_to_ssize x = unsigned x"

definition ssize_to_int :: "ssize_t \<Rightarrow> c_int" where
  \<comment> \<open>the cast \<open>(int)x\<close> of a 64-bit value: truncation\<close>
  "ssize_to_int x = unsigned x"

lemma neg_iff_bit: "neg x \<longleftrightarrow> bit x (LENGTH('a) - Suc 0)"
  for x :: "'a::len word"
  unfolding neg_def by transfer (simp add: signed_take_bit_negative_iff)

lemma neg_zero [simp]: "\<not> neg 0"
  by (simp add: neg_def)

lemma neg_nonzero: "neg x \<Longrightarrow> x \<noteq> 0"
  by auto

lemma neg_int_to_ssize [simp]: "neg (int_to_ssize x) = neg x"
  by (simp add: neg_def int_to_ssize_def sint_up_scast is_up)

lemma not_neg_uint_to_ssize [simp]: "\<not> neg (uint_to_ssize x)"
proof -
  have "\<not> bit (unsigned x :: ssize_t) 63"
    by (auto simp: bit_simps dest: bit_imp_le_length)
  then show ?thesis
    by (simp add: neg_iff_bit uint_to_ssize_def)
qed

lemma ssize_to_int_int_to_ssize [simp]: "ssize_to_int (int_to_ssize x) = x"
  by (simp add: ssize_to_int_def int_to_ssize_def) (rule bit_word_eqI, simp add: bit_simps)

lemma ssize_to_int_uint_to_ssize [simp]: "ssize_to_int (uint_to_ssize x) = x"
  by (simp add: ssize_to_int_def uint_to_ssize_def) (rule bit_word_eqI, simp add: bit_simps)

subsection \<open>The bits of the error code masks\<close>

lemma bit_sign_lit: "bit (0x80000000 :: 'a::len word) n \<longleftrightarrow> n = 31 \<and> n < LENGTH('a)"
proof -
  have "(0x80000000 :: 'a word) = 2 ^ 31" by simp
  then show ?thesis by (auto simp only: bit_exp_iff possible_bit_word)
qed

lemma mask_lits:
  "(0x7FFFFFFF :: 'a::len word) = mask 31"
  "(0x0F :: 'a::len word) = mask 4"
  "(0x00FFFFFF :: 'a::len word) = mask 24"
  by (simp_all add: mask_numeral)

lemma bit_mask_lits:
  "bit (0x7FFFFFFF :: 'a::len word) n \<longleftrightarrow> n < 31 \<and> n < LENGTH('a)"
  "bit (0x0F :: 'a::len word) n \<longleftrightarrow> n < 4 \<and> n < LENGTH('a)"
  "bit (0x00FFFFFF :: 'a::len word) n \<longleftrightarrow> n < 24 \<and> n < LENGTH('a)"
  by (auto simp only: mask_lits bit_mask_iff possible_bit_word)

lemma small_word_bit:
  fixes c :: "'a::len word"
  assumes "unat c < 2 ^ k" "bit c n"
  shows "n < k"
proof -
  have "take_bit k (unat c) = unat c" using assms(1) by (simp add: take_bit_nat_eq_self)
  moreover have "bit (unat c) n" using assms(2) by (simp add: bit_unsigned_iff bit_imp_le_length)
  ultimately show ?thesis by (metis bit_take_bit_iff)
qed

lemma bit_drop: "bit (drop_bit n a) m \<longleftrightarrow> bit a (n + m)"
  by (simp add: bit_drop_bit_eq)

lemmas err_bits = bit_sign_lit bit_mask_lits bit_and_iff bit_or_iff bit_push_bit_iff bit_drop
  bit_unsigned_iff

subsection \<open>Byte buffers\<close>

definition mem_store :: "bytes \<Rightarrow> nat \<Rightarrow> bytes \<Rightarrow> bytes option" where
  \<comment> \<open>\<open>memcpy(buf + off, src, n)\<close> into a buffer of \<open>length buf\<close> bytes\<close>
  "mem_store buf off src =
     (if off + length src \<le> length buf
      then Some (take off buf @ src @ drop (off + length src) buf) else None)"

definition NUL :: char where
  "NUL = CHR 0x00"

definition strcpy_at :: "bytes \<Rightarrow> nat \<Rightarrow> string \<Rightarrow> bytes option" where
  \<comment> \<open>\<open>strcpy(buf + off, s)\<close>: the terminator is stored too\<close>
  "strcpy_at buf off s = mem_store buf off (s @ [NUL])"

definition cstr :: "bytes \<Rightarrow> string" where
  \<comment> \<open>the C string a byte buffer holds: everything before the first NUL\<close>
  "cstr bs = takeWhile (\<lambda>c. c \<noteq> NUL) bs"

definition is_cstr :: "string \<Rightarrow> bool" where
  "is_cstr s \<longleftrightarrow> NUL \<notin> set s"

lemma mem_store_length: "mem_store buf off src = Some b \<Longrightarrow> length b = length buf"
  by (auto simp: mem_store_def split: if_splits)

lemma mem_store_eq_None [simp]: "mem_store buf off src = None \<longleftrightarrow> length buf < off + length src"
  by (auto simp: mem_store_def)

lemma mem_store_take: "mem_store buf off src = Some b \<Longrightarrow> take off b = take off buf"
  by (auto simp: mem_store_def split: if_splits)

lemma mem_store_content:
  "mem_store buf off src = Some b \<Longrightarrow> take (length src) (drop off b) = src"
  by (auto simp: mem_store_def split: if_splits)

lemma mem_store_prefix:
  "mem_store buf off src = Some b \<Longrightarrow> take (off + length src) b = take off buf @ src"
  by (auto simp: mem_store_def split: if_splits)

lemma cstr_is_cstr [simp]: "is_cstr (cstr bs)"
  by (auto simp: is_cstr_def cstr_def dest: set_takeWhileD)

lemma cstr_append_NUL [simp]: "is_cstr s \<Longrightarrow> cstr (s @ NUL # rest) = s"
  unfolding is_cstr_def cstr_def by (induction s) auto

lemma cstr_id: "is_cstr s \<Longrightarrow> cstr s = s"
  by (auto simp: is_cstr_def cstr_def takeWhile_eq_all_conv)

lemma is_cstr_append [simp]: "is_cstr (s @ t) \<longleftrightarrow> is_cstr s \<and> is_cstr t"
  by (auto simp: is_cstr_def)

lemma is_cstr_Nil [simp]: "is_cstr []"
  by (simp add: is_cstr_def)

lemma is_cstr_Cons [simp]: "is_cstr (c # s) \<longleftrightarrow> c \<noteq> NUL \<and> is_cstr s"
  by (auto simp: is_cstr_def)

lemma strcpy_at_cstr:
  "strcpy_at buf off s = Some b \<Longrightarrow> is_cstr s \<Longrightarrow> cstr (drop off b) = s"
  by (auto simp: strcpy_at_def mem_store_def split: if_splits)

lemma strcpy_at_length: "strcpy_at buf off s = Some b \<Longrightarrow> length b = length buf"
  by (auto simp: strcpy_at_def dest: mem_store_length)

lemma strcpy_at_eq_None [simp]:
  "strcpy_at buf off s = None \<longleftrightarrow> length buf < off + Suc (length s)"
  by (simp add: strcpy_at_def)

lemma strcpy_at_SomeD: "strcpy_at buf off s = Some b \<Longrightarrow> off + length s < length buf"
  by (auto simp: strcpy_at_def mem_store_def split: if_splits)

lemma cstr_append: "is_cstr s \<Longrightarrow> cstr (s @ t) = s @ cstr t"
  unfolding cstr_def is_cstr_def by (induction s) auto

subsection \<open>Bounded formatting\<close>

definition snprintf :: "nat \<Rightarrow> string \<Rightarrow> c_int \<times> string" where
  \<comment> \<open>\<open>snprintf(buf, sz, ...)\<close> of an already expanded text: the full length is returned, the
     stored text is cut to \<open>sz - 1\<close> characters\<close>
  "snprintf sz s = (word_of_nat (length s), take (sz - 1) s)"

definition prefixb :: "string \<Rightarrow> string \<Rightarrow> bool" where
  "prefixb p s \<longleftrightarrow> take (length p) s = p"

fun strstr :: "string \<Rightarrow> string \<Rightarrow> bool" where
  \<comment> \<open>\<open>strstr(hay, needle) != NULL\<close>\<close>
  "strstr [] needle \<longleftrightarrow> needle = []"
| "strstr (c # cs) needle \<longleftrightarrow> prefixb needle (c # cs) \<or> strstr cs needle"

lemma prefixb_append [simp]: "prefixb p (p @ s)"
  by (simp add: prefixb_def)

lemma prefixb_iff: "prefixb p s \<longleftrightarrow> (\<exists>t. s = p @ t)"
proof
  assume "prefixb p s"
  then have "s = p @ drop (length p) s"
    by (metis append_take_drop_id prefixb_def)
  then show "\<exists>t. s = p @ t" ..
qed auto

fun nat_digits :: "nat \<Rightarrow> string" where
  \<comment> \<open>decimal output of \<open>%u\<close>, \<open>%d\<close> and \<open>%zu\<close> for a value that is not negative\<close>
  "nat_digits n = (if n < 10 then [char_of (48 + n)]
                   else nat_digits (n div 10) @ [char_of (48 + n mod 10)])"

declare nat_digits.simps [simp del]

lemma nat_digits_nonempty [simp]: "nat_digits n \<noteq> []"
  by (subst nat_digits.simps) simp

end
