(* ===== verification/Hive_Ext.thy ===== *)
theory Hive_Ext
  imports Hive_Prelude
begin

text \<open>
  The outside of the program: what the source calls but does not contain. libcurl, cJSON, the
  allocator and the operating system are fields of a parameter record that every operation takes
  as its first argument, over a type \<open>'w\<close> of world states that only those fields change and a type
  \<open>'j\<close> of cJSON nodes. The theory also holds the data that crosses this boundary: the options set on
  an easy handle, the parts set on a URL handle, and the sinks a transfer's write callback fills.
\<close>

subsection \<open>libcurl's data\<close>

datatype curlu_part = CURLUPART_URL | CURLUPART_SCHEME | CURLUPART_HOST | CURLUPART_PORT
  | CURLUPART_PATH | CURLUPART_QUERY

record url_call =
  uc_part :: curlu_part
  uc_text :: "string option"
  uc_encode :: bool
  uc_append :: bool

datatype write_fn = EAT_OUTPUT | HTTP_RESPONSE_BODY_WRITE | USER_WRITE

datatype curl_opt =
    CURLOPT_DEBUGFUNCTION
  | CURLOPT_VERBOSE
  | CURLOPT_WRITEFUNCTION write_fn
  | CURLOPT_WRITEDATA write_fn
  | CURLOPT_CURLU
  | CURLOPT_NOSIGNAL
  | CURLOPT_HTTPGET
  | CURLOPT_POST
  | CURLOPT_CUSTOMREQUEST string
  | CURLOPT_TIMEOUT c_int
  | CURLOPT_HTTP_VERSION nat
  | CURLOPT_POSTFIELDS "bytes option"
  | CURLOPT_POSTFIELDSIZE nat
  | CURLOPT_UPLOAD
  | CURLOPT_READFUNCTION
  | CURLOPT_READDATA
  | CURLOPT_HEADERFUNCTION
  | CURLOPT_HEADERDATA
  | CURLOPT_HTTPHEADER "string list"
  | CURLOPT_MIMEPOST

record mime_part =
  mp_name :: string
  mp_filename :: "string option"
  mp_type :: "string option"
  mp_data :: bytes

record request =
  rq_opts :: "curl_opt list"
  rq_url :: "url_call list"
  rq_mime :: "mime_part list"

text \<open>
  The two kinds of sink a transfer can fill: the growing body of the http client, and the
  caller's own buffer with its position. \<open>us_ub\<close> records a store outside that buffer.
\<close>

record http_response_body =
  rb_used :: size_t
  rb_sz :: size_t
  rb_data :: bytes

record user_sink =
  us_mem :: bytes
  us_pos :: nat
  us_limit :: nat
  us_ub :: bool

datatype sink = NoSink | BodySink http_response_body | UserSink user_sink

type_synonym 'w writer = "bytes \<Rightarrow> sink \<Rightarrow> 'w \<Rightarrow> size_t \<times> sink \<times> 'w"

abbreviation (input) CURLE_OK :: c_int where "CURLE_OK \<equiv> 0"
abbreviation (input) CURLE_UNSUPPORTED_PROTOCOL :: c_int where "CURLE_UNSUPPORTED_PROTOCOL \<equiv> 1"
abbreviation (input) CURLE_COULDNT_CONNECT :: c_int where "CURLE_COULDNT_CONNECT \<equiv> 7"
abbreviation (input) CURLE_REMOTE_ACCESS_DENIED :: c_int where "CURLE_REMOTE_ACCESS_DENIED \<equiv> 9"
abbreviation (input) CURLE_OUT_OF_MEMORY :: c_int where "CURLE_OUT_OF_MEMORY \<equiv> 27"
abbreviation (input) CURLE_OPERATION_TIMEDOUT :: c_int where "CURLE_OPERATION_TIMEDOUT \<equiv> 28"
abbreviation (input) CURLUE_OK :: c_int where "CURLUE_OK \<equiv> 0"

subsection \<open>The operating system\<close>

datatype syscall = SysOpen | SysLseek | SysRead | SysWrite | SysStat | SysMkdir | SysAccess
  | SysUnlink | SysThread | SysGetaddrinfo | SysSocket | SysBind | SysListen

record timeval =
  tv_sec :: c_long
  tv_usec :: c_long

text \<open>
  What the network does between two polls of the redirect server: the time after \<open>select\<close>, which
  sockets are ready, what successive \<open>recv\<close> calls on a socket return until one would block, how much
  a \<open>send\<close> takes, and the connections \<open>accept\<close> returns. It depends on the host and port the server listens on.
\<close>

datatype recv_result = Recv bytes | RecvEnd

datatype send_result = SentMore nat | SendWouldBlock | SendError

record net_input =
  net_now :: int
  net_readable :: "int \<Rightarrow> bool"
  net_writable :: "int \<Rightarrow> bool"
  net_recv :: "int \<Rightarrow> recv_result list"
  net_send :: "int \<Rightarrow> send_result"
  net_accept :: "(int \<times> string) list"

record 'w os =
  os_alloc :: "nat \<Rightarrow> 'w \<Rightarrow> bool \<times> 'w"
  os_fresh :: "nat \<Rightarrow> 'w \<Rightarrow> bytes"
  os_fault :: "syscall \<Rightarrow> 'w \<Rightarrow> c_int option \<times> 'w"
  os_xfer :: "nat \<Rightarrow> 'w \<Rightarrow> nat \<times> 'w"
  os_now :: "'w \<Rightarrow> timeval \<times> 'w"
  os_rand :: "'w \<Rightarrow> nat \<times> 'w"
  os_dir_size :: size_t
  os_strerror_r :: "c_int \<Rightarrow> bytes \<Rightarrow> c_int \<times> bytes"
  os_poll :: "string option \<times> string option \<Rightarrow> 'w \<Rightarrow> net_input \<times> 'w"
  os_inet_pton :: "string \<Rightarrow> bool"
  os_inet_pton6 :: "string \<Rightarrow> bool"

subsection \<open>libcurl's functions\<close>

record 'w curl_os = "'w os" +
  curl_global_init :: "'w \<Rightarrow> c_int \<times> 'w"
  curl_url :: "'w \<Rightarrow> bool \<times> 'w"
  curl_easy_init :: "'w \<Rightarrow> bool \<times> 'w"
  curl_setopt :: "curl_opt \<Rightarrow> c_int"
  curl_url_set :: "url_call list \<Rightarrow> url_call \<Rightarrow> c_int"
  curl_url_get :: "url_call list \<Rightarrow> curlu_part \<Rightarrow> bool \<Rightarrow> c_int \<times> string"
  curl_slist_append :: "'w \<Rightarrow> bool \<times> 'w"
  curl_perform :: "request \<Rightarrow> 'w writer \<Rightarrow> sink \<Rightarrow> 'w \<Rightarrow> c_int \<times> sink \<times> 'w"
  curl_response_code :: "'w \<Rightarrow> c_int \<times> c_long"
  curl_easy_escape :: "bytes \<Rightarrow> 'w \<Rightarrow> string option \<times> 'w"
  curl_easy_unescape :: "bytes \<Rightarrow> 'w \<Rightarrow> bytes option \<times> 'w"
  curl_easy_strerror :: "c_int \<Rightarrow> string option"

subsection \<open>cJSON's functions\<close>

record ('j, 'w) ext = "'w curl_os" +
  cj_parse :: "bytes \<Rightarrow> 'j option"
  cj_get :: "'j \<Rightarrow> string \<Rightarrow> 'j option"
  cj_get_cs :: "'j \<Rightarrow> string \<Rightarrow> 'j option"
  cj_is_string :: "'j \<Rightarrow> bool"
  cj_is_number :: "'j \<Rightarrow> bool"
  cj_is_object :: "'j \<Rightarrow> bool"
  cj_is_array :: "'j \<Rightarrow> bool"
  cj_valuestring :: "'j \<Rightarrow> string option"
  cj_valuelong :: "'j \<Rightarrow> c_long"
  cj_items :: "'j \<Rightarrow> 'j list"
  cj_new_object :: "'j option"
  cj_new_array_ok :: bool
  cj_add_string :: "'j \<Rightarrow> string \<Rightarrow> string \<Rightarrow> bool \<times> 'j"
  cj_add_number :: "'j \<Rightarrow> string \<Rightarrow> c_long \<Rightarrow> bool \<times> 'j"
  cj_add_object :: "'j \<Rightarrow> string \<Rightarrow> bool \<times> 'j"
  cj_print :: "'j \<Rightarrow> string option"

subsection \<open>What the process keeps\<close>

abbreviation (input) ENOENT :: c_int where "ENOENT \<equiv> 2"
abbreviation (input) ENOMEM :: c_int where "ENOMEM \<equiv> 12"
abbreviation (input) EEXIST :: c_int where "EEXIST \<equiv> 17"
abbreviation (input) ENOTDIR :: c_int where "ENOTDIR \<equiv> 20"
abbreviation (input) EISDIR :: c_int where "EISDIR \<equiv> 21"
abbreviation (input) ERANGE :: c_int where "ERANGE \<equiv> 34"

datatype fnode = FFile bytes | FDir

type_synonym fs = "string \<Rightarrow> fnode option"

record 'w env =
  env_err :: c_int
  env_errno :: c_int
  env_fs :: fs
  env_curl_ready :: bool
  env_world :: 'w

text \<open>
  An operation of the model returns an option: \<open>None\<close> is a call that does not come back with a
  result, because it has undefined behaviour in C (a store outside its buffer, a null pointer
  dereference) or because its loop never ends.
\<close>

text \<open>
  What libcurl documents about a transfer: the write callback gets the response in chunks, in
  order, and the transfer succeeds only if the callback consumed each of them. The world may move
  between two calls of the callback.
\<close>

inductive feeds :: "'w writer \<Rightarrow> bytes list \<Rightarrow> sink \<Rightarrow> sink \<Rightarrow> bool" for wr where
  feeds_Nil: "feeds wr [] s s"
| feeds_Cons: "wr c s w = (n, s', w') \<Longrightarrow> unat n = length c \<Longrightarrow> feeds wr cs s' s'' \<Longrightarrow>
     feeds wr (c # cs) s s''"

inductive_cases feeds_NilE [elim!]: "feeds wr [] s s'"
inductive_cases feeds_ConsE: "feeds wr (c # cs) s s'"

definition alloc :: "('w, 'a) os_scheme \<Rightarrow> nat \<Rightarrow> 'w env \<Rightarrow> bool \<times> 'w env" where
  \<comment> \<open>\<open>malloc\<close>, \<open>calloc\<close>, \<open>strdup\<close> and \<open>rc_zalloc\<close>: whether the memory was there\<close>
  "alloc X n e = (let (ok, w) = os_alloc X n (env_world e) in
     (ok, e\<lparr>env_errno := (if ok then env_errno e else ENOMEM), env_world := w\<rparr>))"

lemma alloc_frame:
  "alloc X n e = (ok, e') \<Longrightarrow>
     env_err e' = env_err e \<and> env_fs e' = env_fs e \<and> env_curl_ready e' = env_curl_ready e"
  by (auto simp: alloc_def split: prod.splits)

definition sprintf_buf :: "nat \<Rightarrow> string \<Rightarrow> string option" where
  \<comment> \<open>\<open>sprintf\<close> of an already expanded text into an array of \<open>sz\<close> bytes\<close>
  "sprintf_buf sz s = (if length s < sz then Some s else None)"

definition realloc_bytes :: "('w, 'a) os_scheme \<Rightarrow> bytes \<Rightarrow> nat \<Rightarrow> 'w \<Rightarrow> bytes" where
  \<comment> \<open>the block a successful \<open>realloc(old, n)\<close> returns: what it adds is unspecified\<close>
  "realloc_bytes X old n w = take n (old @ os_fresh X (n - length old) w @ replicate n NUL)"

lemma length_realloc_bytes [simp]: "length (realloc_bytes X old n w) = n"
  by (simp add: realloc_bytes_def)

lemma take_realloc_bytes: "k \<le> length old \<Longrightarrow> k \<le> n \<Longrightarrow> take k (realloc_bytes X old n w) = take k old"
  by (simp add: realloc_bytes_def min_def)

subsection \<open>A concrete outside\<close>

text \<open>
  One instance of the parameters, for the closed examples: every call succeeds, the clock stands
  still, a transfer delivers nothing and a JSON node is the text it was parsed from.
\<close>

definition sample_os :: "'w os" where
  "sample_os = \<lparr>os_alloc = (\<lambda>n w. (True, w)), os_fresh = (\<lambda>n w. replicate n CHR ''?''),
     os_fault = (\<lambda>c w. (None, w)),
     os_xfer = (\<lambda>n w. (n, w)), os_now = (\<lambda>w. (\<lparr>tv_sec = 1000, tv_usec = 0\<rparr>, w)),
     os_rand = (\<lambda>w. (0, w)), os_dir_size = 0, os_strerror_r = (\<lambda>c b. (0, b)),
     os_poll = (\<lambda>addr w. (\<lparr>net_now = 1000, net_readable = (\<lambda>fd. False), net_writable = (\<lambda>fd. False),
       net_recv = (\<lambda>fd. []), net_send = (\<lambda>fd. SendError), net_accept = []\<rparr>, w)),
     os_inet_pton = (\<lambda>s. True), os_inet_pton6 = (\<lambda>s. True)\<rparr>"

definition sample_curl :: "'w curl_os" where
  "sample_curl = os.extend sample_os
     \<lparr>curl_global_init = (\<lambda>w. (CURLE_OK, w)), curl_url = (\<lambda>w. (True, w)),
      curl_easy_init = (\<lambda>w. (True, w)), curl_setopt = (\<lambda>opt. CURLE_OK),
      curl_url_set = (\<lambda>log call. CURLUE_OK), curl_url_get = (\<lambda>log part dec. (CURLUE_OK, ''x'')),
      curl_slist_append = (\<lambda>w. (True, w)), curl_perform = (\<lambda>rq wr s w. (CURLE_OK, s, w)),
      curl_response_code = (\<lambda>w. (CURLE_OK, 200)), curl_easy_escape = (\<lambda>s w. (Some s, w)),
      curl_easy_unescape = (\<lambda>s w. (Some s, w)), curl_easy_strerror = (\<lambda>c. None)\<rparr>"

definition sample_ext :: "(string, 'w) ext" where
  "sample_ext = curl_os.extend sample_curl
     \<lparr>cj_parse = (\<lambda>s. Some s), cj_get = (\<lambda>j k. None), cj_get_cs = (\<lambda>j k. None),
      cj_is_string = (\<lambda>j. True), cj_is_number = (\<lambda>j. False), cj_is_object = (\<lambda>j. False),
      cj_is_array = (\<lambda>j. False), cj_valuestring = (\<lambda>j. Some j), cj_valuelong = (\<lambda>j. 0),
      cj_items = (\<lambda>j. []), cj_new_object = Some [], cj_new_array_ok = True,
      cj_add_string = (\<lambda>j k v. (True, j)), cj_add_number = (\<lambda>j k v. (True, j)),
      cj_add_object = (\<lambda>j k. (True, j)), cj_print = (\<lambda>j. Some j)\<rparr>"

definition sample_env :: "unit env" where
  "sample_env = \<lparr>env_err = 0, env_errno = 0, env_fs = (\<lambda>p. None), env_curl_ready = True,
     env_world = ()\<rparr>"

end
