(* ===== verification/Hive_Error.thy ===== *)
theory Hive_Error
  imports Hive_Ext
begin

text \<open>
  Error codes and their texts: \<open>ela_hive.h\<close> (facilities, codes and the \<open>HIVE_MK_ERROR\<close> family),
  \<open>hive_error.c\<close> (the thread's last error and \<open>hive_get_strerror\<close>), \<open>http_status.c\<close> and the CURLU
  texts of \<open>http_client.c\<close>. The functions that write a facility's text share one contract, the
  locale \<open>strerror_facility\<close>.
\<close>

subsection \<open>Codes\<close>

abbreviation (input) HIVEF_GENERAL :: c_int where "HIVEF_GENERAL \<equiv> 0x01"
abbreviation (input) HIVEF_SYS :: c_int where "HIVEF_SYS \<equiv> 0x02"
abbreviation (input) HIVEF_RESERVED1 :: c_int where "HIVEF_RESERVED1 \<equiv> 0x03"
abbreviation (input) HIVEF_RESERVED2 :: c_int where "HIVEF_RESERVED2 \<equiv> 0x04"
abbreviation (input) HIVEF_CURL :: c_int where "HIVEF_CURL \<equiv> 0x05"
abbreviation (input) HIVEF_CURLU :: c_int where "HIVEF_CURLU \<equiv> 0x06"
abbreviation (input) HIVEF_HTTP_STATUS :: c_int where "HIVEF_HTTP_STATUS \<equiv> 0x07"
abbreviation (input) HIVEOK :: c_int where "HIVEOK \<equiv> 0"
abbreviation (input) HIVEERR_INVALID_ARGS :: c_int where "HIVEERR_INVALID_ARGS \<equiv> 0x01"
abbreviation (input) HIVEERR_OUT_OF_MEMORY :: c_int where "HIVEERR_OUT_OF_MEMORY \<equiv> 0x02"
abbreviation (input) HIVEERR_BUFFER_TOO_SMALL :: c_int where "HIVEERR_BUFFER_TOO_SMALL \<equiv> 0x03"
abbreviation (input) HIVEERR_BAD_PERSISTENT_DATA :: c_int where "HIVEERR_BAD_PERSISTENT_DATA \<equiv> 0x04"
abbreviation (input) HIVEERR_INVALID_PERSISTENCE_FILE :: c_int where "HIVEERR_INVALID_PERSISTENCE_FILE \<equiv> 0x05"
abbreviation (input) HIVEERR_INVALID_CREDENTIAL :: c_int where "HIVEERR_INVALID_CREDENTIAL \<equiv> 0x06"
abbreviation (input) HIVEERR_NOT_READY :: c_int where "HIVEERR_NOT_READY \<equiv> 0x07"
abbreviation (input) HIVEERR_NOT_EXIST :: c_int where "HIVEERR_NOT_EXIST \<equiv> 0x08"
abbreviation (input) HIVEERR_ALREADY_EXIST :: c_int where "HIVEERR_ALREADY_EXIST \<equiv> 0x09"
abbreviation (input) HIVEERR_INVALID_USERID :: c_int where "HIVEERR_INVALID_USERID \<equiv> 0x0A"
abbreviation (input) HIVEERR_WRONG_STATE :: c_int where "HIVEERR_WRONG_STATE \<equiv> 0x0B"
abbreviation (input) HIVEERR_BUSY :: c_int where "HIVEERR_BUSY \<equiv> 0x0C"
abbreviation (input) HIVEERR_LANGUAGE_BINDING :: c_int where "HIVEERR_LANGUAGE_BINDING \<equiv> 0x0D"
abbreviation (input) HIVEERR_ENCRYPT :: c_int where "HIVEERR_ENCRYPT \<equiv> 0x0E"
abbreviation (input) HIVEERR_NOT_IMPLEMENTED :: c_int where "HIVEERR_NOT_IMPLEMENTED \<equiv> 0x0F"
abbreviation (input) HIVEERR_NOT_SUPPORTED :: c_int where "HIVEERR_NOT_SUPPORTED \<equiv> 0x10"
abbreviation (input) HIVEERR_LIMIT_EXCEEDED :: c_int where "HIVEERR_LIMIT_EXCEEDED \<equiv> 0x11"
abbreviation (input) HIVEERR_ENCRYPTED_PERSISTENT_DATA :: c_int where "HIVEERR_ENCRYPTED_PERSISTENT_DATA \<equiv> 0x12"
abbreviation (input) HIVEERR_BAD_BOOTSTRAP_HOST :: c_int where "HIVEERR_BAD_BOOTSTRAP_HOST \<equiv> 0x13"
abbreviation (input) HIVEERR_BAD_BOOTSTRAP_PORT :: c_int where "HIVEERR_BAD_BOOTSTRAP_PORT \<equiv> 0x14"
abbreviation (input) HIVEERR_BAD_ADDRESS :: c_int where "HIVEERR_BAD_ADDRESS \<equiv> 0x15"
abbreviation (input) HIVEERR_BAD_JSON_FORMAT :: c_int where "HIVEERR_BAD_JSON_FORMAT \<equiv> 0x16"
abbreviation (input) HIVEERR_TRY_AGAIN :: c_int where "HIVEERR_TRY_AGAIN \<equiv> 0x17"
abbreviation (input) HIVEERR_UNKNOWN :: c_int where "HIVEERR_UNKNOWN \<equiv> 0xFF"

abbreviation (input) HttpStatus_Continue :: "'a :: len word" where "HttpStatus_Continue \<equiv> 100"
abbreviation (input) HttpStatus_SwitchingProtocols :: "'a :: len word" where "HttpStatus_SwitchingProtocols \<equiv> 101"
abbreviation (input) HttpStatus_Processing :: "'a :: len word" where "HttpStatus_Processing \<equiv> 102"
abbreviation (input) HttpStatus_EarlyHints :: "'a :: len word" where "HttpStatus_EarlyHints \<equiv> 103"
abbreviation (input) HttpStatus_OK :: "'a :: len word" where "HttpStatus_OK \<equiv> 200"
abbreviation (input) HttpStatus_Created :: "'a :: len word" where "HttpStatus_Created \<equiv> 201"
abbreviation (input) HttpStatus_Accepted :: "'a :: len word" where "HttpStatus_Accepted \<equiv> 202"
abbreviation (input) HttpStatus_NonAuthoritativeInformation :: "'a :: len word" where "HttpStatus_NonAuthoritativeInformation \<equiv> 203"
abbreviation (input) HttpStatus_NoContent :: "'a :: len word" where "HttpStatus_NoContent \<equiv> 204"
abbreviation (input) HttpStatus_ResetContent :: "'a :: len word" where "HttpStatus_ResetContent \<equiv> 205"
abbreviation (input) HttpStatus_PartialContent :: "'a :: len word" where "HttpStatus_PartialContent \<equiv> 206"
abbreviation (input) HttpStatus_MultiStatus :: "'a :: len word" where "HttpStatus_MultiStatus \<equiv> 207"
abbreviation (input) HttpStatus_AlreadyReported :: "'a :: len word" where "HttpStatus_AlreadyReported \<equiv> 208"
abbreviation (input) HttpStatus_IMUsed :: "'a :: len word" where "HttpStatus_IMUsed \<equiv> 226"
abbreviation (input) HttpStatus_MultipleChoices :: "'a :: len word" where "HttpStatus_MultipleChoices \<equiv> 300"
abbreviation (input) HttpStatus_MovedPermanently :: "'a :: len word" where "HttpStatus_MovedPermanently \<equiv> 301"
abbreviation (input) HttpStatus_Found :: "'a :: len word" where "HttpStatus_Found \<equiv> 302"
abbreviation (input) HttpStatus_SeeOther :: "'a :: len word" where "HttpStatus_SeeOther \<equiv> 303"
abbreviation (input) HttpStatus_NotModified :: "'a :: len word" where "HttpStatus_NotModified \<equiv> 304"
abbreviation (input) HttpStatus_UseProxy :: "'a :: len word" where "HttpStatus_UseProxy \<equiv> 305"
abbreviation (input) HttpStatus_TemporaryRedirect :: "'a :: len word" where "HttpStatus_TemporaryRedirect \<equiv> 307"
abbreviation (input) HttpStatus_PermanentRedirect :: "'a :: len word" where "HttpStatus_PermanentRedirect \<equiv> 308"
abbreviation (input) HttpStatus_BadRequest :: "'a :: len word" where "HttpStatus_BadRequest \<equiv> 400"
abbreviation (input) HttpStatus_Unauthorized :: "'a :: len word" where "HttpStatus_Unauthorized \<equiv> 401"
abbreviation (input) HttpStatus_PaymentRequired :: "'a :: len word" where "HttpStatus_PaymentRequired \<equiv> 402"
abbreviation (input) HttpStatus_Forbidden :: "'a :: len word" where "HttpStatus_Forbidden \<equiv> 403"
abbreviation (input) HttpStatus_NotFound :: "'a :: len word" where "HttpStatus_NotFound \<equiv> 404"
abbreviation (input) HttpStatus_MethodNotAllowed :: "'a :: len word" where "HttpStatus_MethodNotAllowed \<equiv> 405"
abbreviation (input) HttpStatus_NotAcceptable :: "'a :: len word" where "HttpStatus_NotAcceptable \<equiv> 406"
abbreviation (input) HttpStatus_ProxyAuthenticationRequired :: "'a :: len word" where "HttpStatus_ProxyAuthenticationRequired \<equiv> 407"
abbreviation (input) HttpStatus_RequestTimeout :: "'a :: len word" where "HttpStatus_RequestTimeout \<equiv> 408"
abbreviation (input) HttpStatus_Conflict :: "'a :: len word" where "HttpStatus_Conflict \<equiv> 409"
abbreviation (input) HttpStatus_Gone :: "'a :: len word" where "HttpStatus_Gone \<equiv> 410"
abbreviation (input) HttpStatus_LengthRequired :: "'a :: len word" where "HttpStatus_LengthRequired \<equiv> 411"
abbreviation (input) HttpStatus_PreconditionFailed :: "'a :: len word" where "HttpStatus_PreconditionFailed \<equiv> 412"
abbreviation (input) HttpStatus_PayloadTooLarge :: "'a :: len word" where "HttpStatus_PayloadTooLarge \<equiv> 413"
abbreviation (input) HttpStatus_URITooLong :: "'a :: len word" where "HttpStatus_URITooLong \<equiv> 414"
abbreviation (input) HttpStatus_UnsupportedMediaType :: "'a :: len word" where "HttpStatus_UnsupportedMediaType \<equiv> 415"
abbreviation (input) HttpStatus_RangeNotSatisfiable :: "'a :: len word" where "HttpStatus_RangeNotSatisfiable \<equiv> 416"
abbreviation (input) HttpStatus_ExpectationFailed :: "'a :: len word" where "HttpStatus_ExpectationFailed \<equiv> 417"
abbreviation (input) HttpStatus_ImATeapot :: "'a :: len word" where "HttpStatus_ImATeapot \<equiv> 418"
abbreviation (input) HttpStatus_UnprocessableEntity :: "'a :: len word" where "HttpStatus_UnprocessableEntity \<equiv> 422"
abbreviation (input) HttpStatus_Locked :: "'a :: len word" where "HttpStatus_Locked \<equiv> 423"
abbreviation (input) HttpStatus_FailedDependency :: "'a :: len word" where "HttpStatus_FailedDependency \<equiv> 424"
abbreviation (input) HttpStatus_UpgradeRequired :: "'a :: len word" where "HttpStatus_UpgradeRequired \<equiv> 426"
abbreviation (input) HttpStatus_PreconditionRequired :: "'a :: len word" where "HttpStatus_PreconditionRequired \<equiv> 428"
abbreviation (input) HttpStatus_TooManyRequests :: "'a :: len word" where "HttpStatus_TooManyRequests \<equiv> 429"
abbreviation (input) HttpStatus_RequestHeaderFieldsTooLarge :: "'a :: len word" where "HttpStatus_RequestHeaderFieldsTooLarge \<equiv> 431"
abbreviation (input) HttpStatus_UnavailableForLegalReasons :: "'a :: len word" where "HttpStatus_UnavailableForLegalReasons \<equiv> 451"
abbreviation (input) HttpStatus_InternalServerError :: "'a :: len word" where "HttpStatus_InternalServerError \<equiv> 500"
abbreviation (input) HttpStatus_NotImplemented :: "'a :: len word" where "HttpStatus_NotImplemented \<equiv> 501"
abbreviation (input) HttpStatus_BadGateway :: "'a :: len word" where "HttpStatus_BadGateway \<equiv> 502"
abbreviation (input) HttpStatus_ServiceUnavailable :: "'a :: len word" where "HttpStatus_ServiceUnavailable \<equiv> 503"
abbreviation (input) HttpStatus_GatewayTimeout :: "'a :: len word" where "HttpStatus_GatewayTimeout \<equiv> 504"
abbreviation (input) HttpStatus_HTTPVersionNotSupported :: "'a :: len word" where "HttpStatus_HTTPVersionNotSupported \<equiv> 505"
abbreviation (input) HttpStatus_VariantAlsoNegotiates :: "'a :: len word" where "HttpStatus_VariantAlsoNegotiates \<equiv> 506"
abbreviation (input) HttpStatus_InsufficientStorage :: "'a :: len word" where "HttpStatus_InsufficientStorage \<equiv> 507"
abbreviation (input) HttpStatus_LoopDetected :: "'a :: len word" where "HttpStatus_LoopDetected \<equiv> 508"
abbreviation (input) HttpStatus_NotExtended :: "'a :: len word" where "HttpStatus_NotExtended \<equiv> 510"
abbreviation (input) HttpStatus_NetworkAuthenticationRequired :: "'a :: len word" where "HttpStatus_NetworkAuthenticationRequired \<equiv> 511"

definition hive_mk_error :: "c_int \<Rightarrow> c_int \<Rightarrow> c_uint" where
  \<comment> \<open>\<open>HIVE_MK_ERROR\<close> on an \<open>int\<close> code: \<open>0x80000000\<close> makes the whole expression \<open>unsigned int\<close>\<close>
  "hive_mk_error facility code =
     0x80000000 OR push_bit 24 facility OR
       (drop_bit 8 (code AND 0x80000000) OR (code AND 0x7FFFFFFF))"

definition hive_mk_error_long :: "c_int \<Rightarrow> c_long \<Rightarrow> c_long" where
  \<comment> \<open>\<open>HIVE_MK_ERROR\<close> on a \<open>long\<close> code: the expression is a \<open>long\<close>, bit 31 is no sign bit\<close>
  "hive_mk_error_long facility code =
     0x80000000 OR push_bit 24 (unsigned facility) OR
       (drop_bit 8 (code AND 0x80000000) OR (code AND 0x7FFFFFFF))"

abbreviation HIVE_GENERAL_ERROR :: "c_int \<Rightarrow> c_uint" where
  "HIVE_GENERAL_ERROR code \<equiv> hive_mk_error HIVEF_GENERAL code"

abbreviation HIVE_SYS_ERROR :: "c_int \<Rightarrow> c_uint" where
  "HIVE_SYS_ERROR code \<equiv> hive_mk_error HIVEF_SYS code"

abbreviation HIVE_CURL_ERROR :: "c_int \<Rightarrow> c_uint" where
  "HIVE_CURL_ERROR code \<equiv> hive_mk_error HIVEF_CURL code"

abbreviation HIVE_CURLU_ERROR :: "c_int \<Rightarrow> c_uint" where
  "HIVE_CURLU_ERROR code \<equiv> hive_mk_error HIVEF_CURLU code"

abbreviation HIVE_HTTP_STATUS_ERROR :: "c_long \<Rightarrow> c_long" where
  "HIVE_HTTP_STATUS_ERROR code \<equiv> hive_mk_error_long HIVEF_HTTP_STATUS code"

subsection \<open>The thread's last error\<close>

definition hive_get_error :: "'w env \<Rightarrow> c_int" where
  "hive_get_error e = env_err e"

definition hive_clear_error :: "'w env \<Rightarrow> 'w env" where
  "hive_clear_error e = e\<lparr>env_err := HIVEOK\<rparr>"

definition hive_set_error :: "c_int \<Rightarrow> 'w env \<Rightarrow> 'w env" where
  "hive_set_error err e = e\<lparr>env_err := err\<rparr>"

lemma hive_set_error_sel [simp]:
  "env_err (hive_set_error c e) = c" "env_errno (hive_set_error c e) = env_errno e"
  "env_fs (hive_set_error c e) = env_fs e" "env_world (hive_set_error c e) = env_world e"
  "env_curl_ready (hive_set_error c e) = env_curl_ready e"
  by (simp_all add: hive_set_error_def)

subsection \<open>Texts\<close>

type_synonym error_desc = "c_int \<times> string"
type_synonym strerror_func = "c_int \<Rightarrow> bytes \<Rightarrow> (c_int \<times> bytes) option"
type_synonym facility_desc = "string \<times> strerror_func option"

definition error_codes :: "error_desc list" where
  "error_codes =
  [(HIVEERR_INVALID_ARGS, ''Invalid argument(s)''),
   (HIVEERR_OUT_OF_MEMORY, ''Out of memory''),
   (HIVEERR_BUFFER_TOO_SMALL, ''Too small buffer size''),
   (HIVEERR_BAD_PERSISTENT_DATA, ''Bad persistent data''),
   (HIVEERR_INVALID_PERSISTENCE_FILE, ''Invalid persistent file''),
   (HIVEERR_INVALID_CREDENTIAL, ''Invalid credential''),
   (HIVEERR_NOT_READY, ''SDK not ready''),
   (HIVEERR_NOT_EXIST, ''Entity not exists''),
   (HIVEERR_ALREADY_EXIST, ''Entity already exists''),
   (HIVEERR_INVALID_USERID, ''Invalid user id''),
   (HIVEERR_WRONG_STATE, ''Being in wrong state''),
   (HIVEERR_BUSY, ''Instance is being busy''),
   (HIVEERR_LANGUAGE_BINDING, ''Language binding error''),
   (HIVEERR_ENCRYPT, ''Encrypt error''),
   (HIVEERR_NOT_IMPLEMENTED, ''Not implemented yet''),
   (HIVEERR_NOT_SUPPORTED, ''Not supported''),
   (HIVEERR_LIMIT_EXCEEDED, ''Exceeding the limit''),
   (HIVEERR_ENCRYPTED_PERSISTENT_DATA, ''Load encrypted persistent data error''),
   (HIVEERR_BAD_BOOTSTRAP_HOST, ''Bad bootstrap host''),
   (HIVEERR_BAD_BOOTSTRAP_PORT, ''Bad bootstrap port''),
   (HIVEERR_BAD_ADDRESS, ''Bad carrier node address''),
   (HIVEERR_BAD_JSON_FORMAT, ''Bad json format''),
   (HIVEERR_TRY_AGAIN, ''Try again the operation''),
   (HIVEERR_UNKNOWN, ''Unknown error'')]"

definition status_codes :: "error_desc list" where
  "status_codes =
  [(HttpStatus_Continue, ''Continue''),
   (HttpStatus_SwitchingProtocols, ''Switching Protocols''),
   (HttpStatus_Processing, ''Processing''),
   (HttpStatus_EarlyHints, ''Early Hints''),
   (HttpStatus_OK, ''OK''),
   (HttpStatus_Created, ''Created''),
   (HttpStatus_Accepted, ''Accepted''),
   (HttpStatus_NonAuthoritativeInformation, ''Non-Authoritative Information''),
   (HttpStatus_NoContent, ''No Content''),
   (HttpStatus_ResetContent, ''Reset Content''),
   (HttpStatus_PartialContent, ''Partial Content''),
   (HttpStatus_MultiStatus, ''Multi-Status''),
   (HttpStatus_AlreadyReported, ''Already Reported''),
   (HttpStatus_IMUsed, ''IM Used''),
   (HttpStatus_MultipleChoices, ''Multiple Choices''),
   (HttpStatus_MovedPermanently, ''Moved Permanently''),
   (HttpStatus_Found, ''Found''),
   (HttpStatus_SeeOther, ''See Other''),
   (HttpStatus_NotModified, ''Not Modified''),
   (HttpStatus_UseProxy, ''Use Proxy''),
   (HttpStatus_TemporaryRedirect, ''Temporary Redirect''),
   (HttpStatus_PermanentRedirect, ''Permanent Redirect''),
   (HttpStatus_BadRequest, ''Bad Request''),
   (HttpStatus_Unauthorized, ''Unauthorized''),
   (HttpStatus_PaymentRequired, ''Payment Required''),
   (HttpStatus_Forbidden, ''Forbidden''),
   (HttpStatus_NotFound, ''Not Found''),
   (HttpStatus_MethodNotAllowed, ''Method Not Allowed''),
   (HttpStatus_NotAcceptable, ''Not Acceptable''),
   (HttpStatus_ProxyAuthenticationRequired, ''Proxy Authentication Required''),
   (HttpStatus_RequestTimeout, ''Request Timeout''),
   (HttpStatus_Conflict, ''Conflict''),
   (HttpStatus_Gone, ''Gone''),
   (HttpStatus_LengthRequired, ''Length Required''),
   (HttpStatus_PreconditionFailed, ''Precondition Failed''),
   (HttpStatus_PayloadTooLarge, ''Payload Too Large''),
   (HttpStatus_URITooLong, ''URI Too Long''),
   (HttpStatus_UnsupportedMediaType, ''Unsupported Media Type''),
   (HttpStatus_RangeNotSatisfiable, ''Range Not Satisfiable''),
   (HttpStatus_ExpectationFailed, ''Expectation Failed''),
   (HttpStatus_ImATeapot, (''I'' @ [CHR 0x27] @ ''m a teapot'')),
   (HttpStatus_UnprocessableEntity, ''Unprocessable Entity''),
   (HttpStatus_Locked, ''Locked''),
   (HttpStatus_FailedDependency, ''Failed Dependency''),
   (HttpStatus_UpgradeRequired, ''Upgrade Required''),
   (HttpStatus_PreconditionRequired, ''Precondition Required''),
   (HttpStatus_TooManyRequests, ''Too Many Requests''),
   (HttpStatus_RequestHeaderFieldsTooLarge, ''Request Header Fields Too Large''),
   (HttpStatus_UnavailableForLegalReasons, ''Unavailable For Legal Reasons''),
   (HttpStatus_InternalServerError, ''Internal Server Error''),
   (HttpStatus_NotImplemented, ''Not Implemented''),
   (HttpStatus_BadGateway, ''Bad Gateway''),
   (HttpStatus_ServiceUnavailable, ''Service Unavailable''),
   (HttpStatus_GatewayTimeout, ''Gateway Time-out''),
   (HttpStatus_HTTPVersionNotSupported, ''HTTP Version Not Supported''),
   (HttpStatus_VariantAlsoNegotiates, ''Variant Also Negotiates''),
   (HttpStatus_InsufficientStorage, ''Insufficient Storage''),
   (HttpStatus_LoopDetected, ''Loop Detected''),
   (HttpStatus_NotExtended, ''Not Extended''),
   (HttpStatus_NetworkAuthenticationRequired, ''Network Authentication Required'')]"

definition curlu_codes :: "error_desc list" where
  "curlu_codes =
  [(1, ''CURLU pointer argument passed as NULL.''),
   (2, ''part argument passed as NULL.''),
   (3, ''a malformed input passed.''),
   (4, ''invalid port number''),
   (5, ''unsupported scheme''),
   (6, ''URL decode error''),
   (7, ''a memory function failed''),
   (8, ''credentials was passed when prohibited''),
   (9, ''an unknown part ID''),
   (10, ''no scheme part in the URL''),
   (11, ''no user part in the URL''),
   (12, ''no password part in the URL''),
   (13, ''no options part in the URL''),
   (14, ''no host part in the URL''),
   (15, ''no port part in the URL''),
   (16, ''no query part in the URL''),
   (17, ''no fragment part in the URL'')]"

fun find_desc :: "error_desc list \<Rightarrow> c_int \<Rightarrow> string option" where
  \<comment> \<open>the scan \<open>for (i = 0; i < size; i++) if (errcode == table[i].errcode) break;\<close>\<close>
  "find_desc [] errcode = None"
| "find_desc ((code, desc) # rest) errcode =
     (if errcode = code then Some desc else find_desc rest errcode)"

definition general_error :: strerror_func where
  "general_error errcode buf =
     (case find_desc error_codes errcode of
        None \<Rightarrow> Some (HIVE_GENERAL_ERROR HIVEERR_INVALID_ARGS, buf)
      | Some desc \<Rightarrow>
          if length buf \<le> length desc then Some (HIVE_GENERAL_ERROR HIVEERR_INVALID_ARGS, buf)
          else map_option (\<lambda>b. (0, b)) (strcpy_at buf 0 desc))"

definition http_status_error :: strerror_func where
  "http_status_error errcode buf =
     (case find_desc status_codes errcode of
        None \<Rightarrow> Some (HIVE_GENERAL_ERROR HIVEERR_INVALID_ARGS, buf)
      | Some desc \<Rightarrow>
          if length buf \<le> length desc then Some (HIVE_GENERAL_ERROR HIVEERR_INVALID_ARGS, buf)
          else map_option (\<lambda>b. (0, b)) (strcpy_at buf 0 desc))"

definition system_error :: "('w, 'a) os_scheme \<Rightarrow> strerror_func" where
  "system_error X errcode buf =
     (let (rc, b) = os_strerror_r X errcode buf
      in if neg rc then Some (HIVE_SYS_ERROR HIVEERR_INVALID_ARGS, b) else Some (0, b))"

definition curl_strerror :: "('w, 'a) curl_os_scheme \<Rightarrow> c_int \<Rightarrow> string option" where
  "curl_strerror X errcode = map_option cstr (curl_easy_strerror X errcode)"

definition curl_error :: "('w, 'a) curl_os_scheme \<Rightarrow> strerror_func" where
  "curl_error X errcode buf =
     (case curl_strerror X errcode of
        None \<Rightarrow> Some (HIVE_GENERAL_ERROR HIVEERR_INVALID_ARGS, buf)
      | Some errstr \<Rightarrow>
          if length errstr \<ge> length buf then Some (HIVE_GENERAL_ERROR HIVEERR_BUFFER_TOO_SMALL, buf)
          else map_option (\<lambda>b. (0, b)) (strcpy_at buf 0 errstr))"

definition curlu_strerror :: "c_int \<Rightarrow> string option" where
  "curlu_strerror errcode = find_desc curlu_codes errcode"

definition curlu_error :: strerror_func where
  "curlu_error errcode buf =
     (case curlu_strerror errcode of
        None \<Rightarrow> Some (HIVE_GENERAL_ERROR HIVEERR_INVALID_ARGS, buf)
      | Some errstr \<Rightarrow>
          if length errstr \<ge> length buf then Some (HIVE_GENERAL_ERROR HIVEERR_BUFFER_TOO_SMALL, buf)
          else map_option (\<lambda>b. (0, b)) (strcpy_at buf 0 errstr))"

definition facility_codes :: "('w, 'a) curl_os_scheme \<Rightarrow> facility_desc list" where
  \<comment> \<open>the table's initial contents; \<open>hive_register_strerror\<close> can fill its empty entries\<close>
  "facility_codes X =
  [(''[General] '', Some general_error),
   (''[System] '', Some (system_error X)),
   (''Reserved facility'', None),
   (''Reserved facility'', None),
   (''[curl] '', Some (curl_error X)),
   (''[curlu] '', Some curlu_error),
   (''[httpstat] '', Some http_status_error)]"

definition err_negative :: "c_int \<Rightarrow> bool" where
  "err_negative errnum \<longleftrightarrow> errnum AND 0x80000000 \<noteq> 0"

definition err_facility :: "c_int \<Rightarrow> c_int" where
  \<comment> \<open>\<open>(errnum >> 24) & 0x0F\<close>; under the mask the shift's fill bits do not show\<close>
  "err_facility errnum = drop_bit 24 errnum AND 0x0F"

definition err_code :: "c_int \<Rightarrow> c_int" where
  "err_code errnum = errnum AND 0x00FFFFFF"

definition hive_get_strerror ::
    "facility_desc list \<Rightarrow> c_int \<Rightarrow> bytes option \<Rightarrow> 'w env \<Rightarrow> (bool \<times> bytes \<times> 'w env) option" where
  \<comment> \<open>the caller's buffer is \<open>None\<close> for NULL, else its \<open>len\<close> bytes; the result says whether the
     buffer was returned, what it holds then, and \<open>None\<close> where a store left it\<close>
  "hive_get_strerror facs errnum buf e =
     (case buf of
        None \<Rightarrow> Some (False, [], hive_set_error (HIVE_GENERAL_ERROR HIVEERR_INVALID_ARGS) e)
      | Some p \<Rightarrow>
          (let facility = unat (err_facility errnum); errcode = err_code errnum in
           if \<not> err_negative errnum \<or> facility = 0 \<or> facility > length facs then
             Some (False, p, hive_set_error (HIVE_GENERAL_ERROR HIVEERR_INVALID_ARGS) e)
           else
             (let (desc, errstring) = facs ! (facility - 1); desc_len = length desc in
              if length p < desc_len then
                Some (False, p, hive_set_error (HIVE_GENERAL_ERROR HIVEERR_BUFFER_TOO_SMALL) e)
              else
                (case strcpy_at p 0 desc of
                   None \<Rightarrow> None
                 | Some p1 \<Rightarrow>
                     (case errstring of
                        None \<Rightarrow> Some (True, p1, e)
                      | Some f \<Rightarrow>
                          (case f errcode (drop desc_len p1) of
                             None \<Rightarrow> None
                           | Some (rc, rest) \<Rightarrow>
                               if neg rc then Some (False, take desc_len p1 @ rest, hive_set_error rc e)
                               else Some (True, take desc_len p1 @ rest, e)))))))"

definition hive_register_strerror ::
    "facility_desc list \<Rightarrow> c_int \<Rightarrow> strerror_func option \<Rightarrow> 'w env
      \<Rightarrow> c_int \<times> facility_desc list \<times> 'w env" where
  "hive_register_strerror facs facility strerr e =
     (if sint facility \<le> 0 \<or> sint facility > sint HIVEF_HTTP_STATUS then
        (-1, facs, hive_set_error (HIVE_GENERAL_ERROR HIVEERR_INVALID_ARGS) e)
      else
        (let i = nat (sint facility) - 1; (desc, errstring) = facs ! i in
         (0, if errstring = None then facs[i := (desc, strerr)] else facs, e)))"

subsection \<open>Building and reading codes\<close>

lemma mk_error_negative: "err_negative (hive_mk_error f c)"
proof -
  have "bit (hive_mk_error f c AND 0x80000000) 31"
    unfolding hive_mk_error_def by (simp only: err_bits) simp
  then show ?thesis unfolding err_negative_def by (metis bit_0_eq bot_apply bot_bool_def)
qed

lemma mk_error_facility:
  assumes "unat f < 2 ^ 4" "unat c < 2 ^ 24"
  shows "err_facility (hive_mk_error f c) = f"
proof (rule bit_word_eqI)
  fix n assume "n < LENGTH(32)"
  show "bit (err_facility (hive_mk_error f c)) n = bit f n"
    unfolding err_facility_def hive_mk_error_def
    using small_word_bit [OF assms(1), of n] small_word_bit [OF assms(2), of "24 + n"]
      small_word_bit [OF assms(2), of 31]
    by (simp only: err_bits) auto
qed

lemma mk_error_code:
  assumes "unat c < 2 ^ 24"
  shows "err_code (hive_mk_error f c) = c"
proof (rule bit_word_eqI)
  fix n assume "n < LENGTH(32)"
  show "bit (err_code (hive_mk_error f c)) n = bit c n"
    unfolding err_code_def hive_mk_error_def
    using small_word_bit [OF assms, of n] small_word_bit [OF assms, of 31]
    by (simp only: err_bits) auto
qed

lemma mk_error_long:
  assumes "unat f < 2 ^ 4" "unat c < 2 ^ 31"
  shows "hive_mk_error_long f (unsigned c) = unsigned (hive_mk_error f c)"
proof (rule bit_word_eqI)
  fix n assume "n < LENGTH(64)"
  show "bit (hive_mk_error_long f (unsigned c)) n = bit (unsigned (hive_mk_error f c) :: c_long) n"
    unfolding hive_mk_error_def hive_mk_error_long_def
    using small_word_bit [OF assms(2), of 31] small_word_bit [OF assms(2), of n]
      small_word_bit [OF assms(1), of "n - 24"]
    by (simp only: err_bits possible_bit_word) (auto dest: bit_imp_le_length)
qed

lemma mk_error_neg: "neg (hive_mk_error f c)"
  by (simp add: neg_iff_bit hive_mk_error_def err_bits)

lemma mk_error_nonzero [simp]: "hive_mk_error f c \<noteq> 0"
  using mk_error_neg neg_nonzero by blast

text \<open>
  HIVE_MK_ERROR and the decoding hive_get_strerror does are inverse: for a facility of 1 to
  15 and a code below 2^24 the error is negative and facility and code are read back.
\<close>

theorem mk_error_roundtrip:
  assumes "unat facility < 2 ^ 4" "unat code < 2 ^ 24"
  shows "neg (hive_mk_error facility code) \<and> err_facility (hive_mk_error facility code) = facility \<and>
    err_code (hive_mk_error facility code) = code"
  using assms by (simp add: mk_error_neg mk_error_facility mk_error_code)

theorem mk_error_roundtrip_witness:
  "neg (HIVE_SYS_ERROR ENOENT) \<and> err_facility (HIVE_SYS_ERROR ENOENT) = HIVEF_SYS \<and>
    err_code (HIVE_SYS_ERROR ENOENT) = ENOENT"
  using mk_error_roundtrip [of HIVEF_SYS ENOENT] by simp

subsection \<open>The contract of a facility's text writer\<close>

text \<open>
  A facility's writer never leaves the region it is given, returns 0 exactly when the text and
  its terminator fit, and otherwise returns a negative code with the region untouched.
\<close>

locale strerror_facility =
  fixes f :: strerror_func
    and msg :: "c_int \<Rightarrow> string option"
  assumes fits: "msg code = Some m \<Longrightarrow> length m < length buf \<Longrightarrow>
      \<exists>b. f code buf = Some (0, b) \<and> length b = length buf \<and> cstr b = m"
    and unknown: "msg code = None \<Longrightarrow> \<exists>rc. f code buf = Some (rc, buf) \<and> neg rc"
    and too_small: "msg code = Some m \<Longrightarrow> length buf \<le> length m \<Longrightarrow>
      \<exists>rc. f code buf = Some (rc, buf) \<and> neg rc"
begin

lemma in_bounds: "\<exists>rc b. f code buf = Some (rc, b) \<and> length b = length buf"
proof (cases "msg code")
  case None
  then show ?thesis using unknown by blast
next
  case (Some m)
  then show ?thesis
    using fits [OF Some, of buf] too_small [OF Some, of buf] by (cases "length m < length buf") auto
qed

lemma get_strerror_text:
  assumes "0 < unat k" "unat k < 2 ^ 4" "unat c < 2 ^ 24" "unat k \<le> length facs"
    and "facs ! (unat k - 1) = (desc, Some f)" "is_cstr desc"
    and "msg c = Some m" "length desc + length m < length buf"
  shows "\<exists>b. hive_get_strerror facs (hive_mk_error k c) (Some buf) e = Some (True, b, e) \<and>
    length b = length buf \<and> cstr b = desc @ m"
proof -
  from assms(8) obtain p1 where p1: "strcpy_at buf 0 desc = Some p1"
    by (cases "strcpy_at buf 0 desc") auto
  then have len: "length p1 = length buf" and tk: "take (length desc) p1 = desc"
    by (auto simp: strcpy_at_def mem_store_def split: if_splits)
  have "length m < length (drop (length desc) p1)" using assms(8) len by simp
  from fits [OF assms(7) this] obtain b
    where b: "f c (drop (length desc) p1) = Some (0, b)" "length b = length p1 - length desc" "cstr b = m"
    by auto
  have "cstr (desc @ b) = desc @ m"
    using assms(6) b(3) by (simp add: cstr_append)
  with b p1 len tk assms show ?thesis
    by (auto simp: hive_get_strerror_def Let_def mk_error_negative mk_error_facility mk_error_code)
qed

end

lemma strcpy_at_start:
  assumes "length s < length buf" "is_cstr s"
  shows "\<exists>b. strcpy_at buf 0 s = Some b \<and> length b = length buf \<and> cstr b = s"
  using assms by (auto simp: strcpy_at_def mem_store_def)

lemma find_desc_mem: "find_desc t c = Some m \<Longrightarrow> m \<in> snd ` set t"
  by (induction t c rule: find_desc.induct) (auto split: if_splits)

lemma error_tables_cstr:
  "\<forall>m \<in> snd ` set error_codes. is_cstr m"
  "\<forall>m \<in> snd ` set status_codes. is_cstr m"
  "\<forall>m \<in> snd ` set curlu_codes. is_cstr m"
  by (simp_all add: error_codes_def status_codes_def curlu_codes_def NUL_def)

lemma find_desc_cstr:
  "find_desc error_codes c = Some m \<Longrightarrow> is_cstr m"
  "find_desc status_codes c = Some m \<Longrightarrow> is_cstr m"
  "find_desc curlu_codes c = Some m \<Longrightarrow> is_cstr m"
  using find_desc_mem error_tables_cstr by blast+

interpretation general_text: strerror_facility general_error "find_desc error_codes"
  by unfold_locales
    (auto simp: general_error_def mk_error_neg dest: strcpy_at_start [OF _ find_desc_cstr(1)])

interpretation http_text: strerror_facility http_status_error "find_desc status_codes"
  by unfold_locales
    (auto simp: http_status_error_def mk_error_neg dest: strcpy_at_start [OF _ find_desc_cstr(2)])

interpretation curlu_text: strerror_facility curlu_error curlu_strerror
  by unfold_locales
    (auto simp: curlu_error_def curlu_strerror_def mk_error_neg
      dest: strcpy_at_start [OF _ find_desc_cstr(3)])

interpretation curl_text: strerror_facility "curl_error X" "curl_strerror X" for X
proof
  fix code m and buf :: bytes
  assume m: "curl_strerror X code = Some m" "length m < length buf"
  then have "is_cstr m" by (auto simp: curl_strerror_def)
  from strcpy_at_start [OF m(2) this] m
  show "\<exists>b. curl_error X code buf = Some (0, b) \<and> length b = length buf \<and> cstr b = m"
    by (auto simp: curl_error_def)
qed (auto simp: curl_error_def mk_error_neg)

lemma facility_codes_in_bounds:
  assumes "(desc, Some f) \<in> set (facility_codes X)"
  shows "f code buf \<noteq> None"
  using assms general_text.in_bounds [of code buf] http_text.in_bounds [of code buf]
    curlu_text.in_bounds [of code buf] curl_text.in_bounds [of X code buf]
  by (auto simp: facility_codes_def system_error_def split: prod.splits)

lemma facility_codes_length [simp]: "length (facility_codes X) = 7"
  by (simp add: facility_codes_def)

text \<open>
  C34: hive_get_strerror leaves the caller's buffer exactly when the buffer is as long as the
  facility text without its terminator; every other call stays in bounds.
\<close>

theorem get_strerror_overflow_iff:
  "hive_get_strerror (facility_codes X) errnum (Some p) e = None \<longleftrightarrow>
     err_negative errnum \<and> unat (err_facility errnum) \<in> {1..7} \<and>
     length p = length (fst (facility_codes X ! (unat (err_facility errnum) - 1)))"
proof -
  let ?i = "unat (err_facility errnum) - 1"
  obtain desc f where df: "facility_codes X ! ?i = (desc, f)" by fastforce
  have ok: "g code q \<noteq> None"
    if "0 < unat (err_facility errnum)" "unat (err_facility errnum) \<le> 7" "f = Some g" for g code q
    using that facility_codes_in_bounds [of desc g X] df nth_mem [of ?i "facility_codes X"] by simp
  have store: "strcpy_at p 0 desc = None \<longleftrightarrow> length p \<le> length desc" by (simp add: less_Suc_eq_le)
  show ?thesis
  proof (cases "err_negative errnum \<and> unat (err_facility errnum) \<in> {1..7} \<and> length desc < length p")
    case True
    then obtain p1 where "strcpy_at p 0 desc = Some p1" using store by (cases "strcpy_at p 0 desc") auto
    with True df ok show ?thesis
      by (cases f) (auto simp: hive_get_strerror_def Let_def split: option.splits prod.splits)
  next
    case False
    with df store show ?thesis
      by (auto simp: hive_get_strerror_def Let_def dest: strcpy_at_SomeD
          split: option.splits prod.splits)
  qed
qed


lemma error_tables_small:
  "\<forall>c \<in> fst ` set error_codes. unat c < 2 ^ 24"
  "\<forall>c \<in> fst ` set status_codes. unat c < 2 ^ 24"
  by (simp_all add: error_codes_def status_codes_def)

lemma find_desc_key: "find_desc t c = Some m \<Longrightarrow> c \<in> fst ` set t"
  by (induction t c rule: find_desc.induct) (auto split: if_splits)

lemma facility_codes_nth:
  "facility_codes X ! 0 = (''[General] '', Some general_error)"
  "facility_codes X ! 4 = (''[curl] '', Some (curl_error X))"
  "facility_codes X ! 6 = (''[httpstat] '', Some http_status_error)"
  by (simp_all add: facility_codes_def numeral_eq_Suc)

text \<open>
  For a general error of the table and a buffer with room, hive_get_strerror returns the
  facility text followed by the text of the error table, NUL-terminated.
\<close>

theorem get_strerror_general:
  assumes "find_desc error_codes c = Some m" "10 + length m < length buf"
  shows "\<exists>b. hive_get_strerror (facility_codes X) (HIVE_GENERAL_ERROR c) (Some buf) e =
    Some (True, b, e) \<and> length b = length buf \<and> cstr b = ''[General] '' @ m"
  by (rule general_text.get_strerror_text)
    (use assms error_tables_small(1) find_desc_key [OF assms(1)] in
      \<open>auto simp: facility_codes_nth NUL_def\<close>)

text \<open>
  For an HTTP status of the status table and a buffer with room, hive_get_strerror returns
  the facility text followed by the status text.
\<close>

theorem get_strerror_http:
  assumes "find_desc status_codes c = Some m" "11 + length m < length buf"
  shows "\<exists>b. hive_get_strerror (facility_codes X)
      (ssize_to_int (HIVE_HTTP_STATUS_ERROR (unsigned c))) (Some buf) e =
    Some (True, b, e) \<and> length b = length buf \<and> cstr b = ''[httpstat] '' @ m"
proof -
  have c: "unat c < 2 ^ 24"
    using error_tables_small(2) find_desc_key [OF assms(1)] by blast
  have "ssize_to_int (HIVE_HTTP_STATUS_ERROR (unsigned c)) = hive_mk_error HIVEF_HTTP_STATUS c"
    using c by (subst mk_error_long) (auto simp flip: uint_to_ssize_def)
  then show ?thesis
    using http_text.get_strerror_text [of 7 c "facility_codes X" "''[httpstat] ''" m buf e] assms c
    by (auto simp: facility_codes_nth NUL_def)
qed

theorem get_strerror_http_witness:
  "\<exists>b. hive_get_strerror (facility_codes sample_ext)
     (ssize_to_int (HIVE_HTTP_STATUS_ERROR (unsigned (404 :: c_int))))
     (Some (replicate 64 CHR ''x'')) sample_env =
     Some (True, b, sample_env) \<and> length b = 64 \<and> cstr b = ''[httpstat] Not Found''"
  using get_strerror_http [of 404 "''Not Found''" "replicate 64 CHR ''x''"]
  by (simp add: status_codes_def)

theorem get_strerror_general_witness:
  "\<exists>b. hive_get_strerror (facility_codes sample_ext)
     (HIVE_GENERAL_ERROR HIVEERR_BUSY) (Some (replicate 64 CHR ''x'')) sample_env =
     Some (True, b, sample_env) \<and> length b = 64 \<and> cstr b = ''[General] Instance is being busy''"
  using get_strerror_general [of HIVEERR_BUSY "''Instance is being busy''" "replicate 64 CHR ''x''"]
  by (simp add: error_codes_def)

end
