(* ===== verification/Http_Client.thy ===== *)
theory Http_Client
  imports Hive_Ext "HOL-Library.Monad_Syntax"
begin

text \<open>
  \<open>src/http/http_client.c\<close>: the client object over a libcurl easy handle and URL handle. A handle's
  state is the log of what the code set on it; the response body is the growing buffer of
  \<open>http_response_body_write_callback\<close>. The locale \<open>byte_sink\<close> states what a transfer needs from any
  write callback.
\<close>

subsection \<open>The client object\<close>

datatype http_method = HTTP_METHOD_GET | HTTP_METHOD_POST | HTTP_METHOD_PUT
  | HTTP_METHOD_DELETE | HTTP_METHOD_PATCH

datatype http_version = HTTP_VERSION_DEFAULT | HTTP_VERSION_1_0 | HTTP_VERSION_1_1 | HTTP_VERSION_2_0

type_synonym user_cb = "bytes \<Rightarrow> user_sink \<Rightarrow> size_t \<times> user_sink"

record http_client =
  hc_opts :: "curl_opt list"
  hc_url :: "url_call list"
  hc_hdr :: "string list"
  hc_mime :: "mime_part list option"
  hc_body :: http_response_body
  hc_user :: "(user_cb \<times> user_sink) option"

definition sizeof_http_client :: nat where
  "sizeof_http_client = 56"

definition default_opts :: "curl_opt list" where
  \<comment> \<open>the options \<open>http_client_new\<close> and \<open>http_client_reset\<close> set\<close>
  "default_opts = [CURLOPT_DEBUGFUNCTION, CURLOPT_VERBOSE, CURLOPT_WRITEFUNCTION EAT_OUTPUT,
     CURLOPT_CURLU, CURLOPT_NOSIGNAL]"

definition http_client_new ::
    "('w, 'a) curl_os_scheme \<Rightarrow> 'w env \<Rightarrow> http_client option \<times> 'w env" where
  "http_client_new X e =
     (let (code, w) = (if env_curl_ready e then (CURLE_OK, env_world e)
                       else curl_global_init X (env_world e));
          e = e\<lparr>env_world := w\<rparr> in
      if code \<noteq> CURLE_OK then (None, e)
      else
        (let (ok, e) = alloc X sizeof_http_client (e\<lparr>env_curl_ready := True\<rparr>) in
         if \<not> ok then (None, e)
         else
           (let (ok, w) = curl_url X (env_world e); e = e\<lparr>env_world := w\<rparr> in
            if \<not> ok then (None, e)
            else
              (let (ok, w) = curl_easy_init X (env_world e); e = e\<lparr>env_world := w\<rparr> in
               if \<not> ok then (None, e)
               else
                 (Some \<lparr>hc_opts = default_opts, hc_url = [], hc_hdr = [], hc_mime = None,
                    hc_body = \<lparr>rb_used = 0, rb_sz = 0, rb_data = []\<rparr>, hc_user = None\<rparr>, e)))))"

definition http_client_reset :: "http_client \<Rightarrow> http_client" where
  \<comment> \<open>\<open>curl_easy_reset\<close> drops every option and \<open>curl_url_set(CURLUPART_URL, NULL)\<close> every part; the
     response buffer is kept and only its fill level is reset\<close>
  "http_client_reset c = c\<lparr>hc_opts := default_opts, hc_url := [], hc_hdr := [], hc_mime := None,
     hc_body := (hc_body c)\<lparr>rb_used := 0\<rparr>, hc_user := None\<rparr>"

subsection \<open>Options\<close>

definition easy_setopt ::
    "('w, 'a) curl_os_scheme \<Rightarrow> curl_opt \<Rightarrow> http_client \<Rightarrow> c_int \<times> http_client" where
  "easy_setopt X opt c = (curl_setopt X opt, c\<lparr>hc_opts := hc_opts c @ [opt]\<rparr>)"

fun http_client_set_method ::
    "('w, 'a) curl_os_scheme \<Rightarrow> http_method \<Rightarrow> http_client \<Rightarrow> c_int \<times> http_client" where
  "http_client_set_method X HTTP_METHOD_GET c = easy_setopt X CURLOPT_HTTPGET c"
| "http_client_set_method X HTTP_METHOD_POST c = easy_setopt X CURLOPT_POST c"
| "http_client_set_method X HTTP_METHOD_PUT c = easy_setopt X (CURLOPT_CUSTOMREQUEST ''PUT'') c"
| "http_client_set_method X HTTP_METHOD_DELETE c = easy_setopt X (CURLOPT_CUSTOMREQUEST ''DELETE'') c"
| "http_client_set_method X HTTP_METHOD_PATCH c = easy_setopt X (CURLOPT_CUSTOMREQUEST ''PATCH'') c"

definition url_set ::
    "('w, 'a) curl_os_scheme \<Rightarrow> url_call \<Rightarrow> http_client \<Rightarrow> c_int \<times> http_client" where
  \<comment> \<open>\<open>curl_url_set\<close>: a refused part leaves the handle as it was\<close>
  "url_set X call c =
     (let code = curl_url_set X (hc_url c) call in
      (code, if code = CURLUE_OK then c\<lparr>hc_url := hc_url c @ [call]\<rparr> else c))"

definition http_client_set_url ::
    "('w, 'a) curl_os_scheme \<Rightarrow> string \<Rightarrow> http_client \<Rightarrow> c_int \<times> http_client" where
  "http_client_set_url X url c =
     url_set X \<lparr>uc_part = CURLUPART_URL, uc_text = Some url, uc_encode = True, uc_append = False\<rparr> c"

definition http_client_set_url_escape ::
    "('w, 'a) curl_os_scheme \<Rightarrow> string \<Rightarrow> http_client \<Rightarrow> c_int \<times> http_client" where
  "http_client_set_url_escape X url c =
     url_set X \<lparr>uc_part = CURLUPART_URL, uc_text = Some url, uc_encode = False, uc_append = False\<rparr> c"

definition http_client_set_path ::
    "('w, 'a) curl_os_scheme \<Rightarrow> string \<Rightarrow> http_client \<Rightarrow> c_int \<times> http_client" where
  "http_client_set_path X path c =
     url_set X \<lparr>uc_part = CURLUPART_PATH, uc_text = Some path, uc_encode = True, uc_append = False\<rparr> c"

definition http_client_set_query ::
    "('w, 'a) curl_os_scheme \<Rightarrow> string \<Rightarrow> string \<Rightarrow> http_client \<Rightarrow> c_int \<times> http_client" where
  "http_client_set_query X name val c =
     url_set X \<lparr>uc_part = CURLUPART_QUERY, uc_text = Some (name @ ''='' @ val), uc_encode = True,
       uc_append = True\<rparr> c"

definition http_client_get_url_escape :: "('w, 'a) curl_os_scheme \<Rightarrow> http_client \<Rightarrow> c_int \<times> string" where
  "http_client_get_url_escape X c = curl_url_get X (hc_url c) CURLUPART_URL False"

definition http_client_get_scheme :: "('w, 'a) curl_os_scheme \<Rightarrow> http_client \<Rightarrow> c_int \<times> string" where
  "http_client_get_scheme X c = curl_url_get X (hc_url c) CURLUPART_SCHEME True"

definition http_client_get_host :: "('w, 'a) curl_os_scheme \<Rightarrow> http_client \<Rightarrow> c_int \<times> string" where
  "http_client_get_host X c = curl_url_get X (hc_url c) CURLUPART_HOST True"

definition http_client_get_port :: "('w, 'a) curl_os_scheme \<Rightarrow> http_client \<Rightarrow> c_int \<times> string" where
  "http_client_get_port X c = curl_url_get X (hc_url c) CURLUPART_PORT True"

definition http_client_get_path :: "('w, 'a) curl_os_scheme \<Rightarrow> http_client \<Rightarrow> c_int \<times> string" where
  "http_client_get_path X c = curl_url_get X (hc_url c) CURLUPART_PATH True"

definition http_client_get_query :: "('w, 'a) curl_os_scheme \<Rightarrow> http_client \<Rightarrow> c_int \<times> string" where
  "http_client_get_query X c = curl_url_get X (hc_url c) CURLUPART_QUERY True"

definition http_client_set_header ::
    "('w, 'a) curl_os_scheme \<Rightarrow> string \<Rightarrow> string \<Rightarrow> http_client \<Rightarrow> 'w env
      \<Rightarrow> c_int \<times> http_client \<times> 'w env" where
  "http_client_set_header X name val c e =
     (let (ok, w) = curl_slist_append X (env_world e); e = e\<lparr>env_world := w\<rparr> in
      if \<not> ok then (CURLE_OUT_OF_MEMORY, c, e)
      else (0, c\<lparr>hc_hdr := hc_hdr c @ [name @ '': '' @ val]\<rparr>, e))"

definition http_client_set_timeout ::
    "('w, 'a) curl_os_scheme \<Rightarrow> c_int \<Rightarrow> http_client \<Rightarrow> c_int \<times> http_client" where
  "http_client_set_timeout X timeout c = easy_setopt X (CURLOPT_TIMEOUT timeout) c"

fun curl_http_versions :: "http_version \<Rightarrow> nat" where
  \<comment> \<open>libcurl's numbers for no preference, 1.0, 1.1 and 2.0\<close>
  "curl_http_versions HTTP_VERSION_DEFAULT = 0"
| "curl_http_versions HTTP_VERSION_1_0 = 1"
| "curl_http_versions HTTP_VERSION_1_1 = 2"
| "curl_http_versions HTTP_VERSION_2_0 = 3"

definition http_client_set_version ::
    "('w, 'a) curl_os_scheme \<Rightarrow> http_version \<Rightarrow> http_client \<Rightarrow> c_int \<times> http_client" where
  "http_client_set_version X version c = easy_setopt X (CURLOPT_HTTP_VERSION (curl_http_versions version)) c"

definition http_client_set_request_body_instant ::
    "('w, 'a) curl_os_scheme \<Rightarrow> bytes option \<Rightarrow> nat \<Rightarrow> http_client \<Rightarrow> c_int \<times> http_client" where
  "http_client_set_request_body_instant X data len c =
     (0, snd (easy_setopt X (CURLOPT_POSTFIELDSIZE len) (snd (easy_setopt X (CURLOPT_POSTFIELDS data) c))))"

definition http_client_set_response_body ::
    "('w, 'a) curl_os_scheme \<Rightarrow> user_cb \<Rightarrow> user_sink \<Rightarrow> http_client \<Rightarrow> c_int \<times> http_client" where
  "http_client_set_response_body X cb userdata c =
     (0, (snd (easy_setopt X (CURLOPT_WRITEDATA USER_WRITE)
            (snd (easy_setopt X (CURLOPT_WRITEFUNCTION USER_WRITE) c))))\<lparr>hc_user := Some (cb, userdata)\<rparr>)"

definition http_client_enable_response_body ::
    "('w, 'a) curl_os_scheme \<Rightarrow> http_client \<Rightarrow> c_int \<times> http_client" where
  "http_client_enable_response_body X c =
     (0, snd (easy_setopt X (CURLOPT_WRITEDATA HTTP_RESPONSE_BODY_WRITE)
           (snd (easy_setopt X (CURLOPT_WRITEFUNCTION HTTP_RESPONSE_BODY_WRITE) c))))"

definition http_client_set_mime_instant ::
    "('w, 'a) curl_os_scheme \<Rightarrow> string \<Rightarrow> string option \<Rightarrow> string option \<Rightarrow> bytes \<Rightarrow> http_client
      \<Rightarrow> c_int \<times> http_client" where
  "http_client_set_mime_instant X name filename type buffer c =
     (0, c\<lparr>hc_mime := Some ((case hc_mime c of None \<Rightarrow> [] | Some ps \<Rightarrow> ps) @
            [\<lparr>mp_name = name, mp_filename = filename, mp_type = type, mp_data = buffer\<rparr>])\<rparr>)"

subsection \<open>The response body\<close>

function grow_size :: "size_t \<Rightarrow> size_t \<Rightarrow> size_t \<Rightarrow> size_t \<times> size_t" where
  \<comment> \<open>\<open>for (...; new_sz > last_try && new_sz <= limit; last_try = new_sz, new_sz <<= 1) ;\<close>\<close>
  "grow_size new_sz last_try limit =
     (if new_sz > last_try \<and> new_sz \<le> limit then grow_size (push_bit 1 new_sz) new_sz limit
      else (new_sz, last_try))"
  by pat_completeness auto
termination
proof (relation "measure (\<lambda>(new_sz, last_try, limit). 2 ^ 64 - unat last_try)", goal_cases)
  case (2 new_sz last_try limit)
  then have "unat last_try < unat new_sz" by (simp add: word_less_nat_alt)
  moreover have "unat new_sz < 2 ^ 64" by (rule order_less_le_trans [OF unsigned_less]) simp
  ultimately show ?case by simp
qed simp

declare grow_size.simps [simp del]

definition new_body_size :: "size_t \<Rightarrow> size_t \<Rightarrow> size_t" where
  "new_body_size sz len =
     (let (new_sz, last_try) = grow_size (if sz \<noteq> 0 then push_bit 1 sz else 512) sz (sz + len)
      in if new_sz \<le> last_try then sz + len else new_sz)"

definition http_response_body_write_callback ::
    "('w, 'a) os_scheme \<Rightarrow> bytes \<Rightarrow> http_response_body \<Rightarrow> 'w
      \<Rightarrow> (size_t \<times> http_response_body \<times> 'w) option" where
  "http_response_body_write_callback X ptr response w =
     (let len = word_of_nat (length ptr) :: size_t;
          copy = (\<lambda>r w. map_option
             (\<lambda>d. (len, r\<lparr>rb_data := d, rb_used := rb_used r + len\<rparr>, w))
             (mem_store (rb_data r) (unat (rb_used r)) ptr)) in
      if rb_sz response - rb_used response < len then
        (if rb_sz response + len < rb_sz response then Some (0, response\<lparr>rb_used := 0\<rparr>, w)
         else
           (let new_sz = new_body_size (rb_sz response) len;
                (ok, w') = os_alloc X (unat new_sz) w in
            if \<not> ok then Some (0, response\<lparr>rb_used := 0\<rparr>, w')
            else copy (response\<lparr>rb_data := realloc_bytes X (rb_data response) (unat new_sz) w',
                         rb_sz := new_sz\<rparr>) w'))
      else copy response w)"

definition http_client_get_response_body :: "http_client \<Rightarrow> bytes option" where
  "http_client_get_response_body c =
     (if rb_used (hc_body c) \<noteq> 0 then Some (rb_data (hc_body c)) else None)"

definition http_client_get_response_body_length :: "http_client \<Rightarrow> size_t" where
  "http_client_get_response_body_length c = rb_used (hc_body c)"

definition http_client_move_response_body ::
    "bool \<Rightarrow> http_client \<Rightarrow> (bytes option \<times> size_t \<times> http_client) option" where
  \<comment> \<open>\<open>has_len\<close>: the caller passed a length pointer. On an empty body the code stores through it
     without the check the other branch has, so a null pointer there is undefined behaviour\<close>
  "http_client_move_response_body has_len c =
     (if rb_used (hc_body c) = 0 then (if has_len then Some (None, 0, c) else None)
      else Some (Some (rb_data (hc_body c)), rb_used (hc_body c),
        c\<lparr>hc_body := \<lparr>rb_used = 0, rb_sz = 0, rb_data = []\<rparr>\<rparr>))"

subsection \<open>Running a transfer\<close>

definition eat_output :: "'w writer" where
  "eat_output ptr s w = (word_of_nat (length ptr), s, w)"

definition body_writer :: "('w, 'a) os_scheme \<Rightarrow> 'w writer" where
  "body_writer X ptr s w =
     (case s of
        BodySink r \<Rightarrow>
          (case http_response_body_write_callback X ptr r w of
             Some (n, r', w') \<Rightarrow> (n, BodySink r', w')
           | None \<Rightarrow> (0, s, w))
      | _ \<Rightarrow> (0, s, w))"

definition user_writer :: "user_cb \<Rightarrow> 'w writer" where
  "user_writer cb ptr s w =
     (case s of UserSink u \<Rightarrow> (case cb ptr u of (n, u') \<Rightarrow> (n, UserSink u', w)) | _ \<Rightarrow> (0, s, w))"

definition write_target :: "curl_opt list \<Rightarrow> write_fn" where
  \<comment> \<open>the write callback in force: the last one set\<close>
  "write_target opts =
     foldl (\<lambda>cur opt. case opt of CURLOPT_WRITEFUNCTION f \<Rightarrow> f | _ \<Rightarrow> cur) EAT_OUTPUT opts"

definition request_of :: "http_client \<Rightarrow> request" where
  "request_of c = \<lparr>rq_opts = hc_opts c, rq_url = hc_url c,
     rq_mime = (case hc_mime c of None \<Rightarrow> [] | Some ps \<Rightarrow> ps)\<rparr>"

definition prepare_request :: "('w, 'a) curl_os_scheme \<Rightarrow> http_client \<Rightarrow> http_client" where
  \<comment> \<open>the header list and the mime structure are handed over just before the transfer\<close>
  "prepare_request X c =
     (let c = (if hc_hdr c \<noteq> [] then snd (easy_setopt X (CURLOPT_HTTPHEADER (hc_hdr c)) c) else c)
      in if hc_mime c \<noteq> None then snd (easy_setopt X CURLOPT_MIMEPOST c) else c)"

definition http_client_request ::
    "('w, 'a) curl_os_scheme \<Rightarrow> http_client \<Rightarrow> 'w env \<Rightarrow> c_int \<times> http_client \<times> 'w env" where
  "http_client_request X c e =
     (let c = prepare_request X c in
      (case write_target (hc_opts c) of
         EAT_OUTPUT \<Rightarrow>
           (let (code, s, w) = curl_perform X (request_of c) eat_output NoSink (env_world e)
            in (code, c, e\<lparr>env_world := w\<rparr>))
       | HTTP_RESPONSE_BODY_WRITE \<Rightarrow>
           (let (code, s, w) = curl_perform X (request_of c) (body_writer X) (BodySink (hc_body c))
                                 (env_world e)
            in (code, c\<lparr>hc_body := (case s of BodySink r \<Rightarrow> r | _ \<Rightarrow> hc_body c)\<rparr>,
                e\<lparr>env_world := w\<rparr>))
       | USER_WRITE \<Rightarrow>
           (case hc_user c of
              None \<Rightarrow> (CURLE_OK, c, e)
            | Some (cb, u) \<Rightarrow>
                (let (code, s, w) = curl_perform X (request_of c) (user_writer cb) (UserSink u)
                                      (env_world e)
                 in (code, c\<lparr>hc_user := Some (cb, case s of UserSink u' \<Rightarrow> u' | _ \<Rightarrow> u)\<rparr>,
                     e\<lparr>env_world := w\<rparr>)))))"

definition http_client_get_response_code ::
    "('w, 'a) curl_os_scheme \<Rightarrow> c_long \<Rightarrow> 'w env \<Rightarrow> c_int \<times> c_long" where
  \<comment> \<open>the caller's variable keeps its value when the call fails\<close>
  "http_client_get_response_code X old e =
     (let (code, status) = curl_response_code X (env_world e) in
      if code \<noteq> CURLE_OK then (code, old) else (0, status))"

definition http_client_escape ::
    "('w, 'a) curl_os_scheme \<Rightarrow> bytes \<Rightarrow> 'w env \<Rightarrow> string option \<times> 'w env" where
  "http_client_escape X data e =
     (let (s, w) = curl_easy_escape X data (env_world e) in (s, e\<lparr>env_world := w\<rparr>))"

definition http_client_unescape ::
    "('w, 'a) curl_os_scheme \<Rightarrow> bytes \<Rightarrow> 'w env \<Rightarrow> (bytes \<times> nat) option \<times> 'w env" where
  "http_client_unescape X data e =
     (let (s, w) = curl_easy_unescape X data (env_world e)
      in (map_option (\<lambda>d. (d, length d)) s, e\<lparr>env_world := w\<rparr>))"

subsection \<open>What a write callback owes a transfer\<close>

locale byte_sink =
  fixes put :: "'w writer"
    and ok :: "sink \<Rightarrow> bool"
    and got :: "sink \<Rightarrow> bytes"
  assumes put_keeps: "ok s \<Longrightarrow> put c s w = (n, s', w') \<Longrightarrow> ok s'"
    and put_accepts: "ok s \<Longrightarrow> put c s w = (n, s', w') \<Longrightarrow> unat n = length c \<Longrightarrow> got s' = got s @ c"
begin

text \<open>However a transfer cuts the response into chunks, an accepted response arrives whole.\<close>

lemma feeds_ok: "feeds put cs s s' \<Longrightarrow> ok s \<Longrightarrow> ok s'"
  by (induction rule: feeds.induct) (blast intro: put_keeps)+

lemma feeds_got: "feeds put cs s s' \<Longrightarrow> ok s \<Longrightarrow> got s' = got s @ concat cs"
proof (induction rule: feeds.induct)
  case (feeds_Cons c s w n s' w' cs s'')
  then show ?case using put_keeps [of s c w n s' w'] put_accepts [of s c w n s' w'] by simp
qed simp

end

subsection \<open>The body buffer is such a sink\<close>

definition body_ok :: "http_response_body \<Rightarrow> bool" where
  "body_ok r \<longleftrightarrow> rb_used r \<le> rb_sz r \<and> length (rb_data r) = unat (rb_sz r)"

definition body_bytes :: "http_response_body \<Rightarrow> bytes" where
  "body_bytes r = take (unat (rb_used r)) (rb_data r)"

lemma grow_size_result: "grow_size n l limit = (n', l') \<Longrightarrow> n' \<le> l' \<or> limit < n'"
proof (induction n l limit rule: grow_size.induct)
  case (1 n l limit)
  then show ?case by (subst (asm) (2) grow_size.simps) (auto split: if_splits)
qed

lemma new_body_size_ge: "sz + len \<le> new_body_size sz len"
proof -
  obtain n' l' where g: "grow_size (if sz \<noteq> 0 then push_bit 1 sz else 512) sz (sz + len) = (n', l')"
    by fastforce
  then have "n' \<le> l' \<or> sz + len < n'" by (rule grow_size_result)
  with g show ?thesis by (auto simp: new_body_size_def)
qed

lemma unat_add_no_wrap: "a \<le> a + b \<Longrightarrow> unat (a + b) = unat a + unat b"
  for a b :: "'a::len word"
  by (metis add.commute unat_plus_simple)

lemma unat_len: "length ptr < 2 ^ 64 \<Longrightarrow> unat (word_of_nat (length ptr) :: size_t) = length ptr"
  by (simp add: unat_of_nat)

lemma body_room:
  assumes "body_ok r" "\<not> rb_sz r - rb_used r < word_of_nat (length ptr)" "length ptr < 2 ^ 64"
  shows "unat (rb_used r) + length ptr \<le> length (rb_data r)"
proof -
  have "unat (rb_sz r - rb_used r) = unat (rb_sz r) - unat (rb_used r)"
    using assms(1) by (simp add: body_ok_def unat_sub)
  then show ?thesis
    using assms unat_len [OF assms(3)] by (auto simp: body_ok_def word_less_nat_alt word_le_nat_alt)
qed

lemma body_grown_room:
  assumes "body_ok r" "\<not> rb_sz r + word_of_nat (length ptr) < rb_sz r" "length ptr < 2 ^ 64"
  shows "unat (rb_used r) + length ptr \<le> unat (new_body_size (rb_sz r) (word_of_nat (length ptr)))"
proof -
  let ?len = "word_of_nat (length ptr) :: size_t"
  have "unat (rb_sz r + ?len) = unat (rb_sz r) + length ptr"
    using assms(2) unat_len [OF assms(3)] by (subst unat_add_no_wrap) auto
  moreover have "unat (rb_sz r + ?len) \<le> unat (new_body_size (rb_sz r) ?len)"
    using new_body_size_ge by (simp add: word_le_nat_alt)
  ultimately show ?thesis using assms(1) by (auto simp: body_ok_def word_le_nat_alt)
qed

lemma body_store:
  assumes store: "mem_store (rb_data r) (unat (rb_used r)) ptr = Some d"
    and used: "rb_used r \<le> rb_sz r" and len: "length (rb_data r) = unat (rb_sz r)"
  shows "body_ok (r\<lparr>rb_data := d, rb_used := rb_used r + word_of_nat (length ptr)\<rparr>)"
    and "body_bytes (r\<lparr>rb_data := d, rb_used := rb_used r + word_of_nat (length ptr)\<rparr>) =
      take (unat (rb_used r)) (rb_data r) @ ptr"
proof -
  have fits: "unat (rb_used r) + length ptr \<le> unat (rb_sz r)"
    using store len by (auto simp: mem_store_def split: if_splits)
  then have "length ptr < 2 ^ 64" "unat (rb_used r) + length ptr < 2 ^ 64"
    using unsigned_less [of "rb_sz r", where ?'a = nat] by auto
  then have sum: "unat (rb_used r + word_of_nat (length ptr)) = unat (rb_used r) + length ptr"
    by (simp add: unat_word_ariths unat_of_nat)
  show "body_ok (r\<lparr>rb_data := d, rb_used := rb_used r + word_of_nat (length ptr)\<rparr>)"
    using fits sum mem_store_length [OF store] len by (simp add: body_ok_def word_le_nat_alt)
  show "body_bytes (r\<lparr>rb_data := d, rb_used := rb_used r + word_of_nat (length ptr)\<rparr>) =
      take (unat (rb_used r)) (rb_data r) @ ptr"
    using sum mem_store_prefix [OF store] by (simp add: body_bytes_def)
qed

lemma body_write_some:
  assumes "body_ok r" "http_response_body_write_callback X ptr r w = Some (n, r', w')"
  shows "body_ok r'" "unat n = length ptr \<Longrightarrow> body_bytes r' = body_bytes r @ ptr"
    "n \<noteq> word_of_nat (length ptr) \<Longrightarrow> n = 0 \<and> rb_used r' = 0"
proof -
  let ?len = "word_of_nat (length ptr) :: size_t"
  let ?new = "new_body_size (rb_sz r) ?len"
  let ?r1 = "r\<lparr>rb_data := realloc_bytes X (rb_data r) (unat ?new) (snd (os_alloc X (unat ?new) w)),
     rb_sz := ?new\<rparr>"
  have ok: "rb_used r \<le> rb_sz r" "length (rb_data r) = unat (rb_sz r)"
    using assms(1) by (simp_all add: body_ok_def)
  consider (full) "n = 0" "r' = r\<lparr>rb_used := 0\<rparr>" "rb_sz r - rb_used r < ?len"
    | (grown) d where "mem_store (rb_data ?r1) (unat (rb_used ?r1)) ptr = Some d" "n = ?len"
        "r' = ?r1\<lparr>rb_data := d, rb_used := rb_used ?r1 + ?len\<rparr>" "\<not> rb_sz r + ?len < rb_sz r"
    | (room) d where "mem_store (rb_data r) (unat (rb_used r)) ptr = Some d" "n = ?len"
        "r' = r\<lparr>rb_data := d, rb_used := rb_used r + ?len\<rparr>"
    using assms(2)
    by (auto simp: http_response_body_write_callback_def Let_def split: if_splits prod.splits)
  then have "body_ok r' \<and> (unat n = length ptr \<longrightarrow> body_bytes r' = body_bytes r @ ptr) \<and>
      (n \<noteq> ?len \<longrightarrow> n = 0 \<and> rb_used r' = 0)"
  proof cases
    case full
    then have "ptr \<noteq> []" by (cases "ptr = []") auto
    with full ok show ?thesis by (simp add: body_ok_def)
  next
    case grown
    have "rb_sz r \<le> ?new" using new_body_size_ge [of "rb_sz r" ?len] grown(4) by simp
    then have used: "rb_used ?r1 \<le> rb_sz ?r1" and le: "unat (rb_used r) \<le> unat ?new"
      using ok by (auto simp: word_le_nat_alt)
    have "take (unat (rb_used r)) (rb_data ?r1) = body_bytes r"
      using le ok by (simp add: take_realloc_bytes word_le_nat_alt body_bytes_def)
    with body_store [OF grown(1) used] grown show ?thesis by simp
  next
    case room
    with body_store [OF room(1)] ok show ?thesis by (simp add: body_bytes_def)
  qed
  then show "body_ok r'" "unat n = length ptr \<Longrightarrow> body_bytes r' = body_bytes r @ ptr"
    "n \<noteq> word_of_nat (length ptr) \<Longrightarrow> n = 0 \<and> rb_used r' = 0"
    by blast+
qed

lemma body_write_in_bounds:
  assumes "body_ok r" "length ptr < 2 ^ 64"
  shows "http_response_body_write_callback X ptr r w \<noteq> None"
  using body_room [OF assms(1) _ assms(2)] body_grown_room [OF assms(1) _ assms(2)]
  by (auto simp: http_response_body_write_callback_def Let_def mem_store_def split: prod.splits)

definition sink_ok :: "sink \<Rightarrow> bool" where
  "sink_ok s = (case s of BodySink r \<Rightarrow> body_ok r | _ \<Rightarrow> False)"

definition sink_bytes :: "sink \<Rightarrow> bytes" where
  "sink_bytes s = (case s of BodySink r \<Rightarrow> body_bytes r | _ \<Rightarrow> [])"

interpretation body_sink: byte_sink "body_writer X" sink_ok sink_bytes for X
  by unfold_locales
    (auto simp: sink_ok_def sink_bytes_def body_writer_def dest: body_write_some
      split: sink.splits option.splits)

subsection \<open>Properties\<close>

definition curl_delivers :: "('w, 'a) curl_os_scheme \<Rightarrow> bool" where
  \<comment> \<open>libcurl's documented promise: a transfer that returns \<open>CURLE_OK\<close> handed every chunk of the
     response to the callback, and the callback took each\<close>
  "curl_delivers X \<longleftrightarrow> (\<forall>rq wr s w s' w'.
     curl_perform X rq wr s w = (CURLE_OK, s', w') \<longrightarrow> (\<exists>cs. feeds wr cs s s'))"

text \<open>
  C19: The write callback of the response body never stores outside its block: from a consistent
  body it either appends the whole chunk and keeps what was there, or returns 0 with an empty
  body, and the body stays consistent.
\<close>

theorem body_write_safe:
  assumes "body_ok r" "length ptr < 2 ^ 64"
  shows "\<exists>n r' w'. http_response_body_write_callback X ptr r w = Some (n, r', w') \<and> body_ok r' \<and>
    (n = word_of_nat (length ptr) \<and> body_bytes r' = body_bytes r @ ptr \<or> n = 0 \<and> rb_used r' = 0)"
proof -
  from body_write_in_bounds [OF assms] obtain n r' w'
    where w: "http_response_body_write_callback X ptr r w = Some (n, r', w')"
    by (metis not_None_eq prod.collapse)
  from body_write_some [OF assms(1) w] unat_len [OF assms(2)] w show ?thesis by fastforce
qed

theorem body_write_safe_witness:
  "\<exists>n r' w'. http_response_body_write_callback sample_os ''abc''
      \<lparr>rb_used = 1, rb_sz = 2, rb_data = ''xy''\<rparr> () = Some (n, r', w') \<and> body_ok r' \<and>
    (n = 3 \<and> body_bytes r' = ''xabc'' \<or> n = 0 \<and> rb_used r' = 0)"
  using body_write_safe [of "\<lparr>rb_used = 1, rb_sz = 2, rb_data = ''xy''\<rparr>" "''abc''" sample_os "()"]
  by (simp add: body_ok_def body_bytes_def)

lemma body_arrives:
  assumes "feeds (body_writer X) cs (BodySink r) s'" "body_ok r"
  shows "\<exists>r'. s' = BodySink r' \<and> body_ok r' \<and> body_bytes r' = body_bytes r @ concat cs"
  using body_sink.feeds_ok [OF assms(1)] body_sink.feeds_got [OF assms(1)] assms(2)
  by (auto simp: sink_ok_def sink_bytes_def split: sink.splits)

text \<open>
  C21: However libcurl cuts a response into chunks, a transfer whose every chunk the callback took
  leaves the concatenation of the chunks after what the body held before.
\<close>

theorem response_arrives_whole:
  assumes "feeds (body_writer X) cs (BodySink r) s'" "body_ok r"
  shows "\<exists>r'. s' = BodySink r' \<and> body_ok r' \<and> body_bytes r' = body_bytes r @ concat cs"
  using assms by (rule body_arrives)

lemma feeds_example:
  "feeds (body_writer sample_os :: unit writer) [''ab'', ''c'']
     (BodySink \<lparr>rb_used = 0, rb_sz = 4, rb_data = ''....''\<rparr>)
     (BodySink \<lparr>rb_used = 3, rb_sz = 4, rb_data = ''abc.''\<rparr>)"
  by (rule feeds_Cons [where w = "()" and w' = "()" and n = 2
        and s' = "BodySink \<lparr>rb_used = 2, rb_sz = 4, rb_data = ''ab..''\<rparr>"] feeds_Nil
      feeds_Cons [where w = "()" and w' = "()" and n = 1] |
    simp add: body_writer_def http_response_body_write_callback_def mem_store_def)+

theorem response_arrives_whole_witness:
  "\<exists>r'. BodySink \<lparr>rb_used = 3, rb_sz = 4, rb_data = ''abc.''\<rparr> = BodySink r' \<and> body_ok r' \<and>
    body_bytes r' = ''abc''"
  using response_arrives_whole [OF feeds_example]
  by (simp add: body_ok_def body_bytes_def)

lemma write_target_append:
  "write_target (opts @ [opt]) =
     (case opt of CURLOPT_WRITEFUNCTION f \<Rightarrow> f | _ \<Rightarrow> write_target opts)"
  by (cases opt) (simp_all add: write_target_def)

lemma prepare_request_sel [simp]:
  "hc_body (prepare_request X c) = hc_body c" "hc_user (prepare_request X c) = hc_user c"
  "write_target (hc_opts (prepare_request X c)) = write_target (hc_opts c)"
  by (simp_all add: prepare_request_def easy_setopt_def Let_def write_target_append)

lemma request_body:
  assumes "http_client_request X c e = (CURLE_OK, c', e')" "curl_delivers X"
    "write_target (hc_opts c) = HTTP_RESPONSE_BODY_WRITE" "body_ok (hc_body c)"
  shows "\<exists>cs. body_ok (hc_body c') \<and> body_bytes (hc_body c') = body_bytes (hc_body c) @ concat cs"
proof -
  from assms(1,3) obtain rq s w where
    p: "curl_perform X rq (body_writer X) (BodySink (hc_body c)) (env_world e) = (CURLE_OK, s, w)"
    and c': "hc_body c' = (case s of BodySink r \<Rightarrow> r | _ \<Rightarrow> hc_body (prepare_request X c))"
    by (auto simp: http_client_request_def Let_def split: prod.splits)
  from p assms(2) obtain cs where "feeds (body_writer X) cs (BodySink (hc_body c)) s"
    unfolding curl_delivers_def by blast
  from body_arrives [OF this assms(4)] c' show ?thesis by auto
qed

lemma move_empty_body_is_null_store:
  "http_client_move_response_body False c = None \<longleftrightarrow> rb_used (hc_body c) = 0"
  by (simp add: http_client_move_response_body_def)

lemma body_never_terminated:
  assumes "http_response_body_write_callback X ptr r w = Some (n, r', w')"
    and "NUL \<notin> set ptr" "NUL \<notin> set (rb_data r)"
    and "\<And>k v. length (os_fresh X k v) = k \<and> NUL \<notin> set (os_fresh X k v)"
  shows "NUL \<notin> set (rb_data r')"
proof -
  have fresh: "NUL \<notin> set (realloc_bytes X (rb_data r) k v)" for k v
    using assms(3) assms(4) [of "k - length (rb_data r)" v]
    by (auto simp: realloc_bytes_def dest!: in_set_takeD)
  have store: "NUL \<notin> set d" if "mem_store b off ptr = Some d" "NUL \<notin> set b" for b off d
    using that assms(2) by (auto simp: mem_store_def dest: in_set_takeD in_set_dropD split: if_splits)
  show ?thesis
    using assms(1,3) fresh
    by (auto simp: http_response_body_write_callback_def Let_def dest: store
        split: if_splits prod.splits)
qed

end
