(* ===== verification/Hive_Fs.thy ===== *)
theory Hive_Fs
  imports Hive_Ext
begin

text \<open>
  The file system calls the sources make, over the map of paths kept in the environment, and
  \<open>src/mkdirs.c\<close>. A call can be made to fail by \<open>os_fault\<close>, which gives the \<open>errno\<close>, and a read or a
  write can be cut short by \<open>os_xfer\<close>. A path names what its normal form names: repeated slashes
  count once and a trailing slash does not count; \<open>.\<close> and \<open>..\<close> are ordinary names here.
\<close>

subsection \<open>Paths\<close>

abbreviation (input) SLASH :: char where "SLASH \<equiv> CHR ''/''"

fun squeeze :: "string \<Rightarrow> string" where
  "squeeze (a # b # s) = (if a = SLASH \<and> b = SLASH then squeeze (b # s) else a # squeeze (b # s))"
| "squeeze s = s"

definition fs_key :: "string \<Rightarrow> string" where
  "fs_key path = (let s = squeeze path in if length s > 1 \<and> last s = SLASH then butlast s else s)"

definition fs_lookup :: "fs \<Rightarrow> string \<Rightarrow> fnode option" where
  "fs_lookup f path =
     (if path = [] then None else if fs_key path = ''/'' then Some FDir else f (fs_key path))"

definition fs_put :: "string \<Rightarrow> fnode \<Rightarrow> fs \<Rightarrow> fs" where
  "fs_put path n f = f(fs_key path \<mapsto> n)"

definition has_parent :: "fs \<Rightarrow> string \<Rightarrow> bool" where
  \<comment> \<open>the directory a new entry goes into exists; a path without a slash goes into the current one\<close>
  "has_parent f path =
     (let dir = rev (dropWhile (\<lambda>c. c \<noteq> SLASH) (rev (fs_key path)))
      in dir = [] \<or> fs_lookup f dir = Some FDir)"

definition PATH_MAX :: nat where
  "PATH_MAX = 4096"

subsection \<open>System calls\<close>

definition fault :: "('w, 'a) os_scheme \<Rightarrow> syscall \<Rightarrow> 'w env \<Rightarrow> bool \<times> 'w env" where
  "fault X call e =
     (let (r, w) = os_fault X call (env_world e) in
      case r of None \<Rightarrow> (False, e\<lparr>env_world := w\<rparr>)
      | Some en \<Rightarrow> (True, e\<lparr>env_errno := en, env_world := w\<rparr>))"

definition set_errno :: "c_int \<Rightarrow> 'w env \<Rightarrow> 'w env" where
  "set_errno en e = e\<lparr>env_errno := en\<rparr>"

definition sys_stat :: "('w, 'a) os_scheme \<Rightarrow> string \<Rightarrow> 'w env \<Rightarrow> fnode option \<times> 'w env" where
  "sys_stat X path e =
     (let (bad, e) = fault X SysStat e in
      if bad then (None, e)
      else (case fs_lookup (env_fs e) path of
              None \<Rightarrow> (None, set_errno ENOENT e)
            | Some n \<Rightarrow> (Some n, e)))"

definition sys_mkdir :: "('w, 'a) os_scheme \<Rightarrow> string \<Rightarrow> 'w env \<Rightarrow> bool \<times> 'w env" where
  "sys_mkdir X path e =
     (let (bad, e) = fault X SysMkdir e in
      if bad then (False, e)
      else if path = [] then (False, set_errno ENOENT e)
      else if fs_lookup (env_fs e) path \<noteq> None then (False, set_errno EEXIST e)
      else if \<not> has_parent (env_fs e) path then (False, set_errno ENOENT e)
      else (True, e\<lparr>env_fs := fs_put path FDir (env_fs e)\<rparr>))"

definition sys_access :: "('w, 'a) os_scheme \<Rightarrow> string \<Rightarrow> 'w env \<Rightarrow> bool \<times> 'w env" where
  "sys_access X path e =
     (let (bad, e) = fault X SysAccess e in
      if bad then (False, e)
      else if fs_lookup (env_fs e) path = None then (False, set_errno ENOENT e)
      else (True, e))"

definition sys_open_rd :: "('w, 'a) os_scheme \<Rightarrow> string \<Rightarrow> 'w env \<Rightarrow> bool \<times> 'w env" where
  \<comment> \<open>\<open>open(path, O_RDONLY) >= 0\<close>; the descriptor is the path\<close>
  "sys_open_rd X path e =
     (let (bad, e) = fault X SysOpen e in
      if bad then (False, e)
      else if fs_lookup (env_fs e) path = None then (False, set_errno ENOENT e)
      else (True, e))"

definition sys_create_excl :: "('w, 'a) os_scheme \<Rightarrow> string \<Rightarrow> 'w env \<Rightarrow> bool \<times> 'w env" where
  \<comment> \<open>\<open>open(path, O_WRONLY | O_CREAT | O_EXCL, ...) >= 0\<close>\<close>
  "sys_create_excl X path e =
     (let (bad, e) = fault X SysOpen e in
      if bad then (False, e)
      else if fs_lookup (env_fs e) path \<noteq> None then (False, set_errno EEXIST e)
      else if path = [] \<or> \<not> has_parent (env_fs e) path then (False, set_errno ENOENT e)
      else (True, e\<lparr>env_fs := fs_put path (FFile []) (env_fs e)\<rparr>))"

definition sys_create_trunc :: "('w, 'a) os_scheme \<Rightarrow> string \<Rightarrow> 'w env \<Rightarrow> bool \<times> 'w env" where
  \<comment> \<open>\<open>open(path, O_WRONLY | O_TRUNC | O_CREAT, ...) >= 0\<close>\<close>
  "sys_create_trunc X path e =
     (let (bad, e) = fault X SysOpen e in
      if bad then (False, e)
      else if fs_lookup (env_fs e) path = Some FDir then (False, set_errno EISDIR e)
      else if fs_lookup (env_fs e) path = None \<and> (path = [] \<or> \<not> has_parent (env_fs e) path)
      then (False, set_errno ENOENT e)
      else (True, e\<lparr>env_fs := fs_put path (FFile []) (env_fs e)\<rparr>))"

definition sys_lseek_end :: "('w, 'a) os_scheme \<Rightarrow> string \<Rightarrow> 'w env \<Rightarrow> size_t \<times> 'w env" where
  \<comment> \<open>\<open>(size_t)lseek(fd, 0, SEEK_END)\<close>\<close>
  "sys_lseek_end X path e =
     (let (bad, e) = fault X SysLseek e in
      if bad then (- 1, e)
      else (case fs_lookup (env_fs e) path of
              Some (FFile bs) \<Rightarrow> (word_of_nat (length bs), e)
            | Some FDir \<Rightarrow> (os_dir_size X, e)
            | None \<Rightarrow> (- 1, e)))"

definition sys_read :: "('w, 'a) os_scheme \<Rightarrow> string \<Rightarrow> nat \<Rightarrow> 'w env \<Rightarrow> ssize_t \<times> bytes \<times> 'w env" where
  \<comment> \<open>one \<open>read\<close> from the start of the file\<close>
  "sys_read X path n e =
     (let (bad, e) = fault X SysRead e in
      if bad then (- 1, [], e)
      else (case fs_lookup (env_fs e) path of
              Some (FFile bs) \<Rightarrow>
                (let (k, w) = os_xfer X n (env_world e); got = take (min k n) bs
                 in (word_of_nat (length got), got, e\<lparr>env_world := w\<rparr>))
            | _ \<Rightarrow> (- 1, [], set_errno EISDIR e)))"

definition sys_write :: "('w, 'a) os_scheme \<Rightarrow> string \<Rightarrow> bytes \<Rightarrow> 'w env \<Rightarrow> ssize_t \<times> 'w env" where
  \<comment> \<open>one \<open>write\<close> to a file that was just created or truncated\<close>
  "sys_write X path bs e =
     (let (bad, e) = fault X SysWrite e in
      if bad then (- 1, e)
      else (let (k, w) = os_xfer X (length bs) (env_world e); out = take k bs
            in (word_of_nat (length out),
                e\<lparr>env_fs := fs_put path (FFile out) (env_fs e), env_world := w\<rparr>)))"

definition sys_unlink :: "('w, 'a) os_scheme \<Rightarrow> string \<Rightarrow> 'w env \<Rightarrow> 'w env" where
  \<comment> \<open>\<open>unlink(path)\<close>, whose result the sources never look at\<close>
  "sys_unlink X path e =
     (let (bad, e) = fault X SysUnlink e in
      if bad then e
      else (case fs_lookup (env_fs e) path of
              Some (FFile bs) \<Rightarrow> e\<lparr>env_fs := (env_fs e)(fs_key path := None)\<rparr>
            | Some FDir \<Rightarrow> set_errno EISDIR e
            | None \<Rightarrow> set_errno ENOENT e))"

subsection \<open>mkdirs.c\<close>

definition mkdir_internal :: "('w, 'a) os_scheme \<Rightarrow> string \<Rightarrow> 'w env \<Rightarrow> c_int \<times> 'w env" where
  "mkdir_internal X path e =
     (let (st, e) = sys_stat X path e in
      case st of
        None \<Rightarrow>
          (let (ok, e) = sys_mkdir X path e in
           if \<not> ok \<and> env_errno e \<noteq> EEXIST then (- 1, e) else (0, e))
      | Some FDir \<Rightarrow> (0, e)
      | Some (FFile bs) \<Rightarrow> (- 1, set_errno ENOTDIR e))"

function mkdirs_loop :: "('w, 'a) os_scheme \<Rightarrow> string \<Rightarrow> string \<Rightarrow> 'w env \<Rightarrow> c_int \<times> 'w env" where
  \<comment> \<open>\<open>before\<close> is the part of the copied path up to \<open>pp\<close>, \<open>rest\<close> what follows\<close>
  "mkdirs_loop X before rest e =
     (let seg = takeWhile (\<lambda>c. c \<noteq> SLASH) rest; after = dropWhile (\<lambda>c. c \<noteq> SLASH) rest in
      if after = [] then (0, e)
      else
        (let (rc, e) = (if seg \<noteq> [] then mkdir_internal X (before @ seg) e else (0, e)) in
         if rc \<noteq> 0 then (rc, e) else mkdirs_loop X (before @ seg @ [SLASH]) (tl after) e))"
  by pat_completeness auto
termination
proof (relation "measure (\<lambda>(X, before, rest, e). length rest)", goal_cases)
  case (2 X before rest e seg after p rc e')
  have "length after \<le> length rest" unfolding 2 by (simp add: length_dropWhile_le)
  moreover have "after \<noteq> []" by fact
  ultimately show ?case by (cases after) auto
qed simp

declare mkdirs_loop.simps [simp del]

definition mkdirs :: "('w, 'a) os_scheme \<Rightarrow> string \<Rightarrow> 'w env \<Rightarrow> c_int \<times> 'w env" where
  "mkdirs X path e =
     (let (rc, e) = mkdirs_loop X [] (take (PATH_MAX - 1) path) e in
      if rc = 0 then mkdir_internal X path e else (rc, e))"

subsection \<open>What mkdirs does to the tree\<close>

definition os_quiet :: "('w, 'a) os_scheme \<Rightarrow> bool" where
  \<comment> \<open>no call is made to fail and memory does not run out\<close>
  "os_quiet X \<longleftrightarrow> (\<forall>c w. fst (os_fault X c w) = None) \<and> (\<forall>n w. fst (os_alloc X n w))"

definition os_reliable :: "('w, 'a) os_scheme \<Rightarrow> bool" where
  \<comment> \<open>moreover no transfer is cut short\<close>
  "os_reliable X \<longleftrightarrow> os_quiet X \<and> (\<forall>n w. fst (os_xfer X n w) = n)"

lemma os_reliable_quiet: "os_reliable X \<Longrightarrow> os_quiet X"
  by (simp add: os_reliable_def)

definition only_adds_dirs :: "fs \<Rightarrow> fs \<Rightarrow> bool" where
  "only_adds_dirs f g \<longleftrightarrow> (\<forall>p. g p = f p \<or> f p = None \<and> g p = Some FDir)"

lemma only_adds_dirs_refl [simp]: "only_adds_dirs f f"
  by (simp add: only_adds_dirs_def)

lemma only_adds_dirs_trans: "only_adds_dirs f g \<Longrightarrow> only_adds_dirs g h \<Longrightarrow> only_adds_dirs f h"
  unfolding only_adds_dirs_def by metis

lemma fault_frame:
  "fault X c e = (b, e') \<Longrightarrow> env_fs e' = env_fs e \<and> env_err e' = env_err e \<and>
     env_curl_ready e' = env_curl_ready e \<and> (\<not> b \<longrightarrow> env_errno e' = env_errno e)"
  by (auto simp: fault_def split: prod.splits option.splits)

lemma fault_quiet [simp]:
  "os_quiet X \<Longrightarrow> fault X c e = (False, e\<lparr>env_world := snd (os_fault X c (env_world e))\<rparr>)"
  by (auto simp: fault_def os_quiet_def split: prod.splits option.splits) (metis fst_conv option.simps(3))+

lemma alloc_quiet [simp]:
  "os_quiet X \<Longrightarrow> alloc X n e = (True, e\<lparr>env_world := snd (os_alloc X n (env_world e))\<rparr>)"
  by (auto simp: alloc_def os_quiet_def split: prod.splits) (metis fst_conv)+

definition os_still :: "('w, 'a) os_scheme \<Rightarrow> bool" where
  \<comment> \<open>no call fails and only the network moves the world\<close>
  "os_still X \<longleftrightarrow> (\<forall>n w. os_alloc X n w = (True, w)) \<and> (\<forall>c w. os_fault X c w = (None, w))"

lemma os_still_quiet: "os_still X \<Longrightarrow> os_quiet X"
  by (simp add: os_still_def os_quiet_def)

lemma alloc_still [simp]: "os_still X \<Longrightarrow> alloc X n e = (True, e)"
  by (simp add: os_still_def alloc_def)

lemma fault_still [simp]: "os_still X \<Longrightarrow> fault X c e = (False, e)"
  by (simp add: os_still_def fault_def)

lemma xfer_reliable: "os_reliable X \<Longrightarrow> \<exists>w'. os_xfer X n w = (n, w')"
  by (metis os_reliable_def prod.collapse)

lemma sys_write_reliable:
  assumes "os_reliable X"
  shows "\<exists>w. sys_write X path bs e =
    (word_of_nat (length bs), e\<lparr>env_fs := fs_put path (FFile bs) (env_fs e), env_world := w\<rparr>)"
proof -
  obtain w' where "os_xfer X (length bs) (snd (os_fault X SysWrite (env_world e))) = (length bs, w')"
    using xfer_reliable [OF assms] by blast
  then show ?thesis
    using os_reliable_quiet [OF assms] by (cases e) (auto simp: sys_write_def Let_def)
qed

lemma sys_read_reliable:
  assumes "os_reliable X" "fs_lookup (env_fs e) path = Some (FFile bs)"
  shows "\<exists>w. sys_read X path (length bs) e = (word_of_nat (length bs), bs, e\<lparr>env_world := w\<rparr>)"
proof -
  obtain w' where "os_xfer X (length bs) (snd (os_fault X SysRead (env_world e))) = (length bs, w')"
    using xfer_reliable [OF assms(1)] by blast
  then show ?thesis
    using os_reliable_quiet [OF assms(1)] assms(2) by (cases e) (auto simp: sys_read_def Let_def)
qed

lemma set_errno_sel [simp]:
  "env_fs (set_errno n e) = env_fs e" "env_err (set_errno n e) = env_err e"
  "env_errno (set_errno n e) = n" "env_curl_ready (set_errno n e) = env_curl_ready e"
  "env_world (set_errno n e) = env_world e"
  by (simp_all add: set_errno_def)

lemma sys_stat_frame:
  "sys_stat X path e = (st, e') \<Longrightarrow> env_fs e' = env_fs e \<and> env_err e' = env_err e \<and>
     (\<forall>n. st = Some n \<longrightarrow> fs_lookup (env_fs e) path = Some n)"
  by (auto simp: sys_stat_def dest!: fault_frame split: prod.splits option.splits if_splits)

lemma fs_lookup_None_put:
  "fs_lookup f path = None \<Longrightarrow> path \<noteq> [] \<Longrightarrow> only_adds_dirs f (fs_put path FDir f)"
  by (auto simp: fs_lookup_def fs_put_def only_adds_dirs_def split: if_splits)

lemma fs_lookup_put: "path \<noteq> [] \<Longrightarrow> fs_lookup f path = None \<Longrightarrow> fs_lookup (fs_put path n f) path = Some n"
  by (auto simp: fs_lookup_def fs_put_def split: if_splits)

lemma sys_mkdir_adds:
  "sys_mkdir X path e = (ok, e') \<Longrightarrow> only_adds_dirs (env_fs e) (env_fs e') \<and> env_err e' = env_err e \<and>
     (ok \<longrightarrow> fs_lookup (env_fs e') path = Some FDir)"
  by (auto simp: sys_mkdir_def fs_lookup_None_put fs_lookup_put dest!: fault_frame split: prod.splits if_splits)

lemma mkdir_internal_adds:
  "mkdir_internal X path e = (rc, e') \<Longrightarrow>
     only_adds_dirs (env_fs e) (env_fs e') \<and> env_err e' = env_err e"
  by (auto simp: mkdir_internal_def split: prod.splits option.splits fnode.splits if_splits
      dest!: sys_stat_frame sys_mkdir_adds)

lemma mkdir_internal_dir:
  "os_quiet X \<Longrightarrow> mkdir_internal X path e = (0, e') \<Longrightarrow> fs_lookup (env_fs e') path = Some FDir"
  by (auto simp: mkdir_internal_def sys_stat_def sys_mkdir_def fs_lookup_put
      split: prod.splits option.splits fnode.splits if_splits)

lemma mkdirs_loop_rule:
  assumes "mkdirs_loop X before rest e = (rc, e')" "Q 0 e"
    and step: "\<And>p d r d'. mkdir_internal X p d = (r, d') \<Longrightarrow> Q 0 d \<Longrightarrow> Q r d'"
  shows "Q rc e'"
  using assms
proof (induction X before rest e arbitrary: rc e' rule: mkdirs_loop.induct)
  case (1 X before rest e)
  let ?seg = "takeWhile (\<lambda>c. c \<noteq> SLASH) rest" and ?after = "dropWhile (\<lambda>c. c \<noteq> SLASH) rest"
  obtain r d where one: "(if ?seg \<noteq> [] then mkdir_internal X (before @ ?seg) e else (0, e)) = (r, d)"
    by (cases "if ?seg \<noteq> [] then mkdir_internal X (before @ ?seg) e else (0, e)")
  have d: "Q r d"
    using one "1.prems"(2,3) by (auto split: if_splits)
  show ?case
  proof (cases "?after = [] \<or> r \<noteq> 0")
    case True
    then show ?thesis using "1.prems" one d
      by (subst (asm) mkdirs_loop.simps) (auto simp: Let_def split: if_splits)
  next
    case False
    then have "mkdirs_loop X (before @ ?seg @ [SLASH]) (tl ?after) d = (rc, e')"
      using "1.prems" one
      by (subst (asm) mkdirs_loop.simps) (auto simp: Let_def split: if_splits)
    then show ?thesis
      using "1.IH"[OF refl refl _ one[symmetric] refl] "1.prems"(3) False d by blast
  qed
qed

lemma mkdirs_loop_adds:
  "mkdirs_loop X before rest e = (rc, e') \<Longrightarrow>
     only_adds_dirs (env_fs e) (env_fs e') \<and> env_err e' = env_err e"
  by (erule mkdirs_loop_rule [where Q = "\<lambda>rc d. only_adds_dirs (env_fs e) (env_fs d) \<and> env_err d = env_err e"])
    (auto dest!: mkdir_internal_adds intro: only_adds_dirs_trans)

lemma mkdir_internal_rc: "mkdir_internal X p e = (rc, e') \<Longrightarrow> rc = 0 \<or> rc = - 1"
  by (auto simp: mkdir_internal_def split: prod.splits if_splits option.splits fnode.splits)

lemma mkdirs_adds:
  "mkdirs X path e = (rc, e') \<Longrightarrow> only_adds_dirs (env_fs e) (env_fs e') \<and> env_err e' = env_err e"
  by (auto simp: mkdirs_def split: prod.splits if_splits dest!: mkdirs_loop_adds mkdir_internal_adds
      intro: only_adds_dirs_trans)

lemma mkdirs_rc: "mkdirs X path e = (rc, e') \<Longrightarrow> rc = 0 \<or> rc = - 1"
  using mkdirs_loop_rule [of X "[]" "take (PATH_MAX - 1) path" e _ _ "\<lambda>rc d. rc = 0 \<or> rc = - 1"]
  by (auto simp: mkdirs_def dest: mkdir_internal_rc split: prod.splits if_splits)

lemma mkdirs_makes_dir:
  "os_quiet X \<Longrightarrow> mkdirs X path e = (0, e') \<Longrightarrow> fs_lookup (env_fs e') path = Some FDir"
  by (auto simp: mkdirs_def split: prod.splits if_splits intro: mkdir_internal_dir)

subsection \<open>Which directories mkdirs makes\<close>

definition plain_segment :: "string \<Rightarrow> bool" where
  "plain_segment n \<longleftrightarrow> n \<noteq> [] \<and> SLASH \<notin> set n"

fun steps :: "string \<Rightarrow> string list \<Rightarrow> string list" where
  \<comment> \<open>the paths on the way: the name at the start, the first two with a slash between them, and so on\<close>
  "steps before [] = []"
| "steps before (n # ns) = (before @ n) # steps (before @ n @ [SLASH]) ns"

definition is_file :: "fs \<Rightarrow> string \<Rightarrow> bool" where
  "is_file f p \<longleftrightarrow> (\<exists>bs. f p = Some (FFile bs))"

definition dir_prefix :: "fs \<Rightarrow> string \<Rightarrow> bool" where
  \<comment> \<open>what entries are put after: nothing, or the name of a directory and a slash\<close>
  "dir_prefix f b \<longleftrightarrow> squeeze b = b \<and> (b = [] \<or> last b = SLASH \<and> fs_lookup f b = Some FDir)"

lemma squeeze_snoc:
  "squeeze (s @ [c]) = (if c = SLASH \<and> s \<noteq> [] \<and> last s = SLASH then squeeze s else squeeze s @ [c])"
  by (induction s rule: squeeze.induct) auto

lemma squeeze_segment: "SLASH \<notin> set n \<Longrightarrow> squeeze (b @ n) = squeeze b @ n"
  by (induction n rule: rev_induct) (auto simp: append_assoc [symmetric] squeeze_snoc simp del: append_assoc)

lemma segment_last: "plain_segment n \<Longrightarrow> last (b @ n) \<noteq> SLASH"
  by (metis last_appendR last_in_set plain_segment_def)

lemma segment_key:
  assumes "dir_prefix f b" "plain_segment n"
  shows "fs_lookup g (b @ n) = g (b @ n)" "fs_key (b @ n) = b @ n" "has_parent f (b @ n)"
proof -
  have sq: "squeeze (b @ n) = b @ n" using assms by (simp add: squeeze_segment dir_prefix_def plain_segment_def)
  with segment_last [OF assms(2), of b] show key: "fs_key (b @ n) = b @ n" by (simp add: fs_key_def)
  have "b @ n \<noteq> ''/''" using assms(2) by (cases b) (auto simp: plain_segment_def)
  then show "fs_lookup g (b @ n) = g (b @ n)" using assms(2) key by (simp add: fs_lookup_def plain_segment_def)
  have "dropWhile (\<lambda>c. c \<noteq> SLASH) (rev n @ rev b) = rev b"
    using assms by (subst dropWhile_append2) (auto simp: plain_segment_def dir_prefix_def dropWhile_eq_self_iff hd_rev)
  then show "has_parent f (b @ n)" using assms(1) by (auto simp: has_parent_def key dir_prefix_def)
qed

lemma next_prefix:
  assumes "dir_prefix f b" "plain_segment n" "g (b @ n) = Some FDir"
  shows "dir_prefix g (b @ n @ [SLASH])"
proof -
  have "squeeze (b @ n) = b @ n" using assms by (simp add: squeeze_segment dir_prefix_def plain_segment_def)
  then have sq: "squeeze ((b @ n) @ [SLASH]) = (b @ n) @ [SLASH]"
    using segment_last [OF assms(2), of b] unfolding squeeze_snoc by simp
  have ne: "b @ n \<noteq> []" using assms(2) by (simp add: plain_segment_def)
  have root: "b @ n \<noteq> ''/''"
  proof
    assume "b @ n = ''/''"
    then have "last (b @ n) = SLASH" by (simp only: last_ConsL)
    then show False using segment_last [OF assms(2), of b] by simp
  qed
  then have "fs_key ((b @ n) @ [SLASH]) = b @ n"
    using ne unfolding fs_key_def sq Let_def by (simp del: append_assoc)
  then have "fs_lookup g ((b @ n) @ [SLASH]) = Some FDir" using ne root assms(3) by (simp add: fs_lookup_def)
  then show ?thesis using sq by (simp add: dir_prefix_def)
qed

lemma mkdir_step:
  assumes "os_still X" "dir_prefix (env_fs e) b" "plain_segment n"
  shows "\<exists>d. mkdir_internal X (b @ n) e = (if is_file (env_fs e) (b @ n) then - 1 else 0, d) \<and>
    env_fs d = (if is_file (env_fs e) (b @ n) then env_fs e else (env_fs e)(b @ n \<mapsto> FDir)) \<and>
    env_world d = env_world e \<and> env_err d = env_err e \<and> (is_file (env_fs e) (b @ n) \<longrightarrow> env_errno d = ENOTDIR)"
proof -
  note k = segment_key [OF assms(2,3)]
  have "b @ n \<noteq> []" using assms(3) by (simp add: plain_segment_def)
  then show ?thesis
    using assms(1) k
    by (cases "env_fs e (b @ n)")
      (auto simp: mkdir_internal_def sys_stat_def sys_mkdir_def is_file_def fs_put_def fun_upd_idem set_errno_def split: fnode.splits)
qed

definition mkdirs_from :: "('w, 'a) os_scheme \<Rightarrow> string \<Rightarrow> string \<Rightarrow> 'w env \<Rightarrow> c_int \<times> 'w env" where
  \<comment> \<open>what is left to do when the loop has reached \<open>rest\<close>\<close>
  "mkdirs_from X before rest e =
     (let (rc, e) = mkdirs_loop X before rest e in if rc = 0 then mkdir_internal X (before @ rest) e else (rc, e))"

lemma mkdirs_from_simps:
  "SLASH \<notin> set n \<Longrightarrow> mkdirs_from X b n e = mkdir_internal X (b @ n) e"
  "plain_segment n \<Longrightarrow> mkdirs_from X b (n @ SLASH # r) e =
     (let (rc, e) = mkdir_internal X (b @ n) e in if rc \<noteq> 0 then (rc, e) else mkdirs_from X (b @ n @ [SLASH]) r e)"
  "mkdirs_from X b (SLASH # r) e = mkdirs_from X (b @ [SLASH]) r e"
proof -
  show "mkdirs_from X b n e = mkdir_internal X (b @ n) e" if "SLASH \<notin> set n"
  proof -
    have "dropWhile (\<lambda>c. c \<noteq> SLASH) n = []" using that by (simp add: dropWhile_eq_Nil_conv) blast
    then show ?thesis unfolding mkdirs_from_def by (subst mkdirs_loop.simps) simp
  qed
  show "mkdirs_from X b (n @ SLASH # r) e =
     (let (rc, e) = mkdir_internal X (b @ n) e in if rc \<noteq> 0 then (rc, e) else mkdirs_from X (b @ n @ [SLASH]) r e)"
    if "plain_segment n"
  proof -
    have "takeWhile (\<lambda>c. c \<noteq> SLASH) (n @ SLASH # r) = n" "dropWhile (\<lambda>c. c \<noteq> SLASH) (n @ SLASH # r) = SLASH # r"
      using that by (auto simp: plain_segment_def takeWhile_append dropWhile_append)
    then show ?thesis using that
      unfolding mkdirs_from_def by (subst mkdirs_loop.simps) (auto simp: plain_segment_def Let_def split: prod.splits)
  qed
  show "mkdirs_from X b (SLASH # r) e = mkdirs_from X (b @ [SLASH]) r e"
    unfolding mkdirs_from_def by (subst mkdirs_loop.simps) (auto split: prod.splits)
qed

fun joined :: "string list \<Rightarrow> string" where
  "joined [] = []"
| "joined [n] = n"
| "joined (n # ns) = n @ SLASH # joined ns"

lemma steps_longer: "p \<in> set (steps b ns) \<Longrightarrow> length b \<le> length p"
  by (induction ns arbitrary: b) force+

definition with_dirs :: "fs \<Rightarrow> string list \<Rightarrow> fs" where
  "with_dirs f ps = (\<lambda>p. if p \<in> set ps then Some FDir else f p)"

lemma mkdirs_from_steps:
  assumes X: "os_still X" and b: "dir_prefix (env_fs e) b" and ns: "ns \<noteq> []" "list_all plain_segment ns"
  shows "\<exists>d. let ps = steps b ns; dirs = takeWhile (\<lambda>p. \<not> is_file (env_fs e) p) ps in
    mkdirs_from X b (joined ns) e = (if dirs = ps then 0 else - 1, d) \<and> env_fs d = with_dirs (env_fs e) dirs \<and>
    env_world d = env_world e \<and> env_err d = env_err e \<and> (dirs \<noteq> ps \<longrightarrow> env_errno d = ENOTDIR)"
  using b ns
proof (induction ns arbitrary: b e)
  case (Cons n ns)
  then have n: "plain_segment n" by simp
  then have sl: "SLASH \<notin> set n" by (simp add: plain_segment_def)
  let ?file = "is_file (env_fs e) (b @ n)"
  obtain d where d: "mkdir_internal X (b @ n) e = (if ?file then - 1 else 0, d)"
    "env_fs d = (if ?file then env_fs e else (env_fs e)(b @ n \<mapsto> FDir))" "env_world d = env_world e" "env_err d = env_err e"
    "?file \<longrightarrow> env_errno d = ENOTDIR"
    using mkdir_step [OF X Cons.prems(1) n] by blast
  show ?case
  proof (cases "?file \<or> ns = []")
    case True
    then have "mkdirs_from X b (joined (n # ns)) e = mkdir_internal X (b @ n) e"
      using d(1) by (cases ns) (auto simp: mkdirs_from_simps(1) [OF sl] mkdirs_from_simps(2) [OF n])
    then show ?thesis using d True by (intro exI [of _ d]) (auto simp: with_dirs_def)
  next
    case False
    have longer: "b @ n \<noteq> p" if "p \<in> set (steps (b @ n @ [SLASH]) ns)" for p
      using steps_longer [OF that] by auto
    have same: "takeWhile (\<lambda>p. \<not> is_file (env_fs d) p) (steps (b @ n @ [SLASH]) ns) =
        takeWhile (\<lambda>p. \<not> is_file (env_fs e) p) (steps (b @ n @ [SLASH]) ns)"
      by (rule takeWhile_cong) (use longer False d(2) in \<open>auto simp: is_file_def\<close>)
    have "dir_prefix (env_fs d) (b @ n @ [SLASH])"
      by (rule next_prefix [OF Cons.prems(1) n]) (use False d(2) in simp)
    note ih = Cons.IH [OF this]
    let ?ps = "steps (b @ n @ [SLASH]) ns"
    let ?dirs = "takeWhile (\<lambda>p. \<not> is_file (env_fs e) p) ?ps"
    have ne: "ns \<noteq> []" "list_all plain_segment ns" using False Cons.prems(3) by simp_all
    obtain d' where
      "mkdirs_from X (b @ n @ [SLASH]) (joined ns) d = (if ?dirs = ?ps then 0 else - 1, d') \<and> env_fs d' = with_dirs (env_fs d) ?dirs \<and>
       env_world d' = env_world d \<and> env_err d' = env_err d \<and> (?dirs \<noteq> ?ps \<longrightarrow> env_errno d' = ENOTDIR)"
      using ih [OF ne] unfolding Let_def same by blast
    moreover have "mkdirs_from X b (joined (n # ns)) e = mkdirs_from X (b @ n @ [SLASH]) (joined ns) d"
      using False d(1) by (cases ns) (simp_all add: mkdirs_from_simps(2) [OF n])
    ultimately show ?thesis
      using False d by (intro exI [of _ d']) (auto simp: Let_def with_dirs_def)
  qed
qed simp

subsection \<open>Properties\<close>

text \<open>
  C37: On a working system mkdirs walks down the path. It makes exactly the directories on the
  way, and the path itself, that are missing, changes nothing else, and returns 0; when one of
  them is a file it stops there with -1 and the error ENOTDIR, having made the missing directories
  before it and nothing after it.
\<close>

theorem mkdirs_makes_the_path:
  assumes "os_still X" "root \<in> {[], [SLASH]}" "names \<noteq> []" "list_all plain_segment names"
    and "ps = steps root names" "length (root @ joined names) < PATH_MAX"
  shows "\<exists>d. let dirs = takeWhile (\<lambda>p. \<not> is_file (env_fs e) p) ps in
    mkdirs X (root @ joined names) e = (if dirs = ps then 0 else - 1, d) \<and>
    env_fs d = (\<lambda>p. if p \<in> set dirs then Some FDir else env_fs e p) \<and>
    env_world d = env_world e \<and> env_err d = env_err e \<and> (dirs \<noteq> ps \<longrightarrow> env_errno d = ENOTDIR)"
proof -
  have b: "dir_prefix (env_fs e) root" using assms(2) by (auto simp: dir_prefix_def fs_lookup_def fs_key_def)
  have "mkdirs X (root @ joined names) e = mkdirs_from X [] (root @ joined names) e"
    using assms(6) by (auto simp: mkdirs_def mkdirs_from_def split: prod.splits)
  also have "\<dots> = mkdirs_from X root (joined names) e" using assms(2) by (auto simp: mkdirs_from_simps(3))
  finally have eq: "mkdirs X (root @ joined names) e = mkdirs_from X root (joined names) e" .
  show ?thesis unfolding eq assms(5) using mkdirs_from_steps [OF assms(1) b assms(3,4)] by (simp only: with_dirs_def Let_def)
qed

lemma sample_reliable: "os_reliable (sample_os :: unit os)"
  by (simp add: os_reliable_def os_quiet_def sample_os_def)

lemma sample_quiet: "os_quiet (sample_os :: unit os)"
  by (rule os_reliable_quiet [OF sample_reliable])

definition tree_env :: "unit env" where
  "tree_env = sample_env\<lparr>env_fs := [''/a'' \<mapsto> FDir, ''/a/f'' \<mapsto> FFile ''x'']\<rparr>"

theorem mkdirs_makes_the_path_witness:
  "(\<exists>d. mkdirs (sample_os :: unit os) ''/a/b/c'' tree_env = (0, d) \<and>
      env_fs d ''/a/b'' = Some FDir \<and> env_fs d ''/a/b/c'' = Some FDir \<and> env_fs d ''/a/f'' = Some (FFile ''x'')) \<and>
   (\<exists>d. mkdirs (sample_os :: unit os) ''/a/f/c'' tree_env = (- 1, d) \<and> env_fs d = env_fs tree_env \<and> env_errno d = ENOTDIR)"
proof -
  have X: "os_still (sample_os :: unit os)" by (simp add: os_still_def sample_os_def)
  have seg: "list_all plain_segment [''a'', ''b'', ''c'']" "list_all plain_segment [''a'', ''f'', ''c'']"
    by (simp_all add: plain_segment_def)
  have fs: "\<not> is_file (env_fs tree_env) ''/a''" "\<not> is_file (env_fs tree_env) ''/a/b''" "\<not> is_file (env_fs tree_env) ''/a/b/c''"
    "is_file (env_fs tree_env) ''/a/f''" "env_fs tree_env ''/a/f'' = Some (FFile ''x'')" "env_fs tree_env ''/a'' = Some FDir"
    by (simp_all add: is_file_def tree_env_def)
  have st: "steps ''/'' [''a'', ''b'', ''c''] = [''/a'', ''/a/b'', ''/a/b/c'']" "steps ''/'' [''a'', ''f'', ''c''] = [''/a'', ''/a/f'', ''/a/f/c'']"
    "''/'' @ joined [''a'', ''b'', ''c''] = ''/a/b/c''" "''/'' @ joined [''a'', ''f'', ''c''] = ''/a/f/c''"
    by simp_all
  have len: "length ''/a/b/c'' < PATH_MAX" "length ''/a/f/c'' < PATH_MAX" by (simp_all add: PATH_MAX_def)
  note m = mkdirs_makes_the_path [OF X _ _ seg(1) refl, of "''/''" tree_env, unfolded st Let_def]
    mkdirs_makes_the_path [OF X _ _ seg(2) refl, of "''/''" tree_env, unfolded st Let_def]
  have tw: "takeWhile (\<lambda>p. \<not> is_file (env_fs tree_env) p) [''/a'', ''/a/b'', ''/a/b/c''] = [''/a'', ''/a/b'', ''/a/b/c'']"
    "takeWhile (\<lambda>p. \<not> is_file (env_fs tree_env) p) [''/a'', ''/a/f'', ''/a/f/c''] = [''/a'']"
    using fs by (simp_all only: takeWhile.simps simp_thms if_True if_False)
  obtain d where d: "mkdirs (sample_os :: unit os) ''/a/b/c'' tree_env = (0, d)"
    "env_fs d = (\<lambda>p. if p \<in> set [''/a'', ''/a/b'', ''/a/b/c''] then Some FDir else env_fs tree_env p)"
    using m(1) [OF _ _ len(1)] unfolding tw by auto
  obtain d' where d': "mkdirs (sample_os :: unit os) ''/a/f/c'' tree_env = (- 1, d')"
    "env_fs d' = (\<lambda>p. if p \<in> set [''/a''] then Some FDir else env_fs tree_env p)" "env_errno d' = ENOTDIR"
    using m(2) [OF _ _ len(2)] unfolding tw by auto
  have "env_fs d' = env_fs tree_env" unfolding d'(2) using fs(6) by (auto simp: fun_eq_iff)
  then show ?thesis using d d' fs(5) by auto
qed

end
