(* ===== verification/Hive_Client.thy ===== *)
theory Hive_Client
  imports Hive_Error Hive_Fs "HOL-Library.Monad_Syntax"
begin

text \<open>
  \<open>src/hive_client.h\<close> and \<open>src/hive_client.c\<close>: the client, the connection's table of methods and the
  table of backends. A method of a backend works on the backend's own connection data \<open>'c\<close>; what the
  application passes as callback and context is a function on the environment. \<open>None\<close> for a table
  entry is C's null function pointer, \<open>None\<close> for a pointer argument a null pointer.
\<close>

abbreviation (input) HIVE_MAX_VALUE_LEN :: size_t where "HIVE_MAX_VALUE_LEN \<equiv> 32768"
abbreviation (input) HIVE_MAX_FILE_SIZE :: size_t where "HIVE_MAX_FILE_SIZE \<equiv> 33554432"
abbreviation (input) HIVE_MAX_IPFS_CID_LEN :: nat where "HIVE_MAX_IPFS_CID_LEN \<equiv> 64"

abbreviation (input) HiveBackendType_IPFS :: c_int where "HiveBackendType_IPFS \<equiv> 0x01"
abbreviation (input) HiveBackendType_OneDrive :: c_int where "HiveBackendType_OneDrive \<equiv> 0x10"
abbreviation (input) HiveBackendType_ownCloud :: c_int where "HiveBackendType_ownCloud \<equiv> 0x51"
abbreviation (input) HiveBackendType_Butt :: c_int where "HiveBackendType_Butt \<equiv> 0x99"

type_synonym 'w files_cb = "string option \<Rightarrow> 'w env \<Rightarrow> bool \<times> 'w env"
type_synonym 'w values_cb = "string \<Rightarrow> bytes \<Rightarrow> size_t \<Rightarrow> 'w env \<Rightarrow> bool \<times> 'w env"

type_synonym ('r, 'c, 'w) call = "'c \<Rightarrow> 'w env \<Rightarrow> ('r \<times> 'c \<times> 'w env) option"

record ('c, 'w) hive_connect =
  put_file_from_buffer_m :: "(bytes option \<Rightarrow> size_t \<Rightarrow> bool \<Rightarrow> string \<Rightarrow> (c_int, 'c, 'w) call) option"
  get_file_length_m :: "(string \<Rightarrow> (ssize_t, 'c, 'w) call) option"
  get_file_to_buffer_m :: "(string \<Rightarrow> bool \<Rightarrow> bytes \<Rightarrow> size_t \<Rightarrow> (ssize_t \<times> bytes, 'c, 'w) call) option"
  list_files_m :: "('w files_cb \<Rightarrow> (c_int, 'c, 'w) call) option"
  delete_file_m :: "(string \<Rightarrow> (c_int, 'c, 'w) call) option"
  ipfs_put_file_from_buffer_m ::
    "(bytes option \<Rightarrow> size_t \<Rightarrow> bool \<Rightarrow> bytes \<Rightarrow> (c_int \<times> bytes, 'c, 'w) call) option"
  ipfs_get_file_length_m :: "(string \<Rightarrow> (ssize_t, 'c, 'w) call) option"
  ipfs_get_file_to_buffer_m ::
    "(string \<Rightarrow> bool \<Rightarrow> bytes \<Rightarrow> size_t \<Rightarrow> (ssize_t \<times> bytes, 'c, 'w) call) option"
  put_value_m :: "(string \<Rightarrow> bytes \<Rightarrow> size_t \<Rightarrow> bool \<Rightarrow> (c_int, 'c, 'w) call) option"
  set_value_m :: "(string \<Rightarrow> bytes \<Rightarrow> size_t \<Rightarrow> bool \<Rightarrow> (c_int, 'c, 'w) call) option"
  get_values_m :: "(string \<Rightarrow> bool \<Rightarrow> 'w values_cb \<Rightarrow> (c_int, 'c, 'w) call) option"
  delete_key_m :: "(string \<Rightarrow> (c_int, 'c, 'w) call) option"
  disconnect_m :: "((c_int, 'c, 'w) call) option"
  expire_token_m :: "((c_int, 'c, 'w) call) option"
  conn_data :: 'c

definition no_methods :: "'c \<Rightarrow> ('c, 'w) hive_connect" where
  \<comment> \<open>what \<open>rc_zalloc\<close> leaves in the table before a backend fills it\<close>
  "no_methods d = \<lparr>put_file_from_buffer_m = None, get_file_length_m = None, get_file_to_buffer_m = None,
     list_files_m = None, delete_file_m = None, ipfs_put_file_from_buffer_m = None,
     ipfs_get_file_length_m = None, ipfs_get_file_to_buffer_m = None, put_value_m = None,
     set_value_m = None, get_values_m = None, delete_key_m = None, disconnect_m = None,
     expire_token_m = None, conn_data = d\<rparr>"

definition is_str :: "string option \<Rightarrow> bool" where
  \<comment> \<open>\<open>s && *s\<close>\<close>
  "is_str s = (case s of None \<Rightarrow> False | Some t \<Rightarrow> t \<noteq> [])"

lemma is_str_simps [simp]: "is_str None = False" "is_str (Some t) = (t \<noteq> [])"
  by (simp_all add: is_str_def)

lemma is_strE: "is_str s \<Longrightarrow> (\<And>t. s = Some t \<Longrightarrow> t \<noteq> [] \<Longrightarrow> P) \<Longrightarrow> P"
  by (cases s) auto

subsection \<open>The client\<close>

record hive_client =
  data_location :: string

definition hive_client_new ::
    "('w, 'a) os_scheme \<Rightarrow> string option option \<Rightarrow> 'w env \<Rightarrow> hive_client option \<times> 'w env" where
  \<comment> \<open>\<open>None\<close>: no options; \<open>Some None\<close>: a null \<open>data_location\<close>\<close>
  "hive_client_new X opts e =
     (let invalid = (\<lambda>e. (None, hive_set_error (HIVE_GENERAL_ERROR HIVEERR_INVALID_ARGS) e)) in
      case opts of
        Some (Some loc) \<Rightarrow>
          (if loc = [] then invalid e
           else
             (let (st, e) = sys_stat X loc e in
              if st = None \<and> env_errno e \<noteq> ENOENT \<or> st \<noteq> None \<and> st \<noteq> Some FDir then invalid e
              else
                (let (rc, e) = (if st = None then mkdirs X loc e else (0, e)) in
                 if neg rc then (None, hive_set_error (HIVE_SYS_ERROR (env_errno e)) e)
                 else
                   (let (ok, e) = alloc X (length loc + 1) e in
                    if \<not> ok then (None, hive_set_error (HIVE_GENERAL_ERROR HIVEERR_OUT_OF_MEMORY) e)
                    else (Some \<lparr>data_location = loc\<rparr>, e)))))
      | _ \<Rightarrow> invalid e)"

definition hive_client_close :: "hive_client option \<Rightarrow> c_int" where
  "hive_client_close client = (if client = None then 0 else 0)"

subsection \<open>Connecting\<close>

record hive_connect_options =
  backendType :: c_int

type_synonym ('o, 'c, 'w) factory =
  "hive_client \<Rightarrow> 'o hive_connect_options_scheme \<Rightarrow> 'w env \<Rightarrow> (('c, 'w) hive_connect option \<times> 'w env) option"

fun find_factory :: "(c_int \<times> ('o, 'c, 'w) factory option) list \<Rightarrow> c_int \<Rightarrow> ('o, 'c, 'w) factory option" where
  \<comment> \<open>the loop over \<open>factory_methods\<close>, which ends at the entry without a function\<close>
  "find_factory [] t = None"
| "find_factory ((k, m) # ms) t =
     (case m of None \<Rightarrow> None | Some f \<Rightarrow> if k = t then Some f else find_factory ms t)"

definition hive_client_connect ::
    "(c_int \<times> ('o, 'c, 'w) factory option) list \<Rightarrow> hive_client option \<Rightarrow>
      'o hive_connect_options_scheme option \<Rightarrow> 'w env \<Rightarrow> (('c, 'w) hive_connect option \<times> 'w env) option" where
  "hive_client_connect factory_methods client opts e =
     (case (client, opts) of
        (Some cl, Some os) \<Rightarrow>
          (case find_factory factory_methods (backendType os) of
             Some connect \<Rightarrow> connect cl os e
           | None \<Rightarrow> Some (None, hive_set_error (HIVE_GENERAL_ERROR HIVEERR_NOT_SUPPORTED) e))
      | _ \<Rightarrow> Some (None, hive_set_error (HIVE_GENERAL_ERROR HIVEERR_INVALID_ARGS) e))"

definition hive_client_disconnect :: "('c, 'w) hive_connect option \<Rightarrow> 'w env \<Rightarrow> (c_int \<times> 'w env) option" where
  "hive_client_disconnect connect e =
     (case connect of
        None \<Rightarrow> Some (0, e)
      | Some c \<Rightarrow>
          (case disconnect_m c of
             None \<Rightarrow> Some (0, e)
           | Some m \<Rightarrow> do { (rc, d, e) \<leftarrow> m (conn_data c) e; Some (0, e) }))"

definition hive_set_encrypt_key ::
    "('c, 'w) hive_connect option \<Rightarrow> string option \<Rightarrow> 'w env \<Rightarrow> c_int \<times> 'w env" where
  "hive_set_encrypt_key connect encrypt_key e =
     (if Option.is_none connect \<or> encrypt_key = None
      then (- 1, hive_set_error (HIVE_GENERAL_ERROR HIVEERR_INVALID_ARGS) e) else (0, e))"

subsection \<open>The dispatch contract\<close>

text \<open>
  Every operation of the interface checks its arguments, looks its method up in the connection's
  table, calls it, records the code of a failing call and hides it behind \<open>-1\<close>. The locale states
  this for an operation \<open>op\<close> over the method \<open>meth\<close>: \<open>valid\<close> is the argument check, \<open>bad\<close> tells a
  failing result of the method and \<open>code\<close> the error recorded for it.
\<close>

locale dispatch =
  fixes op :: "('c, 'w) hive_connect option \<Rightarrow> 'a \<Rightarrow> 'w env \<Rightarrow> ('r \<times> ('c, 'w) hive_connect option \<times> 'w env) option"
    and valid :: "'a \<Rightarrow> bool"
    and meth :: "('c, 'w) hive_connect \<Rightarrow> ('a \<Rightarrow> ('q, 'c, 'w) call) option"
    and failed :: "'r \<Rightarrow> bool" and bad :: "'q \<Rightarrow> bool" and code :: "'q \<Rightarrow> c_int"
  assumes rejects: "connect = None \<or> \<not> valid a \<Longrightarrow>
      \<exists>r. op connect a e = Some (r, connect, hive_set_error (HIVE_GENERAL_ERROR HIVEERR_INVALID_ARGS) e) \<and> failed r"
    and unsupported: "valid a \<Longrightarrow> meth c = None \<Longrightarrow>
      \<exists>r. op (Some c) a e = Some (r, Some c, hive_set_error (HIVE_GENERAL_ERROR HIVEERR_NOT_SUPPORTED) e) \<and> failed r"
    and stuck: "valid a \<Longrightarrow> meth c = Some m \<Longrightarrow> m a (conn_data c) e = None \<Longrightarrow> op (Some c) a e = None"
    and fails: "valid a \<Longrightarrow> meth c = Some m \<Longrightarrow> m a (conn_data c) e = Some (q, d, e') \<Longrightarrow> bad q \<Longrightarrow>
      \<exists>r. op (Some c) a e = Some (r, Some (c\<lparr>conn_data := d\<rparr>), hive_set_error (code q) e') \<and> failed r"
    and passes: "valid a \<Longrightarrow> meth c = Some m \<Longrightarrow> m a (conn_data c) e = Some (q, d, e') \<Longrightarrow> \<not> bad q \<Longrightarrow>
      \<exists>r. op (Some c) a e = Some (r, Some (c\<lparr>conn_data := d\<rparr>), e') \<and> \<not> failed r"
begin

lemma op_cases:
  assumes "op connect a e = Some (r, connect', e')"
  obtains (rejected) "connect = None \<or> \<not> valid a" "failed r" "connect' = connect"
      "e' = hive_set_error (HIVE_GENERAL_ERROR HIVEERR_INVALID_ARGS) e"
    | (missing) c where "connect = Some c" "valid a" "meth c = None" "failed r" "connect' = connect"
      "e' = hive_set_error (HIVE_GENERAL_ERROR HIVEERR_NOT_SUPPORTED) e"
    | (failing) c m q d e1 where "connect = Some c" "valid a" "meth c = Some m"
      "m a (conn_data c) e = Some (q, d, e1)" "bad q" "failed r"
      "connect' = Some (c\<lparr>conn_data := d\<rparr>)" "e' = hive_set_error (code q) e1"
    | (passing) c m q d where "connect = Some c" "valid a" "meth c = Some m"
      "m a (conn_data c) e = Some (q, d, e')" "\<not> bad q" "\<not> failed r"
      "connect' = Some (c\<lparr>conn_data := d\<rparr>)"
proof (cases "connect = None \<or> \<not> valid a")
  case True
  from rejects [OF this, of e] assms show ?thesis by (intro rejected [OF True]) auto
next
  case False
  then obtain c where c: "connect = Some c" "valid a" by auto
  show ?thesis
  proof (cases "meth c")
    case None
    from unsupported [OF c(2) this, of e] assms c show ?thesis by (intro missing [OF c None]) auto
  next
    case (Some m)
    then obtain q d e1 where m: "m a (conn_data c) e = Some (q, d, e1)"
      using stuck [OF c(2), of c m e] assms c by (cases "m a (conn_data c) e") auto
    show ?thesis
    proof (cases "bad q")
      case True
      from fails [OF c(2) Some m this] assms c show ?thesis by (intro failing [OF c Some m True]) auto
    next
      case False
      from passes [OF c(2) Some m this] assms c have "e' = e1" "\<not> failed r" "connect' = Some (c\<lparr>conn_data := d\<rparr>)"
        by auto
      then show ?thesis using passing [OF c Some _ False] m by simp
    qed
  qed
qed

lemma success_is_the_backends:
  "op connect a e = Some (r, connect', e') \<Longrightarrow> \<not> failed r \<Longrightarrow>
     \<exists>c m q d. connect = Some c \<and> valid a \<and> meth c = Some m \<and> m a (conn_data c) e = Some (q, d, e') \<and>
       \<not> bad q \<and> connect' = Some (c\<lparr>conn_data := d\<rparr>)"
  by (erule op_cases) blast+

lemma failure_recorded:
  assumes "op connect a e = Some (r, connect', e')" "failed r" "\<And>q. bad q \<Longrightarrow> neg (code q)"
  shows "neg (env_err e')"
  using assms(1) by (rule op_cases) (use assms(2,3) in \<open>auto intro: mk_error_neg\<close>)

lemma returns:
  assumes "\<And>m. meth c = Some m \<Longrightarrow> m a (conn_data c) e \<noteq> None"
  shows "op (Some c) a e \<noteq> None"
proof (cases "valid a \<and> meth c \<noteq> None")
  case True
  then obtain m where m: "meth c = Some m" "valid a" by auto
  with assms obtain q d e1 where "m a (conn_data c) e = Some (q, d, e1)" by fastforce
  with m show ?thesis using fails [of a c m e q d e1] passes [of a c m e q d e1] by fastforce
next
  case False
  then show ?thesis using rejects [of "Some c" a e] unsupported [of a c e] by fastforce
qed

end

subsection \<open>Properties\<close>

lemma neg_minus_one [simp]: "neg (- 1 :: 'a::len word)"
  by (simp add: neg_def)

lemma client_new_mkdirs:
  assumes "hive_client_new X (Some (Some loc)) e = (Some client, e')"
  obtains e1 st where "sys_stat X loc e = (st, e1)" "data_location client = loc"
    "st = Some FDir \<and> env_fs e' = env_fs e1 \<and> env_err e' = env_err e1 \<or>
     st = None \<and> (\<exists>e2. mkdirs X loc e1 = (0, e2) \<and> env_fs e' = env_fs e2 \<and> env_err e' = env_err e2)"
  using assms
  by (auto simp: hive_client_new_def Let_def split: prod.splits if_splits
      dest!: alloc_frame mkdirs_rc)

text \<open>
  When no system call fails, a client is returned only with its data location an existing
  directory, made if needed without touching any file, and the error is left as it was.
\<close>

theorem client_new_needs_a_directory:
  assumes "os_quiet X" "hive_client_new X (Some (Some loc)) e = (Some client, e')"
  shows "data_location client = loc \<and> fs_lookup (env_fs e') loc = Some FDir \<and>
    only_adds_dirs (env_fs e) (env_fs e') \<and> env_err e' = env_err e"
  using assms(2)
proof (rule client_new_mkdirs)
  fix e1 st
  assume st: "sys_stat X loc e = (st, e1)" and loc: "data_location client = loc"
    and made: "st = Some FDir \<and> env_fs e' = env_fs e1 \<and> env_err e' = env_err e1 \<or>
     st = None \<and> (\<exists>e2. mkdirs X loc e1 = (0, e2) \<and> env_fs e' = env_fs e2 \<and> env_err e' = env_err e2)"
  show ?thesis
    using loc made sys_stat_frame [OF st] mkdirs_makes_dir [OF assms(1)] mkdirs_adds
    by (metis only_adds_dirs_refl)
qed

lemma client_new_example:
  "hive_client_new (sample_os :: unit os) (Some (Some ''/d'')) sample_env =
     (Some \<lparr>data_location = ''/d''\<rparr>,
      sample_env\<lparr>env_errno := ENOENT, env_fs := [''/d'' \<mapsto> FDir]\<rparr>)"
  by (simp add: hive_client_new_def mkdirs_def PATH_MAX_def mkdirs_loop.simps mkdir_internal_def
      sys_stat_def sys_mkdir_def fault_def sample_os_def sample_env_def fs_lookup_def fs_key_def
      fs_put_def has_parent_def set_errno_def alloc_def)

theorem client_new_needs_a_directory_witness:
  "\<exists>e'. hive_client_new (sample_os :: unit os) (Some (Some ''/d'')) sample_env =
       (Some \<lparr>data_location = ''/d''\<rparr>, e') \<and> fs_lookup (env_fs e') ''/d'' = Some FDir"
  using client_new_example client_new_needs_a_directory [OF sample_quiet client_new_example] by blast

end
