(* ===== verification/Hive_File.thy ===== *)
theory Hive_File
  imports Hive_Client
begin

text \<open>
  \<open>src/hive_file.c\<close>: the file operations of the interface. The operations on buffers are instances of
  the locale \<open>dispatch\<close>; the operations on paths add the local file, read or written in one call.
\<close>

subsection \<open>Operations on buffers\<close>

definition hive_put_file_from_buffer ::
    "('c, 'w) hive_connect option \<Rightarrow> bytes option \<Rightarrow> size_t \<Rightarrow> bool \<Rightarrow> string option \<Rightarrow> 'w env
      \<Rightarrow> (c_int \<times> ('c, 'w) hive_connect option \<times> 'w env) option" where
  "hive_put_file_from_buffer connect from len encrypt filename e =
     (if Option.is_none connect \<or> from = None \<and> len \<noteq> 0 \<or> len > HIVE_MAX_FILE_SIZE \<or>
        \<not> is_str filename
      then Some (- 1, connect, hive_set_error (HIVE_GENERAL_ERROR HIVEERR_INVALID_ARGS) e)
      else
        (let c = the connect in
         case put_file_from_buffer_m c of
           None \<Rightarrow> Some (- 1, connect, hive_set_error (HIVE_GENERAL_ERROR HIVEERR_NOT_SUPPORTED) e)
         | Some m \<Rightarrow>
             do { (rc, d, e) \<leftarrow> m from len encrypt (the filename) (conn_data c) e;
                  let connect = Some (c\<lparr>conn_data := d\<rparr>);
                  if neg rc then Some (- 1, connect, hive_set_error rc e)
                  else Some (0, connect, e) }))"

definition hive_get_file_length ::
    "('c, 'w) hive_connect option \<Rightarrow> string option \<Rightarrow> 'w env
      \<Rightarrow> (ssize_t \<times> ('c, 'w) hive_connect option \<times> 'w env) option" where
  "hive_get_file_length connect filename e =
     (if Option.is_none connect \<or> \<not> is_str filename
      then Some (- 1, connect, hive_set_error (HIVE_GENERAL_ERROR HIVEERR_INVALID_ARGS) e)
      else
        (let c = the connect in
         case get_file_length_m c of
           None \<Rightarrow> Some (- 1, connect, hive_set_error (HIVE_GENERAL_ERROR HIVEERR_NOT_SUPPORTED) e)
         | Some m \<Rightarrow>
             do { (rc, d, e) \<leftarrow> m (the filename) (conn_data c) e;
                  let connect = Some (c\<lparr>conn_data := d\<rparr>);
                  if neg rc then Some (- 1, connect, hive_set_error (ssize_to_int rc) e)
                  else Some (rc, connect, e) }))"

definition hive_get_file_to_buffer ::
    "('c, 'w) hive_connect option \<Rightarrow> string option \<Rightarrow> bool \<Rightarrow> bytes option \<Rightarrow> size_t \<Rightarrow> 'w env
      \<Rightarrow> ((ssize_t \<times> bytes option) \<times> ('c, 'w) hive_connect option \<times> 'w env) option" where
  "hive_get_file_to_buffer connect filename decrypt to buflen e =
     (if Option.is_none connect \<or> \<not> is_str filename \<or> to = None \<or> buflen = 0
      then Some ((- 1, to), connect, hive_set_error (HIVE_GENERAL_ERROR HIVEERR_INVALID_ARGS) e)
      else
        (let c = the connect in
         case get_file_to_buffer_m c of
           None \<Rightarrow> Some ((- 1, to), connect, hive_set_error (HIVE_GENERAL_ERROR HIVEERR_NOT_SUPPORTED) e)
         | Some m \<Rightarrow>
             do { ((rc, b), d, e) \<leftarrow> m (the filename) decrypt (the to) buflen (conn_data c) e;
                  let connect = Some (c\<lparr>conn_data := d\<rparr>);
                  if neg rc then Some ((- 1, Some b), connect, hive_set_error (ssize_to_int rc) e)
                  else Some ((rc, Some b), connect, e) }))"

definition hive_ipfs_put_file_from_buffer ::
    "('c, 'w) hive_connect option \<Rightarrow> bytes option \<Rightarrow> size_t \<Rightarrow> bool \<Rightarrow> bytes option \<Rightarrow> 'w env
      \<Rightarrow> ((c_int \<times> bytes option) \<times> ('c, 'w) hive_connect option \<times> 'w env) option" where
  "hive_ipfs_put_file_from_buffer connect from len encrypt cid e =
     (if Option.is_none connect \<or> from = None \<and> len \<noteq> 0 \<or> len > HIVE_MAX_FILE_SIZE \<or>
        cid = None
      then Some ((- 1, cid), connect, hive_set_error (HIVE_GENERAL_ERROR HIVEERR_INVALID_ARGS) e)
      else
        (let c = the connect in
         case ipfs_put_file_from_buffer_m c of
           None \<Rightarrow> Some ((- 1, cid), connect, hive_set_error (HIVE_GENERAL_ERROR HIVEERR_NOT_SUPPORTED) e)
         | Some m \<Rightarrow>
             do { ((rc, b), d, e) \<leftarrow> m from len encrypt (the cid) (conn_data c) e;
                  let connect = Some (c\<lparr>conn_data := d\<rparr>);
                  if neg rc then Some ((- 1, Some b), connect, hive_set_error rc e)
                  else Some ((0, Some b), connect, e) }))"

definition hive_ipfs_get_file_length ::
    "('c, 'w) hive_connect option \<Rightarrow> string option \<Rightarrow> 'w env
      \<Rightarrow> (ssize_t \<times> ('c, 'w) hive_connect option \<times> 'w env) option" where
  "hive_ipfs_get_file_length connect cid e =
     (if Option.is_none connect \<or> \<not> is_str cid
      then Some (- 1, connect, hive_set_error (HIVE_GENERAL_ERROR HIVEERR_INVALID_ARGS) e)
      else
        (let c = the connect in
         case ipfs_get_file_length_m c of
           None \<Rightarrow> Some (- 1, connect, hive_set_error (HIVE_GENERAL_ERROR HIVEERR_NOT_SUPPORTED) e)
         | Some m \<Rightarrow>
             do { (rc, d, e) \<leftarrow> m (the cid) (conn_data c) e;
                  let connect = Some (c\<lparr>conn_data := d\<rparr>);
                  if neg rc then Some (- 1, connect, hive_set_error (ssize_to_int rc) e)
                  else Some (rc, connect, e) }))"

definition hive_ipfs_get_file_to_buffer ::
    "('c, 'w) hive_connect option \<Rightarrow> string option \<Rightarrow> bool \<Rightarrow> bytes option \<Rightarrow> size_t \<Rightarrow> 'w env
      \<Rightarrow> ((ssize_t \<times> bytes option) \<times> ('c, 'w) hive_connect option \<times> 'w env) option" where
  "hive_ipfs_get_file_to_buffer connect cid decrypt to buflen e =
     (if Option.is_none connect \<or> \<not> is_str cid \<or> to = None \<or> buflen = 0
      then Some ((- 1, to), connect, hive_set_error (HIVE_GENERAL_ERROR HIVEERR_INVALID_ARGS) e)
      else
        (let c = the connect in
         case ipfs_get_file_to_buffer_m c of
           None \<Rightarrow> Some ((- 1, to), connect, hive_set_error (HIVE_GENERAL_ERROR HIVEERR_NOT_SUPPORTED) e)
         | Some m \<Rightarrow>
             do { ((rc, b), d, e) \<leftarrow> m (the cid) decrypt (the to) buflen (conn_data c) e;
                  let connect = Some (c\<lparr>conn_data := d\<rparr>);
                  if neg rc then Some ((- 1, Some b), connect, hive_set_error (ssize_to_int rc) e)
                  else Some ((rc, Some b), connect, e) }))"

definition hive_delete_file ::
    "('c, 'w) hive_connect option \<Rightarrow> string option \<Rightarrow> 'w env
      \<Rightarrow> (c_int \<times> ('c, 'w) hive_connect option \<times> 'w env) option" where
  "hive_delete_file connect filename e =
     (if Option.is_none connect \<or> \<not> is_str filename
      then Some (- 1, connect, hive_set_error (HIVE_GENERAL_ERROR HIVEERR_INVALID_ARGS) e)
      else
        (let c = the connect in
         case delete_file_m c of
           None \<Rightarrow> Some (- 1, connect, hive_set_error (HIVE_GENERAL_ERROR HIVEERR_NOT_SUPPORTED) e)
         | Some m \<Rightarrow>
             do { (rc, d, e) \<leftarrow> m (the filename) (conn_data c) e;
                  let connect = Some (c\<lparr>conn_data := d\<rparr>);
                  if neg rc then Some (- 1, connect, hive_set_error rc e)
                  else Some (0, connect, e) }))"

definition hive_list_files ::
    "('c, 'w) hive_connect option \<Rightarrow> 'w files_cb option \<Rightarrow> 'w env
      \<Rightarrow> (c_int \<times> ('c, 'w) hive_connect option \<times> 'w env) option" where
  "hive_list_files connect callback e =
     (if Option.is_none connect \<or> Option.is_none callback
      then Some (- 1, connect, hive_set_error (HIVE_GENERAL_ERROR HIVEERR_INVALID_ARGS) e)
      else
        (let c = the connect in
         case list_files_m c of
           None \<Rightarrow> Some (- 1, connect, hive_set_error (HIVE_GENERAL_ERROR HIVEERR_NOT_SUPPORTED) e)
         | Some m \<Rightarrow>
             do { (rc, d, e) \<leftarrow> m (the callback) (conn_data c) e;
                  let connect = Some (c\<lparr>conn_data := d\<rparr>);
                  if neg rc then Some (- 1, connect, hive_set_error rc e)
                  else Some (0, connect, e) }))"

subsection \<open>Operations on local files\<close>

text \<open>
  \<open>load_file\<close> is the code \<open>hive_put_file\<close> and \<open>hive_ipfs_put_file\<close> share word for word: open, size, limit,
  buffer, one \<open>read\<close>. It returns the buffer and its size, or the environment of a failed call.
  \<open>close\<close> and \<open>free\<close> leave no trace in the model.
\<close>

definition load_file ::
    "('w, 'a) os_scheme \<Rightarrow> string \<Rightarrow> 'w env \<Rightarrow> (bytes \<times> size_t) option \<times> 'w env" where
  "load_file X from e =
     (let (ok, e) = sys_open_rd X from e in
      if \<not> ok then (None, hive_set_error (HIVE_SYS_ERROR (env_errno e)) e)
      else
        (let (fsize, e) = sys_lseek_end X from e in
         if fsize > HIVE_MAX_FILE_SIZE
         then (None, hive_set_error (HIVE_GENERAL_ERROR HIVEERR_LIMIT_EXCEEDED) e)
         else
           (let (ok, e) = alloc X (unat fsize) e in
            if \<not> ok then (None, hive_set_error (HIVE_GENERAL_ERROR HIVEERR_OUT_OF_MEMORY) e)
            else
              (let (nrd, buf, e) = sys_read X from (unat fsize) e in
               if nrd \<noteq> fsize then (None, hive_set_error (HIVE_SYS_ERROR (env_errno e)) e)
               else (Some (buf, fsize), e)))))"

definition hive_put_file ::
    "('w, 'a) os_scheme \<Rightarrow> ('c, 'w) hive_connect option \<Rightarrow> string option \<Rightarrow> bool \<Rightarrow> string option \<Rightarrow> 'w env
      \<Rightarrow> (c_int \<times> ('c, 'w) hive_connect option \<times> 'w env) option" where
  "hive_put_file X connect from encrypt filename e =
     (if Option.is_none connect \<or> \<not> is_str from \<or> \<not> is_str filename
      then Some (- 1, connect, hive_set_error (HIVE_GENERAL_ERROR HIVEERR_INVALID_ARGS) e)
      else
        (case load_file X (the from) e of
           (None, e) \<Rightarrow> Some (- 1, connect, e)
         | (Some (buf, fsize), e) \<Rightarrow>
             hive_put_file_from_buffer connect (Some buf) fsize encrypt filename e))"

definition hive_ipfs_put_file ::
    "('w, 'a) os_scheme \<Rightarrow> ('c, 'w) hive_connect option \<Rightarrow> string option \<Rightarrow> bool \<Rightarrow> bytes option \<Rightarrow> 'w env
      \<Rightarrow> ((c_int \<times> bytes option) \<times> ('c, 'w) hive_connect option \<times> 'w env) option" where
  "hive_ipfs_put_file X connect from encrypt cid e =
     (if Option.is_none connect \<or> \<not> is_str from \<or> cid = None
      then Some ((- 1, cid), connect, hive_set_error (HIVE_GENERAL_ERROR HIVEERR_INVALID_ARGS) e)
      else
        (case load_file X (the from) e of
           (None, e) \<Rightarrow> Some ((- 1, cid), connect, e)
         | (Some (buf, fsize), e) \<Rightarrow>
             hive_ipfs_put_file_from_buffer connect (Some buf) fsize encrypt cid e))"

definition hive_get_file ::
    "('w, 'a) os_scheme \<Rightarrow> ('c, 'w) hive_connect option \<Rightarrow> string option \<Rightarrow> bool \<Rightarrow> string option \<Rightarrow> 'w env
      \<Rightarrow> (ssize_t \<times> ('c, 'w) hive_connect option \<times> 'w env) option" where
  \<comment> \<open>a backend that reports more bytes than the buffer holds makes \<open>write\<close> read past it: \<open>None\<close>\<close>
  "hive_get_file X connect filename decrypt to e =
     (if Option.is_none connect \<or> \<not> is_str filename \<or> \<not> is_str to
      then Some (- 1, connect, hive_set_error (HIVE_GENERAL_ERROR HIVEERR_INVALID_ARGS) e)
      else
        do {
          (fsize, connect, e) \<leftarrow> hive_get_file_length connect filename e;
          if neg fsize then Some (- 1, connect, e)
          else
            (let (ok, e) = sys_create_excl X (the to) e in
             if \<not> ok then Some (- 1, connect, hive_set_error (HIVE_SYS_ERROR (env_errno e)) e)
             else if fsize = 0 then Some (0, connect, e)
             else
               (let (ok, e) = alloc X (unat fsize) e in
                if \<not> ok
                then Some (- 1, connect, hive_set_error (HIVE_GENERAL_ERROR HIVEERR_OUT_OF_MEMORY) e)
                else
                  do {
                    ((got, buf), connect, e) \<leftarrow> hive_get_file_to_buffer connect filename decrypt
                       (Some (replicate (unat fsize) NUL)) fsize e;
                    if neg got then Some (- 1, connect, e)
                    else if length (the buf) < unat got then None
                    else
                      (let (nwr, e) = sys_write X (the to) (take (unat got) (the buf)) e in
                       if nwr \<noteq> got
                       then (let e = sys_unlink X (the filename) e
                             in Some (- 1, connect, hive_set_error (HIVE_SYS_ERROR (env_errno e)) e))
                       else Some (got, connect, e)) })) })"

definition hive_ipfs_get_file ::
    "('w, 'a) os_scheme \<Rightarrow> ('c, 'w) hive_connect option \<Rightarrow> string option \<Rightarrow> bool \<Rightarrow> string option \<Rightarrow> 'w env
      \<Rightarrow> (ssize_t \<times> ('c, 'w) hive_connect option \<times> 'w env) option" where
  \<comment> \<open>the buffer is fetched through the table without a check: a missing method is a null call\<close>
  "hive_ipfs_get_file X connect cid decrypt to e =
     (if Option.is_none connect \<or> \<not> is_str cid \<or> \<not> is_str to
      then Some (- 1, connect, hive_set_error (HIVE_GENERAL_ERROR HIVEERR_INVALID_ARGS) e)
      else
        do {
          (fsize, connect, e) \<leftarrow> hive_ipfs_get_file_length connect cid e;
          if neg fsize then Some (- 1, connect, e)
          else
            (let (ok, e) = sys_create_excl X (the to) e in
             if \<not> ok then Some (- 1, connect, hive_set_error (HIVE_SYS_ERROR (env_errno e)) e)
             else if fsize = 0 then Some (0, connect, e)
             else
               (let (ok, e) = alloc X (unat fsize) e in
                if \<not> ok
                then Some (- 1, connect, hive_set_error (HIVE_GENERAL_ERROR HIVEERR_OUT_OF_MEMORY) e)
                else
                  do {
                    c \<leftarrow> connect;
                    m \<leftarrow> ipfs_get_file_to_buffer_m c;
                    ((got, buf), d, e) \<leftarrow> m (the cid) decrypt (replicate (unat fsize) NUL) fsize
                       (conn_data c) e;
                    let connect = Some (c\<lparr>conn_data := d\<rparr>);
                    if neg got then Some (- 1, connect, hive_set_error (ssize_to_int got) e)
                    else if length buf < unat got then None
                    else
                      (let (nwr, e) = sys_write X (the to) (take (unat got) buf) e in
                       if nwr \<noteq> got
                       then (let e = hive_set_error (HIVE_SYS_ERROR (env_errno e)) e
                             in Some (- 1, connect, sys_unlink X (the to) e))
                       else Some (got, connect, e)) })) })"

subsection \<open>They meet the dispatch contract\<close>

definition put_args_ok :: "bytes option \<times> size_t \<times> bool \<times> string option \<Rightarrow> bool" where
  "put_args_ok = (\<lambda>(from, len, encrypt, filename).
     (from = None \<longrightarrow> len = 0) \<and> len \<le> HIVE_MAX_FILE_SIZE \<and> is_str filename)"

definition ipfs_put_args_ok :: "bytes option \<times> size_t \<times> bool \<times> bytes option \<Rightarrow> bool" where
  "ipfs_put_args_ok = (\<lambda>(from, len, encrypt, cid).
     (from = None \<longrightarrow> len = 0) \<and> len \<le> HIVE_MAX_FILE_SIZE \<and> cid \<noteq> None)"

definition get_args_ok :: "string option \<times> bool \<times> bytes option \<times> size_t \<Rightarrow> bool" where
  "get_args_ok = (\<lambda>(name, decrypt, to, buflen). is_str name \<and> to \<noteq> None \<and> buflen \<noteq> 0)"

interpretation put_buffer: dispatch
  "\<lambda>c (from, len, enc, name). hive_put_file_from_buffer c from len enc name" put_args_ok
  "\<lambda>c. map_option (\<lambda>m (from, len, enc, name). m from len enc (the name)) (put_file_from_buffer_m c)"
  neg neg id
  by unfold_locales
    (auto simp: hive_put_file_from_buffer_def put_args_ok_def Let_def Option.is_none_def not_less)

interpretation file_length: dispatch hive_get_file_length is_str
  "\<lambda>c. map_option (\<lambda>m name. m (the name)) (get_file_length_m c)" neg neg ssize_to_int
  by unfold_locales (auto simp: hive_get_file_length_def Let_def Option.is_none_def)

interpretation get_buffer: dispatch
  "\<lambda>c (name, dec, to, n). hive_get_file_to_buffer c name dec to n" get_args_ok
  "\<lambda>c. map_option (\<lambda>m (name, dec, to, n). m (the name) dec (the to) n) (get_file_to_buffer_m c)"
  "\<lambda>r. neg (fst r)" "\<lambda>r. neg (fst r)" "\<lambda>r. ssize_to_int (fst r)"
  by unfold_locales
    (auto simp: hive_get_file_to_buffer_def get_args_ok_def Let_def Option.is_none_def)

interpretation ipfs_put_buffer: dispatch
  "\<lambda>c (from, len, enc, cid). hive_ipfs_put_file_from_buffer c from len enc cid" ipfs_put_args_ok
  "\<lambda>c. map_option (\<lambda>m (from, len, enc, cid). m from len enc (the cid)) (ipfs_put_file_from_buffer_m c)"
  "\<lambda>r. neg (fst r)" "\<lambda>r. neg (fst r)" fst
  by unfold_locales
    (auto simp: hive_ipfs_put_file_from_buffer_def ipfs_put_args_ok_def Let_def Option.is_none_def not_less)

interpretation ipfs_length: dispatch hive_ipfs_get_file_length is_str
  "\<lambda>c. map_option (\<lambda>m name. m (the name)) (ipfs_get_file_length_m c)" neg neg ssize_to_int
  by unfold_locales (auto simp: hive_ipfs_get_file_length_def Let_def Option.is_none_def)

interpretation ipfs_get_buffer: dispatch
  "\<lambda>c (name, dec, to, n). hive_ipfs_get_file_to_buffer c name dec to n" get_args_ok
  "\<lambda>c. map_option (\<lambda>m (name, dec, to, n). m (the name) dec (the to) n) (ipfs_get_file_to_buffer_m c)"
  "\<lambda>r. neg (fst r)" "\<lambda>r. neg (fst r)" "\<lambda>r. ssize_to_int (fst r)"
  by unfold_locales
    (auto simp: hive_ipfs_get_file_to_buffer_def get_args_ok_def Let_def Option.is_none_def)

interpretation delete_file: dispatch hive_delete_file is_str
  "\<lambda>c. map_option (\<lambda>m name. m (the name)) (delete_file_m c)" neg neg id
  by unfold_locales (auto simp: hive_delete_file_def Let_def Option.is_none_def)

interpretation list_files: dispatch hive_list_files "\<lambda>cb. cb \<noteq> None"
  "\<lambda>c. map_option (\<lambda>m cb. m (the cb)) (list_files_m c)" neg neg id
  by unfold_locales (auto simp: hive_list_files_def Let_def Option.is_none_def)

subsection \<open>Reading a local file on a working system\<close>

lemma small_size:
  assumes "n < 2 ^ 63"
  shows "\<not> neg (word_of_nat n :: ssize_t)" "unat (word_of_nat n :: ssize_t) = n"
    "(word_of_nat n :: ssize_t) = 0 \<longleftrightarrow> n = 0"
proof -
  show u: "unat (word_of_nat n :: ssize_t) = n"
    using assms by (simp add: unat_of_nat)
  then have "unat (word_of_nat n :: ssize_t) < 2 ^ 63" using assms by simp
  then have "\<not> bit (word_of_nat n :: ssize_t) 63" using small_word_bit by blast
  then show "\<not> neg (word_of_nat n :: ssize_t)" by (simp add: neg_iff_bit)
  show "(word_of_nat n :: ssize_t) = 0 \<longleftrightarrow> n = 0" using u by auto
qed

lemma load_file_reliable:
  assumes "os_reliable X" "fs_lookup (env_fs e) from = Some (FFile bs)" "length bs \<le> 33554432"
  shows "\<exists>w. load_file X from e = (Some (bs, word_of_nat (length bs)), e\<lparr>env_world := w\<rparr>)"
proof -
  have "length bs < 2 ^ 63" using assms(3) by simp
  note sz = small_size [OF this]
  have "\<not> HIVE_MAX_FILE_SIZE < word_of_nat (length bs)"
    using assms(3) sz(2) by (simp add: word_less_nat_alt)
  moreover define w where
    "w = snd (os_alloc X (length bs) (snd (os_fault X SysLseek (snd (os_fault X SysOpen (env_world e))))))"
  moreover obtain w' where "sys_read X from (length bs) (e\<lparr>env_world := w\<rparr>) =
      (word_of_nat (length bs), bs, e\<lparr>env_world := w'\<rparr>)"
    using sys_read_reliable [OF assms(1), of "e\<lparr>env_world := w\<rparr>" "from" bs] assms(2) by auto
  ultimately show ?thesis
    using assms os_reliable_quiet [OF assms(1)] sz
    by (simp add: load_file_def sys_open_rd_def sys_lseek_end_def Let_def)
      (rule exI [of _ w'], simp)
qed

subsection \<open>Properties\<close>

text \<open>
  A file operation that returns a negative value has recorded a negative error code for
  hive_get_error.
\<close>

theorem file_ops_record_failures:
  "(hive_put_file_from_buffer connect from len encrypt name e = Some (rc, connect', e') \<longrightarrow> neg rc \<longrightarrow>
      neg (env_err e')) \<and>
   (hive_delete_file connect name e = Some (rc, connect', e') \<longrightarrow> neg rc \<longrightarrow> neg (env_err e')) \<and>
   (hive_list_files connect cb e = Some (rc, connect', e') \<longrightarrow> neg rc \<longrightarrow> neg (env_err e'))"
  using put_buffer.failure_recorded [of connect "(from, len, encrypt, name)" e rc connect' e']
    delete_file.failure_recorded [of connect name e rc connect' e']
    list_files.failure_recorded [of connect cb e rc connect' e']
  by simp

theorem file_ops_record_failures_witness:
  "neg (env_err (hive_set_error (HIVE_GENERAL_ERROR HIVEERR_INVALID_ARGS) sample_env))"
  using conjunct1 [OF file_ops_record_failures [of None None 0 False None sample_env "- 1" None
      "hive_set_error (HIVE_GENERAL_ERROR HIVEERR_INVALID_ARGS) sample_env" None]]
  by (simp add: hive_put_file_from_buffer_def Option.is_none_def)

definition sample_connect :: "(unit, unit) hive_connect" where
  \<comment> \<open>a backend that holds \<open>abc\<close> under every name, for the closed examples\<close>
  "sample_connect = (no_methods ())
     \<lparr>get_file_length_m := Some (\<lambda>name d e. Some (3, d, e)),
      get_file_to_buffer_m := Some (\<lambda>name dec buf n d e. Some ((3, ''abc'' @ drop 3 buf), d, e))\<rparr>"

text \<open>
  hive_put_file of a readable file of at most HIVE_MAX_FILE_SIZE bytes is
  hive_put_file_from_buffer of exactly the bytes of the file.
\<close>

theorem put_file_sends_the_file:
  assumes "os_reliable X" "fs_lookup (env_fs e) from = Some (FFile bs)" "length bs \<le> 33554432"
    and "from \<noteq> []" "name \<noteq> []"
  shows "\<exists>w. hive_put_file X (Some c) (Some from) encrypt (Some name) e =
    hive_put_file_from_buffer (Some c) (Some bs) (word_of_nat (length bs)) encrypt (Some name)
      (e\<lparr>env_world := w\<rparr>)"
  using load_file_reliable [OF assms(1-3)] assms(4,5)
  by (auto simp: hive_put_file_def Option.is_none_def)

theorem put_file_sends_the_file_witness:
  "\<exists>w. hive_put_file sample_os (Some sample_connect) (Some ''/f'') False (Some ''r'')
      (sample_env\<lparr>env_fs := [''/f'' \<mapsto> FFile ''hi'']\<rparr>) =
    hive_put_file_from_buffer (Some sample_connect) (Some ''hi'') 2 False (Some ''r'')
      (sample_env\<lparr>env_fs := [''/f'' \<mapsto> FFile ''hi''], env_world := w\<rparr>)"
  using put_file_sends_the_file [OF sample_reliable,
      of "sample_env\<lparr>env_fs := [''/f'' \<mapsto> FFile ''hi'']\<rparr>" "''/f''" "''hi''" "''r''" sample_connect False]
  by (simp add: fs_lookup_def fs_key_def)

end
