(* ===== verification/Hive_Key.thy ===== *)
theory Hive_Key
  imports Hive_Client
begin

text \<open>
  \<open>src/hive_key.c\<close>: the key-value operations of the interface, each an instance of the locale
  \<open>dispatch\<close>, and \<open>hive_set_access_token_expired\<close>.
\<close>

definition hive_put_value ::
    "('c, 'w) hive_connect option \<Rightarrow> string option \<Rightarrow> bytes option \<Rightarrow> size_t \<Rightarrow> bool \<Rightarrow> 'w env
      \<Rightarrow> (c_int \<times> ('c, 'w) hive_connect option \<times> 'w env) option" where
  "hive_put_value connect key val len encrypt e =
     (if Option.is_none connect \<or> \<not> is_str key \<or> val = None \<or> len = 0 \<or> len > HIVE_MAX_VALUE_LEN
      then Some (- 1, connect, hive_set_error (HIVE_GENERAL_ERROR HIVEERR_INVALID_ARGS) e)
      else
        (let c = the connect in
         case put_value_m c of
           None \<Rightarrow> Some (- 1, connect, hive_set_error (HIVE_GENERAL_ERROR HIVEERR_NOT_SUPPORTED) e)
         | Some m \<Rightarrow>
             do { (rc, d, e) \<leftarrow> m (the key) (the val) len encrypt (conn_data c) e;
                  let connect = Some (c\<lparr>conn_data := d\<rparr>);
                  if neg rc then Some (- 1, connect, hive_set_error rc e) else Some (0, connect, e) }))"

definition hive_set_value ::
    "('c, 'w) hive_connect option \<Rightarrow> string option \<Rightarrow> bytes option \<Rightarrow> size_t \<Rightarrow> bool \<Rightarrow> 'w env
      \<Rightarrow> (c_int \<times> ('c, 'w) hive_connect option \<times> 'w env) option" where
  "hive_set_value connect key val len encrypt e =
     (if Option.is_none connect \<or> \<not> is_str key \<or> val = None \<or> len = 0 \<or> len > HIVE_MAX_VALUE_LEN
      then Some (- 1, connect, hive_set_error (HIVE_GENERAL_ERROR HIVEERR_INVALID_ARGS) e)
      else
        (let c = the connect in
         case set_value_m c of
           None \<Rightarrow> Some (- 1, connect, hive_set_error (HIVE_GENERAL_ERROR HIVEERR_NOT_SUPPORTED) e)
         | Some m \<Rightarrow>
             do { (rc, d, e) \<leftarrow> m (the key) (the val) len encrypt (conn_data c) e;
                  let connect = Some (c\<lparr>conn_data := d\<rparr>);
                  if neg rc then Some (- 1, connect, hive_set_error rc e) else Some (0, connect, e) }))"

definition hive_get_values ::
    "('c, 'w) hive_connect option \<Rightarrow> string option \<Rightarrow> bool \<Rightarrow> 'w values_cb option \<Rightarrow> 'w env
      \<Rightarrow> (c_int \<times> ('c, 'w) hive_connect option \<times> 'w env) option" where
  "hive_get_values connect key decrypt callback e =
     (if Option.is_none connect \<or> \<not> is_str key \<or> Option.is_none callback
      then Some (- 1, connect, hive_set_error (HIVE_GENERAL_ERROR HIVEERR_INVALID_ARGS) e)
      else
        (let c = the connect in
         case get_values_m c of
           None \<Rightarrow> Some (- 1, connect, hive_set_error (HIVE_GENERAL_ERROR HIVEERR_NOT_SUPPORTED) e)
         | Some m \<Rightarrow>
             do { (rc, d, e) \<leftarrow> m (the key) decrypt (the callback) (conn_data c) e;
                  let connect = Some (c\<lparr>conn_data := d\<rparr>);
                  if neg rc then Some (- 1, connect, hive_set_error rc e) else Some (0, connect, e) }))"

definition hive_delete_key ::
    "('c, 'w) hive_connect option \<Rightarrow> string option \<Rightarrow> 'w env
      \<Rightarrow> (c_int \<times> ('c, 'w) hive_connect option \<times> 'w env) option" where
  "hive_delete_key connect key e =
     (if Option.is_none connect \<or> \<not> is_str key
      then Some (- 1, connect, hive_set_error (HIVE_GENERAL_ERROR HIVEERR_INVALID_ARGS) e)
      else
        (let c = the connect in
         case delete_key_m c of
           None \<Rightarrow> Some (- 1, connect, hive_set_error (HIVE_GENERAL_ERROR HIVEERR_NOT_SUPPORTED) e)
         | Some m \<Rightarrow>
             do { (rc, d, e) \<leftarrow> m (the key) (conn_data c) e;
                  let connect = Some (c\<lparr>conn_data := d\<rparr>);
                  if neg rc then Some (- 1, connect, hive_set_error rc e) else Some (0, connect, e) }))"

definition hive_set_access_token_expired ::
    "('c, 'w) hive_connect option \<Rightarrow> 'w env \<Rightarrow> (c_int \<times> ('c, 'w) hive_connect option \<times> 'w env) option" where
  "hive_set_access_token_expired connect e =
     (case connect of
        None \<Rightarrow> Some (- 1, connect, hive_set_error (HIVE_GENERAL_ERROR HIVEERR_INVALID_ARGS) e)
      | Some c \<Rightarrow>
          (case expire_token_m c of
             None \<Rightarrow> Some (0, connect, e)
           | Some m \<Rightarrow>
               do { (rc, d, e) \<leftarrow> m (conn_data c) e;
                    let connect = Some (c\<lparr>conn_data := d\<rparr>);
                    if neg rc then Some (- 1, connect, hive_set_error rc e) else Some (0, connect, e) }))"

subsection \<open>They meet the dispatch contract\<close>

definition value_args_ok :: "string option \<times> bytes option \<times> size_t \<times> bool \<Rightarrow> bool" where
  "value_args_ok = (\<lambda>(key, val, len, encrypt).
     is_str key \<and> val \<noteq> None \<and> len \<noteq> 0 \<and> len \<le> HIVE_MAX_VALUE_LEN)"

interpretation put_value: dispatch
  "\<lambda>c (key, val, len, enc). hive_put_value c key val len enc" value_args_ok
  "\<lambda>c. map_option (\<lambda>m (key, val, len, enc). m (the key) (the val) len enc) (put_value_m c)" neg neg id
  by unfold_locales
    (auto simp: hive_put_value_def value_args_ok_def Let_def Option.is_none_def not_less)

interpretation set_value: dispatch
  "\<lambda>c (key, val, len, enc). hive_set_value c key val len enc" value_args_ok
  "\<lambda>c. map_option (\<lambda>m (key, val, len, enc). m (the key) (the val) len enc) (set_value_m c)" neg neg id
  by unfold_locales
    (auto simp: hive_set_value_def value_args_ok_def Let_def Option.is_none_def not_less)

interpretation get_values: dispatch
  "\<lambda>c (key, dec, cb). hive_get_values c key dec cb" "\<lambda>(key, dec, cb). is_str key \<and> cb \<noteq> None"
  "\<lambda>c. map_option (\<lambda>m (key, dec, cb). m (the key) dec (the cb)) (get_values_m c)" neg neg id
  by unfold_locales (auto simp: hive_get_values_def Let_def Option.is_none_def)

interpretation delete_key: dispatch hive_delete_key is_str
  "\<lambda>c. map_option (\<lambda>m key. m (the key)) (delete_key_m c)" neg neg id
  by unfold_locales (auto simp: hive_delete_key_def Let_def Option.is_none_def)

subsection \<open>Properties\<close>

text \<open>
  A key-value operation that returns a negative value has recorded a negative error code.
\<close>

theorem key_ops_record_failures:
  "(hive_put_value connect key val len encrypt e = Some (rc, connect', e') \<longrightarrow> neg rc \<longrightarrow> neg (env_err e')) \<and>
   (hive_set_value connect key val len encrypt e = Some (rc, connect', e') \<longrightarrow> neg rc \<longrightarrow> neg (env_err e')) \<and>
   (hive_get_values connect key decrypt cb e = Some (rc, connect', e') \<longrightarrow> neg rc \<longrightarrow> neg (env_err e')) \<and>
   (hive_delete_key connect key e = Some (rc, connect', e') \<longrightarrow> neg rc \<longrightarrow> neg (env_err e'))"
  using put_value.failure_recorded [of connect "(key, val, len, encrypt)" e rc connect' e']
    set_value.failure_recorded [of connect "(key, val, len, encrypt)" e rc connect' e']
    get_values.failure_recorded [of connect "(key, decrypt, cb)" e rc connect' e']
    delete_key.failure_recorded [of connect key e rc connect' e']
  by simp

theorem key_ops_record_failures_witness:
  "neg (env_err (hive_set_error (HIVE_GENERAL_ERROR HIVEERR_NOT_SUPPORTED) sample_env))"
  using conjunct1 [OF key_ops_record_failures [of "Some (no_methods ())" "Some ''k''" "Some ''v''" 1 False
      sample_env "- 1" "Some (no_methods ())"
      "hive_set_error (HIVE_GENERAL_ERROR HIVEERR_NOT_SUPPORTED) sample_env"]]
  by (simp add: hive_put_value_def Option.is_none_def no_methods_def)

text \<open>
  hive_put_value returns 0 only when the connection has the method, the key is not empty, the
  value has 1 to HIVE_MAX_VALUE_LEN bytes and the method was called with them and did not fail.
\<close>

theorem put_value_reaches_the_backend:
  assumes "hive_put_value connect key val len encrypt e = Some (0, connect', e')"
  shows "\<exists>c m k v d rc. connect = Some c \<and> put_value_m c = Some m \<and> key = Some k \<and> k \<noteq> [] \<and> val = Some v \<and>
    0 < len \<and> len \<le> HIVE_MAX_VALUE_LEN \<and> m k v len encrypt (conn_data c) e = Some (rc, d, e') \<and>
    \<not> neg rc \<and> connect' = Some (c\<lparr>conn_data := d\<rparr>)"
  using put_value.success_is_the_backends [of connect "(key, val, len, encrypt)" e 0 connect' e'] assms
  by (auto simp: value_args_ok_def word_neq_0_conv elim!: is_strE)

definition sample_putter :: "(unit, unit) hive_connect" where
  \<comment> \<open>a backend that accepts every value, for the closed example\<close>
  "sample_putter = (no_methods ())\<lparr>put_value_m := Some (\<lambda>k v n enc d e. Some (0, d, e))\<rparr>"

theorem put_value_reaches_the_backend_witness:
  "\<exists>c m k v d rc. Some sample_putter = Some c \<and> put_value_m c = Some m \<and> Some ''k'' = Some k \<and> k \<noteq> [] \<and>
    Some ''v'' = Some v \<and> 0 < (1 :: size_t) \<and> 1 \<le> HIVE_MAX_VALUE_LEN \<and>
    m k v 1 False (conn_data c) sample_env = Some (rc, d, sample_env) \<and> \<not> neg rc \<and>
    Some sample_putter = Some (c\<lparr>conn_data := d\<rparr>)"
  by (rule put_value_reaches_the_backend)
    (simp add: hive_put_value_def Option.is_none_def sample_putter_def no_methods_def)

end
