(* ===== verification/Sandbird_Util.thy ===== *)
theory Sandbird_Util
  imports Hive_Ext "HOL-Library.Monad_Syntax"
begin

text \<open>
  The string utilities of \<open>src/sandbird/sandbird.c\<close>, the small HTTP server that receives the OAuth
  redirect. A pointer into a C string is the list of the characters from it to the terminator. A
  loop that may stand still is a \<open>partial_function\<close>: \<open>None\<close> is a call that never returns.
\<close>

abbreviation (input) SB_ESUCCESS :: c_int where "SB_ESUCCESS \<equiv> 0"
abbreviation (input) SB_EFAILURE :: c_int where "SB_EFAILURE \<equiv> - 1"
abbreviation (input) SB_EOUTOFMEM :: c_int where "SB_EOUTOFMEM \<equiv> - 2"
abbreviation (input) SB_ETRUNCATED :: c_int where "SB_ETRUNCATED \<equiv> - 3"
abbreviation (input) SB_EBADSTATE :: c_int where "SB_EBADSTATE \<equiv> - 4"
abbreviation (input) SB_EBADRESULT :: c_int where "SB_EBADRESULT \<equiv> - 5"
abbreviation (input) SB_ECANTOPEN :: c_int where "SB_ECANTOPEN \<equiv> - 6"
abbreviation (input) SB_ENOTFOUND :: c_int where "SB_ENOTFOUND \<equiv> - 7"
abbreviation (input) SB_EFDTOOBIG :: c_int where "SB_EFDTOOBIG \<equiv> - 8"

abbreviation (input) CR :: char where "CR \<equiv> CHR 0x0D"
abbreviation (input) LF :: char where "LF \<equiv> CHR 0x0A"
abbreviation (input) TAB :: char where "TAB \<equiv> CHR 0x09"
abbreviation (input) SP :: char where "SP \<equiv> CHR '' ''"

subsection \<open>Characters\<close>

definition ccode :: "char \<Rightarrow> nat" where
  "ccode c = of_char c"

definition is_digit :: "char \<Rightarrow> bool" where
  "is_digit c \<longleftrightarrow> 48 \<le> ccode c \<and> ccode c \<le> 57"

definition is_space :: "char \<Rightarrow> bool" where
  "is_space c \<longleftrightarrow> c = SP \<or> 9 \<le> ccode c \<and> ccode c \<le> 13"

definition to_lower :: "char \<Rightarrow> char" where
  "to_lower c = (if 65 \<le> ccode c \<and> ccode c \<le> 90 then char_of (ccode c + 32) else c)"

definition schar :: "char \<Rightarrow> int" where
  \<comment> \<open>a \<open>char\<close> promoted to \<open>int\<close>\<close>
  "schar c = (if ccode c < 128 then int (ccode c) else int (ccode c) - 256)"

fun digits_val :: "nat \<Rightarrow> string \<Rightarrow> nat" where
  "digits_val acc [] = acc"
| "digits_val acc (c # cs) = (if is_digit c then digits_val (acc * 10 + (ccode c - 48)) cs else acc)"

definition str_to_uint :: "string option \<Rightarrow> c_uint" where
  \<comment> \<open>\<open>sscanf(str, "%u", &n)\<close>: blanks, a sign, digits; the value goes through \<open>strtoul\<close>\<close>
  "str_to_uint str =
     (case str of
        None \<Rightarrow> 0
      | Some s \<Rightarrow>
          (let s = dropWhile is_space s;
               minus = (s \<noteq> [] \<and> hd s = CHR ''-'');
               s = (if s \<noteq> [] \<and> (hd s = CHR ''-'' \<or> hd s = CHR ''+'') then tl s else s)
           in if s = [] \<or> \<not> is_digit (hd s) then 0
              else if digits_val 0 s \<ge> 2 ^ 64 then - 1
              else if minus then - word_of_nat (digits_val 0 s) else word_of_nat (digits_val 0 s)))"

definition hex_to_int :: "char \<Rightarrow> int" where
  "hex_to_int chr = (if is_digit chr then schar chr - 48 else schar (to_lower chr) - 97 + 10)"

definition hex_byte :: "char \<Rightarrow> char \<Rightarrow> char" where
  \<comment> \<open>\<open>(char)((hex_to_int(a) << 4) | hex_to_int(b))\<close>\<close>
  "hex_byte a b = char_of (nat ((push_bit 4 (hex_to_int a) OR hex_to_int b) mod 256))"

subsection \<open>URL decoding\<close>

definition url_stop :: "char list" where
  "url_stop = [CHR ''?'', CHR ''&'', SP, TAB, CR, LF]"

fun url_decode_loop :: "string \<Rightarrow> nat \<Rightarrow> string \<times> nat" where
  \<comment> \<open>what is written before the terminator, and what is left of \<open>len\<close>\<close>
  "url_decode_loop [] len = ([], len)"
| "url_decode_loop (c # cs) len =
     (if c \<in> set url_stop \<or> len = 0 then ([], len)
      else
        (let (out, src) =
           (if c = CHR ''%'' \<and> length cs \<ge> 2 then (hex_byte (cs ! 0) (cs ! 1), drop 2 cs)
            else if c = CHR ''+'' then (SP, cs) else (c, cs))
         in case url_decode_loop src (len - 1) of (dst, len) \<Rightarrow> (out # dst, len)))"

definition url_decode :: "string \<Rightarrow> size_t \<Rightarrow> bytes \<times> c_int" where
  \<comment> \<open>the bytes stored in \<open>dst\<close>, terminator left out, and the result\<close>
  "url_decode src len =
     (case url_decode_loop src (unat (len - 1)) of
        (dst, left) \<Rightarrow> (dst, if left = 0 then SB_ETRUNCATED else SB_ESUCCESS))"

subsection \<open>Searching\<close>

definition mem_equal :: "string \<Rightarrow> string \<Rightarrow> bool" where
  \<comment> \<open>\<open>mem_equal(str, lit, strlen(lit))\<close>: the terminator of \<open>str\<close> differs from every character of
     the literal, so the comparison stops there\<close>
  "mem_equal s lit \<longleftrightarrow> take (length lit) s = lit"

definition mem_case_equal :: "string \<Rightarrow> string \<Rightarrow> bool" where
  "mem_case_equal s lit \<longleftrightarrow> map to_lower (take (length lit) s) = map to_lower lit"

definition char_at :: "string \<Rightarrow> nat \<Rightarrow> char" where
  \<comment> \<open>\<open>str[n]\<close> for \<open>n\<close> up to the terminator\<close>
  "char_at s n = (if n < length s then s ! n else NUL)"

definition strcspn :: "string \<Rightarrow> char list \<Rightarrow> nat" where
  "strcspn s reject = length (takeWhile (\<lambda>c. c \<notin> set reject) s)"

definition strspn :: "string \<Rightarrow> char list \<Rightarrow> nat" where
  "strspn s accept = length (takeWhile (\<lambda>c. c \<in> set accept) s)"

partial_function (option) find_header_value :: "string \<Rightarrow> string \<Rightarrow> string option option" where
  "find_header_value str field =
     (if str = [] \<or> mem_equal str [CR, LF] then Some None
      else if mem_case_equal str field \<and> char_at str (length field) = CHR '':''
      then (let str = drop (length field + 1) str in Some (Some (drop (strspn str [SP, TAB]) str)))
      else
        (let str = drop (strcspn str [CR]) str in
         find_header_value (if mem_equal str [CR, LF] then drop 2 str else str) field))"

function find_var_value :: "string \<Rightarrow> string \<Rightarrow> string option" where
  "find_var_value str name =
     (if mem_equal str name \<and> char_at str (length name) = CHR ''='' then Some (drop (length name + 1) str)
      else
        (let str = drop (strcspn str [CHR ''&'', SP, TAB, CR, LF]) str in
         if str = [] \<or> hd str \<noteq> CHR ''&'' then None else find_var_value (tl str) name))"
  by pat_completeness auto
termination
proof (relation "measure (\<lambda>(str, name). length str)", goal_cases)
  case (2 str name str')
  then have "length str' \<le> length str" "str' \<noteq> []" by auto
  then show ?case by (cases str') auto
qed simp

declare find_var_value.simps [simp del]

definition sb_error_str :: "c_int \<Rightarrow> string" where
  "sb_error_str c =
     (if c = SB_ESUCCESS then ''success'' else if c = SB_EFAILURE then ''failure''
      else if c = SB_EOUTOFMEM then ''out of memory'' else if c = SB_ETRUNCATED then ''result truncated''
      else if c = SB_EBADSTATE then ''bad stream state for this operation''
      else if c = SB_EBADRESULT then ''bad result code from event handler''
      else if c = SB_ECANTOPEN then ''cannot open file'' else if c = SB_ENOTFOUND then ''not found''
      else if c = SB_EFDTOOBIG then ''got socket fd larger than FD_SETSIZE'' else ''unknown'')"

subsection \<open>Lemmas\<close>

lemma url_decode_loop_length:
  "url_decode_loop src len = (dst, left) \<Longrightarrow> length dst + left = len"
  by (induction src len arbitrary: dst left rule: url_decode_loop.induct)
    (auto split: if_splits prod.splits)

lemma strcspn_le [simp]: "strcspn s r \<le> length s"
  by (simp add: strcspn_def length_takeWhile_le)

lemma to_lower_CR: "to_lower c = CR \<Longrightarrow> c = CR"
  by (auto simp: to_lower_def ccode_def split: if_splits dest: arg_cong [where f = "of_char :: char \<Rightarrow> nat"])

lemma no_match_at_CR:
  assumes "field \<noteq> []" "CR \<notin> set field"
  shows "\<not> mem_case_equal (CR # s) field"
proof
  assume "mem_case_equal (CR # s) field"
  then have "to_lower (hd field) = to_lower CR"
    using assms(1) by (cases field) (auto simp: mem_case_equal_def)
  also have "to_lower CR = CR" by (simp add: to_lower_def ccode_def)
  finally have "hd field = CR" by (rule to_lower_CR)
  then show False using assms by (cases field) auto
qed

lemma find_header_value_lone_cr:
  assumes "find_header_value str field = Some r"
  shows "field \<noteq> [] \<longrightarrow> CR \<notin> set field \<longrightarrow> \<not> mem_equal str [CR, LF] \<longrightarrow> str = [] \<or> hd str \<noteq> CR"
proof (rule find_header_value.raw_induct [OF _ assms], intro impI, rule ccontr, goal_cases)
  case (1 fhv str field r)
  then obtain s where str: "str = CR # s" by (cases str) auto
  with 1 have "fhv str field = Some r"
    using no_match_at_CR [of field s] by (simp add: strcspn_def Let_def)
  with 1 show ?case by blast
qed

subsection \<open>Decoding undoes percent-encoding\<close>

definition hex_digit :: "nat \<Rightarrow> char" where
  "hex_digit n = (if n < 10 then char_of (48 + n) else char_of (55 + n))"

definition unreserved :: "char \<Rightarrow> bool" where
  "unreserved c \<longleftrightarrow>
     is_digit c \<or> 65 \<le> ccode c \<and> ccode c \<le> 90 \<or> 97 \<le> ccode c \<and> ccode c \<le> 122"

definition percent_encode :: "char \<Rightarrow> string" where
  \<comment> \<open>what a client does with a character of a query value\<close>
  "percent_encode c =
     (if unreserved c then [c]
      else [CHR ''%'', hex_digit (ccode c div 16), hex_digit (ccode c mod 16)])"

lemma unreserved_plain: "unreserved c \<Longrightarrow> c \<notin> set url_stop \<and> c \<noteq> CHR ''%'' \<and> c \<noteq> CHR ''+''"
  by (auto simp: unreserved_def is_digit_def ccode_def url_stop_def)

lemma small_nat_bit:
  fixes b :: nat
  assumes "b < 2 ^ k" "bit b n"
  shows "n < k"
proof -
  have "take_bit k b = b" using assms(1) by (simp add: take_bit_nat_eq_self)
  then show ?thesis using assms(2) by (metis bit_take_bit_iff)
qed

lemma hex_to_int_digit:
  assumes "n < 16"
  shows "hex_to_int (hex_digit n) = int n"
proof -
  have "n \<in> set [0..<16]" using assms by simp
  then show ?thesis
    by (auto simp: upt_conv_Cons hex_digit_def hex_to_int_def is_digit_def ccode_def schar_def to_lower_def)
qed

lemma nibbles:
  assumes "b < 16"
  shows "push_bit 4 (int a) OR int b = int (16 * a + b)"
proof -
  have "bit (int b) n \<Longrightarrow> n < 4" for n
    using assms small_nat_bit [of b 4 n] by (simp add: bit_of_nat_iff_bit)
  then have "push_bit 4 (int a) AND int b = 0"
    by (intro bit_eqI) (force simp: bit_simps not_le[symmetric])
  then show ?thesis
    using plus_and_or [of "push_bit 4 (int a)" "int b"] by (simp add: push_bit_eq_mult)
qed

lemma hex_byte_digits: "hex_byte (hex_digit (ccode c div 16)) (hex_digit (ccode c mod 16)) = c"
proof -
  have "ccode c < 256" by (simp add: ccode_def)
  then have "ccode c div 16 < 16" by simp
  moreover have "16 * (ccode c div 16) + ccode c mod 16 = ccode c" by simp
  moreover have "nat (int (ccode c) mod 256) = ccode c" using \<open>ccode c < 256\<close> by simp
  ultimately show ?thesis
    using nibbles [of "ccode c mod 16" "ccode c div 16"]
    by (simp only: hex_byte_def hex_to_int_digit mod_less_divisor zero_less_numeral) (simp add: ccode_def)
qed

lemma url_decode_loop_encode:
  assumes "rest = [] \<or> hd rest \<in> set url_stop"
  shows "length s \<le> len \<Longrightarrow>
    url_decode_loop (concat (map percent_encode s) @ rest) len = (s, len - length s)"
proof (induction s arbitrary: len)
  case Nil
  then show ?case using assms by (cases rest) auto
next
  case (Cons c s)
  then obtain n where "len = Suc n" by (cases len) auto
  moreover have "CHR ''%'' \<notin> set url_stop" by (simp add: url_stop_def)
  ultimately show ?case
    using Cons unreserved_plain [of c] by (simp add: percent_encode_def hex_byte_digits)
qed

lemma url_decode_fits:
  assumes "url_decode src len = (dst, r)" "len \<noteq> 0"
  shows "length dst < unat len"
proof -
  obtain left where "url_decode_loop src (unat (len - 1)) = (dst, left)"
    using assms(1) by (auto simp: url_decode_def split: prod.splits)
  from url_decode_loop_length [OF this] have "length dst \<le> unat len - 1"
    using assms(2) by (simp add: unat_minus_one)
  moreover have "0 < unat len" using assms(2) by (simp add: unat_gt_0)
  ultimately show ?thesis by simp
qed

text \<open>
  C23: url_decode of a percent-encoded text gives the text back and stops at a separator or the
  end; it reports truncation exactly when the text fills the buffer to the last byte, although
  nothing is lost then.
\<close>

theorem url_decode_roundtrip:
  assumes "length s + 1 < 2 ^ 64" "length s < unat len" "rest = [] \<or> hd rest \<in> set url_stop"
  shows "url_decode (concat (map percent_encode s) @ rest) len =
    (s, if length s + 1 = unat len then SB_ETRUNCATED else SB_ESUCCESS)"
proof -
  have "len \<noteq> 0" using assms(2) by auto
  then have "unat (len - 1) = unat len - 1" by (simp add: unat_minus_one)
  then show ?thesis
    using url_decode_loop_encode [OF assms(3), of s "unat len - 1"] assms(2)
    by (auto simp: url_decode_def)
qed

text \<open>
  C22: With a buffer of at least one byte, url_decode never stores more than the buffer holds,
  terminator included.
\<close>

theorem url_decode_in_bounds:
  assumes "len \<noteq> 0"
  shows "length (fst (url_decode src len)) < unat len"
  using url_decode_fits [OF surjective_pairing assms] .

theorem url_decode_roundtrip_witness:
  "url_decode (concat (map percent_encode ''a/ b'') @ ''&x'') 16 = (''a/ b'', SB_ESUCCESS)"
  using url_decode_roundtrip [of "''a/ b''" 16 "''&x''"] by (simp add: url_stop_def)

theorem url_decode_in_bounds_witness: "length (fst (url_decode ''abcdef'' 4)) < 4"
  using url_decode_in_bounds [of 4 "''abcdef''"] by simp

end
