(* ===== verification/Sandbird_Buffer.thy ===== *)
theory Sandbird_Buffer
  imports Sandbird_Util
begin

text \<open>
  The growing buffer of \<open>src/sandbird/sandbird.c\<close>. Sizes are natural numbers: the capacity doubles only
  while the allocator grants the block, which it never does beyond half of the address space, so
  the C arithmetic does not wrap. Under \<open>buf_ok\<close> every store is inside the block.
\<close>

record sb_buffer =
  sb_s :: bytes
  sb_len :: nat
  sb_cap :: nat

definition sb_buffer_init :: sb_buffer where
  "sb_buffer_init = \<lparr>sb_s = [], sb_len = 0, sb_cap = 0\<rparr>"

definition sb_buffer_shift :: "sb_buffer \<Rightarrow> nat \<Rightarrow> sb_buffer" where
  \<comment> \<open>\<open>memmove(s, s + n, len - n)\<close>\<close>
  "sb_buffer_shift b n =
     (let l = sb_len b - n
      in b\<lparr>sb_len := l, sb_s := take l (drop n (sb_s b)) @ drop l (sb_s b)\<rparr>)"

definition sb_buffer_reserve ::
    "('w, 'a) os_scheme \<Rightarrow> sb_buffer \<Rightarrow> nat \<Rightarrow> 'w env \<Rightarrow> c_int \<times> sb_buffer \<times> 'w env" where
  "sb_buffer_reserve X b n e =
     (if sb_cap b \<ge> n then (SB_ESUCCESS, b, e)
      else
        (let (ok, e) = alloc X n e in
         if \<not> ok then (SB_EOUTOFMEM, b, e)
         else (SB_ESUCCESS, b\<lparr>sb_s := realloc_bytes X (sb_s b) n (env_world e), sb_cap := n\<rparr>, e)))"

definition sb_buffer_push_char ::
    "('w, 'a) os_scheme \<Rightarrow> sb_buffer \<Rightarrow> char \<Rightarrow> 'w env \<Rightarrow> c_int \<times> sb_buffer \<times> 'w env" where
  "sb_buffer_push_char X b chr e =
     (let (err, b, e) = (if sb_len b = sb_cap b
           then sb_buffer_reserve X b (if sb_cap b = 0 then 1 else 2 * sb_cap b) e
           else (SB_ESUCCESS, b, e)) in
      if err \<noteq> SB_ESUCCESS then (err, b, e)
      else (SB_ESUCCESS, b\<lparr>sb_s := (sb_s b)[sb_len b := chr], sb_len := sb_len b + 1\<rparr>, e))"

fun push_chars ::
    "('w, 'a) os_scheme \<Rightarrow> sb_buffer \<Rightarrow> bytes \<Rightarrow> 'w env \<Rightarrow> c_int \<times> sb_buffer \<times> 'w env" where
  \<comment> \<open>the loop of \<open>sb_buffer_push_str\<close>\<close>
  "push_chars X b [] e = (SB_ESUCCESS, b, e)"
| "push_chars X b (c # cs) e =
     (let (err, b, e) = sb_buffer_push_char X b c e in
      if err \<noteq> SB_ESUCCESS then (err, b, e) else push_chars X b cs e)"

definition sb_buffer_push_str ::
    "('w, 'a) os_scheme \<Rightarrow> sb_buffer \<Rightarrow> bytes \<Rightarrow> 'w env \<Rightarrow> c_int \<times> sb_buffer \<times> 'w env" where
  "sb_buffer_push_str X b p e =
     (let (err, b', e) = push_chars X b p e in
      if err \<noteq> SB_ESUCCESS then (err, b'\<lparr>sb_len := sb_len b\<rparr>, e) else (SB_ESUCCESS, b', e))"

datatype fmt_item = FChar char | FStr "string option" | FOut string

text \<open>
  A format string with its arguments is the list of what it pushes: a character copied from the
  format, the argument of \<open>%s\<close>, or the text \<open>sprintf\<close> made of another conversion.
\<close>

fun push_items ::
    "('w, 'a) os_scheme \<Rightarrow> sb_buffer \<Rightarrow> fmt_item list \<Rightarrow> 'w env \<Rightarrow> c_int \<times> sb_buffer \<times> 'w env" where
  "push_items X b [] e = (SB_ESUCCESS, b, e)"
| "push_items X b (it # its) e =
     (let (err, b, e) = (case it of
           FChar c \<Rightarrow> sb_buffer_push_char X b c e
         | FStr None \<Rightarrow> sb_buffer_push_str X b ''(null)'' e
         | FStr (Some s) \<Rightarrow> sb_buffer_push_str X b s e
         | FOut s \<Rightarrow> sb_buffer_push_str X b s e) in
      if err \<noteq> SB_ESUCCESS then (err, b, e) else push_items X b its e)"

definition sb_buffer_vwritef ::
    "('w, 'a) os_scheme \<Rightarrow> sb_buffer \<Rightarrow> fmt_item list \<Rightarrow> 'w env \<Rightarrow> c_int \<times> sb_buffer \<times> 'w env" where
  "sb_buffer_vwritef X b fmt e =
     (let (err, b', e) = push_items X b fmt e in
      if err \<noteq> SB_ESUCCESS then (err, b'\<lparr>sb_len := sb_len b\<rparr>, e) else (SB_ESUCCESS, b', e))"

abbreviation (input) sb_buffer_writef ::
    "('w, 'a) os_scheme \<Rightarrow> sb_buffer \<Rightarrow> fmt_item list \<Rightarrow> 'w env \<Rightarrow> c_int \<times> sb_buffer \<times> 'w env" where
  \<comment> \<open>the variadic form, which packs its arguments into the list\<close>
  "sb_buffer_writef \<equiv> sb_buffer_vwritef"

definition sb_buffer_null_terminate ::
    "('w, 'a) os_scheme \<Rightarrow> sb_buffer \<Rightarrow> 'w env \<Rightarrow> c_int \<times> sb_buffer \<times> 'w env" where
  "sb_buffer_null_terminate X b e =
     (let (err, b, e) = sb_buffer_push_char X b NUL e in
      if err \<noteq> SB_ESUCCESS then (err, b, e) else (SB_ESUCCESS, b\<lparr>sb_len := sb_len b - 1\<rparr>, e))"

subsection \<open>What a buffer holds\<close>

definition buf_ok :: "sb_buffer \<Rightarrow> bool" where
  "buf_ok b \<longleftrightarrow> sb_len b \<le> sb_cap b \<and> length (sb_s b) = sb_cap b"

definition buf_bytes :: "sb_buffer \<Rightarrow> bytes" where
  "buf_bytes b = take (sb_len b) (sb_s b)"

fun item_text :: "fmt_item \<Rightarrow> bytes" where
  "item_text (FChar c) = [c]"
| "item_text (FStr None) = ''(null)''"
| "item_text (FStr (Some s)) = s"
| "item_text (FOut s) = s"

text \<open>
  Every append is atomic: it succeeds and the text is behind what was there, or it fails for lack
  of memory and the content is what it was. The locale states this for any appending operation.
\<close>

definition appended :: "sb_buffer \<Rightarrow> bytes \<Rightarrow> c_int \<times> sb_buffer \<times> 'w env \<Rightarrow> bool" where
  "appended b p r = (case r of (err, b', e) \<Rightarrow> buf_ok b' \<and>
     (err = SB_ESUCCESS \<and> buf_bytes b' = buf_bytes b @ p \<or> err = SB_EOUTOFMEM \<and> buf_bytes b' = buf_bytes b))"

locale appender =
  fixes push :: "sb_buffer \<Rightarrow> 'x \<Rightarrow> 'w env \<Rightarrow> c_int \<times> sb_buffer \<times> 'w env"
    and added :: "'x \<Rightarrow> bytes"
  assumes atomic: "buf_ok b \<Longrightarrow> appended b (added x) (push b x e)"
begin

lemma push_success:
  "buf_ok b \<Longrightarrow> push b x e = (SB_ESUCCESS, b', e') \<Longrightarrow> buf_ok b' \<and> buf_bytes b' = buf_bytes b @ added x"
  using atomic [of b x e] by (auto simp: appended_def)

lemma push_failure:
  "buf_ok b \<Longrightarrow> push b x e = (err, b', e') \<Longrightarrow> err \<noteq> SB_ESUCCESS \<Longrightarrow>
     err = SB_EOUTOFMEM \<and> buf_ok b' \<and> buf_bytes b' = buf_bytes b"
  using atomic [of b x e] by (auto simp: appended_def)

lemma push_ok: "buf_ok b \<Longrightarrow> push b x e = (err, b', e') \<Longrightarrow> buf_ok b'"
  using atomic [of b x e] by (auto simp: appended_def)

end

lemma reserve_cases:
  assumes "buf_ok b" "sb_buffer_reserve X b n e = (err, b', e')"
  shows "buf_ok b' \<and> buf_bytes b' = buf_bytes b \<and> sb_len b' = sb_len b \<and>
    (err = SB_ESUCCESS \<and> n \<le> sb_cap b' \<or> err = SB_EOUTOFMEM)"
  using assms
  by (auto simp: sb_buffer_reserve_def buf_ok_def buf_bytes_def take_realloc_bytes
      split: if_splits prod.splits)

lemma buf_store:
  assumes "buf_ok b" "sb_len b < sb_cap b"
  shows "buf_ok (b\<lparr>sb_s := (sb_s b)[sb_len b := c], sb_len := sb_len b + 1\<rparr>)"
    "buf_bytes (b\<lparr>sb_s := (sb_s b)[sb_len b := c], sb_len := sb_len b + 1\<rparr>) = buf_bytes b @ [c]"
  using assms by (simp_all add: buf_ok_def buf_bytes_def take_Suc_conv_app_nth)

lemma push_char_appends: "buf_ok b \<Longrightarrow> appended b [c] (sb_buffer_push_char X b c e)"
proof -
  assume ok: "buf_ok b"
  obtain err b1 e1 where r: "(if sb_len b = sb_cap b
      then sb_buffer_reserve X b (if sb_cap b = 0 then 1 else 2 * sb_cap b) e
      else (SB_ESUCCESS, b, e)) = (err, b1, e1)"
    using prod_cases3 by blast
  have b1: "buf_ok b1 \<and> buf_bytes b1 = buf_bytes b \<and>
      (err = SB_ESUCCESS \<and> sb_len b1 < sb_cap b1 \<or> err = SB_EOUTOFMEM)"
    using r ok reserve_cases [OF ok, of X "if sb_cap b = 0 then 1 else 2 * sb_cap b" e err b1 e1]
    by (auto simp: buf_ok_def split: if_splits)
  then show ?thesis
    using r buf_store [of b1 c] by (auto simp: sb_buffer_push_char_def appended_def)
qed

interpretation push_char: appender "sb_buffer_push_char X" "\<lambda>c. [c]" for X
  by unfold_locales (rule push_char_appends)

definition grown :: "sb_buffer \<Rightarrow> sb_buffer \<Rightarrow> bool" where
  "grown b b' \<longleftrightarrow> buf_ok b' \<and> (\<exists>p. buf_bytes b' = buf_bytes b @ p)"

lemma length_buf_bytes: "buf_ok b \<Longrightarrow> length (buf_bytes b) = sb_len b"
  by (simp add: buf_ok_def buf_bytes_def)

lemma grown_refl: "buf_ok b \<Longrightarrow> grown b b"
  by (simp add: grown_def)

lemma grown_trans: "grown a b \<Longrightarrow> grown b c \<Longrightarrow> grown a c"
  by (auto simp: grown_def)

lemma appended_grown: "appended b p (err, b', e) \<Longrightarrow> grown b b'"
  by (auto simp: appended_def grown_def)

lemma grown_reset:
  assumes "buf_ok b" "grown b b'"
  shows "buf_ok (b'\<lparr>sb_len := sb_len b\<rparr>) \<and> buf_bytes (b'\<lparr>sb_len := sb_len b\<rparr>) = buf_bytes b"
proof -
  obtain p where p: "buf_bytes b' = buf_bytes b @ p" "buf_ok b'"
    using assms(2) by (auto simp: grown_def)
  then have le: "sb_len b \<le> sb_len b'"
    using length_buf_bytes [OF assms(1)] length_buf_bytes [OF p(2)] by simp
  have "take (sb_len b) (sb_s b') = take (sb_len b) (buf_bytes b')"
    using le by (simp add: buf_bytes_def min_def)
  moreover have "buf_bytes (b'\<lparr>sb_len := sb_len b\<rparr>) = take (sb_len b) (sb_s b')"
    by (simp add: buf_bytes_def)
  ultimately show ?thesis
    using p le length_buf_bytes [OF assms(1)] by (simp add: buf_ok_def)
qed

lemma push_chars_grows:
  "buf_ok b \<Longrightarrow> push_chars X b p e = (err, b', e') \<Longrightarrow>
     grown b b' \<and> (err = SB_ESUCCESS \<and> buf_bytes b' = buf_bytes b @ p \<or> err = SB_EOUTOFMEM)"
proof (induction p arbitrary: b e)
  case (Cons c cs)
  obtain r b1 e1 where push: "sb_buffer_push_char X b c e = (r, b1, e1)"
    using prod_cases3 by blast
  with push_char_appends [OF Cons.prems(1), of c X e] have one: "appended b [c] (r, b1, e1)" by simp
  show ?case
  proof (cases "r = SB_ESUCCESS")
    case True
    with one have b1: "buf_ok b1" "buf_bytes b1 = buf_bytes b @ [c]" by (auto simp: appended_def)
    with Cons.IH [OF b1(1), of e1] Cons.prems(2) push True show ?thesis
      using appended_grown [OF one] by (auto intro: grown_trans)
  next
    case False
    with Cons.prems(2) push one appended_grown [OF one] show ?thesis by (auto simp: appended_def)
  qed
qed (simp add: grown_refl)

lemma push_str_appends: "buf_ok b \<Longrightarrow> appended b p (sb_buffer_push_str X b p e)"
  using push_chars_grows [of b X p e] grown_reset [of b]
  by (auto simp: sb_buffer_push_str_def appended_def grown_def split: prod.splits)

interpretation push_str: appender "sb_buffer_push_str X" "\<lambda>p. p" for X
  by unfold_locales (rule push_str_appends)

lemma push_item_appends:
  "buf_ok b \<Longrightarrow> appended b (item_text it)
     (case it of FChar c \<Rightarrow> sb_buffer_push_char X b c e
      | FStr None \<Rightarrow> sb_buffer_push_str X b ''(null)'' e
      | FStr (Some s) \<Rightarrow> sb_buffer_push_str X b s e
      | FOut s \<Rightarrow> sb_buffer_push_str X b s e)"
  using push_str_appends push_char_appends by (cases it rule: item_text.cases) auto

lemma push_items_grows:
  "buf_ok b \<Longrightarrow> push_items X b its e = (err, b', e') \<Longrightarrow>
     grown b b' \<and> (err = SB_ESUCCESS \<and> buf_bytes b' = buf_bytes b @ concat (map item_text its) \<or>
       err = SB_EOUTOFMEM)"
proof (induction its arbitrary: b e)
  case (Cons it its)
  obtain r b1 e1 where push: "(case it of FChar c \<Rightarrow> sb_buffer_push_char X b c e
      | FStr None \<Rightarrow> sb_buffer_push_str X b ''(null)'' e
      | FStr (Some s) \<Rightarrow> sb_buffer_push_str X b s e
      | FOut s \<Rightarrow> sb_buffer_push_str X b s e) = (r, b1, e1)"
    using prod_cases3 by blast
  with push_item_appends [OF Cons.prems(1), of it X e] have one: "appended b (item_text it) (r, b1, e1)"
    by simp
  show ?case
  proof (cases "r = SB_ESUCCESS")
    case True
    with one have b1: "buf_ok b1" "buf_bytes b1 = buf_bytes b @ item_text it" by (auto simp: appended_def)
    with Cons.IH [OF b1(1), of e1] Cons.prems(2) push True show ?thesis
      using appended_grown [OF one] by (auto intro: grown_trans)
  next
    case False
    with Cons.prems(2) push one appended_grown [OF one] show ?thesis by (auto simp: appended_def)
  qed
qed (simp add: grown_refl)

lemma vwritef_appends:
  "buf_ok b \<Longrightarrow> appended b (concat (map item_text its)) (sb_buffer_vwritef X b its e)"
  using push_items_grows [of b X its e] grown_reset [of b]
  by (auto simp: sb_buffer_vwritef_def appended_def grown_def split: prod.splits)

interpretation vwritef: appender "sb_buffer_vwritef X" "\<lambda>its. concat (map item_text its)" for X
  by unfold_locales (rule vwritef_appends)

lemma null_terminate_ok:
  assumes "buf_ok b" "sb_buffer_null_terminate X b e = (err, b', e')"
  shows "buf_ok b' \<and> buf_bytes b' = buf_bytes b \<and> (err = SB_ESUCCESS \<or> err = SB_EOUTOFMEM)"
proof -
  obtain r b1 e1 where push: "sb_buffer_push_char X b NUL e = (r, b1, e1)" using prod_cases3 by blast
  with push_char_appends [OF assms(1), of NUL X e] have one: "appended b [NUL] (r, b1, e1)" by simp
  then have "r = SB_ESUCCESS \<Longrightarrow> sb_len b1 - 1 = sb_len b"
    using length_buf_bytes [OF assms(1)] length_buf_bytes [of b1] by (auto simp: appended_def)
  with push one assms grown_reset [OF assms(1) appended_grown [OF one]] show ?thesis
    by (auto simp: sb_buffer_null_terminate_def appended_def split: if_splits)
qed

lemma shift_drops:
  assumes "buf_ok b" "n \<le> sb_len b"
  shows "buf_ok (sb_buffer_shift b n) \<and> buf_bytes (sb_buffer_shift b n) = drop n (buf_bytes b)"
  using assms
  by (auto simp: buf_ok_def buf_bytes_def sb_buffer_shift_def Let_def drop_take min_def)

end
