(* ===== verification/Sandbird.thy ===== *)
theory Sandbird
  imports Sandbird_Buffer Hive_Fs
begin

text \<open>
  Streams and the server of \<open>src/sandbird/sandbird.c\<close>. The network is explicit: one poll gets a
  \<open>net_input\<close>, which says what \<open>select\<close>, \<open>recv\<close>, \<open>send\<close> and \<open>accept\<close> do. The event handler is a
  function on the stream, the user data \<open>'u\<close> and the environment.
\<close>

subsection \<open>States\<close>

datatype sb_state = STATE_RECEIVING_HEADER | STATE_RECEIVING_REQUEST | STATE_SENDING_STATUS
  | STATE_SENDING_HEADER | STATE_SENDING_DATA | STATE_SENDING_FILE | STATE_CLOSING

fun state_index :: "sb_state \<Rightarrow> nat" where
  "state_index STATE_RECEIVING_HEADER = 0"
| "state_index STATE_RECEIVING_REQUEST = 1"
| "state_index STATE_SENDING_STATUS = 2"
| "state_index STATE_SENDING_HEADER = 3"
| "state_index STATE_SENDING_DATA = 4"
| "state_index STATE_SENDING_FILE = 5"
| "state_index STATE_CLOSING = 6"

lemma state_index_inj: "state_index s = state_index t \<Longrightarrow> s = t"
  by (cases s; cases t) simp_all

text \<open>The code compares states as integers.\<close>

instantiation sb_state :: linorder
begin
definition less_eq_sb_state :: "sb_state \<Rightarrow> sb_state \<Rightarrow> bool" where
  "less_eq_sb_state s t \<longleftrightarrow> state_index s \<le> state_index t"
definition less_sb_state :: "sb_state \<Rightarrow> sb_state \<Rightarrow> bool" where
  "less_sb_state s t \<longleftrightarrow> state_index s < state_index t"
instance
  by intro_classes (auto simp: less_eq_sb_state_def less_sb_state_def intro: state_index_inj)
end

lemmas state_order = less_eq_sb_state_def less_sb_state_def

record sb_stream =
  st_state :: sb_state
  st_address :: string
  st_init_time :: int
  st_last_activity :: int
  st_expected_recv_len :: nat
  st_data_idx :: nat
  st_sockfd :: int
  st_recv_buf :: sb_buffer
  st_send_buf :: sb_buffer
  st_send_fp :: "bytes option"

record sb_options =
  sbo_host :: "string option"
  sbo_port :: "string option"
  sbo_timeout :: "string option"
  sbo_max_lifetime :: "string option"
  sbo_max_request_size :: "string option"

text \<open>\<open>srv_addr\<close> is the address the listening socket is bound to, which the kernel keeps for the program.\<close>

record sb_server =
  srv_streams :: "sb_stream list"
  srv_sockfd :: int
  srv_addr :: "string option \<times> string option"
  srv_now :: int
  srv_timeout :: int
  srv_max_lifetime :: int
  srv_max_request_size :: nat

datatype sb_event = SB_EV_CONNECT | SB_EV_CLOSE | SB_EV_REQUEST string string

abbreviation (input) SB_RES_OK :: c_int where "SB_RES_OK \<equiv> 0"
abbreviation (input) SB_RES_CLOSE :: c_int where "SB_RES_CLOSE \<equiv> 1"

type_synonym ('u, 'w) sb_result = "(c_int \<times> sb_stream \<times> 'u \<times> 'w env) option"
type_synonym ('u, 'w) sb_handler = "sb_event \<Rightarrow> sb_stream \<Rightarrow> 'u \<Rightarrow> 'w env \<Rightarrow> ('u, 'w) sb_result"

subsection \<open>Streams\<close>

definition sb_stream_new ::
    "('w, 'a) os_scheme \<Rightarrow> int \<Rightarrow> int \<Rightarrow> string \<Rightarrow> 'w env \<Rightarrow> sb_stream option \<times> 'w env" where
  "sb_stream_new X now sockfd address e =
     (let (ok, e) = alloc X 208 e in
      if \<not> ok then (None, e)
      else (Some \<lparr>st_state = STATE_RECEIVING_HEADER, st_address = address, st_init_time = now,
              st_last_activity = now, st_expected_recv_len = 0, st_data_idx = 0, st_sockfd = sockfd,
              st_recv_buf = sb_buffer_init, st_send_buf = sb_buffer_init, st_send_fp = None\<rparr>, e))"

definition sb_stream_close :: "sb_stream \<Rightarrow> sb_stream" where
  "sb_stream_close st = st\<lparr>st_state := STATE_CLOSING\<rparr>"

definition sb_stream_emit ::
    "('u, 'w) sb_handler \<Rightarrow> sb_event \<Rightarrow> sb_stream \<Rightarrow> 'u \<Rightarrow> 'w env \<Rightarrow> ('u, 'w) sb_result" where
  "sb_stream_emit h ev st u e =
     do { (res, st, u, e) \<leftarrow> h ev st u e;
          if neg res then Some (res, st, u, e)
          else if res = SB_RES_CLOSE then Some (SB_ESUCCESS, sb_stream_close st, u, e)
          else if res = SB_RES_OK then Some (SB_ESUCCESS, st, u, e)
          else Some (SB_EBADRESULT, st, u, e) }"

definition sb_stream_destroy ::
    "('u, 'w) sb_handler \<Rightarrow> sb_stream \<Rightarrow> 'u \<Rightarrow> 'w env \<Rightarrow> ('u \<times> 'w env) option" where
  "sb_stream_destroy h st u e =
     do { (err, st, u, e) \<leftarrow> sb_stream_emit h SB_EV_CLOSE st u e; Some (u, e) }"

definition word_at :: "nat \<Rightarrow> string \<Rightarrow> string" where
  \<comment> \<open>the conversion \<open>%<n>s\<close> of \<open>sscanf\<close> at a character that is no blank\<close>
  "word_at n s = take n (takeWhile (\<lambda>c. \<not> is_space c) s)"

definition parse_request_line :: "string \<Rightarrow> (string \<times> nat \<times> string) option" where
  \<comment> \<open>\<open>sscanf(s, "%15s %n%*s %15s", method, &path_idx, ver)\<close>, \<open>None\<close> unless it returns 2\<close>
  "parse_request_line s =
     (let s1 = dropWhile is_space s;
          method = word_at 15 s1;
          s2 = dropWhile is_space (drop (length method) s1);
          path = takeWhile (\<lambda>c. \<not> is_space c) s2;
          s3 = dropWhile is_space (drop (length path) s2);
          ver = word_at 15 s3
      in if method = [] \<or> path = [] \<or> ver = [] then None
         else Some (method, length s - length s2, ver))"

definition handle_request ::
    "('w, 'a) os_scheme \<Rightarrow> ('u, 'w) sb_handler \<Rightarrow> sb_stream \<Rightarrow> 'u \<Rightarrow> 'w env \<Rightarrow> ('u, 'w) sb_result" where
  \<comment> \<open>the code from the label \<open>handle_request\<close> on\<close>
  "handle_request X h st u e =
     (let st = st\<lparr>st_state := STATE_SENDING_STATUS\<rparr>;
          (err, b, e) = sb_buffer_null_terminate X (st_recv_buf st) e;
          st = st\<lparr>st_recv_buf := b\<rparr> in
      if err \<noteq> SB_ESUCCESS then Some (err, st, u, e)
      else
        (case parse_request_line (cstr (buf_bytes b)) of
           None \<Rightarrow> Some (SB_ESUCCESS, sb_stream_close st, u, e)
         | Some (method, path_idx, ver) \<Rightarrow>
             if \<not> mem_equal ver ''HTTP'' then Some (SB_ESUCCESS, sb_stream_close st, u, e)
             else
               (let path = fst (url_decode (drop path_idx (cstr (buf_bytes b))) 512)
                in sb_stream_emit h (SB_EV_REQUEST method (cstr path)) st u e)))"

definition finish :: "('u, 'w) sb_result \<Rightarrow> (c_int option \<times> sb_stream \<times> 'u \<times> 'w env) option" where
  \<comment> \<open>\<open>sb_stream_recv\<close> returns what \<open>handle_request\<close> returned\<close>
  "finish r = map_option (\<lambda>(err, st, u, e). (Some err, st, u, e)) r"

definition recv_byte ::
    "('w, 'a) os_scheme \<Rightarrow> ('u, 'w) sb_handler \<Rightarrow> char \<Rightarrow> sb_stream \<Rightarrow> 'u \<Rightarrow> 'w env
      \<Rightarrow> (c_int option \<times> sb_stream \<times> 'u \<times> 'w env) option" where
  \<comment> \<open>the body of the loop over one received block: \<open>Some err\<close> when \<open>sb_stream_recv\<close> returns\<close>
  "recv_byte X h c st u e =
     (let (err, b, e) = sb_buffer_push_char X (st_recv_buf st) c e;
          st = st\<lparr>st_recv_buf := b\<rparr>;
          complete = (\<lambda>st e. if st_expected_recv_len st = sb_len (st_recv_buf st)
             then finish (handle_request X h st u e) else Some (None, st, u, e)) in
      if err \<noteq> SB_ESUCCESS then Some (Some err, st, u, e)
      else if st_state st = STATE_RECEIVING_HEADER \<and> sb_len b \<ge> 4 \<and>
              drop (sb_len b - 4) (buf_bytes b) = [CR, LF, CR, LF]
      then
        (let st = st\<lparr>st_state := STATE_RECEIVING_REQUEST\<rparr>;
             (err, b, e) = sb_buffer_null_terminate X b e;
             st = st\<lparr>st_recv_buf := b\<rparr> in
         if err \<noteq> SB_ESUCCESS then Some (Some err, st, u, e)
         else
           (case find_header_value (cstr (buf_bytes b)) ''Content-Length'' of
              None \<Rightarrow> None
            | Some None \<Rightarrow> finish (handle_request X h st u e)
            | Some (Some s) \<Rightarrow>
                complete (st\<lparr>st_expected_recv_len := sb_len b + unat (str_to_uint (Some s)),
                            st_data_idx := sb_len b\<rparr>) e))
      else complete st e)"

fun recv_bytes ::
    "('w, 'a) os_scheme \<Rightarrow> ('u, 'w) sb_handler \<Rightarrow> bytes \<Rightarrow> sb_stream \<Rightarrow> 'u \<Rightarrow> 'w env
      \<Rightarrow> (c_int option \<times> sb_stream \<times> 'u \<times> 'w env) option" where
  "recv_bytes X h [] st u e = Some (None, st, u, e)"
| "recv_bytes X h (c # cs) st u e =
     do { (r, st, u, e) \<leftarrow> recv_byte X h c st u e;
          case r of Some err \<Rightarrow> Some (Some err, st, u, e) | None \<Rightarrow> recv_bytes X h cs st u e }"

fun sb_stream_recv ::
    "('w, 'a) os_scheme \<Rightarrow> ('u, 'w) sb_handler \<Rightarrow> int \<Rightarrow> recv_result list \<Rightarrow> sb_stream \<Rightarrow> 'u \<Rightarrow> 'w env
      \<Rightarrow> ('u, 'w) sb_result" where
  "sb_stream_recv X h now [] st u e = Some (SB_ESUCCESS, st, u, e)"
| "sb_stream_recv X h now (RecvEnd # rs) st u e = Some (SB_ESUCCESS, sb_stream_close st, u, e)"
| "sb_stream_recv X h now (Recv bs # rs) st u e =
     do { (r, st, u, e) \<leftarrow> recv_bytes X h bs (st\<lparr>st_last_activity := now\<rparr>) u e;
          case r of Some err \<Rightarrow> Some (err, st, u, e)
                  | None \<Rightarrow> sb_stream_recv X h now rs st u e }"

definition send_data :: "int \<Rightarrow> send_result \<Rightarrow> sb_stream \<Rightarrow> sb_stream" where
  \<comment> \<open>the code from the label \<open>send_data\<close> on; a successful \<open>send\<close> takes at least one byte\<close>
  "send_data now r st =
     (case r of
        SentMore k \<Rightarrow>
          st\<lparr>st_send_buf := sb_buffer_shift (st_send_buf st) (min (k + 1) (sb_len (st_send_buf st))),
             st_last_activity := now\<rparr>
      | SendWouldBlock \<Rightarrow> st
      | SendError \<Rightarrow> sb_stream_close st)"

definition sb_stream_send ::
    "('w, 'a) os_scheme \<Rightarrow> int \<Rightarrow> send_result \<Rightarrow> sb_stream \<Rightarrow> 'w env \<Rightarrow> c_int \<times> sb_stream \<times> 'w env" where
  "sb_stream_send X now r st e =
     (if sb_len (st_send_buf st) > 0 then (SB_ESUCCESS, send_data now r st, e)
      else
        (case st_send_fp st of
           Some rest \<Rightarrow>
             (let (err, b, e) = sb_buffer_reserve X (st_send_buf st) 8192 e in
              if err \<noteq> SB_ESUCCESS then (err, st\<lparr>st_send_buf := b\<rparr>, e)
              else
                (let chunk = take (sb_cap b) rest;
                     b = b\<lparr>sb_s := chunk @ drop (length chunk) (sb_s b), sb_len := length chunk\<rparr>
                 in if chunk \<noteq> []
                    then (SB_ESUCCESS, send_data now r (st\<lparr>st_send_buf := b,
                            st_send_fp := Some (drop (sb_cap b) rest)\<rparr>), e)
                    else (SB_ESUCCESS, st\<lparr>st_send_buf := b, st_send_fp := None\<rparr>, e)))
         | None \<Rightarrow> (SB_ESUCCESS, sb_stream_close st, e)))"

definition int_dec :: "c_int \<Rightarrow> string" where
  "int_dec x = (if neg x then CHR ''-'' # nat_digits (nat (- sint x)) else nat_digits (unat x))"

definition sb_send_status ::
    "('w, 'a) os_scheme \<Rightarrow> sb_stream \<Rightarrow> c_int \<Rightarrow> string \<Rightarrow> 'w env \<Rightarrow> c_int \<times> sb_stream \<times> 'w env" where
  "sb_send_status X st c msg e =
     (if st_state st \<noteq> STATE_SENDING_STATUS then (SB_EBADSTATE, st, e)
      else
        (let (err, b, e) = sb_buffer_writef X (st_send_buf st)
               (map FChar ''HTTP/1.1 '' @ [FOut (int_dec c), FChar SP, FStr (Some msg), FChar CR, FChar LF]) e;
             st = st\<lparr>st_send_buf := b\<rparr> in
         if err \<noteq> SB_ESUCCESS then (err, st, e)
         else (SB_ESUCCESS, st\<lparr>st_state := STATE_SENDING_HEADER\<rparr>, e)))"

definition sb_send_header ::
    "('w, 'a) os_scheme \<Rightarrow> sb_stream \<Rightarrow> string \<Rightarrow> string \<Rightarrow> 'w env \<Rightarrow> c_int \<times> sb_stream \<times> 'w env" where
  "sb_send_header X st field val e =
     (if st_state st > STATE_SENDING_HEADER then (SB_EBADSTATE, st, e)
      else
        (let (err, st, e) = (if st_state st < STATE_SENDING_HEADER then sb_send_status X st 200 ''OK'' e
                             else (SB_ESUCCESS, st, e)) in
         if err \<noteq> SB_ESUCCESS then (err, st, e)
         else
           (let (err, b, e) = sb_buffer_writef X (st_send_buf st)
                  [FStr (Some field), FChar CHR '':'', FChar SP, FStr (Some val), FChar CR, FChar LF] e
            in (err, st\<lparr>st_send_buf := b\<rparr>, e))))"

definition sb_stream_finalize_header ::
    "('w, 'a) os_scheme \<Rightarrow> sb_stream \<Rightarrow> 'w env \<Rightarrow> c_int \<times> sb_stream \<times> 'w env" where
  "sb_stream_finalize_header X st e =
     (let (err, st, e) = (if st_state st < STATE_SENDING_HEADER then sb_send_status X st 200 ''OK'' e
                          else (SB_ESUCCESS, st, e)) in
      if err \<noteq> SB_ESUCCESS then (err, st, e)
      else
        (let (err, b, e) = sb_buffer_push_str X (st_send_buf st) [CR, LF] e; st = st\<lparr>st_send_buf := b\<rparr> in
         if err \<noteq> SB_ESUCCESS then (err, st, e)
         else (SB_ESUCCESS, st\<lparr>st_state := STATE_SENDING_DATA\<rparr>, e)))"

definition sb_send_file ::
    "('w, 'a) os_scheme \<Rightarrow> sb_stream \<Rightarrow> string \<Rightarrow> 'w env \<Rightarrow> c_int \<times> sb_stream \<times> 'w env" where
  "sb_send_file X st filename e =
     (if st_state st > STATE_SENDING_HEADER then (SB_EBADSTATE, st, e)
      else
        (let (ok, e) = sys_open_rd X filename e in
         if \<not> ok then (SB_ECANTOPEN, st, e)
         else
           (let (sz, e) = sys_lseek_end X filename e;
                (err, st, e) = sb_send_header X st ''Content-Length''
                   (nat_digits (unat (ucast sz :: c_uint))) e in
            if err \<noteq> SB_ESUCCESS then (err, st, e)
            else
              (let (err, st, e) = sb_stream_finalize_header X st e in
               if err \<noteq> SB_ESUCCESS then (err, st, e)
               else
                 (let content = (case fs_lookup (env_fs e) filename of Some (FFile bs) \<Rightarrow> bs | _ \<Rightarrow> [])
                  in (SB_ESUCCESS, st\<lparr>st_send_fp := Some content, st_state := STATE_SENDING_FILE\<rparr>, e))))))"

definition sb_write ::
    "('w, 'a) os_scheme \<Rightarrow> sb_stream \<Rightarrow> bytes \<Rightarrow> 'w env \<Rightarrow> c_int \<times> sb_stream \<times> 'w env" where
  "sb_write X st data e =
     (let (err, st, e) = (if st_state st < STATE_SENDING_DATA then sb_stream_finalize_header X st e
                          else (SB_ESUCCESS, st, e)) in
      if err \<noteq> SB_ESUCCESS then (err, st, e)
      else if st_state st \<noteq> STATE_SENDING_DATA then (SB_EBADSTATE, st, e)
      else (let (err, b, e) = sb_buffer_push_str X (st_send_buf st) data e in (err, st\<lparr>st_send_buf := b\<rparr>, e)))"

definition sb_vwritef ::
    "('w, 'a) os_scheme \<Rightarrow> sb_stream \<Rightarrow> fmt_item list \<Rightarrow> 'w env \<Rightarrow> c_int \<times> sb_stream \<times> 'w env" where
  "sb_vwritef X st fmt e =
     (let (err, st, e) = (if st_state st < STATE_SENDING_DATA then sb_stream_finalize_header X st e
                          else (SB_ESUCCESS, st, e)) in
      if err \<noteq> SB_ESUCCESS then (err, st, e)
      else if st_state st \<noteq> STATE_SENDING_DATA then (SB_EBADSTATE, st, e)
      else (let (err, b, e) = sb_buffer_vwritef X (st_send_buf st) fmt e in (err, st\<lparr>st_send_buf := b\<rparr>, e)))"

abbreviation (input) sb_writef ::
    "('w, 'a) os_scheme \<Rightarrow> sb_stream \<Rightarrow> fmt_item list \<Rightarrow> 'w env \<Rightarrow> c_int \<times> sb_stream \<times> 'w env" where
  "sb_writef \<equiv> sb_vwritef"

subsection \<open>Reading a request\<close>

text \<open>
  The three readers return the result and the bytes stored in \<open>dst\<close> before the terminator, \<open>len\<close>
  being the size of \<open>dst\<close>. A header value with no carriage return behind it makes \<open>sb_get_header\<close>
  subtract from a null pointer: \<open>None\<close>.
\<close>

definition recv_str :: "sb_stream \<Rightarrow> string" where
  "recv_str st = cstr (buf_bytes (st_recv_buf st))"

definition trim_end :: "string \<Rightarrow> string" where
  \<comment> \<open>\<open>while (n > 1 && strchr(" \t", s[n-1])) n--\<close>\<close>
  "trim_end s = (if s = [] then [] else hd s # rev (dropWhile (\<lambda>c. c = SP \<or> c = TAB) (rev (tl s))))"

definition sb_get_header :: "sb_stream \<Rightarrow> string \<Rightarrow> size_t \<Rightarrow> (c_int \<times> bytes) option" where
  "sb_get_header st field len =
     do { v \<leftarrow> find_header_value (recv_str st) field;
          case v of
            None \<Rightarrow> Some (SB_ENOTFOUND, [])
          | Some s \<Rightarrow>
              if CR \<notin> set s then None
              else
                (let val = trim_end (takeWhile (\<lambda>c. c \<noteq> CR) s); n = length val
                 in if n > unat (len - 1) then Some (SB_ETRUNCATED, take (unat (len - 1)) val)
                    else Some (SB_ESUCCESS, val)) }"

definition sb_get_var :: "sb_stream \<Rightarrow> string \<Rightarrow> size_t \<Rightarrow> c_int \<times> bytes" where
  "sb_get_var st name len =
     (let s0 = recv_str st;
          q = drop (strcspn s0 [CHR ''?'', CR]) s0;
          v = (if q \<noteq> [] \<and> hd q = CHR ''?'' then find_var_value (tl q) name else None);
          v = (if v = None \<and> st_data_idx st \<noteq> 0
               then find_var_value (cstr (drop (st_data_idx st) (buf_bytes (st_recv_buf st)))) name else v)
      in case v of
           None \<Rightarrow> (SB_ENOTFOUND, [])
         | Some s \<Rightarrow> (case url_decode s len of (dst, res) \<Rightarrow> (res, dst)))"

function find_cookie :: "string \<Rightarrow> string \<Rightarrow> string option" where
  \<comment> \<open>the loop of \<open>sb_get_cookie\<close>: the text after the name\<close>
  "find_cookie s name =
     (if s = [] then None
      else
        (let s1 = drop (strspn s [SP, TAB]) s in
         if mem_case_equal s1 name \<and> char_at s1 (length name) \<in> {SP, CHR ''='', NUL} then Some (drop (length name) s1)
         else
           (let s2 = drop (strcspn s1 [CHR '';'', CR]) s1
            in if s2 = [] \<or> hd s2 \<noteq> CHR '';'' then None else find_cookie (tl s2) name)))"
  by pat_completeness auto
termination
proof (relation "measure (\<lambda>(s, name). length s)", goal_cases)
  case (2 s name s1 s2)
  then have "length s2 \<le> length s" "s2 \<noteq> []" by auto
  then show ?case by (cases s2) auto
qed simp

declare find_cookie.simps [simp del]

definition sb_get_cookie :: "sb_stream \<Rightarrow> string \<Rightarrow> size_t \<Rightarrow> (c_int \<times> bytes) option" where
  "sb_get_cookie st name len =
     do { v \<leftarrow> find_header_value (recv_str st) ''Cookie'';
          case v of
            None \<Rightarrow> Some (SB_ENOTFOUND, [])
          | Some s \<Rightarrow>
              (case find_cookie s name of
                 None \<Rightarrow> Some (SB_ENOTFOUND, [])
               | Some s \<Rightarrow>
                   (let s = drop (strspn s [CHR ''='', SP, TAB, CR]) s;
                        val = take (strcspn s [CHR '';'', CR]) s
                    in if length val \<ge> unat (len - 1) then Some (SB_ETRUNCATED, take (unat (len - 1)) val)
                       else Some (SB_ESUCCESS, val))) }"

subsection \<open>The server\<close>

definition sb_new_server ::
    "('w, 'a) os_scheme \<Rightarrow> sb_options \<Rightarrow> int \<Rightarrow> 'w env \<Rightarrow> sb_server option \<times> 'w env" where
  \<comment> \<open>\<open>fd\<close> is the listening socket; the handler and its data are arguments of the calls that use them\<close>
  "sb_new_server X opt fd e =
     (let (ok, e) = alloc X 64 e in
      if \<not> ok then (None, e)
      else
        (let (bad, e) = fault X SysGetaddrinfo e in
         if bad then (None, e)
         else
           (let (bad, e) = fault X SysSocket e in
            if bad then (None, e)
            else
              (let (bad, e) = fault X SysBind e in
               if bad then (None, e)
               else
                 (let (bad, e) = fault X SysListen e in
                  if bad then (None, e)
                  else (Some \<lparr>srv_streams = [], srv_sockfd = fd, srv_addr = (sbo_host opt, sbo_port opt), srv_now = 0,
                          srv_timeout = (if sbo_timeout opt = None then 30000 else uint (str_to_uint (sbo_timeout opt))),
                          srv_max_lifetime = uint (str_to_uint (sbo_max_lifetime opt)),
                          srv_max_request_size = unat (str_to_uint (sbo_max_request_size opt))\<rparr>, e))))))"

fun sb_close_streams :: "('u, 'w) sb_handler \<Rightarrow> sb_stream list \<Rightarrow> 'u \<Rightarrow> 'w env \<Rightarrow> ('u \<times> 'w env) option" where
  "sb_close_streams h [] u e = Some (u, e)"
| "sb_close_streams h (st # sts) u e =
     do { (u, e) \<leftarrow> sb_stream_destroy h st u e; sb_close_streams h sts u e }"

definition sb_close_server :: "('u, 'w) sb_handler \<Rightarrow> sb_server \<Rightarrow> 'u \<Rightarrow> 'w env \<Rightarrow> ('u \<times> 'w env) option" where
  "sb_close_server h srv u e = sb_close_streams h (srv_streams srv) u e"

definition poll_io ::
    "('w, 'a) os_scheme \<Rightarrow> ('u, 'w) sb_handler \<Rightarrow> net_input \<Rightarrow> sb_stream \<Rightarrow> 'u \<Rightarrow> 'w env
      \<Rightarrow> ('u, 'w) sb_result" where
  \<comment> \<open>a stream is in the read set before its request is complete and in the write set afterwards\<close>
  "poll_io X h inp st u e =
     (let fd = st_sockfd st in
      if st_state st < STATE_SENDING_STATUS
      then (if net_readable inp fd then sb_stream_recv X h (net_now inp) (net_recv inp fd) st u e
            else Some (SB_ESUCCESS, st, u, e))
      else (if net_writable inp fd
            then (case sb_stream_send X (net_now inp) (net_send inp fd) st e of
                    (err, st, e) \<Rightarrow> Some (err, st, u, e))
            else Some (SB_ESUCCESS, st, u, e)))"

definition stream_over_limit :: "sb_server \<Rightarrow> int \<Rightarrow> sb_stream \<Rightarrow> bool" where
  "stream_over_limit srv now st \<longleftrightarrow>
     srv_timeout srv \<noteq> 0 \<and> now - st_last_activity st > srv_timeout srv div 1000 \<or>
     srv_max_lifetime srv \<noteq> 0 \<and> now - st_init_time st > srv_max_lifetime srv div 1000 \<or>
     srv_max_request_size srv \<noteq> 0 \<and> sb_len (st_recv_buf st) \<ge> srv_max_request_size srv"

fun poll_streams ::
    "('w, 'a) os_scheme \<Rightarrow> ('u, 'w) sb_handler \<Rightarrow> sb_server \<Rightarrow> net_input \<Rightarrow> sb_stream list \<Rightarrow> 'u \<Rightarrow> 'w env
      \<Rightarrow> (c_int \<times> sb_stream list \<times> 'u \<times> 'w env) option" where
  \<comment> \<open>the loop over the existing streams: the result and the streams that stay in the list\<close>
  "poll_streams X h srv inp [] u e = Some (SB_ESUCCESS, [], u, e)"
| "poll_streams X h srv inp (st # sts) u e =
     do { (err, st, u, e) \<leftarrow> poll_io X h inp st u e;
          if err \<noteq> SB_ESUCCESS then Some (err, st # sts, u, e)
          else
            (let st = (if stream_over_limit srv (net_now inp) st then sb_stream_close st else st) in
             if st_state st = STATE_CLOSING
             then do { (u, e) \<leftarrow> sb_stream_destroy h st u e; poll_streams X h srv inp sts u e }
             else do { (err, sts, u, e) \<leftarrow> poll_streams X h srv inp sts u e; Some (err, st # sts, u, e) }) }"

fun accept_streams ::
    "('w, 'a) os_scheme \<Rightarrow> ('u, 'w) sb_handler \<Rightarrow> int \<Rightarrow> (int \<times> string) list \<Rightarrow> sb_stream list \<Rightarrow> 'u \<Rightarrow> 'w env
      \<Rightarrow> (c_int \<times> sb_stream list \<times> 'u \<times> 'w env) option" where
  "accept_streams X h now [] sts u e = Some (SB_ESUCCESS, sts, u, e)"
| "accept_streams X h now ((fd, address) # conns) sts u e =
     (if fd > 1024 then Some (SB_EFDTOOBIG, sts, u, e)
      else
        (case sb_stream_new X now fd address e of
           (None, e) \<Rightarrow> Some (SB_EOUTOFMEM, sts, u, e)
         | (Some st, e) \<Rightarrow>
             do { (err, st, u, e) \<leftarrow> sb_stream_emit h SB_EV_CONNECT st u e;
                  if err \<noteq> SB_ESUCCESS then Some (err, st # sts, u, e)
                  else accept_streams X h now conns (st # sts) u e }))"

definition sb_poll_server ::
    "('w, 'a) os_scheme \<Rightarrow> ('u, 'w) sb_handler \<Rightarrow> sb_server \<Rightarrow> 'u \<Rightarrow> 'w env
      \<Rightarrow> (c_int \<times> sb_server \<times> 'u \<times> 'w env) option" where
  "sb_poll_server X h srv u e =
     (let (inp, w) = os_poll X (srv_addr srv) (env_world e); e = e\<lparr>env_world := w\<rparr>;
          srv = srv\<lparr>srv_now := net_now inp\<rparr> in
      do { (err, sts, u, e) \<leftarrow> poll_streams X h srv inp (srv_streams srv) u e;
           let srv = srv\<lparr>srv_streams := sts\<rparr>;
           if err \<noteq> SB_ESUCCESS then Some (err, srv, u, e)
           else if net_readable inp (srv_sockfd srv)
           then do { (err, sts, u, e) \<leftarrow> accept_streams X h (net_now inp) (net_accept inp) sts u e;
                     Some (err, srv\<lparr>srv_streams := sts\<rparr>, u, e) }
           else Some (SB_ESUCCESS, srv, u, e) })"

subsection \<open>Lemmas\<close>

definition stream_ok :: "sb_stream \<Rightarrow> bool" where
  "stream_ok st \<longleftrightarrow> buf_ok (st_recv_buf st) \<and> buf_ok (st_send_buf st)"

lemma recv_bytes_append:
  "recv_bytes X h (a @ b) st u e =
     do { (r, st, u, e) \<leftarrow> recv_bytes X h a st u e;
          case r of Some err \<Rightarrow> Some (Some err, st, u, e) | None \<Rightarrow> recv_bytes X h b st u e }"
proof (induction a arbitrary: st u e)
  case (Cons c a)
  show ?case
    by (cases "recv_byte X h c st u e") (auto simp: Cons.IH split: option.splits)
qed simp

lemma finish_not_None: "finish r = Some (None, st, u, e) \<Longrightarrow> False"
  by (auto simp: finish_def)

lemma recv_byte_continue:
  "recv_byte X h c st u e = Some (None, st', u', e') \<Longrightarrow>
     u' = u \<and> st_last_activity st' = st_last_activity st \<and> st_state st \<le> st_state st'"
  by (auto simp: recv_byte_def Let_def state_order dest: finish_not_None
      split: prod.splits if_splits option.splits)

lemma recv_bytes_continue:
  "recv_bytes X h bs st u e = Some (None, st', u', e') \<Longrightarrow>
     u' = u \<and> st_last_activity st' = st_last_activity st \<and> st_state st \<le> st_state st'"
proof (induction bs arbitrary: st u e)
  case (Cons c bs)
  from Cons.prems obtain st1 u1 e1 where
    1: "recv_byte X h c st u e = Some (None, st1, u1, e1)" "recv_bytes X h bs st1 u1 e1 = Some (None, st', u', e')"
    by (auto simp: bind_eq_Some_conv split: option.splits)
  from recv_byte_continue [OF 1(1)] Cons.IH [OF 1(2)] show ?case by (auto intro: order_trans)
qed simp

lemma recv_two_chunks:
  "sb_stream_recv X h now (Recv a # Recv b # rs) st u e = sb_stream_recv X h now (Recv (a @ b) # rs) st u e"
proof (cases "recv_bytes X h a (st\<lparr>st_last_activity := now\<rparr>) u e")
  case (Some r)
  obtain q st1 u1 e1 where r: "r = (q, st1, u1, e1)" by (cases r)
  show ?thesis
  proof (cases q)
    case None
    with recv_bytes_continue [of X h a "st\<lparr>st_last_activity := now\<rparr>" u e st1 u1 e1] Some r
    have "st1\<lparr>st_last_activity := now\<rparr> = st1" by simp
    with Some r None show ?thesis by (simp add: recv_bytes_append)
  next
    case (Some err)
    with \<open>recv_bytes _ _ _ _ _ _ = _\<close> r show ?thesis by (simp add: recv_bytes_append)
  qed
qed (simp add: recv_bytes_append)

lemma recv_chunks_from:
  "sb_stream_recv X h now (Recv a # map Recv cs @ rs) st u e =
     sb_stream_recv X h now (Recv (a @ concat cs) # rs) st u e"
  by (induction cs arbitrary: a) (simp_all only: list.map append_Cons append_Nil recv_two_chunks concat.simps
      append_assoc append_Nil2)

text \<open>When memory does not run out, the allocations are all that happens to the environment.\<close>

inductive allocs :: "('w, 'a) os_scheme \<Rightarrow> 'w env \<Rightarrow> 'w env \<Rightarrow> bool" for X where
  allocs_refl [simp, intro]: "allocs X e e"
| allocs_step: "allocs X e e' \<Longrightarrow> alloc X n e' = (ok, e'') \<Longrightarrow> allocs X e e''"

lemma allocs_trans: "allocs X b c \<Longrightarrow> allocs X a b \<Longrightarrow> allocs X a c"
  by (induction rule: allocs.induct) (auto intro: allocs_step)

lemma allocs_one: "alloc X n e = (ok, e') \<Longrightarrow> allocs X e e'"
  by (rule allocs_step [OF allocs_refl])

lemma allocs_frame: "allocs X e e' \<Longrightarrow> env_err e' = env_err e \<and> env_fs e' = env_fs e"
  by (induction rule: allocs.induct) (auto dest: alloc_frame)

lemma reserve_quiet:
  assumes "os_quiet X" "sb_buffer_reserve X b n e = (err, b', e')"
  shows "err = SB_ESUCCESS \<and> allocs X e e'"
  using assms
  by (auto simp: sb_buffer_reserve_def simp del: alloc_quiet split: if_splits prod.splits dest: allocs_one)
    (simp add: alloc_quiet)

lemma push_char_quiet:
  assumes "os_quiet X" "buf_ok b" "sb_buffer_push_char X b c e = (err, b', e')"
  shows "err = SB_ESUCCESS \<and> buf_ok b' \<and> buf_bytes b' = buf_bytes b @ [c] \<and> allocs X e e'"
proof -
  have err: "err = SB_ESUCCESS \<and> allocs X e e'"
    using assms(1,3)
    by (auto simp: sb_buffer_push_char_def split: prod.splits if_splits dest: reserve_quiet)
  then show ?thesis using push_char.push_success [OF assms(2), of X c e b' e'] assms(3) by simp
qed

lemma null_terminate_quiet:
  assumes "os_quiet X" "buf_ok b" "sb_buffer_null_terminate X b e = (err, b', e')"
  shows "err = SB_ESUCCESS \<and> buf_ok b' \<and> buf_bytes b' = buf_bytes b \<and> allocs X e e'"
proof -
  obtain r b1 e1 where p: "sb_buffer_push_char X b NUL e = (r, b1, e1)" using prod_cases3 by blast
  with push_char_quiet [OF assms(1,2) p] null_terminate_ok [OF assms(2,3)] assms(3)
  show ?thesis by (auto simp: sb_buffer_null_terminate_def)
qed

definition header_complete :: "string \<Rightarrow> bool" where
  "header_complete s \<longleftrightarrow> 4 \<le> length s \<and> drop (length s - 4) s = [CR, LF, CR, LF]"

definition receiving :: "sb_stream \<Rightarrow> string \<Rightarrow> bool" where
  \<comment> \<open>the stream is still reading the header and has \<open>s\<close> so far\<close>
  "receiving st s \<longleftrightarrow> stream_ok st \<and> st_state st = STATE_RECEIVING_HEADER \<and> st_expected_recv_len st = 0 \<and>
     buf_bytes (st_recv_buf st) = s"

lemma recv_byte_header:
  assumes "os_quiet X" "receiving st s" "\<not> header_complete (s @ [c])"
  shows "\<exists>b e'. recv_byte X h c st u e = Some (None, st\<lparr>st_recv_buf := b\<rparr>, u, e') \<and>
    receiving (st\<lparr>st_recv_buf := b\<rparr>) (s @ [c]) \<and> allocs X e e'"
proof -
  have b: "buf_ok (st_recv_buf st)" "buf_bytes (st_recv_buf st) = s"
    using assms(2) by (auto simp: receiving_def stream_ok_def)
  obtain err b' e' where p: "sb_buffer_push_char X (st_recv_buf st) c e = (err, b', e')"
    using prod_cases3 by blast
  note q = push_char_quiet [OF assms(1) b(1) p]
  have len: "sb_len b' = Suc (length s)"
    using q b length_buf_bytes [of b'] by simp
  have "\<not> (4 \<le> sb_len b' \<and> drop (sb_len b' - 4) (buf_bytes b') = [CR, LF, CR, LF])"
    using assms(3) q b len by (simp add: header_complete_def)
  then show ?thesis
    using p q len b assms(2)
    by (auto simp: recv_byte_def Let_def receiving_def stream_ok_def)
qed

lemma recv_header_bytes:
  assumes "os_quiet X" "receiving st s" "\<And>n. n < length bs \<Longrightarrow> \<not> header_complete (s @ take (Suc n) bs)"
  shows "\<exists>b e'. recv_bytes X h bs st u e = Some (None, st\<lparr>st_recv_buf := b\<rparr>, u, e') \<and>
    receiving (st\<lparr>st_recv_buf := b\<rparr>) (s @ bs) \<and> allocs X e e'"
  using assms(2,3)
proof (induction bs arbitrary: st s e)
  case Nil
  then show ?case by (intro exI [of _ "st_recv_buf st"]) simp
next
  case (Cons c bs)
  have "\<not> header_complete (s @ [c])" using Cons.prems(2) [of 0] by simp
  from recv_byte_header [OF assms(1) Cons.prems(1) this, of h u e] obtain b e1 where
    1: "recv_byte X h c st u e = Some (None, st\<lparr>st_recv_buf := b\<rparr>, u, e1)"
      "receiving (st\<lparr>st_recv_buf := b\<rparr>) (s @ [c])" "allocs X e e1" by blast
  have "\<not> header_complete ((s @ [c]) @ take (Suc n) bs)" if "n < length bs" for n
    using Cons.prems(2) [of "Suc n"] that by simp
  from Cons.IH [OF 1(2) this, of e1] obtain b' e' where
    2: "recv_bytes X h bs (st\<lparr>st_recv_buf := b\<rparr>) u e1 = Some (None, st\<lparr>st_recv_buf := b'\<rparr>, u, e')"
      "receiving (st\<lparr>st_recv_buf := b'\<rparr>) (s @ c # bs)" "allocs X e1 e'"
    by auto
  then show ?case using 1 allocs_trans by fastforce
qed

lemma handle_request_quiet:
  assumes "os_quiet X" "buf_ok (st_recv_buf st)" "cstr (buf_bytes (st_recv_buf st)) = req"
    and "parse_request_line req = Some (m, idx, ver)" "mem_equal ver ''HTTP''"
  shows "\<exists>b e'. handle_request X h st u e =
      sb_stream_emit h (SB_EV_REQUEST m (cstr (fst (url_decode (drop idx req) 512))))
        (st\<lparr>st_state := STATE_SENDING_STATUS, st_recv_buf := b\<rparr>) u e' \<and>
    buf_ok b \<and> buf_bytes b = buf_bytes (st_recv_buf st) \<and> allocs X e e'"
proof -
  obtain err b e' where n: "sb_buffer_null_terminate X (st_recv_buf st) e = (err, b, e')"
    using prod_cases3 by blast
  with null_terminate_quiet [OF assms(1,2) n] assms(3-5) show ?thesis
    by (auto simp: handle_request_def Let_def)
qed

lemma recv_byte_complete:
  assumes "os_quiet X" "receiving st s" "header_complete (s @ [c])"
  shows "\<exists>b e'. buf_ok b \<and> buf_bytes b = s @ [c] \<and> allocs X e e' \<and>
    (find_header_value (cstr (s @ [c])) ''Content-Length'' = None \<longrightarrow> recv_byte X h c st u e = None) \<and>
    (find_header_value (cstr (s @ [c])) ''Content-Length'' = Some None \<longrightarrow>
       recv_byte X h c st u e =
         finish (handle_request X h (st\<lparr>st_state := STATE_RECEIVING_REQUEST, st_recv_buf := b\<rparr>) u e'))"
proof -
  have b: "buf_ok (st_recv_buf st)" "buf_bytes (st_recv_buf st) = s" "st_state st = STATE_RECEIVING_HEADER"
    using assms(2) by (auto simp: receiving_def stream_ok_def)
  obtain err b1 e1 where p: "sb_buffer_push_char X (st_recv_buf st) c e = (err, b1, e1)"
    using prod_cases3 by blast
  note q = push_char_quiet [OF assms(1) b(1) p]
  obtain err' b2 e2 where n: "sb_buffer_null_terminate X b1 e1 = (err', b2, e2)"
    using prod_cases3 by blast
  note t = null_terminate_quiet [OF assms(1) _ n]
  have len: "sb_len b1 = Suc (length s)" using q b length_buf_bytes [of b1] by simp
  then have "4 \<le> sb_len b1 \<and> drop (sb_len b1 - 4) (buf_bytes b1) = [CR, LF, CR, LF]"
    using assms(3) q b by (simp add: header_complete_def)
  then show ?thesis
    using p q t n b
    by (intro exI [of _ b2] exI [of _ e2]) (auto simp: recv_byte_def Let_def intro: allocs_trans)
qed

lemma recv_request:
  assumes X: "os_quiet X" and st: "receiving st []" and chunks: "chunks \<noteq> []" "concat chunks = req"
    and req: "header_complete req" "\<And>n. n < length req \<Longrightarrow> \<not> header_complete (take n req)" "is_cstr req"
  obtains b e' where "buf_ok b" "buf_bytes b = req" "allocs X e e'"
    "find_header_value req ''Content-Length'' = None \<Longrightarrow>
       sb_stream_recv X h now (map Recv chunks @ rs) st u e = None"
    "find_header_value req ''Content-Length'' = Some None \<Longrightarrow>
       sb_stream_recv X h now (map Recv chunks @ rs) st u e =
         handle_request X h (st\<lparr>st_last_activity := now,
           st_state := STATE_RECEIVING_REQUEST, st_recv_buf := b\<rparr>) u e'"
proof -
  let ?st = "st\<lparr>st_last_activity := now\<rparr>"
  define s c where "s = butlast req" and "c = last req"
  have "req \<noteq> []" using req(1) by (auto simp: header_complete_def)
  then have sc: "req = s @ [c]" by (simp add: s_def c_def)
  have st': "receiving ?st []" using st by (simp add: receiving_def stream_ok_def)
  have "\<not> header_complete ([] @ take (Suc n) s)" if "n < length s" for n
    using req(2) [of "Suc n"] that sc by simp
  from recv_header_bytes [OF X st' this, of h u e] obtain b1 e1 where
    1: "recv_bytes X h s ?st u e = Some (None, ?st\<lparr>st_recv_buf := b1\<rparr>, u, e1)"
      "receiving (?st\<lparr>st_recv_buf := b1\<rparr>) s" "allocs X e e1" by auto
  have "header_complete (s @ [c])" using req(1) sc by simp
  from recv_byte_complete [OF X 1(2) this, of e1 h u] obtain b e' where
    2: "buf_ok b" "buf_bytes b = s @ [c]" "allocs X e1 e'"
      "find_header_value (cstr (s @ [c])) ''Content-Length'' = None \<longrightarrow>
         recv_byte X h c (?st\<lparr>st_recv_buf := b1\<rparr>) u e1 = None"
      "find_header_value (cstr (s @ [c])) ''Content-Length'' = Some None \<longrightarrow>
         recv_byte X h c (?st\<lparr>st_recv_buf := b1\<rparr>) u e1 = finish (handle_request X h
           (?st\<lparr>st_recv_buf := b1\<rparr>\<lparr>st_state := STATE_RECEIVING_REQUEST, st_recv_buf := b\<rparr>) u e')"
    by (elim exE conjE) (rule that; assumption)
  have cs: "cstr (s @ [c]) = req" using req(3) sc by (simp add: cstr_id)
  obtain a cs' where "chunks = a # cs'" using chunks(1) by (cases chunks) auto
  then have "sb_stream_recv X h now (map Recv chunks @ rs) st u e =
      sb_stream_recv X h now (Recv (s @ [c]) # rs) st u e"
    using recv_chunks_from [of X h now a cs' rs st u e] chunks(2) sc by simp
  also have "\<dots> = do { (r, st, u, e) \<leftarrow> recv_byte X h c (?st\<lparr>st_recv_buf := b1\<rparr>) u e1;
          case r of Some err \<Rightarrow> Some (err, st, u, e)
                  | None \<Rightarrow> sb_stream_recv X h now rs st u e }"
    using 1(1) by (cases "recv_byte X h c (?st\<lparr>st_recv_buf := b1\<rparr>) u e1")
      (auto simp: recv_bytes_append split: option.splits)
  finally have r: "sb_stream_recv X h now (map Recv chunks @ rs) st u e = \<dots>" .
  show thesis
  proof (rule that [of b e'])
    show "buf_ok b" "buf_bytes b = req" "allocs X e e'"
      using 1 2 sc by (auto intro: allocs_trans)
    show "sb_stream_recv X h now (map Recv chunks @ rs) st u e = None"
      if "find_header_value req ''Content-Length'' = None"
      using r 2(4) that cs by simp
    show "sb_stream_recv X h now (map Recv chunks @ rs) st u e =
         handle_request X h (st\<lparr>st_last_activity := now,
           st_state := STATE_RECEIVING_REQUEST, st_recv_buf := b\<rparr>) u e'"
      if "find_header_value req ''Content-Length'' = Some None"
      using r 2(5) that cs
      by (cases "handle_request X h (st\<lparr>st_last_activity := now,
           st_state := STATE_RECEIVING_REQUEST, st_recv_buf := b\<rparr>) u e'") (auto simp: finish_def)
  qed
qed

lemma case_equal_before_cr:
  assumes "CR \<notin> set field" "\<not> mem_case_equal line field"
  shows "\<not> mem_case_equal (line @ CR # rest) field"
proof
  let ?s = "line @ CR # rest"
  assume h: "mem_case_equal ?s field"
  then have m: "map to_lower (take (length field) ?s) = map to_lower field" by (simp add: mem_case_equal_def)
  then have len: "length field \<le> length ?s" by (metis length_map length_take min.absorb_iff2 min.commute)
  show False
  proof (cases "length field \<le> length line")
    case True
    then show ?thesis using h assms(2) by (simp add: mem_case_equal_def)
  next
    case False
    then have "to_lower (?s ! length line) = to_lower (field ! length line)"
      using arg_cong [OF m, of "\<lambda>xs. xs ! length line"] len by (simp add: nth_append take_Cons')
    moreover have "to_lower CR = CR" by (simp add: to_lower_def ccode_def)
    ultimately have "field ! length line = CR" using to_lower_CR by (metis nth_append_length)
    then show ?thesis using False assms(1) by (metis not_le nth_mem)
  qed
qed

definition other_line :: "string \<Rightarrow> string \<Rightarrow> bool" where
  \<comment> \<open>the text of a line of the header that does not begin with the field\<close>
  "other_line field l \<longleftrightarrow> l \<noteq> [] \<and> CR \<notin> set l \<and> \<not> mem_case_equal l field"

lemma skips_line:
  assumes "other_line field l" "field \<noteq> []" "CR \<notin> set field"
  shows "find_header_value (l @ CR # c # rest) field = find_header_value (if c = LF then rest else CR # c # rest) field"
proof -
  have l: "l \<noteq> []" "CR \<notin> set l" "\<not> mem_case_equal (l @ CR # c # rest) field"
    using assms case_equal_before_cr by (auto simp: other_line_def)
  then have "\<not> mem_equal (l @ CR # c # rest) [CR, LF]" by (cases l) (auto simp: mem_equal_def)
  moreover have "strcspn (l @ CR # c # rest) [CR] = length l"
    using l(2) by (simp add: strcspn_def takeWhile_append)
  ultimately show ?thesis using l by (subst find_header_value.simps) (simp add: mem_equal_def)
qed

lemma lone_cr_hangs:
  assumes lines: "list_all (other_line field) lines" and line: "line \<noteq> [] \<Longrightarrow> other_line field line" and c: "c \<noteq> LF"
    and field: "field \<noteq> []" "CR \<notin> set field"
  shows "find_header_value (concat (map (\<lambda>l. l @ [CR, LF]) lines) @ line @ CR # c # rest) field = None"
  using lines
proof (induction lines)
  case Nil
  have "\<not> mem_equal (CR # c # rest) [CR, LF]" using c by (simp add: mem_equal_def)
  then have "find_header_value (CR # c # rest) field = None"
    using find_header_value_lone_cr [of "CR # c # rest" field] field by (cases "find_header_value (CR # c # rest) field") auto
  then show ?case using line skips_line [OF _ field, of line c rest] c by (cases "line = []") simp_all
next
  case (Cons l lines)
  then show ?case using skips_line [OF _ field, of l LF] by simp
qed

lemma send_status_mono: "sb_send_status X st c msg e = (err, st', e') \<Longrightarrow> st_state st \<le> st_state st'"
  by (auto simp: sb_send_status_def Let_def state_order split: if_splits prod.splits)

lemma send_header_mono: "sb_send_header X st f v e = (err, st', e') \<Longrightarrow> st_state st \<le> st_state st'"
  by (auto simp: sb_send_header_def Let_def split: if_splits prod.splits dest!: send_status_mono)

lemma finalize_mono: "sb_stream_finalize_header X st e = (err, st', e') \<Longrightarrow>
    st_state st \<le> STATE_SENDING_DATA \<Longrightarrow> st_state st \<le> st_state st'"
  by (auto simp: sb_stream_finalize_header_def Let_def split: if_splits prod.splits dest!: send_status_mono)

lemma send_header_stays: "sb_send_header X st f v e = (err, st', e') \<Longrightarrow>
    st_state st \<le> STATE_SENDING_HEADER \<Longrightarrow> st_state st' \<le> STATE_SENDING_HEADER"
  by (auto simp: sb_send_header_def sb_send_status_def Let_def state_order split: if_splits prod.splits)

lemma send_file_mono:
  assumes "sb_send_file X st f e = (err, st', e')"
  shows "st_state st \<le> st_state st'"
proof (cases "st_state st > STATE_SENDING_HEADER")
  case False
  then have le: "st_state st \<le> STATE_SENDING_HEADER" by simp
  obtain ok e1 where o: "sys_open_rd X f e = (ok, e1)" by fastforce
  obtain sz e2 where l: "sys_lseek_end X f e1 = (sz, e2)" by fastforce
  obtain err1 st1 e3 where h: "sb_send_header X st ''Content-Length'' (nat_digits (unat (ucast sz :: c_uint))) e2 = (err1, st1, e3)"
    using prod_cases3 by blast
  obtain err2 st2 e4 where f: "sb_stream_finalize_header X st1 e3 = (err2, st2, e4)" using prod_cases3 by blast
  have 1: "st_state st \<le> st_state st1" by (rule send_header_mono [OF h])
  have "st_state st1 \<le> STATE_SENDING_DATA" using send_header_stays [OF h le] by (simp add: state_order)
  then have 2: "st_state st1 \<le> st_state st2" by (rule finalize_mono [OF f])
  have 3: "st_state st \<le> STATE_SENDING_FILE" using le by (simp add: state_order)
  show ?thesis
    using assms False o l h f 1 order_trans [OF 1 2] 3 by (auto simp: sb_send_file_def Let_def split: if_splits)
qed (use assms in \<open>simp add: sb_send_file_def\<close>)

lemma deliver_request:
  assumes "os_quiet X" "receiving st []" "chunks \<noteq> []" "concat chunks = req" "header_complete req"
    and "\<And>n. n < length req \<Longrightarrow> \<not> header_complete (take n req)" "is_cstr req"
    and "find_header_value req ''Content-Length'' = Some None"
    and "parse_request_line req = Some (m, idx, ver)" "mem_equal ver ''HTTP''"
  shows "\<exists>b e'. sb_stream_recv X h now (map Recv chunks @ rs) st u e =
      sb_stream_emit h (SB_EV_REQUEST m (cstr (fst (url_decode (drop idx req) 512))))
        (st\<lparr>st_last_activity := now, st_state := STATE_SENDING_STATUS, st_recv_buf := b\<rparr>) u e' \<and>
    buf_ok b \<and> buf_bytes b = req \<and> allocs X e e'"
proof (rule recv_request [OF assms(1-7)])
  fix b e1
  assume b: "buf_ok b" "buf_bytes b = req" "allocs X e e1"
    and r: "find_header_value req ''Content-Length'' = Some None \<Longrightarrow>
       sb_stream_recv X h now (map Recv chunks @ rs) st u e =
         handle_request X h (st\<lparr>st_last_activity := now,
           st_state := STATE_RECEIVING_REQUEST, st_recv_buf := b\<rparr>) u e1"
  let ?st = "st\<lparr>st_last_activity := now, st_state := STATE_RECEIVING_REQUEST, st_recv_buf := b\<rparr>"
  have "buf_ok (st_recv_buf ?st)" "cstr (buf_bytes (st_recv_buf ?st)) = req"
    using b assms(7) by (simp_all add: cstr_id)
  from handle_request_quiet [OF assms(1) this assms(9,10), of h u e1] obtain b' e' where
    "handle_request X h ?st u e1 =
      sb_stream_emit h (SB_EV_REQUEST m (cstr (fst (url_decode (drop idx req) 512))))
        (?st\<lparr>st_state := STATE_SENDING_STATUS, st_recv_buf := b'\<rparr>) u e'"
    "buf_ok b'" "buf_bytes b' = req" "allocs X e1 e'"
    using b by auto
  then show ?thesis
    using r assms(8) b(3) by (intro exI [of _ b'] exI [of _ e']) (auto intro: allocs_trans)
qed

lemma send_status_ok_text:
  assumes "stream_ok st" "sb_send_status X st 200 ''OK'' e = (SB_ESUCCESS, st', e')"
  shows "stream_ok st' \<and> st_state st' = STATE_SENDING_HEADER \<and>
    buf_bytes (st_send_buf st') = buf_bytes (st_send_buf st) @ ''HTTP/1.1 200 OK'' @ [CR, LF]"
proof -
  have "int_dec 200 = ''200''"
    by (simp add: int_dec_def neg_def nat_digits.simps [of 200] nat_digits.simps [of 20] nat_digits.simps [of 2]
        char_of_def bit_Suc_0_iff)
  let ?its = "map FChar ''HTTP/1.1 '' @ [FOut (int_dec 200), FChar SP, FStr (Some ''OK''), FChar CR, FChar LF]"
  obtain err b e1 where p: "sb_buffer_vwritef X (st_send_buf st) ?its e = (err, b, e1)"
    using prod_cases3 by blast
  have w: "err = SB_ESUCCESS" "st' = st\<lparr>st_send_buf := b, st_state := STATE_SENDING_HEADER\<rparr>"
    using assms(2) p unfolding sb_send_status_def Let_def by (simp_all split: if_splits)
  have "concat (map item_text ?its) = ''HTTP/1.1 200 OK'' @ [CR, LF]"
    using \<open>int_dec 200 = ''200''\<close> by simp
  with vwritef.push_success [OF _ p [unfolded w(1)]] assms(1) w(2) show ?thesis
    by (simp add: stream_ok_def)
qed

lemma finalize_text:
  assumes "stream_ok st" "st_state st = STATE_SENDING_STATUS"
    "sb_stream_finalize_header X st e = (SB_ESUCCESS, st', e')"
  shows "stream_ok st' \<and> st_state st' = STATE_SENDING_DATA \<and>
    buf_bytes (st_send_buf st') = buf_bytes (st_send_buf st) @ ''HTTP/1.1 200 OK'' @ [CR, LF, CR, LF]"
proof -
  obtain err st1 e1 where s: "sb_send_status X st 200 ''OK'' e = (err, st1, e1)" using prod_cases3 by blast
  have lt: "st_state st < STATE_SENDING_HEADER" using assms(2) by (simp add: state_order)
  have "err = SB_ESUCCESS"
    using assms(3) s lt by (auto simp: sb_stream_finalize_header_def Let_def split: if_splits)
  note one = send_status_ok_text [OF assms(1) s [unfolded this]]
  obtain err' b e2 where p: "sb_buffer_push_str X (st_send_buf st1) [CR, LF] e1 = (err', b, e2)"
    using prod_cases3 by blast
  have w: "err' = SB_ESUCCESS" "st' = st1\<lparr>st_send_buf := b, st_state := STATE_SENDING_DATA\<rparr>"
    using assms(3) s lt p \<open>err = SB_ESUCCESS\<close>
    by (auto simp: sb_stream_finalize_header_def Let_def split: if_splits)
  show ?thesis
    using push_str.push_success [OF _ p [unfolded w(1)]] one w(2) by (simp add: stream_ok_def)
qed

definition response_opening :: "sb_state \<Rightarrow> string" where
  \<comment> \<open>what a response in this state lacks before its data\<close>
  "response_opening s =
     (if s = STATE_SENDING_STATUS then ''HTTP/1.1 200 OK'' @ [CR, LF, CR, LF]
      else if s = STATE_SENDING_HEADER then [CR, LF] else [])"

lemma response_opening_simps [simp]:
  "response_opening STATE_SENDING_STATUS = ''HTTP/1.1 200 OK'' @ [CR, LF, CR, LF]"
  "response_opening STATE_SENDING_HEADER = [CR, LF]" "response_opening STATE_SENDING_DATA = []"
  by (simp_all add: response_opening_def)

lemma finalize_opens:
  assumes "stream_ok st" "sb_stream_finalize_header X st e = (SB_ESUCCESS, st', e')" "st_state st < STATE_SENDING_DATA"
  shows "st_state st \<in> {STATE_SENDING_STATUS, STATE_SENDING_HEADER} \<and> stream_ok st' \<and>
    buf_bytes (st_send_buf st') = buf_bytes (st_send_buf st) @ response_opening (st_state st)"
proof (cases "st_state st = STATE_SENDING_HEADER")
  case True
  obtain err b e2 where p: "sb_buffer_push_str X (st_send_buf st) [CR, LF] e = (err, b, e2)"
    using prod_cases3 by blast
  have w: "err = SB_ESUCCESS" "st' = st\<lparr>st_send_buf := b, st_state := STATE_SENDING_DATA\<rparr>"
    using assms(2) True p by (auto simp: sb_stream_finalize_header_def Let_def split: if_splits)
  show ?thesis
    using push_str.push_success [OF _ p [unfolded w(1)]] assms(1) w(2) True by (simp add: stream_ok_def)
next
  case False
  then have "st_state st < STATE_SENDING_HEADER" using assms(3) by (cases "st_state st") (simp_all add: state_order)
  then have "st_state st = STATE_SENDING_STATUS"
    using assms(2) by (rule_tac ccontr) (auto simp: sb_stream_finalize_header_def sb_send_status_def Let_def)
  with finalize_text [OF assms(1) this assms(2)] show ?thesis by simp
qed

lemma push_chars_quiet:
  "os_quiet X \<Longrightarrow> buf_ok b \<Longrightarrow> push_chars X b p e = (err, b', e') \<Longrightarrow> err = SB_ESUCCESS \<and> allocs X e e'"
proof (induction p arbitrary: b e)
  case (Cons c p)
  obtain r b1 e1 where push: "sb_buffer_push_char X b c e = (r, b1, e1)" using prod_cases3 by blast
  note one = push_char_quiet [OF Cons.prems(1,2) push]
  then have "push_chars X b1 p e1 = (err, b', e')" using Cons.prems(3) push by simp
  with Cons.IH [OF Cons.prems(1) _ this] one show ?case by (auto intro: allocs_trans)
qed simp

lemma push_str_quiet:
  assumes "os_quiet X" "buf_ok b" "sb_buffer_push_str X b p e = (err, b', e')"
  shows "err = SB_ESUCCESS \<and> allocs X e e'"
  using assms by (auto simp: sb_buffer_push_str_def split: prod.splits if_splits dest: push_chars_quiet)

lemma push_items_quiet:
  "os_quiet X \<Longrightarrow> buf_ok b \<Longrightarrow> push_items X b its e = (err, b', e') \<Longrightarrow> err = SB_ESUCCESS \<and> allocs X e e'"
proof (induction its arbitrary: b e)
  case (Cons it its)
  obtain r b1 e1 where push: "(case it of FChar c \<Rightarrow> sb_buffer_push_char X b c e
      | FStr None \<Rightarrow> sb_buffer_push_str X b ''(null)'' e
      | FStr (Some s) \<Rightarrow> sb_buffer_push_str X b s e
      | FOut s \<Rightarrow> sb_buffer_push_str X b s e) = (r, b1, e1)"
    using prod_cases3 by blast
  have one: "r = SB_ESUCCESS \<and> allocs X e e1"
    using push Cons.prems(1,2)
    by (auto split: fmt_item.splits option.splits dest: push_char_quiet push_str_quiet)
  moreover have "buf_ok b1"
    using push_item_appends [OF Cons.prems(2), of it X e] push by (simp add: appended_def)
  moreover have "push_items X b1 its e1 = (err, b', e')" using Cons.prems(3) push one by simp
  ultimately show ?case using Cons.IH [OF Cons.prems(1), of b1 e1] by (auto intro: allocs_trans)
qed simp

lemma vwritef_quiet:
  "os_quiet X \<Longrightarrow> buf_ok b \<Longrightarrow> sb_buffer_vwritef X b its e = (err, b', e') \<Longrightarrow>
     err = SB_ESUCCESS \<and> allocs X e e'"
  by (auto simp: sb_buffer_vwritef_def split: prod.splits if_splits dest: push_items_quiet)

lemma send_status_quiet:
  assumes "os_quiet X" "stream_ok st" "st_state st = STATE_SENDING_STATUS"
  shows "\<exists>b e'. sb_send_status X st 200 ''OK'' e =
      (SB_ESUCCESS, st\<lparr>st_send_buf := b, st_state := STATE_SENDING_HEADER\<rparr>, e') \<and> buf_ok b \<and>
    buf_bytes b = buf_bytes (st_send_buf st) @ ''HTTP/1.1 200 OK'' @ [CR, LF] \<and> allocs X e e'"
proof -
  let ?its = "map FChar ''HTTP/1.1 '' @ [FOut (int_dec 200), FChar SP, FStr (Some ''OK''), FChar CR, FChar LF]"
  obtain err b e' where p: "sb_buffer_vwritef X (st_send_buf st) ?its e = (err, b, e')"
    using prod_cases3 by blast
  have ok: "buf_ok (st_send_buf st)" using assms(2) by (simp add: stream_ok_def)
  note q = vwritef_quiet [OF assms(1) ok p]
  have r: "sb_send_status X st 200 ''OK'' e =
      (SB_ESUCCESS, st\<lparr>st_send_buf := b, st_state := STATE_SENDING_HEADER\<rparr>, e')"
    using p q assms(3) unfolding sb_send_status_def Let_def by simp
  from send_status_ok_text [OF assms(2) r] r q show ?thesis by (auto simp: stream_ok_def)
qed

subsection \<open>Properties\<close>

text \<open>
  C28: A request whose header has a carriage return that no line feed follows, on a line before
  which no line begins with the name Content-Length and which does not begin with it either, makes
  the redirect server hang: find_header_value stands still at that character, so sb_stream_recv
  never returns, whatever follows in the header and however the request is cut into chunks.
\<close>

theorem lone_carriage_return_hangs_the_server:
  assumes "os_quiet X" "receiving st []" "chunks \<noteq> []"
    and req: "concat chunks = concat (map (\<lambda>l. l @ [CR, LF]) lines) @ line @ CR # c # rest" "c \<noteq> LF"
    and "header_complete (concat chunks)" "\<And>n. n < length (concat chunks) \<Longrightarrow> \<not> header_complete (take n (concat chunks))"
    and "is_cstr (concat chunks)"
    and lines: "list_all (other_line ''Content-Length'') lines" "line \<noteq> [] \<Longrightarrow> other_line ''Content-Length'' line"
  shows "sb_stream_recv X h now (map Recv chunks @ rs) st u e = None"
proof (rule recv_request [OF assms(1-3) refl assms(6-8)])
  fix b e' assume "find_header_value (concat chunks) ''Content-Length'' = None \<Longrightarrow>
       sb_stream_recv X h now (map Recv chunks @ rs) st u e = None"
  then show ?thesis
    using lone_cr_hangs [OF lines req(2), of rest] req(1) by simp
qed

text \<open>
  C26: A successful sb_write queues what the response still lacks before its data and then the
  data, and nothing else: the status line and the blank line when nothing has been sent, the blank
  line alone after the status or a header, neither after data; it leaves the stream in the data
  state. In every other state it does not succeed.
\<close>

theorem write_completes_the_header:
  assumes ok: "stream_ok st" and w: "sb_write X st data e = (SB_ESUCCESS, st', e')"
  shows "st_state st \<in> {STATE_SENDING_STATUS, STATE_SENDING_HEADER, STATE_SENDING_DATA} \<and>
    buf_bytes (st_send_buf st') = buf_bytes (st_send_buf st) @ response_opening (st_state st) @ data \<and>
    st_state st' = STATE_SENDING_DATA \<and> stream_ok st'"
proof -
  obtain err st1 e1 where f: "(if st_state st < STATE_SENDING_DATA then sb_stream_finalize_header X st e
      else (SB_ESUCCESS, st, e)) = (err, st1, e1)" using prod_cases3 by blast
  have err: "err = SB_ESUCCESS" and data: "st_state st1 = STATE_SENDING_DATA"
    using w f by (auto simp: sb_write_def Let_def split: if_splits)
  have one: "st_state st \<in> {STATE_SENDING_STATUS, STATE_SENDING_HEADER, STATE_SENDING_DATA} \<and> stream_ok st1 \<and>
      buf_bytes (st_send_buf st1) = buf_bytes (st_send_buf st) @ response_opening (st_state st)"
    using f err data ok finalize_opens [OF ok, of X e st1 e1] by (auto split: if_splits)
  obtain err' b e2 where p: "sb_buffer_push_str X (st_send_buf st1) data e1 = (err', b, e2)"
    using prod_cases3 by blast
  have w: "err' = SB_ESUCCESS" "st' = st1\<lparr>st_send_buf := b\<rparr>"
    using w f p err data by (simp_all add: sb_write_def Let_def)
  show ?thesis
    using push_str.push_success [OF _ p [unfolded w(1)]] one data w(2) by (simp add: stream_ok_def)
qed

text \<open>
  C27: The operations that answer a request (status, header, file, data, formatted data), and the
  step that sends the answer, only move a stream forward through its states. A status that is not
  the first thing sent, a header or a file after the header part, and data or formatted data after
  the data part are refused without changing the stream.
\<close>

theorem responses_only_move_forward:
  "(case sb_send_status X st c msg e of (err, st', e') \<Rightarrow>
      st_state st \<le> st_state st' \<and> (st_state st \<noteq> STATE_SENDING_STATUS \<longrightarrow> err = SB_EBADSTATE \<and> st' = st)) \<and>
   (case sb_send_header X st f v e of (err, st', e') \<Rightarrow>
      st_state st \<le> st_state st' \<and> (st_state st > STATE_SENDING_HEADER \<longrightarrow> err = SB_EBADSTATE \<and> st' = st)) \<and>
   (case sb_send_file X st filename e of (err, st', e') \<Rightarrow>
      st_state st \<le> st_state st' \<and> (st_state st > STATE_SENDING_HEADER \<longrightarrow> err = SB_EBADSTATE \<and> st' = st)) \<and>
   (case sb_write X st data e of (err, st', e') \<Rightarrow>
      st_state st \<le> st_state st' \<and> (st_state st > STATE_SENDING_DATA \<longrightarrow> err = SB_EBADSTATE \<and> st' = st)) \<and>
   (case sb_vwritef X st fmt e of (err, st', e') \<Rightarrow>
      st_state st \<le> st_state st' \<and> (st_state st > STATE_SENDING_DATA \<longrightarrow> err = SB_EBADSTATE \<and> st' = st)) \<and>
   (case sb_stream_send X now r st e of (err, st', e') \<Rightarrow> st_state st \<le> st_state st')"
proof (intro conjI)
  show "case sb_send_status X st c msg e of (err, st', e') \<Rightarrow>
      st_state st \<le> st_state st' \<and> (st_state st \<noteq> STATE_SENDING_STATUS \<longrightarrow> err = SB_EBADSTATE \<and> st' = st)"
    by (auto split: prod.split dest: send_status_mono) (auto simp: sb_send_status_def)
  show "case sb_send_header X st f v e of (err, st', e') \<Rightarrow>
      st_state st \<le> st_state st' \<and> (st_state st > STATE_SENDING_HEADER \<longrightarrow> err = SB_EBADSTATE \<and> st' = st)"
    by (auto split: prod.split dest: send_header_mono) (auto simp: sb_send_header_def)
  show "case sb_send_file X st filename e of (err, st', e') \<Rightarrow>
      st_state st \<le> st_state st' \<and> (st_state st > STATE_SENDING_HEADER \<longrightarrow> err = SB_EBADSTATE \<and> st' = st)"
    by (auto split: prod.split dest: send_file_mono) (auto simp: sb_send_file_def)
  show "case sb_write X st data e of (err, st', e') \<Rightarrow>
      st_state st \<le> st_state st' \<and> (st_state st > STATE_SENDING_DATA \<longrightarrow> err = SB_EBADSTATE \<and> st' = st)"
    by (auto simp: sb_write_def Let_def state_order split: prod.splits if_splits dest!: finalize_mono)
  show "case sb_vwritef X st fmt e of (err, st', e') \<Rightarrow>
      st_state st \<le> st_state st' \<and> (st_state st > STATE_SENDING_DATA \<longrightarrow> err = SB_EBADSTATE \<and> st' = st)"
    by (auto simp: sb_vwritef_def Let_def state_order split: prod.splits if_splits dest!: finalize_mono)
  show "case sb_stream_send X now r st e of (err, st', e') \<Rightarrow> st_state st \<le> st_state st'"
    by (auto simp: sb_stream_send_def send_data_def sb_stream_close_def Let_def state_order
        split: prod.splits option.splits send_result.splits) (cases "st_state st"; simp)+
qed

definition sample_stream :: "sb_state \<Rightarrow> sb_stream" where
  "sample_stream s = \<lparr>st_state = s, st_address = ''::1'', st_init_time = 0, st_last_activity = 0,
     st_expected_recv_len = 0, st_data_idx = 0, st_sockfd = 5, st_recv_buf = sb_buffer_init,
     st_send_buf = sb_buffer_init, st_send_fp = None\<rparr>"

lemma sample_stream_ok: "stream_ok (sample_stream s)" "receiving (sample_stream STATE_RECEIVING_HEADER) []"
  by (simp_all add: stream_ok_def receiving_def sample_stream_def sb_buffer_init_def buf_ok_def buf_bytes_def)

definition hanging_request :: string where
  \<comment> \<open>a carriage return in the second line and another one further on\<close>
  "hanging_request = ''GET /'' @ [CR, LF] @ ''A: 1'' @ CR # ''x'' @ [CR, LF] @ ''B: 2'' @ CR # CHR ''y'' # [CR, LF, CR, LF]"

lemma hanging_request:
  "header_complete hanging_request" "is_cstr hanging_request"
  "n < length hanging_request \<Longrightarrow> \<not> header_complete (take n hanging_request)"
proof -
  show "header_complete hanging_request" "is_cstr hanging_request"
    by (simp_all add: hanging_request_def header_complete_def NUL_def)
  have "list_all (\<lambda>n. \<not> header_complete (take n hanging_request)) [0..<length hanging_request]" by code_simp
  then show "n < length hanging_request \<Longrightarrow> \<not> header_complete (take n hanging_request)" by (simp add: list_all_iff)
qed

theorem lone_carriage_return_hangs_the_server_witness:
  "sb_stream_recv (sample_os :: unit os) (\<lambda>ev st u e. Some (SB_RES_OK, st, u, e)) 1000 [Recv ''GET /'', Recv (drop 5 hanging_request)]
     (sample_stream STATE_RECEIVING_HEADER) () sample_env = None"
proof -
  let ?chunks = "[''GET /'', drop 5 hanging_request]"
  have req: "concat ?chunks = hanging_request" by (simp add: hanging_request_def)
  have "sb_stream_recv (sample_os :: unit os) (\<lambda>ev st u e. Some (SB_RES_OK, st, u, e)) 1000 (map Recv ?chunks @ [])
     (sample_stream STATE_RECEIVING_HEADER) () sample_env = None"
  proof (rule lone_carriage_return_hangs_the_server [OF sample_quiet sample_stream_ok(2)])
    show "concat ?chunks = concat (map (\<lambda>l. l @ [CR, LF]) [''GET /'']) @ ''A: 1'' @ CR # CHR ''x'' #
        CR # LF # ''B: 2'' @ CR # CHR ''y'' # [CR, LF, CR, LF]"
      unfolding req by (simp add: hanging_request_def)
    show "list_all (other_line ''Content-Length'') [''GET /'']" "other_line ''Content-Length'' ''A: 1''"
      by (simp_all add: other_line_def mem_case_equal_def to_lower_def ccode_def)
  qed (unfold req, simp_all add: hanging_request)
  then show ?thesis by (simp only: list.map append_Nil2)
qed

theorem write_completes_the_header_witness:
  "\<exists>st' e'. sb_write (sample_os :: unit os) (sample_stream STATE_SENDING_HEADER) ''hi'' sample_env =
      (SB_ESUCCESS, st', e') \<and>
    buf_bytes (st_send_buf st') = [CR, LF] @ ''hi''"
proof -
  have "fst (sb_write (sample_os :: unit os) (sample_stream STATE_SENDING_HEADER) ''hi'' sample_env) = 0"
    by code_simp
  then obtain st' e' where
    w: "sb_write (sample_os :: unit os) (sample_stream STATE_SENDING_HEADER) ''hi'' sample_env = (0, st', e')"
    by (metis prod.collapse)
  have "st_state (sample_stream STATE_SENDING_HEADER) = STATE_SENDING_HEADER"
    "buf_bytes (st_send_buf (sample_stream STATE_SENDING_HEADER)) = []"
    by (simp_all add: sample_stream_def sb_buffer_init_def buf_bytes_def)
  with write_completes_the_header [OF sample_stream_ok(1) w] w show ?thesis by simp
qed

theorem responses_only_move_forward_witness:
  "fst (sb_send_header (sample_os :: unit os) (sample_stream STATE_SENDING_DATA) ''a'' ''b'' sample_env) = SB_EBADSTATE \<and>
   fst (sb_send_file (sample_os :: unit os) (sample_stream STATE_SENDING_DATA) ''/f'' sample_env) = SB_EBADSTATE"
  using responses_only_move_forward [where X = "sample_os :: unit os" and e = sample_env and f = "''a''"
      and v = "''b''" and st = "sample_stream STATE_SENDING_DATA" and c = 200 and msg = "[]" and data = "[]"
      and now = 0 and r = SendError and filename = "''/f''" and fmt = "[]"]
  by (simp add: sample_stream_def state_order split: prod.splits)

end
