(* ===== verification/Sandbird_Multipart.thy ===== *)
theory Sandbird_Multipart
  imports Sandbird
begin

text \<open>
  \<open>sb_get_multipart\<close> of \<open>sandbird.c\<close>: the data of a part of a multipart request. A pointer into the receive
  buffer is the list of what follows it up to the end of the buffer's contents. The search macros stop one
  literal before this end, but only when they do not start behind that place: then they run out of the
  buffer, \<open>None\<close>. The library does not call this function.
\<close>

subsection \<open>The reader\<close>

fun after_literal :: "string \<Rightarrow> bytes \<Rightarrow> bytes option option" where
  \<comment> \<open>\<open>P_AFTERL\<close>; the inner \<open>None\<close> is the jump to \<open>fail\<close>\<close>
  "after_literal lit p =
     (if length p < length lit then None
      else if length p = length lit then Some None
      else if mem_equal p lit then Some (Some (drop (length lit) p))
      else after_literal lit (tl p))"

declare after_literal.simps [simp del]

definition header_value_at :: "bytes \<Rightarrow> string \<Rightarrow> bytes option option" where
  \<comment> \<open>\<open>P_ATCHK(find_header_value(p, field))\<close>: the search ends at a null byte, the result points into the buffer\<close>
  "header_value_at p field =
     (case find_header_value (cstr p) field of
        None \<Rightarrow> None
      | Some None \<Rightarrow> Some None
      | Some (Some v) \<Rightarrow> Some (Some (drop (length (cstr p) - length v) p)))"

lemma after_literal_shorter: "after_literal lit p = Some (Some q) \<Longrightarrow> length q + length lit \<le> length p"
proof (induction lit p rule: after_literal.induct)
  case (1 lit p)
  show ?case
  proof (cases "length p \<le> length lit \<or> mem_equal p lit")
    case True
    with 1(2) show ?thesis by (subst (asm) after_literal.simps) (auto split: if_splits)
  next
    case False
    then have "after_literal lit (tl p) = Some (Some q)" using 1(2) by (subst (asm) after_literal.simps) (simp split: if_splits)
    with 1(1) False show ?thesis by force
  qed
qed

lemma header_value_at_shorter: "header_value_at p field = Some (Some q) \<Longrightarrow> length q \<le> length p"
  by (auto simp: header_value_at_def split: option.splits)

function find_part :: "string \<Rightarrow> string \<Rightarrow> bytes \<Rightarrow> (bytes \<times> size_t) option option" where
  \<comment> \<open>from the label \<open>next\<close>: where the data starts and its length\<close>
  "find_part boundary name p =
     (case after_literal boundary p of None \<Rightarrow> None | Some None \<Rightarrow> Some None | Some (Some p) \<Rightarrow>
      case after_literal [CR, LF] p of None \<Rightarrow> None | Some None \<Rightarrow> Some None | Some (Some p) \<Rightarrow>
      case header_value_at p ''Content-Disposition'' of None \<Rightarrow> None | Some None \<Rightarrow> Some None | Some (Some p) \<Rightarrow>
      case after_literal (''name='' @ [CHR 0x22]) p of None \<Rightarrow> None | Some None \<Rightarrow> Some None | Some (Some p) \<Rightarrow>
        if mem_equal p name \<and> char_at p (length name) = CHR 0x22 then
          (case after_literal [CR, LF, CR, LF] p of None \<Rightarrow> None | Some None \<Rightarrow> Some None | Some (Some res) \<Rightarrow>
           case after_literal boundary res of None \<Rightarrow> None | Some None \<Rightarrow> Some None | Some (Some p) \<Rightarrow>
             Some (Some (res, word_of_nat (length res - length p) - word_of_nat (length boundary) - 4)))
        else find_part boundary name p)"
  by pat_completeness auto
termination
  by (relation "measure (\<lambda>(boundary, name, p). length p)")
    (auto dest!: after_literal_shorter header_value_at_shorter)

declare find_part.simps [simp del]

definition sb_get_multipart :: "sb_stream \<Rightarrow> string \<Rightarrow> (bytes \<times> size_t) option option" where
  \<comment> \<open>the inner \<open>None\<close> is the null pointer with length 0\<close>
  "sb_get_multipart st name =
     (case header_value_at (buf_bytes (st_recv_buf st)) ''Content-Type'' of None \<Rightarrow> None | Some None \<Rightarrow> Some None | Some (Some p) \<Rightarrow>
      case after_literal ''boundary='' p of None \<Rightarrow> None | Some None \<Rightarrow> Some None | Some (Some b) \<Rightarrow>
      case after_literal [CR, LF] b of None \<Rightarrow> None | Some None \<Rightarrow> Some None | Some (Some p) \<Rightarrow>
        find_part (take (length b - length p - 2) b) name p)"

subsection \<open>Where it stops\<close>

lemma after_literal_first:
  assumes "\<And>k. k < length u \<Longrightarrow> \<not> mem_equal (drop k u @ lit @ v) lit" "v \<noteq> []"
  shows "after_literal lit (u @ lit @ v) = Some (Some v)"
  using assms
proof (induction u)
  case Nil
  then show ?case by (simp add: after_literal.simps [of lit] mem_equal_def)
next
  case (Cons c u)
  from Cons.prems(1) [of 0] have "\<not> mem_equal (c # u @ lit @ v) lit" by simp
  moreover from Cons.prems(1) [of "Suc _"] have "after_literal lit (u @ lit @ v) = Some (Some v)"
    using Cons.IH Cons.prems(2) by simp
  ultimately show ?case using Cons.prems(2) by (simp add: after_literal.simps [of lit "c # _"])
qed

lemma after_literal_runs_out: "length p < length lit \<Longrightarrow> after_literal lit p = None"
  by (simp add: after_literal.simps)

lemma header_value_at_start:
  assumes "NUL \<notin> set field" "field \<noteq> []" "CR \<notin> set field" "h \<noteq> []" "hd h \<notin> {SP, TAB, NUL}"
  shows "header_value_at (field @ '': '' @ h) field = Some (Some h)"
proof -
  have c: "cstr (field @ '': '' @ h) = field @ '': '' @ cstr h"
    using assms(1) by (simp add: cstr_def takeWhile_append NUL_def)
  have "cstr h \<noteq> []" "hd (cstr h) = hd h" using assms(4,5) by (cases h; simp add: cstr_def)+
  then have sp: "strspn (SP # cstr h) [SP, TAB] = 1" using assms(5) by (cases "cstr h") (simp_all add: strspn_def)
  have "\<not> mem_equal (field @ '': '' @ cstr h) [CR, LF]" using assms(2,3) by (cases field) (auto simp: mem_equal_def)
  moreover have "mem_case_equal (field @ '': '' @ cstr h) field" "char_at (field @ '': '' @ cstr h) (length field) = CHR '':''"
    by (simp_all add: mem_case_equal_def char_at_def nth_append)
  ultimately have "find_header_value (field @ '': '' @ cstr h) field = Some (Some (cstr h))"
    using assms(2) sp by (subst find_header_value.simps) (simp add: drop_append)
  then show ?thesis using c by (simp add: header_value_at_def drop_append)
qed

lemma literal_after_clean:
  assumes "hd lit \<notin> set u" "lit \<noteq> []" "v \<noteq> []"
  shows "after_literal lit (u @ lit @ v) = Some (Some v)"
proof (rule after_literal_first [OF _ assms(3)])
  fix k
  assume "k < length u"
  then have "drop k (u @ lit @ v) \<noteq> []" "hd (drop k (u @ lit @ v)) = u ! k"
    by (simp_all add: hd_drop_conv_nth nth_append)
  with \<open>k < length u\<close> assms(1,2) show "\<not> mem_equal (drop k u @ lit @ v) lit"
    by (cases lit) (auto simp: mem_equal_def Cons_nth_drop_Suc [symmetric])
qed

definition part_head :: "string \<Rightarrow> bytes" where
  \<comment> \<open>what follows the boundary of a part of this name\<close>
  "part_head name = [CR, LF] @ ''Content-Disposition'' @ '': '' @ ''form-data; '' @ ''name='' @ [CHR 0x22] @ name @ [CHR 0x22, CR, LF, CR, LF]"

text \<open>
  A part whose data does not contain the boundary is returned whole: the length that is stored is the
  one of the data, without the line end and the two hyphens before the boundary.
\<close>

lemma part_is_found:
  assumes first: "\<And>k. k < length pre \<Longrightarrow> \<not> mem_equal (drop k pre @ B @ part_head name @ data @ [CR, LF] @ ''--'' @ B @ tail) B"
    and data: "\<And>k. k < length (data @ [CR, LF] @ ''--'') \<Longrightarrow> \<not> mem_equal (drop k (data @ [CR, LF] @ ''--'') @ B @ tail) B"
    and name: "CR \<notin> set name" and tail: "tail \<noteq> []"
  shows "find_part B name (pre @ B @ part_head name @ data @ [CR, LF] @ ''--'' @ B @ tail) =
    Some (Some (data @ [CR, LF] @ ''--'' @ B @ tail, word_of_nat (length data)))"
proof -
  let ?d = "data @ [CR, LF] @ ''--'' @ B @ tail"
  let ?q = "name @ [CHR 0x22, CR, LF, CR, LF] @ ?d"
  let ?h = "''form-data; '' @ (''name='' @ [CHR 0x22]) @ ?q"
  have 1: "after_literal B (pre @ B @ part_head name @ ?d) = Some (Some (part_head name @ ?d))"
    by (rule after_literal_first [OF first]) (simp_all add: part_head_def)
  have 2: "after_literal [CR, LF] (part_head name @ ?d) = Some (Some (''Content-Disposition'' @ '': '' @ ?h))"
    using literal_after_clean [of "[CR, LF]" "[]" "''Content-Disposition'' @ '': '' @ ?h"] by (simp add: part_head_def)
  have 3: "header_value_at (''Content-Disposition'' @ '': '' @ ?h) ''Content-Disposition'' = Some (Some ?h)"
    by (rule header_value_at_start) (simp_all add: NUL_def)
  have 4: "after_literal (''name='' @ [CHR 0x22]) ?h = Some (Some ?q)"
    by (rule literal_after_clean) simp_all
  have 5: "mem_equal ?q name" "char_at ?q (length name) = CHR 0x22" by (simp_all add: mem_equal_def char_at_def nth_append)
  have 6: "after_literal [CR, LF, CR, LF] ?q = Some (Some ?d)"
    using literal_after_clean [of "[CR, LF, CR, LF]" "name @ [CHR 0x22]" ?d] name by simp
  have 7: "after_literal B ?d = Some (Some tail)"
    using after_literal_first [OF data tail] by simp
  have "word_of_nat (length ?d - length tail) - word_of_nat (length B) - 4 = (word_of_nat (length data) :: size_t)" by simp
  then show ?thesis
    by (subst find_part.simps) (simp only: 1 2 3 4 5 6 7 option.case if_True simp_thms)
qed

text \<open>
  When the contents of the buffer end one byte behind a boundary, as after a request that was cut there,
  the search for the end of the line starts behind the place where it would stop.
\<close>

lemma cut_request_runs_out:
  assumes "\<And>k. k < length pre \<Longrightarrow> \<not> mem_equal (drop k pre @ B @ [c]) B"
  shows "find_part B name (pre @ B @ [c]) = None"
proof -
  have "after_literal B (pre @ B @ [c]) = Some (Some [c])" by (rule after_literal_first [OF assms]) simp_all
  then show ?thesis by (subst find_part.simps) (simp add: after_literal_runs_out)
qed

end
