(* ===== verification/Http_Trace.thy ===== *)
theory Http_Trace
  imports Http_Client Sandbird_Util
begin

text \<open>
  The rest of \<open>http_client.c\<close>: the functions that run when the library is loaded and unloaded, the trace
  that libcurl calls back with what is exchanged, and the two setters without a caller. What is logged is
  a list of lines; the lemmas say that the dump never leaves its line and shows every byte.
\<close>

subsection \<open>Loading and unloading\<close>

definition http_initializer :: "('w, 'a) curl_os_scheme \<Rightarrow> 'w env \<Rightarrow> 'w env" where
  "http_initializer X e =
     (let (rc, w) = curl_global_init X (env_world e); e = e\<lparr>env_world := w\<rparr>
      in if rc \<noteq> CURLE_OK then e else e\<lparr>env_curl_ready := True\<rparr>)"

definition http_finalizer :: "'w env \<Rightarrow> 'w env" where
  "http_finalizer e = (if \<not> env_curl_ready e then e else e\<lparr>env_curl_ready := False\<rparr>)"

subsection \<open>Setters without a caller\<close>

definition http_client_set_request_body ::
    "('w, 'a) curl_os_scheme \<Rightarrow> http_client \<Rightarrow> c_int \<times> http_client" where
  \<comment> \<open>the callback and its data are not part of the option\<close>
  "http_client_set_request_body X c =
     (0, snd (easy_setopt X CURLOPT_READDATA (snd (easy_setopt X CURLOPT_READFUNCTION
           (snd (easy_setopt X CURLOPT_UPLOAD c))))))"

definition http_client_set_response_header ::
    "('w, 'a) curl_os_scheme \<Rightarrow> http_client \<Rightarrow> c_int \<times> http_client" where
  "http_client_set_response_header X c =
     (0, snd (easy_setopt X CURLOPT_HEADERDATA (snd (easy_setopt X CURLOPT_HEADERFUNCTION c))))"

subsection \<open>The trace\<close>

fun hex_digits :: "nat \<Rightarrow> string" where
  \<comment> \<open>\<open>%x\<close>\<close>
  "hex_digits n =
     (let d = (if n mod 16 < 10 then char_of (48 + n mod 16) else char_of (87 + n mod 16))
      in if n < 16 then [d] else hex_digits (n div 16) @ [d])"

declare hex_digits.simps [simp del]

definition zero_pad :: "nat \<Rightarrow> string \<Rightarrow> string" where
  "zero_pad k s = replicate (k - length s) CHR ''0'' @ s"

definition shown :: "char \<Rightarrow> char" where
  "shown c = (if 32 \<le> ccode c \<and> ccode c < 128 then c else CHR ''.'')"

definition dump_hex :: "bytes \<Rightarrow> nat \<Rightarrow> string" where
  "dump_hex data i =
     concat (map (\<lambda>c. if i + c < length data then zero_pad 2 (hex_digits (ccode (data ! (i + c)))) @ '' '' else ''   '') [0..<16])"

definition dump_line :: "bytes \<Rightarrow> nat \<Rightarrow> string option" where
  \<comment> \<open>one round of the loop, in \<open>buf[1024]\<close>\<close>
  "dump_line data i =
     sprintf_buf 1024 (zero_pad 4 (hex_digits i) @ '': '' @ dump_hex data i @ map shown (take 16 (drop i data)))"

function dump_lines :: "bytes \<Rightarrow> nat \<Rightarrow> string list option" where
  "dump_lines data i =
     (if i < length data then
        do { line \<leftarrow> dump_line data i; rest \<leftarrow> dump_lines data (i + 16); Some ((''HttpClient: '' @ line) # rest) }
      else Some [])"
  by pat_completeness auto
termination by (relation "measure (\<lambda>(data, i). length data - i)") auto

declare dump_lines.simps [simp del]

definition dump :: "string \<Rightarrow> bytes \<Rightarrow> string list option" where
  "dump text data =
     do {
       rest \<leftarrow> dump_lines data 0;
       Some ((''HttpClient: '' @ text @ '', '' @ zero_pad 10 (nat_digits (length data)) @ '' bytes (0x'' @
         zero_pad 8 (hex_digits (length data)) @ '')'') # rest) }"

datatype curl_infotype = CURLINFO_TEXT | CURLINFO_HEADER_IN | CURLINFO_HEADER_OUT | CURLINFO_DATA_IN | CURLINFO_DATA_OUT
  | CURLINFO_SSL_DATA_IN | CURLINFO_SSL_DATA_OUT | CURLINFO_END

fun info_text :: "curl_infotype \<Rightarrow> string option" where
  "info_text CURLINFO_HEADER_OUT = Some ''=> Send header''"
| "info_text CURLINFO_DATA_OUT = Some ''=> Send data''"
| "info_text CURLINFO_SSL_DATA_OUT = Some ''=> Send SSL data''"
| "info_text CURLINFO_HEADER_IN = Some ''<= Recv header''"
| "info_text CURLINFO_DATA_IN = Some ''<= Recv data''"
| "info_text CURLINFO_SSL_DATA_IN = Some ''<= Recv SSL data''"
| "info_text _ = None"

definition trace_func :: "bool \<Rightarrow> curl_infotype \<Rightarrow> bytes \<Rightarrow> (c_int \<times> string list) option" where
  \<comment> \<open>\<open>debug\<close>: the log level is \<open>VLOG_DEBUG\<close> or more; \<open>%s\<close> of an information text without a null byte reads
     behind the data\<close>
  "trace_func debug type data =
     (if \<not> debug then Some (0, [])
      else
        (case info_text type of
           Some text \<Rightarrow> do { lines \<leftarrow> dump text data; Some (0, lines) }
         | None \<Rightarrow>
             if type = CURLINFO_TEXT
             then (if NUL \<in> set data then Some (0, [''== Info: '' @ cstr data]) else None)
             else Some (0, [])))"

subsection \<open>The dump shows every byte\<close>

lemma hex_digits_nonempty [simp]: "hex_digits n \<noteq> []"
  by (subst hex_digits.simps) (simp add: Let_def)

lemma hex_digits_length: "n < 16 ^ Suc k \<Longrightarrow> length (hex_digits n) \<le> Suc k"
proof (induction k arbitrary: n)
  case 0
  then show ?case by (subst hex_digits.simps) (simp add: Let_def)
next
  case (Suc k)
  then have "length (hex_digits (n div 16)) \<le> Suc k" by (simp add: less_mult_imp_div_less mult.commute)
  then show ?case by (subst hex_digits.simps) (simp add: Let_def)
qed

lemma char_eq_iff_ccode: "c = d \<longleftrightarrow> ccode c = ccode d"
  by (simp add: ccode_def)

lemma hex_digits_no_colon: "CHR '':'' \<notin> set (hex_digits n)"
proof (induction n rule: hex_digits.induct)
  case (1 n)
  have "m < 16 \<Longrightarrow> CHR '':'' \<noteq> (if m < 10 then char_of (48 + m) else char_of (87 + m))" for m :: nat
    by (cases "m < 10") (auto simp: char_eq_iff_ccode ccode_def)
  then have d: "CHR '':'' \<noteq> (if n mod 16 < 10 then char_of (48 + n mod 16) else char_of (87 + n mod 16))" by simp
  show ?case
    by (subst hex_digits.simps, cases "n < 16") (use 1 d in \<open>simp_all only: Let_def if_True if_False set_append Un_iff set_simps insert_iff empty_iff\<close>, auto)
qed

lemma hex_byte_length: "length (zero_pad 2 (hex_digits (ccode c))) = 2"
proof -
  have "ccode c < 256" by (simp add: ccode_def)
  then have "ccode c < 16 ^ Suc 1" by simp
  from hex_digits_length [OF this] show ?thesis by (simp add: zero_pad_def)
qed

lemma dump_hex_length: "length (dump_hex data i) = 48"
proof -
  have "map length (map (\<lambda>c. if i + c < length data then zero_pad 2 (hex_digits (ccode (data ! (i + c)))) @ '' '' else ''   '') [0..<16]) =
      replicate 16 3"
    by (rule nth_equalityI) (simp_all add: hex_byte_length)
  moreover have "sum_list (replicate 16 (3 :: nat)) = 48" by (simp add: sum_list_replicate)
  ultimately show ?thesis by (simp only: dump_hex_def length_concat)
qed

definition shown_part :: "string \<Rightarrow> string" where
  \<comment> \<open>the right column of a logged line\<close>
  "shown_part line = drop 50 (dropWhile (\<lambda>c. c \<noteq> CHR '':'') (drop 12 line))"

lemma dump_line_some:
  assumes "i < 2 ^ 64"
  shows "\<exists>line. dump_line data i = Some line \<and> length line \<le> 82 \<and>
    shown_part (''HttpClient: '' @ line) = map shown (take 16 (drop i data))"
proof -
  let ?a = "zero_pad 4 (hex_digits i)" and ?s = "map shown (take 16 (drop i data))"
  let ?line = "?a @ '': '' @ dump_hex data i @ ?s"
  have "length (hex_digits i) \<le> Suc 15" using assms by (intro hex_digits_length) simp
  then have a: "length ?a \<le> 16" by (simp add: zero_pad_def)
  then have n: "length ?line \<le> 82" by (simp add: dump_hex_length)
  have "CHR '':'' \<notin> set ?a" using hex_digits_no_colon by (simp add: zero_pad_def)
  then have "dropWhile (\<lambda>c. c \<noteq> CHR '':'') ?line = '': '' @ dump_hex data i @ ?s"
    by (subst dropWhile_append2) auto
  then have "shown_part (''HttpClient: '' @ ?line) = ?s"
    by (simp add: shown_part_def dump_hex_length drop_Cons')
  moreover have "dump_line data i = Some ?line" using n by (simp add: dump_line_def sprintf_buf_def)
  ultimately show ?thesis using n by blast
qed

lemma dump_lines_shown:
  shows "length data < 2 ^ 64 \<Longrightarrow> \<exists>lines. dump_lines data i = Some lines \<and> concat (map shown_part lines) = map shown (drop i data)"
proof (induction data i rule: dump_lines.induct)
  case (1 data i)
  show ?case
  proof (cases "i < length data")
    case True
    then obtain line where l: "dump_line data i = Some line" "shown_part (''HttpClient: '' @ line) = map shown (take 16 (drop i data))"
      using dump_line_some [of i data] 1(2) by (meson order.strict_trans)
    with 1(1) [OF True l(1) 1(2)] obtain rest where "dump_lines data (i + 16) = Some rest"
      "concat (map shown_part rest) = map shown (drop (i + 16) data)" by blast
    moreover have "map shown (take 16 (drop i data)) @ map shown (drop (i + 16) data) = map shown (drop i data)"
      by (metis append_take_drop_id drop_drop map_append add.commute)
    ultimately show ?thesis using True l by (simp add: dump_lines.simps [of data i])
  qed (simp add: dump_lines.simps [of data i])
qed

text \<open>
  The debug dump of any data of the size a \<open>size_t\<close> can have stays in its line buffer, and the right
  column of its lines is the data, with a dot for every byte that is not shown.
\<close>

lemma dump_shows_every_byte:
  assumes "length data < 2 ^ 64"
  shows "\<exists>header lines. dump text data = Some (header # lines) \<and> concat (map shown_part lines) = map shown data"
  using dump_lines_shown [OF assms, of 0] by (auto simp: dump_def)

end
