(* ===== verification/Oauth_Token.thy ===== *)
theory Oauth_Token
  imports Hive_Client Http_Client Sandbird
begin

text \<open>
  \<open>src/oauth/oauth_token.c\<close>: the OAuth token, its persistence, and the authorization-code flow: a
  thread asks the user to open the authorization page, the redirect server waits for the browser to
  come back with the code, and an HTTP request redeems it. The same request shape refreshes the
  token. The callback of the user runs in its own thread, so it moves the world but not this
  thread's error; it runs when the thread is created.
\<close>

subsection \<open>The token\<close>

type_synonym ('j, 'w) writeback = "'j \<Rightarrow> 'w env \<Rightarrow> (c_int \<times> 'w env) option"

record ('j, 'w) oauth_token =
  authorize_url :: string
  token_url :: string
  client_id :: string
  scope :: string
  redirect_url :: string
  token_type :: "string option"
  access_token :: "string option"
  refresh_token :: "string option"
  expires_at :: timeval
  writeback_cb :: "('j, 'w) writeback"

record 'j oauth_options =
  opt_authorize_url :: string
  opt_token_url :: string
  opt_client_id :: string
  opt_scope :: string
  opt_redirect_url :: string
  opt_store :: "'j option"

definition IS_STRING :: "('j, 'w) ext \<Rightarrow> 'j option \<Rightarrow> bool" where
  \<comment> \<open>\<open>cJSON_IsString(item)\<close>, false for a null pointer\<close>
  "IS_STRING X item = (case item of None \<Rightarrow> False | Some j \<Rightarrow> cj_is_string X j)"

definition IS_NUMBER :: "('j, 'w) ext \<Rightarrow> 'j option \<Rightarrow> bool" where
  "IS_NUMBER X item = (case item of None \<Rightarrow> False | Some j \<Rightarrow> cj_is_number X j)"

definition IS_STRING_NODE :: "('j, 'w) ext \<Rightarrow> 'j option \<Rightarrow> string option" where
  \<comment> \<open>\<open>cJSON_IsString(item) && item->valuestring && *item->valuestring\<close>, with the string\<close>
  "IS_STRING_NODE X item =
     (case item of
        None \<Rightarrow> None
      | Some j \<Rightarrow> if cj_is_string X j \<and> is_str (cj_valuestring X j) then cj_valuestring X j else None)"

definition add_string :: "('j, 'w) ext \<Rightarrow> string \<Rightarrow> string \<Rightarrow> 'j \<Rightarrow> 'j" where
  \<comment> \<open>\<open>cJSON_AddStringToObject\<close>, result ignored\<close>
  "add_string X name val j = snd (cj_add_string X j name val)"

definition token_json :: "('j, 'w) ext \<Rightarrow> ('j, 'w) oauth_token \<Rightarrow> 'j \<Rightarrow> 'j option" where
  \<comment> \<open>what \<open>writeback_tokens\<close> puts into the new object; a missing token fails an \<open>assert\<close>\<close>
  "token_json X tok j =
     (let j = add_string X ''client_id'' (client_id tok) j in
      case token_type tok of
        None \<Rightarrow> Some j
      | Some tt \<Rightarrow>
          do { at \<leftarrow> access_token tok;
               rt \<leftarrow> refresh_token tok;
               let j = add_string X ''token_type'' tt j;
               let j = add_string X ''access_token'' at j;
               let j = add_string X ''refresh_token'' rt j;
               Some (snd (cj_add_number X j ''expires_at'' (tv_sec (expires_at tok)))) })"

definition writeback_tokens :: "('j, 'w) ext \<Rightarrow> ('j, 'w) oauth_token \<Rightarrow> 'w env \<Rightarrow> 'w env option" where
  "writeback_tokens X tok e =
     (case cj_new_object X of
        None \<Rightarrow> Some e
      | Some j \<Rightarrow> do { j \<leftarrow> token_json X tok j; (rc, e) \<leftarrow> writeback_cb tok j e; Some e })"

definition restore_access_token ::
    "('j, 'w) ext \<Rightarrow> 'j option \<Rightarrow> ('j, 'w) oauth_token \<Rightarrow> 'w env
      \<Rightarrow> (c_int \<times> ('j, 'w) oauth_token \<times> 'w env) option" where
  \<comment> \<open>a string node without a string would be read through a null pointer: \<open>None\<close>\<close>
  "restore_access_token X json tok e =
     (case json of
        None \<Rightarrow> Some (0, tok, e)
      | Some json \<Rightarrow>
          (let cid = cj_get X json ''client_id'';
               bad = Some (HIVE_GENERAL_ERROR HIVEERR_BAD_PERSISTENT_DATA, tok, e) in
           if \<not> IS_STRING X cid then bad
           else
             do {
               c \<leftarrow> cj_valuestring X (the cid);
               if client_id tok \<noteq> c then bad
               else
                 (let tt = cj_get X json ''token_type''; at = cj_get X json ''access_token'';
                      rt = cj_get X json ''refresh_token''; ea = cj_get X json ''expires_at'' in
                  if \<not> IS_STRING X tt \<or> \<not> IS_STRING X at \<or> \<not> IS_STRING X rt \<or> \<not> IS_NUMBER X ea
                  then Some (0, tok, e)
                  else
                    do {
                      ts \<leftarrow> cj_valuestring X (the tt);
                      as \<leftarrow> cj_valuestring X (the at);
                      rs \<leftarrow> cj_valuestring X (the rt);
                      let tok = tok\<lparr>expires_at := (expires_at tok)\<lparr>tv_sec := cj_valuelong X (the ea)\<rparr>\<rparr>;
                      let (ok, e) = alloc X (length ts + length as + length rs + 3) e;
                      if \<not> ok then Some (HIVE_SYS_ERROR (env_errno e), tok, e)
                      else Some (0, tok\<lparr>token_type := Some ts, access_token := Some as,
                                       refresh_token := Some rs\<rparr>, e) }) }))"

definition oauth_token_new ::
    "('j, 'w) ext \<Rightarrow> 'j oauth_options \<Rightarrow> ('j, 'w) writeback \<Rightarrow> 'w env
      \<Rightarrow> (('j, 'w) oauth_token option \<times> 'w env) option" where
  "oauth_token_new X opts cb e =
     (let (ok, e) = alloc X (112 + length (opt_authorize_url opts) + length (opt_token_url opts) +
            length (opt_client_id opts) + length (opt_scope opts) + length (opt_redirect_url opts) + 5) e in
      if \<not> ok then Some (None, hive_set_error (HIVE_GENERAL_ERROR HIVEERR_OUT_OF_MEMORY) e)
      else
        do {
          (rc, tok, e) \<leftarrow> restore_access_token X (opt_store opts)
             \<lparr>authorize_url = opt_authorize_url opts, token_url = opt_token_url opts,
              client_id = opt_client_id opts, scope = opt_scope opts, redirect_url = opt_redirect_url opts,
              token_type = None, access_token = None, refresh_token = None,
              expires_at = \<lparr>tv_sec = 0, tv_usec = 0\<rparr>, writeback_cb = cb\<rparr> e;
          Some (Some tok, e) })"

definition oauth_token_reset ::
    "('j, 'w) ext \<Rightarrow> ('j, 'w) oauth_token \<Rightarrow> 'w env \<Rightarrow> (c_int \<times> ('j, 'w) oauth_token \<times> 'w env) option" where
  "oauth_token_reset X tok e =
     (if token_type tok = None then None
      else
        (let tok = tok\<lparr>token_type := None, access_token := None, refresh_token := None\<rparr>
         in do { e \<leftarrow> writeback_tokens X tok e; Some (0, tok, e) }))"

subsection \<open>Waiting for the redirect\<close>

record redirect_data =
  rd_stop :: bool
  rd_path :: string
  rd_code :: bytes
  rd_sz :: size_t

definition handle_auth_redirect :: "('w, 'a) os_scheme \<Rightarrow> (redirect_data, 'w) sb_handler" where
  "handle_auth_redirect X ev st u e =
     (case ev of
        SB_EV_CLOSE \<Rightarrow> Some (SB_RES_OK, st, u\<lparr>rd_stop := True\<rparr>, e)
      | SB_EV_CONNECT \<Rightarrow> Some (SB_RES_OK, st, u, e)
      | SB_EV_REQUEST method path \<Rightarrow>
          (if path \<noteq> rd_path u
           then Some (SB_RES_OK, st, u, hive_set_error (HIVE_GENERAL_ERROR HIVEERR_BAD_ADDRESS) e)
           else
             (let (rc, dst) = sb_get_var st ''code'' (rd_sz u) in
              do {
                code \<leftarrow> mem_store (rd_code u) 0 (dst @ [NUL]);
                let u = u\<lparr>rd_code := code\<rparr>;
                if rc \<noteq> SB_ESUCCESS
                then Some (SB_RES_OK, st, u, hive_set_error (HIVE_GENERAL_ERROR HIVEERR_INVALID_CREDENTIAL) e)
                else (case sb_send_status X st 200 ''OK'' e of (err, st, e) \<Rightarrow> Some (SB_RES_OK, st, u, e)) })))"

partial_function (option) poll_until_stopped ::
    "('w, 'a) os_scheme \<Rightarrow> sb_server \<Rightarrow> redirect_data \<Rightarrow> 'w env
      \<Rightarrow> (sb_server \<times> redirect_data \<times> 'w env) option" where
  \<comment> \<open>\<open>while (!stopped) sb_poll_server(server, 300*1000)\<close>\<close>
  "poll_until_stopped X srv u e =
     (if rd_stop u then Some (srv, u, e)
      else
        do { (err, srv, u, e) \<leftarrow> sb_poll_server X (handle_auth_redirect X) srv u e;
             poll_until_stopped X srv u e })"

definition LISTEN_FD :: int where
  \<comment> \<open>the number of the listening socket, which only has to differ from those of the streams\<close>
  "LISTEN_FD = 3"

definition redirect_options :: "string \<Rightarrow> string \<Rightarrow> sb_options" where
  "redirect_options host port = \<lparr>sbo_host = Some host, sbo_port = Some port, sbo_timeout = None,
     sbo_max_lifetime = None, sbo_max_request_size = None\<rparr>"

definition wait_for_code ::
    "('w, 'a) os_scheme \<Rightarrow> (string \<Rightarrow> 'w \<Rightarrow> 'w) \<Rightarrow> string \<Rightarrow> string \<Rightarrow> string \<Rightarrow> string \<Rightarrow> size_t \<Rightarrow> 'w env
      \<Rightarrow> (string option \<times> 'w env) option" where
  \<comment> \<open>the block of \<open>get_authorize_code\<close> that runs the server, and what is returned after it\<close>
  "wait_for_code X cb url host port path bufsz e =
     (let u = \<lparr>rd_stop = False, rd_path = path, rd_code = replicate (unat bufsz) NUL, rd_sz = bufsz\<rparr> in
      case sb_new_server X (redirect_options host port) LISTEN_FD e of
        (None, e) \<Rightarrow> Some (None, e)
      | (Some server, e) \<Rightarrow>
          (let (bad, e) = fault X SysThread e in
           if bad
           then
             (let e = hive_set_error (HIVE_SYS_ERROR (env_errno e)) e
              in do { (u, e) \<leftarrow> sb_close_server (handle_auth_redirect X) server u e; Some (None, e) })
           else
             do {
               (server, u, e) \<leftarrow> poll_until_stopped X server u (e\<lparr>env_world := cb url (env_world e)\<rparr>);
               (u, e) \<leftarrow> sb_close_server (handle_auth_redirect X) server u e;
               Some (if cstr (rd_code u) \<noteq> [] then Some (cstr (rd_code u)) else None, e) }))"

definition get_authorize_code ::
    "('j, 'w) ext \<Rightarrow> ('j, 'w) oauth_token \<Rightarrow> (string \<Rightarrow> 'w \<Rightarrow> 'w) \<Rightarrow> size_t \<Rightarrow> 'w env
      \<Rightarrow> (string option \<times> 'w env) option" where
  "get_authorize_code X tok cb bufsz e =
     (case http_client_new X e of
        (None, e) \<Rightarrow> Some (None, hive_set_error (HIVE_GENERAL_ERROR HIVEERR_OUT_OF_MEMORY) e)
      | (Some c, e) \<Rightarrow>
          (let c = snd (http_client_set_url X (authorize_url tok) c);
               c = snd (http_client_set_query X ''client_id'' (client_id tok) c);
               c = snd (http_client_set_query X ''scope'' (scope tok) c);
               c = snd (http_client_set_query X ''redirect_uri'' (redirect_url tok) c);
               c = snd (http_client_set_query X ''response_type'' ''code'' c);
               (rc, url) = http_client_get_url_escape X c in
           if rc \<noteq> 0 then Some (None, hive_set_error (HIVE_CURLU_ERROR rc) e)
           else
             (let c = snd (http_client_set_url X (redirect_url tok) (http_client_reset c));
                  (rc, host) = http_client_get_host X c in
              if rc \<noteq> 0 then Some (None, hive_set_error (HIVE_CURLU_ERROR rc) e)
              else
                (let (rc, port) = http_client_get_port X c in
                 if rc \<noteq> 0 then Some (None, hive_set_error (HIVE_CURLU_ERROR rc) e)
                 else
                   (let (rc, path) = http_client_get_path X c in
                    if rc \<noteq> 0 then Some (None, hive_set_error (HIVE_CURLU_ERROR rc) e)
                    else wait_for_code X cb url host port path bufsz e)))))"

subsection \<open>Decoding the answer of the token server\<close>

definition timeradd :: "timeval \<Rightarrow> timeval \<Rightarrow> timeval" where
  "timeradd a b =
     (let s = tv_sec a + tv_sec b; us = tv_usec a + tv_usec b
      in if sint us \<ge> 1000000 then \<lparr>tv_sec = s + 1, tv_usec = us - 1000000\<rparr>
         else \<lparr>tv_sec = s, tv_usec = us\<rparr>)"

definition timer_after :: "timeval \<Rightarrow> timeval \<Rightarrow> bool" where
  \<comment> \<open>\<open>timercmp(a, b, >)\<close>\<close>
  "timer_after a b =
     (if tv_sec a = tv_sec b then sint (tv_usec a) > sint (tv_usec b) else sint (tv_sec a) > sint (tv_sec b))"

definition gettimeofday :: "('w, 'a) os_scheme \<Rightarrow> 'w env \<Rightarrow> timeval \<times> 'w env" where
  "gettimeofday X e = (let (now, w) = os_now X (env_world e) in (now, e\<lparr>env_world := w\<rparr>))"

definition decode_access_token ::
    "('j, 'w) ext \<Rightarrow> ('j, 'w) oauth_token \<Rightarrow> bytes \<Rightarrow> 'w env \<Rightarrow> c_int \<times> ('j, 'w) oauth_token \<times> 'w env" where
  "decode_access_token X tok json_str e =
     (let bad = (\<lambda>e. (HIVE_GENERAL_ERROR HIVEERR_BAD_JSON_FORMAT, tok, e));
          full = (\<lambda>e. (HIVE_SYS_ERROR (env_errno e), tok, e)) in
      case cj_parse X json_str of
        None \<Rightarrow> bad e
      | Some json \<Rightarrow>
          (case IS_STRING_NODE X (cj_get_cs X json ''token_type'') of
             None \<Rightarrow> bad e
           | Some tt \<Rightarrow>
               (let (ok, e) = alloc X (length tt + 1) e in
                if \<not> ok then full e
                else if IS_STRING_NODE X (cj_get_cs X json ''scope'') = None then bad e
                else
                  (case IS_STRING_NODE X (cj_get_cs X json ''access_token'') of
                     None \<Rightarrow> bad e
                   | Some at \<Rightarrow>
                       (let (ok, e) = alloc X (length at + 1) e in
                        if \<not> ok then full e
                        else
                          (case IS_STRING_NODE X (cj_get_cs X json ''refresh_token'') of
                             None \<Rightarrow> bad e
                           | Some rt \<Rightarrow>
                               (let (ok, e) = alloc X (length rt + 1) e in
                                if \<not> ok then full e
                                else
                                  (let item = cj_get_cs X json ''expires_in'' in
                                   if \<not> IS_NUMBER X item \<or> neg (cj_valuelong X (the item)) then bad e
                                   else
                                     (let (now, e) = gettimeofday X e in
                                      (0, tok\<lparr>token_type := Some tt, access_token := Some at,
                                            refresh_token := Some rt,
                                            expires_at := timeradd now
                                              \<lparr>tv_sec = cj_valuelong X (the item), tv_usec = 0\<rparr>\<rparr>, e))))))))))"

subsection \<open>Redeeming and refreshing\<close>

definition token_post ::
    "('j, 'w) ext \<Rightarrow> ('j, 'w) oauth_token \<Rightarrow> string \<Rightarrow> http_client \<Rightarrow> 'w env
      \<Rightarrow> c_int \<times> http_client \<times> 'w env" where
  \<comment> \<open>the four setters and the transfer both requests share\<close>
  "token_post X tok body c e =
     (let c = snd (http_client_set_url X (token_url tok) c);
          c = snd (http_client_set_method X HTTP_METHOD_POST c);
          c = snd (http_client_set_request_body_instant X (Some body) (length body) c);
          c = snd (http_client_enable_response_body X c)
      in http_client_request X c e)"

definition redeem_access_token ::
    "('j, 'w) ext \<Rightarrow> ('j, 'w) oauth_token \<Rightarrow> string \<Rightarrow> 'w env
      \<Rightarrow> (c_int \<times> ('j, 'w) oauth_token \<times> 'w env) option" where
  \<comment> \<open>an empty response body makes \<open>http_client_move_response_body\<close> store through a null pointer\<close>
  "redeem_access_token X tok code e =
     (let full = (\<lambda>e. Some (HIVE_GENERAL_ERROR HIVEERR_OUT_OF_MEMORY, tok, e)) in
      case http_client_new X e of
        (None, e) \<Rightarrow> full e
      | (Some c, e) \<Rightarrow>
          (case http_client_escape X (client_id tok) e of
             (None, e) \<Rightarrow> full e
           | (Some cid, e) \<Rightarrow>
               (case http_client_escape X (redirect_url tok) e of
                  (None, e) \<Rightarrow> full e
                | (Some uri, e) \<Rightarrow>
                    (case http_client_escape X code e of
                       (None, e) \<Rightarrow> full e
                     | (Some esc, e) \<Rightarrow>
                         (let (rc, buf) = snprintf 512 (''client_id='' @ cid @ ''&redirect_uri='' @ uri @
                                 ''&code='' @ esc @ ''&grant_type=authorization_code'') in
                          if neg rc \<or> sint rc \<ge> 512
                          then Some (HIVE_GENERAL_ERROR HIVEERR_BUFFER_TOO_SMALL, tok, e)
                          else
                            (let (rc, c, e) = token_post X tok buf c e in
                             if rc \<noteq> 0 then Some (HIVE_CURL_ERROR rc, tok, e)
                             else
                               (let (rc, resp_code) = http_client_get_response_code X 0 e in
                                if neg rc then Some (HIVE_CURL_ERROR rc, tok, e)
                                else if resp_code \<noteq> HttpStatus_OK
                                then Some (ssize_to_int (HIVE_HTTP_STATUS_ERROR resp_code), tok, e)
                                else
                                  do { (body, len, c) \<leftarrow> http_client_move_response_body False c;
                                       case body of None \<Rightarrow> full e
                                       | Some b \<Rightarrow> Some (decode_access_token X tok b e) })))))))"

definition decode_and_store ::
    "('j, 'w) ext \<Rightarrow> ('j, 'w) oauth_token \<Rightarrow> bytes \<Rightarrow> 'w env
      \<Rightarrow> (c_int \<times> ('j, 'w) oauth_token \<times> 'w env) option" where
  \<comment> \<open>the end of \<open>refresh_access_token\<close>\<close>
  "decode_and_store X tok b e =
     (let (rc, tok, e) = decode_access_token X tok b e in
      if neg rc then Some (rc, tok, e)
      else do { e \<leftarrow> writeback_tokens X tok e; Some (0, tok, e) })"

definition refresh_access_token ::
    "('j, 'w) ext \<Rightarrow> ('j, 'w) oauth_token \<Rightarrow> 'w env \<Rightarrow> (c_int \<times> ('j, 'w) oauth_token \<times> 'w env) option" where
  \<comment> \<open>\<open>strlen\<close> of a missing refresh token is undefined\<close>
  "refresh_access_token X tok e =
     (let full = (\<lambda>e. Some (HIVE_GENERAL_ERROR HIVEERR_OUT_OF_MEMORY, tok, e)) in
      case http_client_new X e of
        (None, e) \<Rightarrow> full e
      | (Some c, e) \<Rightarrow>
          (case http_client_escape X (client_id tok) e of
             (None, e) \<Rightarrow> full e
           | (Some cid, e) \<Rightarrow>
               (case http_client_escape X (redirect_url tok) e of
                  (None, e) \<Rightarrow> full e
                | (Some uri, e) \<Rightarrow>
                    do {
                      old \<leftarrow> refresh_token tok;
                      case http_client_escape X old e of
                        (None, e) \<Rightarrow> full e
                      | (Some esc, e) \<Rightarrow>
                          (let (rc, buf) = snprintf 4096 (''client_id='' @ cid @ ''&redirect_uri='' @ uri @
                                  ''&refresh_token='' @ esc @ ''&grant_type=refresh_token'') in
                           if neg rc \<or> unat rc \<ge> 4096
                           then Some (HIVE_GENERAL_ERROR HIVEERR_BUFFER_TOO_SMALL, tok, e)
                           else
                             (let (rc, c, e) = token_post X tok buf c e in
                              if rc \<noteq> 0 then Some (HIVE_CURL_ERROR rc, tok, e)
                              else
                                (let (rc, resp_code) = http_client_get_response_code X 0 e in
                                 if rc \<noteq> 0 then Some (HIVE_CURL_ERROR rc, tok, e)
                                 else if resp_code \<noteq> HttpStatus_OK
                                 then Some (ssize_to_int (HIVE_HTTP_STATUS_ERROR resp_code), tok, e)
                                 else
                                   do { (body, len, c) \<leftarrow> http_client_move_response_body False c;
                                        case body of None \<Rightarrow> full e
                                        | Some b \<Rightarrow> decode_and_store X tok b e }))) })))"

definition oauth_token_request ::
    "('j, 'w) ext \<Rightarrow> ('j, 'w) oauth_token \<Rightarrow> (string \<Rightarrow> 'w \<Rightarrow> 'w) \<Rightarrow> 'w env
      \<Rightarrow> (c_int \<times> ('j, 'w) oauth_token \<times> 'w env) option" where
  "oauth_token_request X tok cb e =
     (if access_token tok \<noteq> None then Some (0, tok, e)
      else
        do {
          (code, e) \<leftarrow> get_authorize_code X tok cb 512 e;
          case code of
            None \<Rightarrow> Some (hive_get_error e, tok, e)
          | Some code \<Rightarrow>
              do {
                (rc, tok, e) \<leftarrow> redeem_access_token X tok code e;
                if neg rc then Some (rc, tok, e)
                else do { e \<leftarrow> writeback_tokens X tok e; Some (0, tok, e) } } })"

definition oauth_token_set_expired :: "('j, 'w) oauth_token \<Rightarrow> ('j, 'w) oauth_token" where
  "oauth_token_set_expired tok = tok\<lparr>expires_at := \<lparr>tv_sec = 0, tv_usec = 0\<rparr>\<rparr>"

definition oauth_token_is_expired ::
    "('j, 'w) ext \<Rightarrow> ('j, 'w) oauth_token \<Rightarrow> 'w env \<Rightarrow> bool \<times> 'w env" where
  "oauth_token_is_expired X tok e =
     (let (now, e) = gettimeofday X e in (timer_after now (expires_at tok), e))"

definition oauth_token_check_expire ::
    "('j, 'w) ext \<Rightarrow> ('j, 'w) oauth_token \<Rightarrow> 'w env \<Rightarrow> (c_int \<times> ('j, 'w) oauth_token \<times> 'w env) option" where
  "oauth_token_check_expire X tok e =
     (let (expired, e) = oauth_token_is_expired X tok e in
      if \<not> expired then Some (0, tok, e)
      else
        do { (rc, tok, e) \<leftarrow> refresh_access_token X tok e;
             if neg rc then Some (rc, tok, e) else Some (0, tok, e) })"

definition get_bearer_token :: "('j, 'w) oauth_token \<Rightarrow> string option" where
  "get_bearer_token tok = access_token tok"

end
