(* ===== verification/Http_Service.thy ===== *)
theory Http_Service
  imports Http_Client Hive_Error Hive_Fs
begin

text \<open>
  A remote HTTP service as libcurl shows it to the client: a function from a request and the world to
  a status, the chunks of the answer and the next world. The lemmas say what an exchange of the
  client of \<open>http_client.c\<close> returns when the service answers.
\<close>

subsection \<open>The service\<close>

type_synonym 'w service = "request \<Rightarrow> 'w \<Rightarrow> c_long \<times> bytes list \<times> 'w"

definition still_writer :: "'w writer \<Rightarrow> bool" where
  "still_writer wr \<longleftrightarrow> (\<forall>c s w. snd (snd (wr c s w)) = w)"

fun deliver :: "'w writer \<Rightarrow> bytes list \<Rightarrow> sink \<Rightarrow> 'w \<Rightarrow> sink option" where
  \<comment> \<open>the chunks go to the callback in order; one that is not taken whole ends the transfer\<close>
  "deliver wr [] s w = Some s"
| "deliver wr (c # cs) s w =
     (case wr c s w of (n, s', w') \<Rightarrow> if unat n = length c then deliver wr cs s' w else None)"

definition http_service :: "('w, 'a) curl_os_scheme \<Rightarrow> 'w service \<Rightarrow> bool" where
  \<comment> \<open>\<open>curl_easy_perform\<close> against the service, for callbacks that leave the world alone\<close>
  "http_service X serve \<longleftrightarrow>
     (\<forall>rq wr s w. still_writer wr \<longrightarrow>
        (case serve rq w of (status, chunks, w') \<Rightarrow>
           case deliver wr chunks s w' of
             Some s' \<Rightarrow> curl_perform X rq wr s w = (CURLE_OK, s', w') \<and> curl_response_code X w' = (CURLE_OK, status)
           | None \<Rightarrow> fst (curl_perform X rq wr s w) \<noteq> CURLE_OK))"

definition curl_works :: "('w, 'a) curl_os_scheme \<Rightarrow> bool" where
  \<comment> \<open>handles and header lists can be allocated and URLs are accepted\<close>
  "curl_works X \<longleftrightarrow>
     (\<forall>w. curl_global_init X w = (CURLE_OK, w) \<and> curl_url X w = (True, w) \<and> curl_easy_init X w = (True, w) \<and>
        curl_slist_append X w = (True, w)) \<and>
     (\<forall>log call. curl_url_set X log call = CURLUE_OK)"

lemma curl_worksD [simp]:
  "curl_works X \<Longrightarrow> curl_global_init X w = (CURLE_OK, w)" "curl_works X \<Longrightarrow> curl_url X w = (True, w)"
  "curl_works X \<Longrightarrow> curl_easy_init X w = (True, w)" "curl_works X \<Longrightarrow> curl_slist_append X w = (True, w)"
  "curl_works X \<Longrightarrow> curl_url_set X log call = CURLUE_OK"
  by (simp_all add: curl_works_def)

definition new_client :: http_client where
  "new_client = \<lparr>hc_opts = default_opts, hc_url = [], hc_hdr = [], hc_mime = None,
     hc_body = \<lparr>rb_used = 0, rb_sz = 0, rb_data = []\<rparr>, hc_user = None\<rparr>"

lemma client_new_url: "http_client_new X e = (Some c, e') \<Longrightarrow> hc_url c = []"
  by (auto simp: http_client_new_def Let_def split: if_splits prod.splits)

lemma client_new_works:
  "os_still X \<Longrightarrow> curl_works X \<Longrightarrow> http_client_new X e = (Some new_client, e\<lparr>env_curl_ready := True\<rparr>)"
  by (simp add: http_client_new_def new_client_def Let_def)

subsection \<open>The response body takes everything\<close>

lemma unat_double: "unat n \<le> m \<Longrightarrow> 2 * m < 2 ^ 64 \<Longrightarrow> unat (push_bit 1 n) = 2 * unat n"
  for n :: size_t
proof -
  assume "unat n \<le> m" "2 * m < 2 ^ 64"
  then have "unat n * 2 < 2 ^ LENGTH(64)" by simp
  moreover have "push_bit 1 n = n * 2" by (simp add: push_bit_eq_mult)
  ultimately show ?thesis by (simp add: unat_word_ariths)
qed

lemma grow_size_bound:
  "grow_size n l limit = (n', l') \<Longrightarrow> 2 * unat limit < 2 ^ 64 \<Longrightarrow> unat n' \<le> max (unat n) (2 * unat limit)"
proof (induction n l limit rule: grow_size.induct)
  case (1 n l limit)
  show ?case
  proof (cases "n > l \<and> n \<le> limit")
    case True
    then have le: "unat n \<le> unat limit" by (simp add: word_le_nat_alt)
    have "grow_size (push_bit 1 n) n limit = (n', l')"
      using "1.prems"(1) True by (subst (asm) grow_size.simps) simp
    from "1.IH" [OF True this "1.prems"(2)] le unat_double [OF le "1.prems"(2)] show ?thesis by simp
  next
    case False
    with "1.prems"(1) show ?thesis by (subst (asm) grow_size.simps) (auto split: if_splits)
  qed
qed

lemma new_body_size_bound:
  assumes "unat sz + unat len < 2 ^ 62"
  shows "unat (new_body_size sz len) \<le> max 512 (2 * (unat sz + unat len))"
proof -
  have sum: "unat (sz + len) = unat sz + unat len" using assms by (simp add: unat_word_ariths)
  obtain n l where g: "grow_size (if sz \<noteq> 0 then push_bit 1 sz else 512) sz (sz + len) = (n, l)" by fastforce
  from grow_size_bound [OF g] assms sum
  have "unat n \<le> max (unat (if sz \<noteq> 0 then push_bit 1 sz else 512)) (2 * (unat sz + unat len))" by simp
  moreover have "unat (push_bit 1 sz) = 2 * unat sz"
    by (rule unat_double [of _ "unat sz"]) (use assms in auto)
  ultimately have "unat n \<le> max 512 (2 * (unat sz + unat len))" by (auto split: if_splits)
  moreover have "unat sz + unat len \<le> max 512 (2 * (unat sz + unat len))" by simp
  ultimately show ?thesis using g sum by (simp add: new_body_size_def)
qed

lemma body_takes:
  assumes X: "os_still X" and ok: "body_ok r" "unat (rb_sz r) \<le> B + 4 * unat (rb_used r)" "512 \<le> B"
    and small: "B + 4 * (unat (rb_used r) + length ptr) < 2 ^ 61"
  shows "\<exists>r'. http_response_body_write_callback X ptr r w = Some (word_of_nat (length ptr), r', w) \<and>
    body_ok r' \<and> body_bytes r' = body_bytes r @ ptr \<and> unat (rb_used r') = unat (rb_used r) + length ptr \<and>
    unat (rb_sz r') \<le> B + 4 * unat (rb_used r')"
proof -
  let ?len = "word_of_nat (length ptr) :: size_t" and ?new = "new_body_size (rb_sz r) (word_of_nat (length ptr))"
  have lt: "length ptr < 2 ^ 64" using small by simp
  then have len: "unat ?len = length ptr" by (rule unat_len)
  have wrap: "\<not> rb_sz r + ?len < rb_sz r"
    using ok(2) small len by (auto simp: word_less_nat_alt unat_word_ariths)
  obtain n r' w' where some: "http_response_body_write_callback X ptr r w = Some (n, r', w')"
    using body_write_in_bounds [OF ok(1) lt] by (metis not_None_eq prod.collapse)
  have res: "n = ?len \<and> w' = w \<and> rb_used r' = rb_used r + ?len \<and>
      (rb_sz r' = rb_sz r \<or> rb_sz r - rb_used r < ?len \<and> rb_sz r' = ?new)"
    using some X wrap
    by (auto simp: http_response_body_write_callback_def Let_def os_still_def split: if_splits)
  have used: "unat (rb_used r') = unat (rb_used r) + length ptr"
    using res len small by (simp add: unat_word_ariths)
  have "unat (rb_sz r') \<le> B + 4 * unat (rb_used r')"
  proof (cases "rb_sz r' = rb_sz r")
    case False
    with res have grown: "rb_sz r - rb_used r < ?len" "rb_sz r' = ?new" by auto
    have "unat (rb_sz r - rb_used r) = unat (rb_sz r) - unat (rb_used r)"
      using ok(1) by (simp add: body_ok_def unat_sub)
    then have "unat (rb_sz r) < unat (rb_used r) + length ptr"
      using grown(1) len by (simp add: word_less_nat_alt)
    moreover have "unat ?new \<le> max 512 (2 * (unat (rb_sz r) + unat ?len))"
      by (rule new_body_size_bound) (use ok(2) small len in simp)
    ultimately show ?thesis using grown(2) len used ok(3) by simp
  qed (use ok(2) used in simp)
  with body_write_some [OF ok(1) some] some res used len show ?thesis by simp
qed

lemma body_writer_still: "os_still X \<Longrightarrow> still_writer (body_writer X)"
  by (auto simp: still_writer_def body_writer_def http_response_body_write_callback_def Let_def os_still_def
      split: sink.splits option.splits prod.splits if_splits)

lemma deliver_body:
  assumes "os_still X" "body_ok r" "unat (rb_sz r) \<le> B + 4 * unat (rb_used r)" "512 \<le> B"
    and "B + 4 * (unat (rb_used r) + length (concat chunks)) < 2 ^ 61"
  shows "\<exists>r'. deliver (body_writer X) chunks (BodySink r) w = Some (BodySink r') \<and> body_ok r' \<and>
    body_bytes r' = body_bytes r @ concat chunks \<and> unat (rb_used r') = unat (rb_used r) + length (concat chunks)"
  using assms(2,3,5)
proof (induction chunks arbitrary: r)
  case (Cons c cs)
  then obtain r' where r': "http_response_body_write_callback X c r w = Some (word_of_nat (length c), r', w)"
    "body_ok r'" "body_bytes r' = body_bytes r @ c" "unat (rb_used r') = unat (rb_used r) + length c"
    "unat (rb_sz r') \<le> B + 4 * unat (rb_used r')"
    using body_takes [OF assms(1) Cons.prems(1,2) assms(4), of c w] by auto
  have "unat (word_of_nat (length c) :: size_t) = length c" by (rule unat_len) (use Cons.prems(3) in simp)
  with r' Cons.IH [OF r'(2,5)] Cons.prems(3) show ?case by (auto simp: body_writer_def)
qed simp

subsection \<open>An exchange\<close>

lemma http_serviceD:
  assumes "http_service X serve" "still_writer wr" "serve rq w = (status, chunks, w')"
    and "deliver wr chunks s w' = Some s'"
  shows "curl_perform X rq wr s w = (CURLE_OK, s', w') \<and> curl_response_code X w' = (CURLE_OK, status)"
  using assms(1) [unfolded http_service_def, THEN spec, of rq, THEN spec, of wr, THEN spec, of s, THEN spec, of w]
    assms(2-4) by simp

lemma request_served:
  assumes S: "os_still X" "http_service X serve" and c: "write_target (hc_opts c) = HTTP_RESPONSE_BODY_WRITE"
    "body_ok (hc_body c)" "unat (rb_sz (hc_body c)) \<le> B" "512 \<le> B" "rb_used (hc_body c) = 0"
    and serve: "serve (request_of (prepare_request X c)) (env_world e) = (status, chunks, w')"
    and small: "B + 4 * length (concat chunks) < 2 ^ 61"
  shows "\<exists>r. http_client_request X c e = (CURLE_OK, (prepare_request X c)\<lparr>hc_body := r\<rparr>, e\<lparr>env_world := w'\<rparr>) \<and>
    body_ok r \<and> body_bytes r = concat chunks \<and> unat (rb_used r) = length (concat chunks) \<and>
    curl_response_code X w' = (CURLE_OK, status)"
proof -
  obtain r where d: "deliver (body_writer X) chunks (BodySink (hc_body c)) w' = Some (BodySink r)"
    and r: "body_ok r" "body_bytes r = concat chunks" "unat (rb_used r) = length (concat chunks)"
    using deliver_body [OF S(1) c(2) _ c(4), of chunks w'] c(3,5) small by (auto simp: body_bytes_def)
  have "curl_perform X (request_of (prepare_request X c)) (body_writer X) (BodySink (hc_body c)) (env_world e) =
      (CURLE_OK, BodySink r, w') \<and> curl_response_code X w' = (CURLE_OK, status)"
    by (rule http_serviceD [OF S(2) body_writer_still [OF S(1)] serve d])
  then show ?thesis using c(1) r by (intro exI [of _ r]) (simp add: http_client_request_def Let_def)
qed

lemma eat_output_delivers:
  "length (concat chunks) < 2 ^ 64 \<Longrightarrow> deliver eat_output chunks s w = Some s"
  by (induction chunks) (simp_all add: eat_output_def unat_of_nat)

lemma request_answered:
  assumes "http_service X serve" "write_target (hc_opts c) = EAT_OUTPUT"
    and "serve (request_of (prepare_request X c)) (env_world e) = (status, chunks, w')"
    and "length (concat chunks) < 2 ^ 64"
  shows "http_client_request X c e = (CURLE_OK, prepare_request X c, e\<lparr>env_world := w'\<rparr>) \<and>
    curl_response_code X w' = (CURLE_OK, status)"
proof -
  have d: "deliver eat_output chunks NoSink w' = Some NoSink" by (rule eat_output_delivers [OF assms(4)])
  have "still_writer eat_output" by (simp add: still_writer_def eat_output_def)
  from http_serviceD [OF assms(1) this assms(3) d] have "curl_perform X (request_of (prepare_request X c)) eat_output NoSink (env_world e) =
      (CURLE_OK, NoSink, w') \<and> curl_response_code X w' = (CURLE_OK, status)"
    .
  then show ?thesis using assms(2) by (simp add: http_client_request_def Let_def)
qed

subsection \<open>Requests and answers the backends share\<close>

definition url_part :: "string \<Rightarrow> url_call" where
  "url_part url = \<lparr>uc_part = CURLUPART_URL, uc_text = Some url, uc_encode = True, uc_append = False\<rparr>"

definition body_opts :: "curl_opt list" where
  "body_opts = [CURLOPT_WRITEFUNCTION HTTP_RESPONSE_BODY_WRITE, CURLOPT_WRITEDATA HTTP_RESPONSE_BODY_WRITE]"

definition answers :: "'w service \<Rightarrow> request \<Rightarrow> 'w \<Rightarrow> c_long \<Rightarrow> bytes list \<Rightarrow> 'w \<Rightarrow> bool" where
  "answers serve rq w status chunks w' \<longleftrightarrow>
     serve rq w = (status, chunks, w') \<and> status \<noteq> HttpStatus_Unauthorized \<and> length (concat chunks) < 2 ^ 40"

definition moved :: "'w env \<Rightarrow> 'w \<Rightarrow> 'w env" where
  "moved e w = e\<lparr>env_curl_ready := True, env_world := w\<rparr>"

lemma moved_simps [simp]:
  "env_world (moved e w) = w" "moved (moved e w) w' = moved e w'" "(moved e w)\<lparr>env_world := w'\<rparr> = moved e w'"
  "(moved e w)\<lparr>env_curl_ready := True\<rparr> = moved e w"
  by (simp_all add: moved_def)

definition ready_request :: "('j, 'w) ext \<Rightarrow> http_client \<Rightarrow> request" where
  "ready_request X c = request_of (prepare_request X c)"

lemma sint_small: "n < 2 ^ 63 \<Longrightarrow> sint (word_of_nat n :: ssize_t) = int n"
  by (simp add: signed_of_nat signed_take_bit_int_eq_self)

lemma neg_small [simp]: "n < 2 ^ 63 \<Longrightarrow> \<not> neg (word_of_nat n :: ssize_t)"
  by (simp add: neg_def sint_small)

lemma write_target_default [simp]:
  "write_target (default_opts @ opts) =
     foldl (\<lambda>cur opt. case opt of CURLOPT_WRITEFUNCTION f \<Rightarrow> f | _ \<Rightarrow> cur) EAT_OUTPUT opts"
  by (simp add: write_target_def default_opts_def)

lemmas http_setter_defs = http_client_set_url_def http_client_set_query_def url_set_def easy_setopt_def
  http_client_set_header_def http_client_enable_response_body_def http_client_set_request_body_instant_def
  http_client_set_response_body_def http_client_set_mime_instant_def

lemma sprintf_fits: "length s < n \<Longrightarrow> sprintf_buf n s = Some s"
  by (simp add: sprintf_buf_def)

definition holds_body :: "http_response_body \<Rightarrow> bytes \<Rightarrow> bool" where
  "holds_body r bs \<longleftrightarrow> body_ok r \<and> body_bytes r = bs \<and> unat (rb_used r) = length bs"

lemma holds_body_parses:
  assumes "holds_body r bs" "bs \<noteq> []" "\<And>rest. cj_parse X (bs @ rest) = Some j"
  shows "rb_used r \<noteq> 0 \<and> cj_parse X (rb_data r) = Some j"
proof -
  have "rb_used r \<noteq> 0" using assms(1,2) unfolding holds_body_def by (metis length_0_conv unat_0)
  moreover have "cj_parse X (rb_data r) = Some j"
    using assms(1,3) unfolding holds_body_def body_bytes_def by (metis append_take_drop_id)
  ultimately show ?thesis by simp
qed

lemma request_taken:
  assumes "os_still X" "http_service X serve" "write_target (hc_opts c) = HTTP_RESPONSE_BODY_WRITE"
    and "hc_body c = hc_body new_client" "answers serve (ready_request X c) (env_world e) status cs w'"
  shows "\<exists>r. http_client_request X c e = (CURLE_OK, (prepare_request X c)\<lparr>hc_body := r\<rparr>, e\<lparr>env_world := w'\<rparr>) \<and>
    curl_response_code X w' = (CURLE_OK, status) \<and> holds_body r (concat cs)"
proof -
  have "body_ok (hc_body c)" "unat (rb_sz (hc_body c)) \<le> 512" "rb_used (hc_body c) = 0"
    using assms(4) by (simp_all add: new_client_def body_ok_def)
  moreover have "512 + 4 * length (concat cs) < 2 ^ 61" using assms(5) by (simp add: answers_def)
  ultimately show ?thesis
    using request_served [OF assms(1-3) _ _ order_refl, of e status cs w'] assms(5)
    by (auto simp: answers_def ready_request_def holds_body_def)
qed

end
