(* ===== verification/Oauth_Flow.thy ===== *)
theory Oauth_Flow
  imports Oauth_Token Http_Service
begin

text \<open>
  The authorization-code flow run to its end: with a network that plays a browser's four steps, the
  redirect server receives the request, the handler takes the code, the answer is sent and the loop
  of \<open>get_authorize_code\<close> stops with the code. And what the operations on a token keep of it.
\<close>

subsection \<open>The two addresses of a login\<close>

definition query_part :: "string \<Rightarrow> string \<Rightarrow> url_call" where
  "query_part name val = \<lparr>uc_part = CURLUPART_QUERY, uc_text = Some (name @ ''='' @ val), uc_encode = True, uc_append = True\<rparr>"

definition authorize_log :: "('j, 'w) oauth_token \<Rightarrow> url_call list" where
  \<comment> \<open>the URL of the authorization page as it is put together\<close>
  "authorize_log tok = [url_part (authorize_url tok), query_part ''client_id'' (client_id tok),
     query_part ''scope'' (scope tok), query_part ''redirect_uri'' (redirect_url tok), query_part ''response_type'' ''code'']"

fun builds_url :: "('w, 'a) curl_os_scheme \<Rightarrow> url_call list \<Rightarrow> url_call list \<Rightarrow> bool" where
  \<comment> \<open>libcurl accepts one part after the other\<close>
  "builds_url X log [] \<longleftrightarrow> True"
| "builds_url X log (call # calls) \<longleftrightarrow> curl_url_set X log call = CURLUE_OK \<and> builds_url X (log @ [call]) calls"

definition login_urls ::
    "('j, 'w) ext \<Rightarrow> ('j, 'w) oauth_token \<Rightarrow> string \<Rightarrow> string \<Rightarrow> string \<Rightarrow> string \<Rightarrow> bool" where
  \<comment> \<open>what libcurl says of these two URLs: \<open>page\<close> is the first one, escaped, and the redirect URL has this
     host, port and path\<close>
  "login_urls X tok page host port path \<longleftrightarrow>
     builds_url X [] (authorize_log tok) \<and> curl_url_get X (authorize_log tok) CURLUPART_URL False = (CURLUE_OK, page) \<and>
     builds_url X [] [url_part (redirect_url tok)] \<and>
     curl_url_get X [url_part (redirect_url tok)] CURLUPART_HOST True = (CURLUE_OK, host) \<and>
     curl_url_get X [url_part (redirect_url tok)] CURLUPART_PORT True = (CURLUE_OK, port) \<and>
     curl_url_get X [url_part (redirect_url tok)] CURLUPART_PATH True = (CURLUE_OK, path)"

lemma get_code_waits:
  assumes "http_client_new X e = (Some c, e1)" "login_urls X tok page host port path"
  shows "get_authorize_code X tok cb bufsz e = wait_for_code X cb page host port path bufsz e1"
  using assms client_new_url [OF assms(1)]
  by (simp add: get_authorize_code_def login_urls_def authorize_log_def query_part_def url_part_def Let_def
      http_client_set_url_def http_client_set_query_def url_set_def http_client_reset_def
      http_client_get_url_escape_def http_client_get_host_def http_client_get_port_def http_client_get_path_def)

subsection \<open>The redirect, step by step\<close>

lemma allocs_still: "allocs X e e' \<Longrightarrow> os_still X \<Longrightarrow> e' = e"
  by (induction rule: allocs.induct) auto

definition code_request :: "string \<Rightarrow> string \<Rightarrow> size_t \<Rightarrow> string \<Rightarrow> bool" where
  \<comment> \<open>\<open>req\<close> is a complete request, without a body, for \<open>path\<close> with the query variable \<open>code\<close>\<close>
  "code_request req path bufsz code \<longleftrightarrow>
     header_complete req \<and> (\<forall>n < length req. \<not> header_complete (take n req)) \<and> is_cstr req \<and>
     find_header_value req ''Content-Length'' = Some None \<and>
     (\<exists>m idx ver v. parse_request_line req = Some (m, idx, ver) \<and> mem_equal ver ''HTTP'' \<and>
        cstr (fst (url_decode (drop idx req) 512)) = path \<and>
        hd (drop (strcspn req [CHR ''?'', CR]) req) = CHR ''?'' \<and> drop (strcspn req [CHR ''?'', CR]) req \<noteq> [] \<and>
        find_var_value (tl (drop (strcspn req [CHR ''?'', CR]) req)) ''code'' = Some v \<and>
        url_decode v bufsz = (code, SB_ESUCCESS)) \<and>
     is_cstr code \<and> code \<noteq> []"

definition redirect_schedule ::
    "('w, 'a) os_scheme \<Rightarrow> string \<Rightarrow> string \<Rightarrow> 'w \<Rightarrow> int \<Rightarrow> int \<Rightarrow> string \<Rightarrow> bytes list \<Rightarrow> 'w \<Rightarrow> bool" where
  \<comment> \<open>the four polls of a browser that connects to this host and port, sends its request, reads the answer
     and is done\<close>
  "redirect_schedule X host port w0 now fd addr chunks w4 \<longleftrightarrow> fd \<le> 1024 \<and> chunks \<noteq> [] \<and>
     (\<exists>i1 i2 i3 i4 w1 w2 w3 rs k.
        os_poll X (Some host, Some port) w0 = (i1, w1) \<and> os_poll X (Some host, Some port) w1 = (i2, w2) \<and>
        os_poll X (Some host, Some port) w2 = (i3, w3) \<and> os_poll X (Some host, Some port) w3 = (i4, w4) \<and>
        net_now i1 = now \<and> net_now i2 = now \<and> net_now i3 = now \<and> net_now i4 = now \<and>
        net_readable i1 LISTEN_FD \<and> net_accept i1 = [(fd, addr)] \<and>
        \<not> net_readable i2 LISTEN_FD \<and> net_readable i2 fd \<and> net_recv i2 fd = map Recv chunks @ rs \<and>
        \<not> net_readable i3 LISTEN_FD \<and> net_writable i3 fd \<and> net_send i3 fd = SentMore k \<and> k \<ge> 16 \<and>
        \<not> net_readable i4 LISTEN_FD \<and> net_writable i4 fd)"

definition fresh_server :: "string \<Rightarrow> string \<Rightarrow> sb_server" where
  "fresh_server host port = \<lparr>srv_streams = [], srv_sockfd = LISTEN_FD, srv_addr = (Some host, Some port), srv_now = 0, srv_timeout = 30000,
     srv_max_lifetime = 0, srv_max_request_size = 0\<rparr>"

definition new_stream :: "int \<Rightarrow> int \<Rightarrow> string \<Rightarrow> sb_stream" where
  "new_stream now fd addr = \<lparr>st_state = STATE_RECEIVING_HEADER, st_address = addr, st_init_time = now,
     st_last_activity = now, st_expected_recv_len = 0, st_data_idx = 0, st_sockfd = fd,
     st_recv_buf = sb_buffer_init, st_send_buf = sb_buffer_init, st_send_fp = None\<rparr>"

lemma new_stream_receiving: "receiving (new_stream now fd addr) []"
  by (simp add: receiving_def new_stream_def stream_ok_def sb_buffer_init_def buf_ok_def buf_bytes_def)

lemma new_server_still:
  "os_still X \<Longrightarrow> sb_new_server X (redirect_options host port) LISTEN_FD e = (Some (fresh_server host port), e)"
  by (simp add: sb_new_server_def redirect_options_def fresh_server_def str_to_uint_def)

lemma poll_accept:
  assumes "os_still X" "os_poll X (srv_addr srv) (env_world e) = (inp, w)" "net_readable inp LISTEN_FD"
    "net_accept inp = [(fd, addr)]" "fd \<le> 1024" "srv_streams srv = []" "srv_sockfd srv = LISTEN_FD"
  shows "sb_poll_server X (handle_auth_redirect X) srv u e =
    Some (SB_ESUCCESS, srv\<lparr>srv_now := net_now inp, srv_streams := [new_stream (net_now inp) fd addr]\<rparr>, u,
      e\<lparr>env_world := w\<rparr>)"
  using assms
  by (simp add: sb_poll_server_def Let_def sb_stream_new_def sb_stream_emit_def handle_auth_redirect_def
      new_stream_def)

lemma handler_code:
  assumes X: "os_still X" and st: "stream_ok st" "st_state st = STATE_SENDING_STATUS"
    "buf_bytes (st_recv_buf st) = req" "st_data_idx st = 0" "st_send_buf st = sb_buffer_init"
    and req: "code_request req path bufsz code"
    and u: "rd_path u = path" "rd_sz u = bufsz" "length (rd_code u) = unat bufsz" "bufsz \<noteq> 0"
  shows "\<exists>b codebuf. handle_auth_redirect X (SB_EV_REQUEST m path) st u e = Some (SB_RES_OK,
       st\<lparr>st_send_buf := b, st_state := STATE_SENDING_HEADER\<rparr>, u\<lparr>rd_code := codebuf\<rparr>, e) \<and>
    buf_ok b \<and> buf_bytes b = ''HTTP/1.1 200 OK'' @ [CR, LF] \<and> cstr codebuf = code"
proof -
  from req obtain v where v:
    "hd (drop (strcspn req [CHR ''?'', CR]) req) = CHR ''?''" "drop (strcspn req [CHR ''?'', CR]) req \<noteq> []"
    "find_var_value (tl (drop (strcspn req [CHR ''?'', CR]) req)) ''code'' = Some v"
    "url_decode v bufsz = (code, SB_ESUCCESS)" "is_cstr req" "is_cstr code"
    unfolding code_request_def by blast
  have "recv_str st = req" using st(3) v(5) by (simp add: recv_str_def cstr_id)
  then have get: "sb_get_var st ''code'' bufsz = (SB_ESUCCESS, code)"
    using v st(4) by (simp add: sb_get_var_def Let_def)
  have "length code < unat bufsz" by (rule url_decode_fits [OF v(4) u(4)])
  then obtain codebuf where store: "mem_store (rd_code u) 0 (code @ [NUL]) = Some codebuf"
    and cb: "codebuf = code @ NUL # drop (Suc (length code)) (rd_code u)"
    using u(3) by (simp add: mem_store_def)
  from send_status_quiet [OF os_still_quiet [OF X] st(1,2)] obtain b e' where
    b: "sb_send_status X st 200 ''OK'' e =
      (SB_ESUCCESS, st\<lparr>st_send_buf := b, st_state := STATE_SENDING_HEADER\<rparr>, e')" "buf_ok b"
      "buf_bytes b = buf_bytes (st_send_buf st) @ ''HTTP/1.1 200 OK'' @ [CR, LF]" "allocs X e e'"
    by blast
  have "e' = e" using allocs_still [OF b(4) X] .
  moreover have "buf_bytes (st_send_buf st) = []" using st(5) by (simp add: sb_buffer_init_def buf_bytes_def)
  moreover have "cstr codebuf = code" using cb v(6) by simp
  ultimately show ?thesis
    using b get store u by (auto simp: handle_auth_redirect_def)
qed

lemma code_request_path:
  "code_request req path bufsz code \<Longrightarrow> \<exists>m idx ver. parse_request_line req = Some (m, idx, ver) \<and>
     mem_equal ver ''HTTP'' \<and> cstr (fst (url_decode (drop idx req) 512)) = path"
  unfolding code_request_def by blast

lemma poll_request:
  assumes X: "os_still X" and poll: "os_poll X (srv_addr srv) (env_world e) = (inp, w)" "net_now inp = now"
    and net: "\<not> net_readable inp LISTEN_FD" "net_readable inp fd" "net_recv inp fd = map Recv chunks @ rs"
    and req: "code_request (concat chunks) path bufsz code" "chunks \<noteq> []"
    and u: "rd_path u = path" "rd_sz u = bufsz" "length (rd_code u) = unat bufsz" "bufsz \<noteq> 0"
    and srv: "srv_streams srv = [new_stream now fd addr]" "srv_sockfd srv = LISTEN_FD"
      "srv_timeout srv = 30000" "srv_max_lifetime srv = 0" "srv_max_request_size srv = 0"
  shows "\<exists>st codebuf. sb_poll_server X (handle_auth_redirect X) srv u e =
      Some (SB_ESUCCESS, srv\<lparr>srv_now := now, srv_streams := [st]\<rparr>, u\<lparr>rd_code := codebuf\<rparr>, e\<lparr>env_world := w\<rparr>) \<and>
    st_state st = STATE_SENDING_HEADER \<and> buf_ok (st_send_buf st) \<and> st_send_fp st = None \<and>
    buf_bytes (st_send_buf st) = ''HTTP/1.1 200 OK'' @ [CR, LF] \<and> cstr codebuf = code \<and>
    st_sockfd st = fd \<and> st_last_activity st = now"
proof -
  let ?e = "e\<lparr>env_world := w\<rparr>" and ?st = "new_stream now fd addr" and ?h = "handle_auth_redirect X"
  obtain m idx ver where line: "parse_request_line (concat chunks) = Some (m, idx, ver)"
    "mem_equal ver ''HTTP''" "cstr (fst (url_decode (drop idx (concat chunks)) 512)) = path"
    using code_request_path [OF req(1)] by blast
  have hd: "header_complete (concat chunks)" "\<And>n. n < length (concat chunks) \<Longrightarrow> \<not> header_complete (take n (concat chunks))"
    "is_cstr (concat chunks)" "find_header_value (concat chunks) ''Content-Length'' = Some None"
    using req(1) unfolding code_request_def by blast+
  from deliver_request [OF os_still_quiet [OF X] new_stream_receiving req(2) refl hd line(1,2), of ?h now rs now fd addr u ?e]
  obtain b e1 where recv: "sb_stream_recv X ?h now (map Recv chunks @ rs) ?st u ?e =
      sb_stream_emit ?h (SB_EV_REQUEST m path)
        (?st\<lparr>st_last_activity := now, st_state := STATE_SENDING_STATUS, st_recv_buf := b\<rparr>) u e1"
    "buf_ok b" "buf_bytes b = concat chunks" "allocs X ?e e1"
    using line(3) by auto
  let ?st1 = "?st\<lparr>st_last_activity := now, st_state := STATE_SENDING_STATUS, st_recv_buf := b\<rparr>"
  have e1: "e1 = ?e" using allocs_still [OF recv(4) X] .
  have "stream_ok ?st1" "st_state ?st1 = STATE_SENDING_STATUS" "buf_bytes (st_recv_buf ?st1) = concat chunks"
    "st_data_idx ?st1 = 0" "st_send_buf ?st1 = sb_buffer_init"
    using recv by (simp_all add: stream_ok_def new_stream_def sb_buffer_init_def buf_ok_def)
  from handler_code [OF X this req(1) u, of m ?e] obtain b2 codebuf where
    h: "?h (SB_EV_REQUEST m path) ?st1 u ?e = Some (SB_RES_OK,
       ?st1\<lparr>st_send_buf := b2, st_state := STATE_SENDING_HEADER\<rparr>, u\<lparr>rd_code := codebuf\<rparr>, ?e)"
    "buf_ok b2" "buf_bytes b2 = ''HTTP/1.1 200 OK'' @ [CR, LF]" "cstr codebuf = code"
    by blast
  let ?st2 = "?st1\<lparr>st_send_buf := b2, st_state := STATE_SENDING_HEADER\<rparr>"
  have io: "poll_io X ?h inp ?st u ?e = Some (SB_ESUCCESS, ?st2, u\<lparr>rd_code := codebuf\<rparr>, ?e)"
    using recv(1) h(1) e1 net poll(2)
    by (simp add: poll_io_def sb_stream_emit_def new_stream_def state_order)
  have "\<not> stream_over_limit srv now ?st2"
    using srv by (simp add: stream_over_limit_def new_stream_def)
  then have "sb_poll_server X ?h srv u e =
      Some (SB_ESUCCESS, srv\<lparr>srv_now := now, srv_streams := [?st2]\<rparr>, u\<lparr>rd_code := codebuf\<rparr>, ?e)"
    using io poll net srv by (simp add: sb_poll_server_def Let_def stream_over_limit_def)
  then show ?thesis using h(2-4) by (intro exI [of _ ?st2] exI [of _ codebuf]) (simp add: new_stream_def)
qed

lemma poll_sends:
  assumes poll: "os_poll X (srv_addr srv) (env_world e) = (inp, w)" "net_now inp = now"
    and net: "\<not> net_readable inp LISTEN_FD" "net_writable inp fd" "net_send inp fd = SentMore k" "k \<ge> 16"
    and st: "st_state st = STATE_SENDING_HEADER" "buf_ok (st_send_buf st)"
      "buf_bytes (st_send_buf st) = ''HTTP/1.1 200 OK'' @ [CR, LF]" "st_sockfd st = fd" "st_send_fp st = None"
    and srv: "srv_streams srv = [st]" "srv_sockfd srv = LISTEN_FD"
      "srv_timeout srv = 30000" "srv_max_lifetime srv = 0" "srv_max_request_size srv = 0"
  shows "\<exists>st'. sb_poll_server X h srv u e =
      Some (SB_ESUCCESS, srv\<lparr>srv_now := now, srv_streams := [st']\<rparr>, u, e\<lparr>env_world := w\<rparr>) \<and>
    st_state st' = STATE_SENDING_HEADER \<and> sb_len (st_send_buf st') = 0 \<and> st_send_fp st' = None \<and> st_sockfd st' = fd"
proof -
  have len: "sb_len (st_send_buf st) = 17" using length_buf_bytes [OF st(2)] st(3) by simp
  define st' where "st' = send_data now (SentMore k) st"
  have "poll_io X h inp st u (e\<lparr>env_world := w\<rparr>) = Some (SB_ESUCCESS, st', u, e\<lparr>env_world := w\<rparr>)"
    using net st len poll(2) by (simp add: poll_io_def sb_stream_send_def state_order st'_def)
  moreover have "st_state st' = STATE_SENDING_HEADER" "sb_len (st_send_buf st') = 0" "st_send_fp st' = None"
    "st_sockfd st' = fd" "st_last_activity st' = now"
    using st len net(4) by (simp_all add: st'_def send_data_def sb_buffer_shift_def Let_def min_def)
  ultimately show ?thesis
    using poll net srv by (intro exI [of _ st']) (simp add: sb_poll_server_def Let_def stream_over_limit_def)
qed

lemma poll_closes:
  assumes poll: "os_poll X (srv_addr srv) (env_world e) = (inp, w)" "net_now inp = now"
    and net: "\<not> net_readable inp LISTEN_FD" "net_writable inp fd"
    and st: "st_state st = STATE_SENDING_HEADER" "sb_len (st_send_buf st) = 0" "st_sockfd st = fd"
      "st_send_fp st = None"
    and srv: "srv_streams srv = [st]" "srv_sockfd srv = LISTEN_FD"
  shows "sb_poll_server X (handle_auth_redirect X) srv u e =
      Some (SB_ESUCCESS, srv\<lparr>srv_now := now, srv_streams := []\<rparr>, u\<lparr>rd_stop := True\<rparr>, e\<lparr>env_world := w\<rparr>)"
  using assms
  by (simp add: sb_poll_server_def Let_def poll_io_def sb_stream_send_def state_order sb_stream_close_def
      sb_stream_destroy_def sb_stream_emit_def handle_auth_redirect_def)

lemma poll_four:
  assumes X: "os_still X" and sch: "redirect_schedule X host port (env_world e) now fd addr chunks w4"
    and req: "code_request (concat chunks) path bufsz code"
    and u: "rd_path u = path" "rd_sz u = bufsz" "length (rd_code u) = unat bufsz" "bufsz \<noteq> 0" "\<not> rd_stop u"
  shows "\<exists>codebuf srv. poll_until_stopped X (fresh_server host port) u e =
    Some (srv, u\<lparr>rd_code := codebuf, rd_stop := True\<rparr>, e\<lparr>env_world := w4\<rparr>) \<and> srv_streams srv = [] \<and>
    cstr codebuf = code"
proof -
  let ?h = "handle_auth_redirect X" and ?a = "(Some host, Some port)" and ?s0 = "fresh_server host port"
  from sch obtain i1 i2 i3 i4 w1 w2 w3 rs k where
    fd: "fd \<le> 1024" "chunks \<noteq> []" and
    p: "os_poll X ?a (env_world e) = (i1, w1)" "os_poll X ?a w1 = (i2, w2)" "os_poll X ?a w2 = (i3, w3)"
      "os_poll X ?a w3 = (i4, w4)" and
    now: "net_now i1 = now" "net_now i2 = now" "net_now i3 = now" "net_now i4 = now" and
    n1: "net_readable i1 LISTEN_FD" "net_accept i1 = [(fd, addr)]" and
    n2: "\<not> net_readable i2 LISTEN_FD" "net_readable i2 fd" "net_recv i2 fd = map Recv chunks @ rs" and
    n3: "\<not> net_readable i3 LISTEN_FD" "net_writable i3 fd" "net_send i3 fd = SentMore k" "k \<ge> 16" and
    n4: "\<not> net_readable i4 LISTEN_FD" "net_writable i4 fd"
    unfolding redirect_schedule_def by blast
  let ?s1 = "?s0\<lparr>srv_now := now, srv_streams := [new_stream now fd addr]\<rparr>"
  let ?e1 = "e\<lparr>env_world := w1\<rparr>"
  have 1: "sb_poll_server X ?h ?s0 u e = Some (SB_ESUCCESS, ?s1, u, ?e1)"
    using poll_accept [OF X _ n1 fd(1), of ?s0 e w1 u] p(1) now(1) by (simp add: fresh_server_def)
  obtain st codebuf where
    2: "sb_poll_server X ?h ?s1 u ?e1 = Some (SB_ESUCCESS, ?s1\<lparr>srv_now := now, srv_streams := [st]\<rparr>,
        u\<lparr>rd_code := codebuf\<rparr>, ?e1\<lparr>env_world := w2\<rparr>)" and
    st: "st_state st = STATE_SENDING_HEADER" "buf_ok (st_send_buf st)" "st_send_fp st = None"
      "buf_bytes (st_send_buf st) = ''HTTP/1.1 200 OK'' @ [CR, LF]" "cstr codebuf = code" "st_sockfd st = fd"
    using poll_request [OF X _ now(2) n2 req fd(2) u(1-4), of ?s1 ?e1 w2 addr] p(2)
    by (auto simp: fresh_server_def)
  let ?s2 = "?s1\<lparr>srv_now := now, srv_streams := [st]\<rparr>" and ?u = "u\<lparr>rd_code := codebuf\<rparr>"
  let ?e2 = "e\<lparr>env_world := w2\<rparr>"
  obtain st' where
    3: "sb_poll_server X ?h ?s2 ?u ?e2 = Some (SB_ESUCCESS, ?s2\<lparr>srv_now := now, srv_streams := [st']\<rparr>, ?u,
        ?e2\<lparr>env_world := w3\<rparr>)" and
    st': "st_state st' = STATE_SENDING_HEADER" "sb_len (st_send_buf st') = 0" "st_send_fp st' = None"
      "st_sockfd st' = fd"
    using poll_sends [OF _ now(3) n3 st(1,2,4,6,3), of X ?s2 ?e2 w3 ?h ?u] p(3) by (auto simp: fresh_server_def)
  let ?s3 = "?s2\<lparr>srv_now := now, srv_streams := [st']\<rparr>" and ?e3 = "e\<lparr>env_world := w3\<rparr>"
  have 4: "sb_poll_server X ?h ?s3 ?u ?e3 = Some (SB_ESUCCESS, ?s3\<lparr>srv_now := now, srv_streams := []\<rparr>,
      ?u\<lparr>rd_stop := True\<rparr>, ?e3\<lparr>env_world := w4\<rparr>)"
    using poll_closes [OF _ now(4) n4 st'(1,2,4,3), of X ?s3 ?e3 w4 ?u] p(4) by (simp add: fresh_server_def)
  have "poll_until_stopped X (fresh_server host port) u e = poll_until_stopped X ?s1 u ?e1"
    using 1 u(5) by (subst poll_until_stopped.simps) simp
  also have "\<dots> = poll_until_stopped X ?s2 ?u ?e2"
    using 2 u(5) by (subst poll_until_stopped.simps) simp
  also have "\<dots> = poll_until_stopped X ?s3 ?u ?e3"
    using 3 u(5) by (subst poll_until_stopped.simps) simp
  also have "\<dots> = poll_until_stopped X (?s3\<lparr>srv_now := now, srv_streams := []\<rparr>) (?u\<lparr>rd_stop := True\<rparr>)
      (?e3\<lparr>env_world := w4\<rparr>)"
    using 4 u(5) by (subst poll_until_stopped.simps) simp
  also have "\<dots> = Some (?s3\<lparr>srv_now := now, srv_streams := []\<rparr>, ?u\<lparr>rd_stop := True\<rparr>, ?e3\<lparr>env_world := w4\<rparr>)"
    by (subst poll_until_stopped.simps) simp
  finally show ?thesis
    using st(5) by (intro exI [of _ codebuf] exI [of _ "?s3\<lparr>srv_now := now, srv_streams := []\<rparr>"]) simp
qed

lemma wait_returns_code:
  assumes X: "os_still X" and sch: "redirect_schedule X host port (cb url (env_world e)) now fd addr chunks w4"
    and req: "code_request (concat chunks) path bufsz code" and sz: "bufsz \<noteq> 0"
  shows "wait_for_code X cb url host port path bufsz e = Some (Some code, e\<lparr>env_world := w4\<rparr>)"
proof -
  let ?u = "\<lparr>rd_stop = False, rd_path = path, rd_code = replicate (unat bufsz) NUL, rd_sz = bufsz\<rparr>"
  have sch': "redirect_schedule X host port (env_world (e\<lparr>env_world := cb url (env_world e)\<rparr>)) now fd addr chunks w4"
    using sch by simp
  obtain codebuf srv where
    "poll_until_stopped X (fresh_server host port) ?u (e\<lparr>env_world := cb url (env_world e)\<rparr>) =
      Some (srv, ?u\<lparr>rd_code := codebuf, rd_stop := True\<rparr>, e\<lparr>env_world := w4\<rparr>)"
    "srv_streams srv = []" "cstr codebuf = code"
    using poll_four [OF X sch' req, of ?u] sz by auto
  moreover have "code \<noteq> []" using req by (simp add: code_request_def)
  ultimately show ?thesis
    using X by (simp add: wait_for_code_def new_server_still sb_close_server_def)
qed

subsection \<open>What the operations keep of a token\<close>

definition refreshed :: "('j, 'w) oauth_token \<Rightarrow> ('j, 'w) oauth_token \<Rightarrow> bool" where
  \<comment> \<open>only the tokens and their expiry changed, and no token is missing or empty\<close>
  "refreshed tok tok' \<longleftrightarrow> (\<exists>tt at rt ea. tt \<noteq> [] \<and> at \<noteq> [] \<and> rt \<noteq> [] \<and>
     tok' = tok\<lparr>token_type := Some tt, access_token := Some at, refresh_token := Some rt, expires_at := ea\<rparr>)"

definition settled :: "('j, 'w) oauth_token \<Rightarrow> c_int \<Rightarrow> ('j, 'w) oauth_token \<Rightarrow> bool" where
  "settled tok rc tok' \<longleftrightarrow> rc = 0 \<and> refreshed tok tok' \<or> neg rc \<and> tok' = tok"

lemma string_node_nonempty: "IS_STRING_NODE X item = Some s \<Longrightarrow> s \<noteq> []"
  by (auto simp: IS_STRING_NODE_def split: option.splits if_splits)

lemma decode_settled:
  "decode_access_token X tok b e = (rc, tok', e') \<Longrightarrow> settled tok rc tok'"
  unfolding decode_access_token_def Let_def
  by (auto simp: settled_def refreshed_def mk_error_neg dest!: string_node_nonempty
      split: option.splits prod.splits if_splits)

lemma http_status_neg: "neg (ssize_to_int (HIVE_HTTP_STATUS_ERROR c))"
  by (simp add: neg_iff_bit ssize_to_int_def hive_mk_error_long_def err_bits)

lemma settled_error: "neg rc \<Longrightarrow> settled tok rc tok"
  by (simp add: settled_def)

lemma redeem_settled:
  "redeem_access_token X tok code e = Some (rc, tok', e') \<Longrightarrow> settled tok rc tok'"
  unfolding redeem_access_token_def Let_def
  by (auto simp: mk_error_neg http_status_neg bind_eq_Some_conv intro!: settled_error intro: decode_settled
      split: option.splits prod.splits if_splits)

lemma decode_and_store_settled:
  "decode_and_store X tok b e = Some (rc, tok', e') \<Longrightarrow> settled tok rc tok'"
  using decode_settled [of X tok b e]
  by (auto simp: decode_and_store_def settled_def bind_eq_Some_conv split: prod.splits if_splits)

lemma refresh_settled:
  assumes "refresh_access_token X tok e = Some (rc, tok', e')"
  shows "settled tok rc tok'"
proof (cases "refresh_token tok")
  case None
  with assms show ?thesis
    unfolding refresh_access_token_def Let_def
    by (auto simp: mk_error_neg intro!: settled_error split: option.splits prod.splits)
next
  case (Some old)
  with assms show ?thesis
    unfolding refresh_access_token_def Let_def
    by (auto simp: mk_error_neg http_status_neg bind_eq_Some_conv intro!: settled_error
        intro: decode_and_store_settled split: option.splits prod.splits if_splits)
qed

text \<open>Why an operation does not return: \<open>http_client_move_response_body\<close> on an empty answer.\<close>

definition answered_empty :: "('j, 'w) ext \<Rightarrow> ('j, 'w) oauth_token \<Rightarrow> bool" where
  \<comment> \<open>a request to the token server has succeeded without a body\<close>
  "answered_empty X tok \<longleftrightarrow>
     (\<exists>body c e c' e'. token_post X tok body c e = (CURLE_OK, c', e') \<and> rb_used (hc_body c') = 0)"

lemma answered_emptyI:
  "token_post X tok body c e = (CURLE_OK, c', e') \<Longrightarrow> http_client_move_response_body False c' = None \<Longrightarrow> answered_empty X tok"
  unfolding answered_empty_def
  by (intro exI [of _ body] exI [of _ c] exI [of _ e] exI [of _ c'] exI [of _ e'])
    (simp add: http_client_move_response_body_def split: if_splits)

definition settles :: "('j, 'w) ext \<Rightarrow> ('j, 'w) oauth_token \<Rightarrow> (c_int \<times> ('j, 'w) oauth_token \<times> 'w env) option \<Rightarrow> bool" where
  \<comment> \<open>the token is changed completely or not at all; the call returns unless an answer was empty\<close>
  "settles X tok r \<longleftrightarrow> (case r of None \<Rightarrow> answered_empty X tok | Some (rc, tok', e) \<Rightarrow> settled tok rc tok')"

lemma redeem_stuck: "redeem_access_token X tok code e = None \<Longrightarrow> answered_empty X tok"
  unfolding redeem_access_token_def Let_def
  by (auto simp: bind_eq_None_conv intro: answered_emptyI split: option.splits prod.splits if_splits)

lemma token_json_total: "refreshed tok tok' \<Longrightarrow> token_json X tok' j \<noteq> None"
  by (auto simp: refreshed_def token_json_def Let_def)

lemma decode_and_store_total:
  assumes "\<And>j e. writeback_cb tok j e \<noteq> None"
  shows "decode_and_store X tok b e \<noteq> None"
proof -
  obtain rc tok' e' where d: "decode_access_token X tok b e = (rc, tok', e')" using prod_cases3 by blast
  show ?thesis
  proof (cases "neg rc")
    case False
    then have r: "refreshed tok tok'" using decode_settled [OF d] by (simp add: settled_def)
    then have "writeback_cb tok' = writeback_cb tok" by (auto simp: refreshed_def)
    then have "writeback_cb tok' j e \<noteq> None" for j e using assms by simp
    moreover have "token_json X tok' j \<noteq> None" for j by (rule token_json_total [OF r])
    ultimately have "writeback_tokens X tok' e' \<noteq> None"
      by (auto simp: writeback_tokens_def bind_eq_None_conv simp del: not_None_eq split: option.splits prod.splits)
    then show ?thesis using d False by (auto simp: decode_and_store_def)
  qed (use d in \<open>simp add: decode_and_store_def\<close>)
qed

lemma refresh_stuck:
  assumes "refresh_access_token X tok e = None" "refresh_token tok \<noteq> None" "\<And>j e. writeback_cb tok j e \<noteq> None"
  shows "answered_empty X tok"
proof -
  have store: "decode_and_store X tok b e = None \<longleftrightarrow> False" for b e using decode_and_store_total [OF assms(3)] by simp
  show ?thesis
    using assms(1,2) unfolding refresh_access_token_def Let_def
    by (auto simp: bind_eq_None_conv store simp del: not_None_eq intro: answered_emptyI split: option.splits prod.splits if_splits)
qed

lemma redeem_settles: "settles X tok (redeem_access_token X tok code e)"
  using redeem_stuck [of X tok code e] redeem_settled [of X tok code e] by (simp add: settles_def split: option.splits prod.splits)

lemma refresh_settles:
  assumes "refresh_token tok \<noteq> None" "\<And>j e. writeback_cb tok j e \<noteq> None"
  shows "settles X tok (refresh_access_token X tok e)"
  using refresh_stuck [OF _ assms, of X e] refresh_settled [of X tok e] by (simp add: settles_def split: option.splits prod.splits)

lemma check_expire_settles:
  assumes "refresh_token tok \<noteq> None" "\<And>j e. writeback_cb tok j e \<noteq> None" "fst (oauth_token_is_expired X tok e)"
  shows "settles X tok (oauth_token_check_expire X tok e)"
proof -
  obtain e1 where "oauth_token_is_expired X tok e = (True, e1)" using assms(3) by (metis prod.collapse)
  then show ?thesis using refresh_settles [OF assms(1,2), of X e1]
    by (auto simp: oauth_token_check_expire_def settles_def settled_def split: option.splits prod.splits)
qed

lemma check_expire_settled:
  "oauth_token_check_expire X tok e = Some (rc, tok', e') \<Longrightarrow>
     rc = 0 \<and> (tok' = tok \<or> refreshed tok tok') \<or> neg rc \<and> tok' = tok"
  by (auto simp: oauth_token_check_expire_def Let_def settled_def bind_eq_Some_conv
      split: prod.splits if_splits dest!: refresh_settled)

subsection \<open>Persistence\<close>

definition same_name :: "string \<Rightarrow> string \<Rightarrow> bool" where
  "same_name k k' \<longleftrightarrow> map to_lower k = map to_lower k'"

definition json_objects :: "('j, 'w) ext \<Rightarrow> bool" where
  \<comment> \<open>what cJSON documents about objects: a member that was added under a new name is found again,
     names compared without case, and adding one leaves the others\<close>
  "json_objects X \<longleftrightarrow>
     (\<forall>j. cj_new_object X = Some j \<longrightarrow> cj_is_object X j \<and> (\<forall>k. cj_get X j k = None)) \<and>
     (\<forall>j k v. cj_is_object X j \<longrightarrow> cj_is_object X (add_string X k v j)) \<and>
     (\<forall>j k v. cj_is_object X j \<and> cj_get X j k = None \<longrightarrow>
        (\<exists>m. cj_get X (add_string X k v j) k = Some m \<and> cj_is_string X m \<and> cj_valuestring X m = Some v)) \<and>
     (\<forall>j k v. cj_is_object X j \<and> cj_get X j k = None \<longrightarrow>
        (\<exists>m. cj_get X (snd (cj_add_number X j k v)) k = Some m \<and> cj_is_number X m \<and> cj_valuelong X m = v)) \<and>
     (\<forall>j k k' v. cj_is_object X j \<and> \<not> same_name k' k \<longrightarrow>
        cj_get X (add_string X k v j) k' = cj_get X j k') \<and>
     (\<forall>j k k' v. cj_is_object X j \<and> \<not> same_name k' k \<longrightarrow>
        cj_get X (snd (cj_add_number X j k v)) k' = cj_get X j k')"

lemma json_objectsD:
  assumes "json_objects X"
  shows "cj_new_object X = Some j \<Longrightarrow> cj_is_object X j"
    "cj_new_object X = Some j \<Longrightarrow> cj_get X j k = None"
    "cj_is_object X j \<Longrightarrow> cj_is_object X (add_string X k v j)"
    "cj_is_object X j \<Longrightarrow> cj_get X j k = None \<Longrightarrow>
       \<exists>m. cj_get X (add_string X k v j) k = Some m \<and> cj_is_string X m \<and> cj_valuestring X m = Some v"
    "cj_is_object X j \<Longrightarrow> cj_get X j k = None \<Longrightarrow>
       \<exists>m. cj_get X (snd (cj_add_number X j k n)) k = Some m \<and> cj_is_number X m \<and> cj_valuelong X m = n"
    "cj_is_object X j \<Longrightarrow> \<not> same_name k' k \<Longrightarrow> cj_get X (add_string X k v j) k' = cj_get X j k'"
    "cj_is_object X j \<Longrightarrow> \<not> same_name k' k \<Longrightarrow> cj_get X (snd (cj_add_number X j k n)) k' = cj_get X j k'"
  by (use assms in \<open>unfold json_objects_def, elim conjE, metis\<close>)+

definition without_tokens :: "('j, 'w) oauth_token \<Rightarrow> ('j, 'w) oauth_token" where
  \<comment> \<open>the token \<open>oauth_token_new\<close> starts from\<close>
  "without_tokens tok = tok\<lparr>token_type := None, access_token := None, refresh_token := None,
     expires_at := \<lparr>tv_sec = 0, tv_usec = 0\<rparr>\<rparr>"

lemma token_names:
  "\<not> same_name ''client_id'' ''token_type''" "\<not> same_name ''client_id'' ''access_token''"
  "\<not> same_name ''client_id'' ''refresh_token''" "\<not> same_name ''client_id'' ''expires_at''"
  "\<not> same_name ''token_type'' ''client_id''" "\<not> same_name ''token_type'' ''access_token''"
  "\<not> same_name ''token_type'' ''refresh_token''" "\<not> same_name ''token_type'' ''expires_at''"
  "\<not> same_name ''access_token'' ''client_id''" "\<not> same_name ''access_token'' ''token_type''"
  "\<not> same_name ''access_token'' ''refresh_token''" "\<not> same_name ''access_token'' ''expires_at''"
  "\<not> same_name ''refresh_token'' ''client_id''" "\<not> same_name ''refresh_token'' ''token_type''"
  "\<not> same_name ''refresh_token'' ''access_token''" "\<not> same_name ''refresh_token'' ''expires_at''"
  "\<not> same_name ''expires_at'' ''client_id''" "\<not> same_name ''expires_at'' ''token_type''"
  "\<not> same_name ''expires_at'' ''access_token''" "\<not> same_name ''expires_at'' ''refresh_token''"
  by (simp_all add: same_name_def to_lower_def ccode_def)

lemma restore_written:
  assumes X: "json_objects X" "os_still X" and j: "cj_new_object X = Some j0" "token_json X tok j0 = Some j"
    and tok: "token_type tok = Some tt"
  shows "restore_access_token X (Some j) (without_tokens tok) e =
    Some (0, tok\<lparr>expires_at := \<lparr>tv_sec = tv_sec (expires_at tok), tv_usec = 0\<rparr>\<rparr>, e)"
proof -
  note L = json_objectsD [OF X(1)]
  from j tok obtain at rt where toks: "access_token tok = Some at" "refresh_token tok = Some rt"
    by (auto simp: token_json_def Let_def bind_eq_Some_conv)
  let ?j1 = "add_string X ''client_id'' (client_id tok) j0"
  let ?j2 = "add_string X ''token_type'' tt ?j1"
  let ?j3 = "add_string X ''access_token'' at ?j2"
  let ?j4 = "add_string X ''refresh_token'' rt ?j3"
  have jj: "j = snd (cj_add_number X ?j4 ''expires_at'' (tv_sec (expires_at tok)))"
    using j(2) tok toks by (simp add: token_json_def Let_def)
  have ob: "cj_is_object X j0" "cj_is_object X ?j1" "cj_is_object X ?j2" "cj_is_object X ?j3" "cj_is_object X ?j4"
    using L(1) [OF j(1)] L(3) by blast+
  have none: "cj_get X j0 k = None" for k by (rule L(2) [OF j(1)])
  have g: "\<exists>m. cj_get X j ''client_id'' = Some m \<and> cj_is_string X m \<and> cj_valuestring X m = Some (client_id tok)"
    "\<exists>m. cj_get X j ''token_type'' = Some m \<and> cj_is_string X m \<and> cj_valuestring X m = Some tt"
    "\<exists>m. cj_get X j ''access_token'' = Some m \<and> cj_is_string X m \<and> cj_valuestring X m = Some at"
    "\<exists>m. cj_get X j ''refresh_token'' = Some m \<and> cj_is_string X m \<and> cj_valuestring X m = Some rt"
    "\<exists>m. cj_get X j ''expires_at'' = Some m \<and> cj_is_number X m \<and> cj_valuelong X m = tv_sec (expires_at tok)"
    using L(4) [of j0 "''client_id''" "client_id tok"] L(4) [of ?j1 "''token_type''" tt]
      L(4) [of ?j2 "''access_token''" at] L(4) [of ?j3 "''refresh_token''" rt]
      L(5) [of ?j4 "''expires_at''" "tv_sec (expires_at tok)"]
    by (simp_all add: jj L(6) L(7) ob none token_names)
  then obtain m1 m2 m3 m4 m5 where
    "cj_get X j ''client_id'' = Some m1" "cj_is_string X m1" "cj_valuestring X m1 = Some (client_id tok)"
    "cj_get X j ''token_type'' = Some m2" "cj_is_string X m2" "cj_valuestring X m2 = Some tt"
    "cj_get X j ''access_token'' = Some m3" "cj_is_string X m3" "cj_valuestring X m3 = Some at"
    "cj_get X j ''refresh_token'' = Some m4" "cj_is_string X m4" "cj_valuestring X m4 = Some rt"
    "cj_get X j ''expires_at'' = Some m5" "cj_is_number X m5" "cj_valuelong X m5 = tv_sec (expires_at tok)"
    by blast
  then show ?thesis
    using X(2) tok toks
    by (simp add: restore_access_token_def without_tokens_def IS_STRING_def IS_NUMBER_def Let_def)
qed

end
