(* ===== verification/Oauth_Login.thy ===== *)
theory Oauth_Login
  imports Oauth_Flow
begin

text \<open>
  The properties of \<open>src/oauth/oauth_token.c\<close>: the browser's redirect delivers the code, the token
  operations change a token completely or not at all, a token expires when the server said, a
  stored token is restored, and where the login reports success without a token.
\<close>

subsection \<open>The properties\<close>

text \<open>
  C2: When nothing fails, get_authorize_code opens the page libcurl makes of the authorization
  URL, the client, the scope, the redirect URL and the kind of answer, and listens on the host and
  port of the redirect URL; if the browser, shown this page, connects there, sends one request for
  the path of the redirect URL with a code, in whatever chunks, and takes the answer, the polling
  loop ends and the result is exactly that code, decoded.
\<close>

theorem redirect_delivers_the_code:
  assumes "os_still X" "http_client_new X e = (Some c, e1)" "login_urls X tok page host port path"
    and "redirect_schedule X host port (cb page (env_world e1)) now fd addr chunks w4"
    and "code_request (concat chunks) path bufsz code" "bufsz \<noteq> 0"
  shows "get_authorize_code X tok cb bufsz e = Some (Some code, e1\<lparr>env_world := w4\<rparr>)"
  using wait_returns_code [where cb = cb and url = page, OF assms(1,4-6)]
  unfolding get_code_waits [OF assms(2,3), of cb bufsz] .

text \<open>
  For the closed examples: the parts of a URL that has a scheme, as libcurl gives them, without the
  escaping.
\<close>

definition url_parts :: "url_call list \<Rightarrow> curlu_part \<Rightarrow> bool \<Rightarrow> c_int \<times> string" where
  "url_parts log part dec =
     (case log of
        [] \<Rightarrow> (14, [])
      | u # qs \<Rightarrow>
          (let url = the (uc_text u); rest = drop 3 (dropWhile (\<lambda>c. c \<noteq> CHR '':'') url);
               auth = takeWhile (\<lambda>c. c \<noteq> SLASH) rest; path = dropWhile (\<lambda>c. c \<noteq> SLASH) rest;
               port = dropWhile (\<lambda>c. c \<noteq> CHR '':'') auth; query = tl (concat (map (\<lambda>q. CHR ''&'' # the (uc_text q)) qs)) in
           case part of
             CURLUPART_URL \<Rightarrow> (CURLUE_OK, if query = [] then url else url @ CHR ''?'' # query)
           | CURLUPART_SCHEME \<Rightarrow> (CURLUE_OK, takeWhile (\<lambda>c. c \<noteq> CHR '':'') url)
           | CURLUPART_HOST \<Rightarrow> (CURLUE_OK, takeWhile (\<lambda>c. c \<noteq> CHR '':'') auth)
           | CURLUPART_PORT \<Rightarrow> (if port = [] then (15, []) else (CURLUE_OK, tl port))
           | CURLUPART_PATH \<Rightarrow> (CURLUE_OK, if path = [] then ''/'' else path)
           | CURLUPART_QUERY \<Rightarrow> (if query = [] then (16, []) else (CURLUE_OK, query))))"

definition login_page :: "('j, 'w) oauth_token \<Rightarrow> string" where
  "login_page tok = snd (url_parts (authorize_log tok) CURLUPART_URL False)"

lemma parts_of_login:
  assumes "curl_url_get X = url_parts" "\<And>log call. curl_url_set X log call = CURLUE_OK"
    and "redirect_url tok = ''http://localhost:12345''"
  shows "login_urls X tok (login_page tok) ''localhost'' ''12345'' ''/''"
  using assms by (simp add: login_urls_def login_page_def authorize_log_def url_parts_def url_part_def Let_def)

definition sample_request :: string where
  "sample_request = ''GET /?code=a%62 HTTP/1.1'' @ [CR, LF, CR, LF]"

definition browser_input :: "nat \<Rightarrow> net_input" where
  "browser_input n = \<lparr>net_now = 1000, net_readable = (\<lambda>fd. n = 1 \<and> fd = LISTEN_FD \<or> n = 2 \<and> fd = 5),
     net_writable = (\<lambda>fd. n > 2),
     net_recv = (\<lambda>fd. [Recv (take 9 sample_request), Recv (drop 9 sample_request)]),
     net_send = (\<lambda>fd. SentMore 100), net_accept = (if n = 1 then [(5, ''1.2.3.4'')] else [])\<rparr>"

definition browser_poll :: "string option \<times> string option \<Rightarrow> nat \<Rightarrow> net_input \<times> nat" where
  \<comment> \<open>the world counts the polls; the browser goes to one host and port only\<close>
  "browser_poll addr n =
     (if addr = (Some ''localhost'', Some ''12345'') then (browser_input n, Suc n) else os_poll sample_os addr n)"

definition browser_ext :: "(string, nat) ext" where
  "browser_ext = sample_ext\<lparr>os_poll := browser_poll, curl_url_get := url_parts\<rparr>"

definition opens_page :: "string \<Rightarrow> string \<Rightarrow> nat \<Rightarrow> nat" where
  \<comment> \<open>the browser starts when it is shown this page\<close>
  "opens_page page url n = (if url = page then 1 else 0)"

definition browser_env :: "nat env" where
  "browser_env = \<lparr>env_err = 0, env_errno = 0, env_fs = (\<lambda>p. None), env_curl_ready = True, env_world = 0\<rparr>"

definition sample_token :: "(string, 'w) oauth_token" where
  "sample_token = \<lparr>authorize_url = ''https://login/authorize'', token_url = ''t'', client_id = ''c'', scope = ''s'',
     redirect_url = ''http://localhost:12345'', token_type = None, access_token = None, refresh_token = None,
     expires_at = \<lparr>tv_sec = 0, tv_usec = 0\<rparr>, writeback_cb = (\<lambda>j e. Some (0, e))\<rparr>"

lemma browser_still: "os_still browser_ext"
  by (simp add: os_still_def browser_ext_def sample_ext_def sample_curl_def sample_os_def curl_os.defs os.defs)

lemma sample_code_request: "code_request sample_request ''/'' 512 ''ab''"
proof -
  have "header_complete sample_request \<and> (\<forall>n < length sample_request. \<not> header_complete (take n sample_request)) \<and>
    is_cstr sample_request" by code_simp
  moreover have "find_header_value sample_request ''Content-Length'' = Some None"
    by (simp add: find_header_value.simps sample_request_def mem_equal_def mem_case_equal_def strcspn_def
        to_lower_def ccode_def char_at_def Let_def)
  moreover have "parse_request_line sample_request = Some (''GET'', 4, ''HTTP/1.1'')" by code_simp
  moreover have "url_decode (drop 4 sample_request) 512 = (''/'', SB_ESUCCESS)" by code_simp
  moreover have "hd (drop (strcspn sample_request [CHR ''?'', CR]) sample_request) = CHR ''?'' \<and>
    drop (strcspn sample_request [CHR ''?'', CR]) sample_request \<noteq> []" by code_simp
  moreover have "url_decode (''a%62 HTTP/1.1'' @ [CR, LF, CR, LF]) 512 = (''ab'', SB_ESUCCESS)" by code_simp
  moreover have "find_var_value (tl (drop (strcspn sample_request [CHR ''?'', CR]) sample_request)) ''code'' =
    Some (''a%62 HTTP/1.1'' @ [CR, LF, CR, LF])"
  proof -
    have "tl (drop (strcspn sample_request [CHR ''?'', CR]) sample_request) =
        ''code=a%62 HTTP/1.1'' @ [CR, LF, CR, LF]" by code_simp
    moreover have "mem_equal (''code=a%62 HTTP/1.1'' @ [CR, LF, CR, LF]) ''code'' \<and>
      char_at (''code=a%62 HTTP/1.1'' @ [CR, LF, CR, LF]) (length ''code'') = CHR ''=''" by code_simp
    ultimately show ?thesis by (subst find_var_value.simps) simp
  qed
  moreover have "mem_equal ''HTTP/1.1'' ''HTTP'' \<and> cstr ''/'' = ''/'' \<and> is_cstr ''ab''" by code_simp
  ultimately show ?thesis unfolding code_request_def by (intro conjI exI) auto
qed


lemma browser_schedule:
  "redirect_schedule browser_ext ''localhost'' ''12345'' 1 1000 5 ''1.2.3.4'' [take 9 sample_request, drop 9 sample_request] 5"
  by (simp add: redirect_schedule_def browser_ext_def browser_poll_def browser_input_def LISTEN_FD_def)

lemma browser_client: "http_client_new browser_ext browser_env = (Some new_client, browser_env)"
  by (simp add: http_client_new_def new_client_def browser_ext_def browser_env_def sample_ext_def sample_curl_def sample_os_def
      alloc_def curl_os.defs os.defs)

lemma browser_urls: "login_urls browser_ext sample_token (login_page (sample_token :: (string, nat) oauth_token)) ''localhost'' ''12345'' ''/''"
  by (rule parts_of_login) (simp_all add: browser_ext_def sample_ext_def sample_curl_def sample_token_def curl_os.defs os.defs)

theorem redirect_delivers_the_code_witness:
  "login_page sample_token = ''https://login/authorize?client_id=c&scope=s&redirect_uri=http://localhost:12345&response_type=code'' \<and>
   (\<exists>e. get_authorize_code browser_ext sample_token (opens_page (login_page (sample_token :: (string, nat) oauth_token))) 512 browser_env =
      Some (Some ''ab'', e))"
proof
  show "login_page sample_token = ''https://login/authorize?client_id=c&scope=s&redirect_uri=http://localhost:12345&response_type=code''"
    by (simp add: login_page_def authorize_log_def url_parts_def url_part_def query_part_def sample_token_def Let_def)
  show "\<exists>e. get_authorize_code browser_ext sample_token (opens_page (login_page (sample_token :: (string, nat) oauth_token))) 512 browser_env =
      Some (Some ''ab'', e)"
    using redirect_delivers_the_code [OF browser_still browser_client browser_urls, of
        "opens_page (login_page (sample_token :: (string, nat) oauth_token))"
        1000 5 "''1.2.3.4''" "[take 9 sample_request, drop 9 sample_request]" 5 512 "''ab''"]
      browser_schedule sample_code_request
    by (auto simp: opens_page_def)
qed


definition offline_ext :: "(string, 'w) ext" where
  "offline_ext = sample_ext\<lparr>curl_perform := (\<lambda>rq wr s w. (CURLE_COULDNT_CONNECT, s, w))\<rparr>"

definition expired_token :: "(string, unit) oauth_token" where
  "expired_token = sample_token\<lparr>token_type := Some ''bearer'', access_token := Some ''at'', refresh_token := Some ''rt''\<rparr>"


subsection \<open>JSON values for the examples\<close>

datatype json = JStr string | JNum c_long | JObj "(string \<times> json) list"

definition member :: "(string \<Rightarrow> bool) \<Rightarrow> json \<Rightarrow> json option" where
  "member p j = (case j of JObj ms \<Rightarrow> map_option snd (find (\<lambda>(k, v). p k) ms) | _ \<Rightarrow> None)"

definition with_member :: "json \<Rightarrow> string \<Rightarrow> json \<Rightarrow> bool \<times> json" where
  "with_member j k v = (case j of JObj ms \<Rightarrow> (True, JObj (ms @ [(k, v)])) | _ \<Rightarrow> (False, j))"

definition token_answer :: json where
  "token_answer = JObj [(''token_type'', JStr ''bearer''), (''scope'', JStr ''s''), (''access_token'', JStr ''at''),
     (''refresh_token'', JStr ''rt''), (''expires_in'', JNum 3600)]"

definition json_ext :: "(json, 'w) ext" where
  "json_ext = curl_os.extend sample_curl
     \<lparr>cj_parse = (\<lambda>s. Some token_answer), cj_get = (\<lambda>j k. member (same_name k) j), cj_get_cs = (\<lambda>j k. member ((=) k) j),
      cj_is_string = (\<lambda>j. case j of JStr s \<Rightarrow> True | _ \<Rightarrow> False),
      cj_is_number = (\<lambda>j. case j of JNum n \<Rightarrow> True | _ \<Rightarrow> False),
      cj_is_object = (\<lambda>j. case j of JObj ms \<Rightarrow> True | _ \<Rightarrow> False), cj_is_array = (\<lambda>j. False),
      cj_valuestring = (\<lambda>j. case j of JStr s \<Rightarrow> Some s | _ \<Rightarrow> None),
      cj_valuelong = (\<lambda>j. case j of JNum n \<Rightarrow> n | _ \<Rightarrow> 0),
      cj_items = (\<lambda>j. []), cj_new_object = Some (JObj []), cj_new_array_ok = True,
      cj_add_string = (\<lambda>j k v. with_member j k (JStr v)), cj_add_number = (\<lambda>j k v. with_member j k (JNum v)),
      cj_add_object = (\<lambda>j k. with_member j k (JObj [])), cj_print = (\<lambda>j. Some [])\<rparr>"

definition json_token :: "(json, 'w) oauth_token" where
  "json_token = \<lparr>authorize_url = ''a'', token_url = ''t'', client_id = ''c'', scope = ''s'',
     redirect_url = ''r'', token_type = Some ''bearer'', access_token = Some ''at'', refresh_token = Some ''rt'',
     expires_at = \<lparr>tv_sec = 9, tv_usec = 5\<rparr>, writeback_cb = (\<lambda>j e. Some (0, e))\<rparr>"

lemma find_snoc: "find p (xs @ [x]) = (case find p xs of None \<Rightarrow> if p x then Some x else None | Some y \<Rightarrow> Some y)"
  by (induction xs) auto

lemma member_with:
  "cj_is_object json_ext j \<Longrightarrow> member p (snd (with_member j k v)) =
    (case member p j of None \<Rightarrow> if p k then Some v else None | Some m \<Rightarrow> Some m)"
  by (cases j) (auto simp: member_def with_member_def json_ext_def curl_os.defs find_snoc split: option.splits)

lemma json_ext_objects: "json_objects (json_ext :: (json, 'w) ext)"
proof -
  let ?X = "json_ext :: (json, 'w) ext"
  have f: "cj_get ?X = (\<lambda>j k. member (same_name k) j)" "cj_new_object ?X = Some (JObj [])"
    "cj_is_object ?X = (\<lambda>j. case j of JObj ms \<Rightarrow> True | _ \<Rightarrow> False)"
    "add_string ?X k v j = snd (with_member j k (JStr v))" "cj_add_number ?X j k n = with_member j k (JNum n)"
    "cj_is_string ?X (JStr v)" "cj_is_number ?X (JNum n)" "cj_valuestring ?X (JStr v) = Some v"
    "cj_valuelong ?X (JNum n) = n" for k v j n
    by (simp_all add: json_ext_def curl_os.defs add_string_def)
  have w: "member (same_name k') (snd (with_member j k v)) =
      (case member (same_name k') j of None \<Rightarrow> if same_name k' k then Some v else None | Some m \<Rightarrow> Some m)"
    if "cj_is_object ?X j" for j k k' v
    using that member_with [of j "same_name k'" k v] by (simp add: json_ext_def curl_os.defs)
  have "same_name k k" for k by (simp add: same_name_def)
  then show ?thesis
    unfolding json_objects_def
    by (auto simp: f(1,2,4-9) w split: option.splits) (auto simp: f(3) member_def with_member_def split: json.splits)
qed

lemma json_still: "os_still (json_ext :: (json, 'w) ext)"
  by (simp add: os_still_def json_ext_def sample_curl_def sample_os_def curl_os.defs os.defs)

subsection \<open>Expiry\<close>

lemma decode_expiry:
  assumes "os_still X" "decode_access_token X tok b e = (0, tok', e')"
  shows "\<exists>json n. cj_parse X b = Some json \<and> cj_get_cs X json ''expires_in'' = Some n \<and> \<not> neg (cj_valuelong X n) \<and>
    expires_at tok' = timeradd (fst (os_now X (env_world e))) \<lparr>tv_sec = cj_valuelong X n, tv_usec = 0\<rparr>"
  using assms unfolding decode_access_token_def Let_def
  by (auto simp: IS_NUMBER_def gettimeofday_def hive_mk_error_def split: option.splits if_splits prod.splits)

text \<open>
  C25: A token accepted at a time with an expires_in of n seconds is reported expired exactly when
  the clock is more than n seconds later, compared to the microsecond.
\<close>

theorem accepted_token_expires_on_time:
  assumes "os_still X" "decode_access_token X tok b e = (0, tok', e')" "cj_parse X b = Some json"
    and "cj_get_cs X json ''expires_in'' = Some n" "fst (os_now X (env_world e)) = now"
    and "0 \<le> sint (tv_usec now)" "sint (tv_usec now) < 1000000" "0 \<le> sint (tv_sec now)"
    and "sint (tv_sec now) + sint (cj_valuelong X n) < 2 ^ 63"
    and "fst (os_now X (env_world e2)) = t"
  shows "fst (oauth_token_is_expired X tok' e2) \<longleftrightarrow>
    sint (tv_sec now) + sint (cj_valuelong X n) < sint (tv_sec t) \<or>
    sint (tv_sec now) + sint (cj_valuelong X n) = sint (tv_sec t) \<and> sint (tv_usec now) < sint (tv_usec t)"
proof -
  from decode_expiry [OF assms(1,2)] assms(3-5)
  have ex: "expires_at tok' = timeradd now \<lparr>tv_sec = cj_valuelong X n, tv_usec = 0\<rparr>" "\<not> neg (cj_valuelong X n)"
    by auto
  then have "0 \<le> sint (cj_valuelong X n)" by (simp add: neg_def)
  then have "sint (tv_sec now + cj_valuelong X n) = sint (tv_sec now) + sint (cj_valuelong X n)"
    using assms(8,9) by (simp add: sint_word_ariths signed_take_bit_int_eq_self)
  moreover have "tv_sec t = tv_sec now + cj_valuelong X n \<longleftrightarrow> sint (tv_sec t) = sint (tv_sec now + cj_valuelong X n)"
    by (auto intro: signed_word_eqI)
  ultimately show ?thesis
    using ex assms(7,10)
    by (auto simp: oauth_token_is_expired_def gettimeofday_def timeradd_def timer_after_def Let_def
        split: prod.splits)
qed


theorem accepted_token_expires_on_time_witness:
  "\<exists>tok' e'. decode_access_token json_ext json_token ''answer'' sample_env = (0, tok', e') \<and>
    \<not> fst (oauth_token_is_expired json_ext tok' sample_env)"
proof -
  have "fst (decode_access_token json_ext json_token ''answer'' sample_env) = 0" by code_simp
  then obtain tok' e' where d: "decode_access_token json_ext json_token ''answer'' sample_env = (0, tok', e')"
    by (cases "decode_access_token json_ext json_token ''answer'' sample_env") auto
  let ?X = "json_ext :: (json, unit) ext"
  have "cj_parse ?X ''answer'' = Some token_answer" "cj_get_cs ?X token_answer ''expires_in'' = Some (JNum 3600)"
    "fst (os_now ?X (env_world sample_env)) = \<lparr>tv_sec = 1000, tv_usec = 0\<rparr>" "cj_valuelong ?X (JNum 3600) = 3600"
    by (simp_all add: json_ext_def token_answer_def member_def sample_curl_def sample_os_def curl_os.defs os.defs)
  with accepted_token_expires_on_time [OF json_still d, of token_answer "JNum 3600"
      "\<lparr>tv_sec = 1000, tv_usec = 0\<rparr>" sample_env "\<lparr>tv_sec = 1000, tv_usec = 0\<rparr>"] d
  show ?thesis by auto
qed

subsection \<open>A stored token\<close>

lemma token_new_restores:
  assumes "json_objects X" "os_still X" "cj_new_object X = Some j0" "token_json X tok j0 = Some j"
    and "token_type tok \<noteq> None" "opt_store opts = Some j" "opt_authorize_url opts = authorize_url tok"
    and "opt_token_url opts = token_url tok" "opt_client_id opts = client_id tok" "opt_scope opts = scope tok"
    and "opt_redirect_url opts = redirect_url tok"
  shows "oauth_token_new X opts (writeback_cb tok) e =
    Some (Some (tok\<lparr>expires_at := (expires_at tok)\<lparr>tv_usec := 0\<rparr>\<rparr>), e)"
proof -
  from assms(5) obtain tt where tt: "token_type tok = Some tt" by blast
  have r: "restore_access_token X (Some j) (without_tokens tok) e =
      Some (0, tok\<lparr>expires_at := \<lparr>tv_sec = tv_sec (expires_at tok), tv_usec = 0\<rparr>\<rparr>, e)"
    by (rule restore_written [OF assms(1-4) tt])
  have "\<lparr>authorize_url = opt_authorize_url opts, token_url = opt_token_url opts,
      client_id = opt_client_id opts, scope = opt_scope opts, redirect_url = opt_redirect_url opts,
      token_type = None, access_token = None, refresh_token = None,
      expires_at = \<lparr>tv_sec = 0, tv_usec = 0\<rparr>, writeback_cb = writeback_cb tok\<rparr> = without_tokens tok"
    using assms(7-11) by (simp add: without_tokens_def)
  then show ?thesis
    using assms(2,6) r by (simp add: oauth_token_new_def)
qed

text \<open>
  The JSON object that is written for a token with tokens gives, when a token is created from
  it with the same options, the same token, its expiry cut to whole seconds.
\<close>

theorem stored_token_is_restored:
  assumes "json_objects X" "os_still X" "cj_new_object X = Some j0" "token_json X tok j0 = Some j"
    and "token_type tok \<noteq> None" "opt_store opts = Some j" "opt_authorize_url opts = authorize_url tok"
    and "opt_token_url opts = token_url tok" "opt_client_id opts = client_id tok" "opt_scope opts = scope tok"
    and "opt_redirect_url opts = redirect_url tok"
  shows "oauth_token_new X opts (writeback_cb tok) e =
    Some (Some (tok\<lparr>expires_at := (expires_at tok)\<lparr>tv_usec := 0\<rparr>\<rparr>), e)"
  using assms by (rule token_new_restores)

theorem stored_token_is_restored_witness:
  "oauth_token_new json_ext \<lparr>opt_authorize_url = ''a'', opt_token_url = ''t'', opt_client_id = ''c'', opt_scope = ''s'',
      opt_redirect_url = ''r'', opt_store = token_json (json_ext :: (json, unit) ext) json_token (JObj [])\<rparr>
      (\<lambda>j e. Some (0, e)) sample_env =
    Some (Some (json_token\<lparr>expires_at := \<lparr>tv_sec = 9, tv_usec = 0\<rparr>\<rparr>), sample_env)"
proof -
  obtain j where j: "token_json (json_ext :: (json, unit) ext) json_token (JObj []) = Some j"
    by (simp add: token_json_def json_token_def Let_def)
  have "cj_new_object (json_ext :: (json, unit) ext) = Some (JObj [])" by (simp add: json_ext_def curl_os.defs)
  from stored_token_is_restored [OF json_ext_objects json_still this j, of
      "\<lparr>opt_authorize_url = ''a'', opt_token_url = ''t'', opt_client_id = ''c'', opt_scope = ''s'',
        opt_redirect_url = ''r'', opt_store = Some j\<rparr>" sample_env]
  show ?thesis unfolding j by (simp add: json_token_def)
qed

lemma new_server_keeps_error: "sb_new_server X opt fd e = (r, e') \<Longrightarrow> env_err e' = env_err e"
  by (auto simp: sb_new_server_def Let_def fault_def dest!: alloc_frame split: prod.splits if_splits option.splits)

lemma client_new_keeps_error: "http_client_new X e = (r, e') \<Longrightarrow> env_err e' = env_err e"
  by (auto simp: http_client_new_def Let_def dest!: alloc_frame split: prod.splits if_splits)

text \<open>
  C39: When the redirect server cannot be created on the host and port of the redirect URL and no
  error was recorded before, oauth_token_request returns 0 although the token still has no access
  token.
\<close>

theorem login_without_a_server_reports_success:
  assumes "access_token tok = None" "env_err e = 0" "http_client_new X e = (Some c, e1)"
    and "login_urls X tok page host port path"
    and "sb_new_server X (redirect_options host port) LISTEN_FD e1 = (None, e2)"
  shows "oauth_token_request X tok cb e = Some (0, tok, e2)"
proof -
  have "env_err e2 = 0"
    using new_server_keeps_error [OF assms(5)] client_new_keeps_error [OF assms(3)] assms(2) by simp
  then show ?thesis
    using assms(1,5) get_code_waits [OF assms(3,4), of cb 512]
    by (simp add: oauth_token_request_def wait_for_code_def hive_get_error_def)
qed

definition no_server_ext :: "(string, nat) ext" where
  \<comment> \<open>the port is taken\<close>
  "no_server_ext = browser_ext\<lparr>os_fault := (\<lambda>c w. (if c = SysBind then Some 98 else None, w))\<rparr>"

theorem login_without_a_server_reports_success_witness:
  "\<exists>e2. oauth_token_request no_server_ext sample_token (\<lambda>url w. w) browser_env = Some (0, sample_token, e2)"
proof -
  have c: "http_client_new no_server_ext browser_env = (Some new_client, browser_env)"
    by (simp add: http_client_new_def new_client_def no_server_ext_def browser_ext_def browser_env_def sample_ext_def sample_curl_def
        sample_os_def alloc_def curl_os.defs os.defs)
  have u: "login_urls no_server_ext sample_token (login_page (sample_token :: (string, nat) oauth_token)) ''localhost'' ''12345'' ''/''"
    by (rule parts_of_login)
      (simp_all add: no_server_ext_def browser_ext_def sample_ext_def sample_curl_def sample_token_def curl_os.defs os.defs)
  have "\<exists>e2. sb_new_server no_server_ext (redirect_options ''localhost'' ''12345'') LISTEN_FD browser_env = (None, e2)"
    by (simp add: sb_new_server_def no_server_ext_def browser_ext_def browser_env_def sample_ext_def sample_curl_def
        sample_os_def alloc_def fault_def curl_os.defs os.defs)
  then obtain e2 where s: "sb_new_server no_server_ext (redirect_options ''localhost'' ''12345'') LISTEN_FD browser_env = (None, e2)" by blast
  show ?thesis
    using login_without_a_server_reports_success [OF _ _ c u s, of "\<lambda>url w. w"]
    by (simp add: sample_token_def browser_env_def)
qed

end
