(* ===== verification/Onedrive.thy ===== *)
theory Onedrive
  imports Hive_Client Http_Client Oauth_Token
begin

text \<open>
  \<open>src/vendors/onedrive/onedrive.c\<close>: the OneDrive backend. A file of the application is a file under
  \<open>/Files\<close>, the values of a key are a file under \<open>/KeyValues\<close> that holds one record per value, its
  length in network order and its bytes. Every operation first refreshes an expired token and then
  makes one or a few HTTP exchanges.
\<close>

subsection \<open>Paths and constants\<close>

definition MAX_URL_LEN :: nat where "MAX_URL_LEN = 1024"

definition URL_OAUTH :: string where
  "URL_OAUTH = ''https://login.microsoftonline.com/common/oauth2/v2.0/''"

definition APP_ROOT :: string where
  "APP_ROOT = ''https://graph.microsoft.com/v1.0/me/drive/special/approot''"

definition FILES_DIR :: string where "FILES_DIR = ''/Files''"

definition KEYS_DIR :: string where "KEYS_DIR = ''/KeyValues''"

definition strip_slashes :: "string \<Rightarrow> string" where
  "strip_slashes s = rev (dropWhile (\<lambda>c. c = SLASH) (rev s))"

definition posix_dirname :: "string \<Rightarrow> string" where
  "posix_dirname path =
     (let s = strip_slashes path; d = rev (dropWhile (\<lambda>c. c \<noteq> SLASH) (rev s)) in
      if path = [] then ''.'' else if s = [] then ''/'' else if d = [] then ''.''
      else if strip_slashes d = [] then ''/'' else strip_slashes d)"

definition posix_basename :: "string \<Rightarrow> string" where
  "posix_basename path =
     (let s = strip_slashes path in
      if path = [] then ''.'' else if s = [] then ''/'' else rev (takeWhile (\<lambda>c. c \<noteq> SLASH) (rev s)))"

subsection \<open>The key store on disk\<close>

definition load_keystore_in_json :: "('j, 'w) ext \<Rightarrow> string \<Rightarrow> 'w env \<Rightarrow> 'j option \<times> 'w env" where
  "load_keystore_in_json X path e =
     (let (st, e) = sys_stat X path e in
      case st of
        None \<Rightarrow> (None, e)
      | Some node \<Rightarrow>
          (let st_size = (case node of FFile bs \<Rightarrow> length bs | FDir \<Rightarrow> unat (os_dir_size X)) in
           if st_size = 0 \<or> st_size > 4096 then (None, set_errno ERANGE e)
           else
             (let (ok, e) = sys_open_rd X path e in
              if \<not> ok then (None, e)
              else
                (let (n, got, e) = sys_read X path st_size e; rc = ssize_to_int n in
                 if neg rc \<or> sint rc \<noteq> int st_size then (None, e)
                 else
                   (case cj_parse X (got @ replicate (4096 - length got) NUL) of
                      None \<Rightarrow> (None, set_errno ENOMEM e)
                    | Some json \<Rightarrow> (Some json, e))))))"

definition oauth_writeback :: "('j, 'w) ext \<Rightarrow> string \<Rightarrow> 'j \<Rightarrow> 'w env \<Rightarrow> c_int \<times> 'w env" where
  \<comment> \<open>the user data is the connection, of which only \<open>keystore_path\<close> is used\<close>
  "oauth_writeback X keystore_path json e =
     (case cj_print X json of
        None \<Rightarrow> (HIVE_GENERAL_ERROR HIVEERR_OUT_OF_MEMORY, e)
      | Some json_str \<Rightarrow>
          (if json_str = [] then (HIVE_GENERAL_ERROR HIVEERR_OUT_OF_MEMORY, e)
           else
             (let (ok, e) = sys_create_trunc X keystore_path e in
              if \<not> ok then (HIVE_SYS_ERROR (env_errno e), e)
              else
                (let (bytes, e) = sys_write X keystore_path (json_str @ [NUL]) e in
                 if ssize_to_int bytes \<noteq> word_of_nat (length json_str + 1)
                 then (HIVE_SYS_ERROR (env_errno e), e) else (0, e)))))"

subsection \<open>One HTTP exchange\<close>

definition set_authorization ::
    "('j, 'w) ext \<Rightarrow> ('j, 'w) oauth_token \<Rightarrow> http_client \<Rightarrow> 'w env \<Rightarrow> (http_client \<times> 'w env) option" where
  \<comment> \<open>the \<open>Authorization\<close> header; without an access token the length of a null string is taken\<close>
  "set_authorization X tok c e =
     do { bearer \<leftarrow> get_bearer_token tok;
          Some (snd (http_client_set_header X ''Authorization'' bearer c e)) }"

definition exchange ::
    "('j, 'w) ext \<Rightarrow> http_client \<Rightarrow> 'w env \<Rightarrow> (c_int + c_long) \<times> http_client \<times> 'w env" where
  \<comment> \<open>the request and its response code: an error or the code\<close>
  "exchange X c e =
     (let (rc, c, e) = http_client_request X c e in
      if rc \<noteq> 0 then (Inl (HIVE_CURL_ERROR rc), c, e)
      else
        (let (rc, resp_code) = http_client_get_response_code X 0 e in
         if rc \<noteq> 0 then (Inl (HIVE_CURL_ERROR rc), c, e) else (Inr resp_code, c, e)))"

definition authorized_exchange ::
    "('j, 'w) ext \<Rightarrow> ('j, 'w) oauth_token \<Rightarrow> http_client \<Rightarrow> 'w env
      \<Rightarrow> (c_int + c_long) \<times> ('j, 'w) oauth_token \<times> http_client \<times> 'w env" where
  \<comment> \<open>an exchange that marks the token expired when the server refuses it\<close>
  "authorized_exchange X tok c e =
     (let (r, c, e) = exchange X c e in
      if r = Inr HttpStatus_Unauthorized
      then (Inl (HIVE_GENERAL_ERROR HIVEERR_TRY_AGAIN), oauth_token_set_expired tok, c, e)
      else (r, tok, c, e))"

definition status_error :: "c_long \<Rightarrow> c_int" where
  \<comment> \<open>\<open>return HIVE_HTTP_STATUS_ERROR(resp_code)\<close> from a function returning \<open>int\<close>\<close>
  "status_error resp_code = ssize_to_int (HIVE_HTTP_STATUS_ERROR resp_code)"

subsection \<open>Uploading\<close>

definition create_folder_request_body :: "('j, 'w) ext \<Rightarrow> string \<Rightarrow> string option" where
  "create_folder_request_body X fname =
     (case cj_new_object X of
        None \<Rightarrow> None
      | Some body \<Rightarrow>
          (let (ok1, body) = cj_add_string X body ''name'' fname in
           if \<not> ok1 then None
           else (let (ok2, body) = cj_add_object X body ''folder'' in
                 if \<not> ok2 then None else cj_print X body)))"

definition od_create_folder ::
    "('j, 'w) ext \<Rightarrow> ('j, 'w) oauth_token \<Rightarrow> http_client \<Rightarrow> string \<Rightarrow> 'w env
      \<Rightarrow> (c_int \<times> ('j, 'w) oauth_token \<times> http_client \<times> 'w env) option" where
  "od_create_folder X tok c path e =
     (let dir = posix_dirname path in
      do {
        url \<leftarrow> sprintf_buf MAX_URL_LEN
          (if dir = ''/'' then APP_ROOT @ ''/children'' else APP_ROOT @ '':'' @ dir @ '':/children'');
        case create_folder_request_body X (posix_basename path) of
          None \<Rightarrow> Some (HIVE_GENERAL_ERROR HIVEERR_OUT_OF_MEMORY, tok, c, e)
        | Some body \<Rightarrow>
            do {
              let c = snd (http_client_set_url X url c);
              let c = snd (http_client_set_method X HTTP_METHOD_POST c);
              let (c, e) = snd (http_client_set_header X ''Content-Type'' ''application/json'' c e);
              (c, e) \<leftarrow> set_authorization X tok c e;
              let c = snd (http_client_set_request_body_instant X (Some body) (length body) c);
              let (r, tok, c, e) = authorized_exchange X tok c e;
              Some (case r of
                  Inl rc \<Rightarrow> rc
                | Inr resp_code \<Rightarrow>
                    if resp_code \<noteq> HttpStatus_Created \<and> resp_code \<noteq> HttpStatus_OK then status_error resp_code else 0,
                tok, c, e) } })"

definition od_upload_file ::
    "('j, 'w) ext \<Rightarrow> ('j, 'w) oauth_token \<Rightarrow> http_client \<Rightarrow> string \<Rightarrow> bytes option \<Rightarrow> size_t \<Rightarrow> 'w env
      \<Rightarrow> (c_int \<times> ('j, 'w) oauth_token \<times> http_client \<times> 'w env) option" where
  "od_upload_file X tok c file_path from len e =
     do {
       url \<leftarrow> sprintf_buf MAX_URL_LEN (APP_ROOT @ '':'' @ file_path @ '':/content'');
       let c = snd (http_client_set_url X url c);
       let c = snd (http_client_set_method X HTTP_METHOD_PUT c);
       (c, e) \<leftarrow> set_authorization X tok c e;
       let c = snd (http_client_set_request_body_instant X (if len \<noteq> 0 then from else None) (unat len) c);
       let (r, tok, c, e) = authorized_exchange X tok c e;
       Some (case r of
           Inl rc \<Rightarrow> rc
         | Inr resp_code \<Rightarrow>
             if resp_code \<noteq> HttpStatus_Created \<and> resp_code \<noteq> HttpStatus_OK then status_error resp_code else 0,
         tok, c, e) }"

definition session_url :: "('j, 'w) ext \<Rightarrow> bytes \<Rightarrow> nat \<Rightarrow> c_int \<times> string" where
  \<comment> \<open>the answer to \<open>createUploadSession\<close>: the URL, cut to the caller's buffer of \<open>len\<close> bytes\<close>
  "session_url X body len =
     (case cj_parse X body of
        None \<Rightarrow> (HIVE_GENERAL_ERROR HIVEERR_OUT_OF_MEMORY, [])
      | Some resp \<Rightarrow>
          (case IS_STRING_NODE X (cj_get_cs X resp ''uploadUrl'') of
             None \<Rightarrow> (HIVE_GENERAL_ERROR HIVEERR_BAD_JSON_FORMAT, [])
           | Some u \<Rightarrow>
               (let (rc, upload_url) = snprintf len u in
                if neg rc \<or> sint rc \<ge> int len then (HIVE_GENERAL_ERROR HIVEERR_BUFFER_TOO_SMALL, upload_url)
                else (0, upload_url))))"

definition od_create_upload_session ::
    "('j, 'w) ext \<Rightarrow> ('j, 'w) oauth_token \<Rightarrow> http_client \<Rightarrow> string \<Rightarrow> nat \<Rightarrow> 'w env
      \<Rightarrow> ((c_int \<times> string) \<times> ('j, 'w) oauth_token \<times> http_client \<times> 'w env) option" where
  "od_create_upload_session X tok c file_path len e =
     do {
       url \<leftarrow> sprintf_buf MAX_URL_LEN (APP_ROOT @ '':'' @ file_path @ '':/createUploadSession'');
       let c = snd (http_client_set_url X url c);
       let c = snd (http_client_set_method X HTTP_METHOD_POST c);
       (c, e) \<leftarrow> set_authorization X tok c e;
       let c = snd (http_client_set_request_body_instant X None 0 c);
       let c = snd (http_client_enable_response_body X c);
       let (r, tok, c, e) = authorized_exchange X tok c e;
       case r of
         Inl rc \<Rightarrow> Some ((rc, []), tok, c, e)
       | Inr resp_code \<Rightarrow>
           if resp_code \<noteq> HttpStatus_OK then Some ((status_error resp_code, []), tok, c, e)
           else
             do { (body, n, c) \<leftarrow> http_client_move_response_body False c;
                  Some (case body of
                      None \<Rightarrow> (HIVE_GENERAL_ERROR HIVEERR_OUT_OF_MEMORY, [])
                    | Some b \<Rightarrow> session_url X b len, tok, c, e) } }"

definition od_upload_to_session ::
    "('j, 'w) ext \<Rightarrow> http_client \<Rightarrow> string \<Rightarrow> bytes option \<Rightarrow> size_t \<Rightarrow> 'w env \<Rightarrow> c_int \<times> http_client \<times> 'w env" where
  "od_upload_to_session X c upload_url buf len e =
     (let c = snd (http_client_set_url X upload_url c);
          c = snd (http_client_set_method X HTTP_METHOD_PUT c);
          (c, e) = snd (http_client_set_header X ''Content-Length'' (nat_digits (unat len)) c e);
          (c, e) = snd (http_client_set_header X ''Content-Range''
            (''bytes 0-'' @ nat_digits (unat (len - 1)) @ ''/'' @ nat_digits (unat len)) c e);
          (c, e) = snd (http_client_set_header X ''Transfer-Encoding'' [] c e);
          (c, e) = snd (http_client_set_header X ''Expect'' [] c e);
          c = snd (http_client_set_request_body_instant X buf (unat len) c);
          (r, c, e) = exchange X c e
      in (case r of
            Inl rc \<Rightarrow> rc
          | Inr resp_code \<Rightarrow>
              if resp_code \<noteq> HttpStatus_Created \<and> resp_code \<noteq> HttpStatus_OK then status_error resp_code else 0,
          c, e))"

definition put_large_file ::
    "('j, 'w) ext \<Rightarrow> ('j, 'w) oauth_token \<Rightarrow> http_client \<Rightarrow> string \<Rightarrow> bytes option \<Rightarrow> size_t \<Rightarrow> 'w env
      \<Rightarrow> (c_int \<times> ('j, 'w) oauth_token \<times> 'w env) option" where
  \<comment> \<open>the part of \<open>__put_file_from_buffer\<close> for more than 4 MB: folder, session, upload\<close>
  "put_large_file X tok c path from len e =
     do {
       (rc, tok, c, e) \<leftarrow> od_create_folder X tok c (posix_dirname path) e;
       if neg rc then Some (rc, tok, e)
       else
         do {
           ((rc, url), tok, c, e) \<leftarrow> od_create_upload_session X tok (http_client_reset c) path MAX_URL_LEN e;
           if neg rc then Some (rc, tok, e)
           else
             (let (rc, c, e) = od_upload_to_session X (http_client_reset c) url from len e
              in Some (if neg rc then rc else 0, tok, e)) } }"

definition put_file_from_buffer_at ::
    "('j, 'w) ext \<Rightarrow> ('j, 'w) oauth_token \<Rightarrow> bytes option \<Rightarrow> size_t \<Rightarrow> string \<Rightarrow> 'w env
      \<Rightarrow> (c_int \<times> ('j, 'w) oauth_token \<times> 'w env) option" where
  "put_file_from_buffer_at X tok from len path e =
     do {
       (rc, tok, e) \<leftarrow> oauth_token_check_expire X tok e;
       if neg rc then Some (rc, tok, e)
       else
         (case http_client_new X e of
            (None, e) \<Rightarrow> Some (HIVE_GENERAL_ERROR HIVEERR_OUT_OF_MEMORY, tok, e)
          | (Some c, e) \<Rightarrow>
              if len \<le> 4 * 1024 * 1024
              then do { (rc, tok, c, e) \<leftarrow> od_upload_file X tok c path from len e; Some (rc, tok, e) }
              else put_large_file X tok c path from len e) }"

subsection \<open>Reading\<close>

definition check_file_info :: "('j, 'w) ext \<Rightarrow> string \<Rightarrow> 'j \<Rightarrow> c_int option" where
  \<comment> \<open>the checks of the members the query asked for; \<open>None\<close> is the read of a null string\<close>
  "check_file_info X query resp =
     (let size = cj_get_cs X resp ''size'';
          url = cj_get_cs X resp ''@microsoft.graph.downloadUrl'';
          bad = Some (HIVE_GENERAL_ERROR HIVEERR_BAD_JSON_FORMAT) in
      if strstr query ''size'' \<and> (\<not> IS_NUMBER X size \<or> neg (cj_valuelong X (the size))) then bad
      else if strstr query ''@microsoft.graph.downloadUrl'' then
        (if \<not> IS_STRING X url then bad
         else do { u \<leftarrow> cj_valuestring X (the url); if u = [] then bad else Some 0 })
      else Some 0)"

definition od_get_file_info ::
    "('j, 'w) ext \<Rightarrow> ('j, 'w) oauth_token \<Rightarrow> http_client \<Rightarrow> string \<Rightarrow> string \<Rightarrow> 'w env
      \<Rightarrow> ((c_int + 'j) \<times> ('j, 'w) oauth_token \<times> http_client \<times> 'w env) option" where
  "od_get_file_info X tok c file_path query e =
     do {
       url \<leftarrow> sprintf_buf MAX_URL_LEN (APP_ROOT @ '':'' @ file_path);
       let c = snd (http_client_set_url X url c);
       let c = snd (http_client_set_query X ''select'' query c);
       let c = snd (http_client_set_method X HTTP_METHOD_GET c);
       (c, e) \<leftarrow> set_authorization X tok c e;
       let c = snd (http_client_enable_response_body X c);
       let (r, tok, c, e) = authorized_exchange X tok c e;
       case r of
         Inl rc \<Rightarrow> Some (Inl rc, tok, c, e)
       | Inr resp_code \<Rightarrow>
           if resp_code \<noteq> HttpStatus_OK then Some (Inl (status_error resp_code), tok, c, e)
           else
             do {
               (body, n, c) \<leftarrow> http_client_move_response_body False c;
               case body of
                 None \<Rightarrow> Some (Inl (HIVE_GENERAL_ERROR HIVEERR_OUT_OF_MEMORY), tok, c, e)
               | Some b \<Rightarrow>
                   (case cj_parse X b of
                      None \<Rightarrow> Some (Inl (HIVE_GENERAL_ERROR HIVEERR_OUT_OF_MEMORY), tok, c, e)
                    | Some resp \<Rightarrow>
                        do { rc \<leftarrow> check_file_info X query resp;
                             Some (if rc \<noteq> 0 then Inl rc else Inr resp, tok, c, e) }) } }"

definition info_size :: "('j, 'w) ext \<Rightarrow> 'j \<Rightarrow> ssize_t" where
  "info_size X resp = cj_valuelong X (the (cj_get_cs X resp ''size''))"

definition get_file_length_at ::
    "('j, 'w) ext \<Rightarrow> ('j, 'w) oauth_token \<Rightarrow> string \<Rightarrow> 'w env
      \<Rightarrow> (ssize_t \<times> ('j, 'w) oauth_token \<times> 'w env) option" where
  "get_file_length_at X tok file_path e =
     do {
       (rc, tok, e) \<leftarrow> oauth_token_check_expire X tok e;
       if neg rc then Some (int_to_ssize rc, tok, e)
       else
         (case http_client_new X e of
            (None, e) \<Rightarrow> Some (uint_to_ssize (HIVE_GENERAL_ERROR HIVEERR_OUT_OF_MEMORY), tok, e)
          | (Some c, e) \<Rightarrow>
              do { (r, tok, c, e) \<leftarrow> od_get_file_info X tok c file_path ''size'' e;
                   case r of
                     Inl rc \<Rightarrow> Some (int_to_ssize rc, tok, e)
                   | Inr resp \<Rightarrow> Some (info_size X resp, tok, e) }) }"

definition download_callback :: user_cb where
  \<comment> \<open>\<open>memcpy(*buf, buffer, total_sz); *buf += total_sz\<close>, with no look at the end of the buffer\<close>
  "download_callback buffer u =
     (case mem_store (us_mem u) (us_pos u) buffer of
        None \<Rightarrow> (word_of_nat (length buffer), u\<lparr>us_ub := True\<rparr>)
      | Some m \<Rightarrow> (word_of_nat (length buffer), u\<lparr>us_mem := m, us_pos := us_pos u + length buffer\<rparr>))"

definition od_download_file ::
    "('j, 'w) ext \<Rightarrow> http_client \<Rightarrow> string \<Rightarrow> bytes \<Rightarrow> 'w env \<Rightarrow> ((c_int \<times> bytes) \<times> http_client \<times> 'w env) option" where
  \<comment> \<open>a store behind the end of the buffer: \<open>None\<close>\<close>
  "od_download_file X c download_url buf e =
     (let c = snd (http_client_set_url X download_url c);
          c = snd (http_client_set_method X HTTP_METHOD_GET c);
          c = snd (http_client_enable_response_body X c);
          c = snd (http_client_set_response_body X download_callback
                \<lparr>us_mem = buf, us_pos = 0, us_limit = length buf, us_ub = False\<rparr> c);
          (r, c, e) = exchange X c e in
      case hc_user c of
        None \<Rightarrow> None
      | Some (cb, u) \<Rightarrow>
          if us_ub u then None
          else Some ((case r of Inl rc \<Rightarrow> rc
                      | Inr resp_code \<Rightarrow> if resp_code \<noteq> HttpStatus_OK then status_error resp_code else 0,
                      us_mem u), c, e))"

definition od_download_url :: "('j, 'w) ext \<Rightarrow> 'j \<Rightarrow> string option" where
  "od_download_url X resp = cj_valuestring X (the (cj_get_cs X resp ''@microsoft.graph.downloadUrl''))"

definition get_file_to_buffer_at ::
    "('j, 'w) ext \<Rightarrow> ('j, 'w) oauth_token \<Rightarrow> string \<Rightarrow> bytes \<Rightarrow> size_t \<Rightarrow> 'w env
      \<Rightarrow> ((ssize_t \<times> bytes) \<times> ('j, 'w) oauth_token \<times> 'w env) option" where
  "get_file_to_buffer_at X tok file_path to buflen e =
     do {
       (rc, tok, e) \<leftarrow> oauth_token_check_expire X tok e;
       if neg rc then Some ((int_to_ssize rc, to), tok, e)
       else
         (case http_client_new X e of
            (None, e) \<Rightarrow> Some ((uint_to_ssize (HIVE_GENERAL_ERROR HIVEERR_OUT_OF_MEMORY), to), tok, e)
          | (Some c, e) \<Rightarrow>
              do {
                (r, tok, c, e) \<leftarrow> od_get_file_info X tok c file_path ''size,@microsoft.graph.downloadUrl'' e;
                case r of
                  Inl rc \<Rightarrow> Some ((int_to_ssize rc, to), tok, e)
                | Inr resp \<Rightarrow>
                    (let fsize = info_size X resp in
                     if sint buflen > 0 \<and> sint fsize > sint buflen
                     then Some ((uint_to_ssize (HIVE_GENERAL_ERROR HIVEERR_BUFFER_TOO_SMALL), to), tok, e)
                     else if fsize = 0 then Some ((0, to), tok, e)
                     else
                       do { u \<leftarrow> od_download_url X resp;
                            ((rc, to), c, e) \<leftarrow> od_download_file X (http_client_reset c) u to e;
                            Some ((if neg rc then int_to_ssize rc else fsize, to), tok, e) }) }) }"

definition delete_file_at ::
    "('j, 'w) ext \<Rightarrow> ('j, 'w) oauth_token \<Rightarrow> string \<Rightarrow> 'w env
      \<Rightarrow> (c_int \<times> ('j, 'w) oauth_token \<times> 'w env) option" where
  "delete_file_at X tok file_path e =
     do {
       (rc, tok, e) \<leftarrow> oauth_token_check_expire X tok e;
       if neg rc then Some (rc, tok, e)
       else
         (case http_client_new X e of
            (None, e) \<Rightarrow> Some (HIVE_GENERAL_ERROR HIVEERR_OUT_OF_MEMORY, tok, e)
          | (Some c, e) \<Rightarrow>
              do {
                url \<leftarrow> sprintf_buf MAX_URL_LEN (APP_ROOT @ '':'' @ file_path @ '':'');
                let c = snd (http_client_set_url X url c);
                let c = snd (http_client_set_method X HTTP_METHOD_DELETE c);
                (c, e) \<leftarrow> set_authorization X tok c e;
                let (r, tok, c, e) = authorized_exchange X tok c e;
                Some (case r of
                    Inl rc \<Rightarrow> rc
                  | Inr resp_code \<Rightarrow> if resp_code \<noteq> HttpStatus_NoContent then status_error resp_code else 0,
                  tok, e) }) }"

subsection \<open>Listing\<close>

fun merge_array :: "('j, 'w) ext \<Rightarrow> 'j list \<Rightarrow> 'j list \<Rightarrow> c_int \<times> 'j list" where
  "merge_array X [] array = (0, array)"
| "merge_array X (item # sub) array =
     (let bad = (HIVE_GENERAL_ERROR HIVEERR_BAD_JSON_FORMAT, array);
          file = cj_get_cs X item ''file''; folder = cj_get_cs X item ''folder'' in
      if IS_STRING_NODE X (cj_get_cs X item ''name'') = None then bad
      else if file \<noteq> None \<and> folder \<noteq> None \<or> file = None \<and> folder = None then bad
      else if file \<noteq> None \<and> \<not> cj_is_object X (the file) then bad
      else if folder \<noteq> None \<and> \<not> cj_is_object X (the folder) then bad
      else merge_array X sub (array @ [item]))"

fun notify_user_files :: "('j, 'w) ext \<Rightarrow> 'j list \<Rightarrow> 'w files_cb \<Rightarrow> 'w env \<Rightarrow> 'w env option" where
  \<comment> \<open>an item without a name fails an \<open>assert\<close>\<close>
  "notify_user_files X [] callback e = Some (snd (callback None e))"
| "notify_user_files X (item # array) callback e =
     do { name \<leftarrow> cj_get_cs X item ''name'';
          let (resume, e) = callback (cj_valuestring X name) e;
          if \<not> resume then Some e else notify_user_files X array callback e }"

definition list_page ::
    "('j, 'w) ext \<Rightarrow> 'w files_cb \<Rightarrow> ('j, 'w) oauth_token \<Rightarrow> http_client \<Rightarrow> string \<Rightarrow> 'j list \<Rightarrow> 'w env
      \<Rightarrow> ((c_int + string) \<times> ('j, 'w) oauth_token \<times> http_client \<times> 'j list \<times> 'w env) option" where
  \<comment> \<open>one turn of the loop: the result, or the URL of the next page\<close>
  "list_page X callback tok c next_url array e =
     do {
       let c = snd (http_client_set_url X next_url (http_client_reset c));
       let c = snd (http_client_set_method X HTTP_METHOD_GET c);
       (c, e) \<leftarrow> set_authorization X tok c e;
       let c = snd (http_client_enable_response_body X c);
       let (r, tok, c, e) = authorized_exchange X tok c e;
       case r of
         Inl rc \<Rightarrow> Some (Inl rc, tok, c, array, e)
       | Inr resp_code \<Rightarrow>
           if resp_code \<noteq> HttpStatus_OK then Some (Inl (status_error resp_code), tok, c, array, e)
           else
             do {
               (body, n, c) \<leftarrow> http_client_move_response_body False c;
               let stop = (\<lambda>code. Some (Inl (HIVE_GENERAL_ERROR code), tok, c, array, e));
               case body of
                 None \<Rightarrow> stop HIVEERR_OUT_OF_MEMORY
               | Some b \<Rightarrow>
                   (case cj_parse X b of
                      None \<Rightarrow> stop HIVEERR_OUT_OF_MEMORY
                    | Some json \<Rightarrow>
                        (case cj_get_cs X json ''value'' of
                           None \<Rightarrow> stop HIVEERR_BAD_JSON_FORMAT
                         | Some sub \<Rightarrow>
                             if \<not> cj_is_array X sub then stop HIVEERR_BAD_JSON_FORMAT
                             else
                               (let (rc, array) = merge_array X (cj_items X sub) array;
                                    next_link = cj_get_cs X json ''@odata.nextLink'' in
                                if neg rc then Some (Inl rc, tok, c, array, e)
                                else if next_link = None
                                then do { e \<leftarrow> notify_user_files X array callback e;
                                          Some (Inl 0, tok, c, array, e) }
                                else
                                  (case IS_STRING_NODE X next_link of
                                     None \<Rightarrow> stop HIVEERR_BAD_JSON_FORMAT
                                   | Some u \<Rightarrow> Some (Inr u, tok, c, array, e))))) } }"

partial_function (option) list_pages ::
    "('j, 'w) ext \<Rightarrow> 'w files_cb \<Rightarrow> ('j, 'w) oauth_token \<Rightarrow> http_client \<Rightarrow> string \<Rightarrow> 'j list \<Rightarrow> 'w env
      \<Rightarrow> (c_int \<times> ('j, 'w) oauth_token \<times> 'w env) option" where
  \<comment> \<open>\<open>while (next_url)\<close>, which a server can keep going for ever\<close>
  "list_pages X callback tok c next_url array e =
     do {
       (r, tok, c, array, e) \<leftarrow> list_page X callback tok c next_url array e;
       case r of Inl rc \<Rightarrow> Some (rc, tok, e)
       | Inr next_url \<Rightarrow> list_pages X callback tok c next_url array e }"

definition list_files_at ::
    "('j, 'w) ext \<Rightarrow> ('j, 'w) oauth_token \<Rightarrow> 'w files_cb \<Rightarrow> 'w env
      \<Rightarrow> (c_int \<times> ('j, 'w) oauth_token \<times> 'w env) option" where
  "list_files_at X tok callback e =
     do {
       (rc, tok, e) \<leftarrow> oauth_token_check_expire X tok e;
       if neg rc then Some (rc, tok, e)
       else
         (case http_client_new X e of
            (None, e) \<Rightarrow> Some (HIVE_GENERAL_ERROR HIVEERR_OUT_OF_MEMORY, tok, e)
          | (Some c, e) \<Rightarrow>
              if \<not> cj_new_array_ok X then Some (HIVE_GENERAL_ERROR HIVEERR_OUT_OF_MEMORY, tok, e)
              else list_pages X callback tok c (APP_ROOT @ '':'' @ FILES_DIR @ '':/children'') [] e) }"

end
