(* ===== verification/Onedrive_Store.thy ===== *)
theory Onedrive_Store
  imports Onedrive
begin

text \<open>
  The key-value operations of \<open>src/vendors/onedrive/onedrive.c\<close>, its method table and
  \<open>onedrive_client_connect\<close>. The file of a key is the concatenation of \<open>KVEntry\<close> records.
\<close>

subsection \<open>Records\<close>

definition be32 :: "c_uint \<Rightarrow> bytes" where
  \<comment> \<open>the four bytes of \<open>htonl(n)\<close> in memory\<close>
  "be32 n = [char_of (unat n div 2 ^ 24), char_of (unat n div 2 ^ 16), char_of (unat n div 2 ^ 8), char_of (unat n)]"

definition rd_be32 :: "bytes \<Rightarrow> c_uint" where
  \<comment> \<open>\<open>ntohl\<close> of the four bytes at the start\<close>
  "rd_be32 bs =
     word_of_nat (((of_char (bs ! 0) * 256 + of_char (bs ! 1)) * 256 + of_char (bs ! 2)) * 256 + of_char (bs ! 3))"

definition kv_entry :: "bytes \<Rightarrow> bytes" where
  \<comment> \<open>a \<open>KVEntry\<close> with its value\<close>
  "kv_entry value = be32 (word_of_nat (length value)) @ value"

subsection \<open>Operations\<close>

definition key_path :: "string \<Rightarrow> string" where
  "key_path key = snd (snprintf PATH_MAX (KEYS_DIR @ ''/'' @ key))"

definition file_path :: "string \<Rightarrow> string option" where
  "file_path filename =
     (let (rc, path) = snprintf PATH_MAX (FILES_DIR @ ''/'' @ filename)
      in if neg rc \<or> sint rc \<ge> int PATH_MAX then None else Some path)"

definition NOT_FOUND_ERROR :: c_int where
  "NOT_FOUND_ERROR = hive_mk_error HIVEF_HTTP_STATUS 404"

definition append_value ::
    "('j, 'w) ext \<Rightarrow> ('j, 'w) oauth_token \<Rightarrow> string \<Rightarrow> ssize_t \<Rightarrow> bytes \<Rightarrow> 'w env
      \<Rightarrow> (c_int \<times> ('j, 'w) oauth_token \<times> 'w env) option" where
  \<comment> \<open>the part of \<open>put_value\<close> after the length of the file is known\<close>
  "append_value X tok path sz value e =
     (let size_new = sz + 4 + word_of_nat (length value);
          (ok, e) = alloc X (unat size_new) e in
      if \<not> ok then Some (HIVE_GENERAL_ERROR HIVEERR_OUT_OF_MEMORY, tok, e)
      else
        do {
          ((rc, buf), tok, e) \<leftarrow>
            (if sz \<noteq> 0 then get_file_to_buffer_at X tok path (replicate (unat size_new) NUL) sz e
             else Some ((0, replicate (unat size_new) NUL), tok, e));
          if sz \<noteq> 0 \<and> neg (ssize_to_int rc) then Some (ssize_to_int rc, tok, e)
          else if sz \<noteq> 0 \<and> ssize_to_int rc \<noteq> ssize_to_int sz
          then Some (HIVE_GENERAL_ERROR HIVEERR_INVALID_PERSISTENCE_FILE, tok, e)
          else
            do { buf \<leftarrow> mem_store buf (unat sz) (kv_entry value);
                 put_file_from_buffer_at X tok (Some buf) size_new path e } })"

definition od_put_value ::
    "('j, 'w) ext \<Rightarrow> ('j, 'w) oauth_token \<Rightarrow> string \<Rightarrow> bytes \<Rightarrow> 'w env
      \<Rightarrow> (c_int \<times> ('j, 'w) oauth_token \<times> 'w env) option" where
  "od_put_value X tok key value e =
     (let path = key_path key in
      do {
        (size, tok, e) \<leftarrow> get_file_length_at X tok path e;
        let size = (if ssize_to_int size = NOT_FOUND_ERROR then 0 else size);
        if neg size then Some (ssize_to_int size, tok, e) else append_value X tok path size value e })"

definition od_set_value ::
    "('j, 'w) ext \<Rightarrow> ('j, 'w) oauth_token \<Rightarrow> string \<Rightarrow> bytes \<Rightarrow> 'w env
      \<Rightarrow> (c_int \<times> ('j, 'w) oauth_token \<times> 'w env) option" where
  "od_set_value X tok key value e =
     (let (ok, e) = alloc X (4 + length value) e in
      if \<not> ok then Some (HIVE_GENERAL_ERROR HIVEERR_OUT_OF_MEMORY, tok, e)
      else put_file_from_buffer_at X tok (Some (kv_entry value)) (4 + word_of_nat (length value)) (key_path key) e)"

function kv_loop :: "string \<Rightarrow> 'w values_cb \<Rightarrow> bytes \<Rightarrow> int \<Rightarrow> 'w env \<Rightarrow> c_int \<times> 'w env" where
  \<comment> \<open>the loop of \<open>get_values\<close> at the record \<open>kv\<close> starts with; \<open>data_len\<close> bytes are left\<close>
  "kv_loop key callback kv data_len e =
     (let val_len = rd_be32 kv; bad = (HIVE_GENERAL_ERROR HIVEERR_BAD_PERSISTENT_DATA, e) in
      if val_len > 32768 then bad
      else
        (let entry_len = 4 + unat val_len; data_len = data_len - int entry_len in
         if data_len < 0 \<or> data_len > 0 \<and> data_len \<le> 4 then bad
         else
           (let (proceed, e) = callback key (take (unat val_len) (drop 4 kv)) (unsigned val_len) e in
            if data_len = 0 \<or> \<not> proceed then (0, e)
            else kv_loop key callback (drop entry_len kv) data_len e)))"
  by pat_completeness auto
termination
proof (relation "measure (\<lambda>(key, callback, kv, data_len, e). nat data_len)", goal_cases)
  case (2 key callback kv data_len e)
  moreover have "- 4 < uint (rd_be32 kv)"
    by (rule order_less_le_trans [OF _ unsigned_greater_eq]) simp
  ultimately show ?case by auto
qed simp

declare kv_loop.simps [simp del]

definition od_get_values ::
    "('j, 'w) ext \<Rightarrow> ('j, 'w) oauth_token \<Rightarrow> string \<Rightarrow> 'w values_cb \<Rightarrow> 'w env
      \<Rightarrow> (c_int \<times> ('j, 'w) oauth_token \<times> 'w env) option" where
  "od_get_values X tok key callback e =
     (let path = key_path key in
      do {
        (data_len, tok, e) \<leftarrow> get_file_length_at X tok path e;
        let data_len = (if ssize_to_int data_len = NOT_FOUND_ERROR then 0 else data_len);
        if neg data_len then Some (ssize_to_int data_len, tok, e)
        else if data_len \<noteq> 0 \<and> data_len \<le> 4 then Some (HIVE_GENERAL_ERROR HIVEERR_BAD_PERSISTENT_DATA, tok, e)
        else if data_len = 0 then Some (0, tok, e)
        else
          (let (ok, e) = alloc X (unat data_len) e in
           if \<not> ok then Some (HIVE_GENERAL_ERROR HIVEERR_OUT_OF_MEMORY, tok, e)
           else
             do {
               ((rc, buf), tok, e) \<leftarrow> get_file_to_buffer_at X tok path (replicate (unat data_len) NUL) data_len e;
               if neg rc then Some (ssize_to_int rc, tok, e)
               else if rc \<noteq> data_len
               then Some (HIVE_GENERAL_ERROR HIVEERR_INVALID_PERSISTENCE_FILE, tok, e)
               else (let (rc, e) = kv_loop key callback buf (sint data_len) e in Some (rc, tok, e)) }) })"

definition od_delete_key ::
    "('j, 'w) ext \<Rightarrow> ('j, 'w) oauth_token \<Rightarrow> string \<Rightarrow> 'w env
      \<Rightarrow> (c_int \<times> ('j, 'w) oauth_token \<times> 'w env) option" where
  "od_delete_key X tok key e =
     do { (rc, tok, e) \<leftarrow> delete_file_at X tok (key_path key) e;
          Some (if neg rc \<and> rc \<noteq> NOT_FOUND_ERROR then rc else 0, tok, e) }"

subsection \<open>The method table\<close>

record ('j, 'w) onedrive_connect =
  od_token :: "('j, 'w) oauth_token"
  keystore_path :: string

definition on_token ::
    "(('j, 'w) oauth_token \<Rightarrow> 'w env \<Rightarrow> ('r \<times> ('j, 'w) oauth_token \<times> 'w env) option)
      \<Rightarrow> ('r, ('j, 'w) onedrive_connect, 'w) call" where
  \<comment> \<open>the methods see the connection and work on its token\<close>
  "on_token f d e =
     (case f (od_token d) e of None \<Rightarrow> None | Some (r, tok, e) \<Rightarrow> Some (r, d\<lparr>od_token := tok\<rparr>, e))"

definition put_file_from_buffer ::
    "('j, 'w) ext \<Rightarrow> bytes option \<Rightarrow> size_t \<Rightarrow> bool \<Rightarrow> string \<Rightarrow> (c_int, ('j, 'w) onedrive_connect, 'w) call" where
  \<comment> \<open>a name too long for the path is cut without an error\<close>
  "put_file_from_buffer X from len encrypt filename =
     on_token (\<lambda>tok. put_file_from_buffer_at X tok from len
       (snd (snprintf PATH_MAX (FILES_DIR @ ''/'' @ filename))))"

definition get_file_length ::
    "('j, 'w) ext \<Rightarrow> string \<Rightarrow> (ssize_t, ('j, 'w) onedrive_connect, 'w) call" where
  "get_file_length X filename =
     (case file_path filename of
        None \<Rightarrow> on_token (\<lambda>tok e. Some (uint_to_ssize (HIVE_GENERAL_ERROR HIVEERR_BUFFER_TOO_SMALL), tok, e))
      | Some path \<Rightarrow> on_token (\<lambda>tok. get_file_length_at X tok path))"

definition get_file_to_buffer ::
    "('j, 'w) ext \<Rightarrow> string \<Rightarrow> bool \<Rightarrow> bytes \<Rightarrow> size_t \<Rightarrow> (ssize_t \<times> bytes, ('j, 'w) onedrive_connect, 'w) call" where
  "get_file_to_buffer X filename decrypt to buflen =
     (case file_path filename of
        None \<Rightarrow> on_token (\<lambda>tok e. Some ((uint_to_ssize (HIVE_GENERAL_ERROR HIVEERR_BUFFER_TOO_SMALL), to), tok, e))
      | Some path \<Rightarrow> on_token (\<lambda>tok. get_file_to_buffer_at X tok path to buflen))"

definition delete_file :: "('j, 'w) ext \<Rightarrow> string \<Rightarrow> (c_int, ('j, 'w) onedrive_connect, 'w) call" where
  "delete_file X filename =
     (case file_path filename of
        None \<Rightarrow> on_token (\<lambda>tok e. Some (HIVE_GENERAL_ERROR HIVEERR_BUFFER_TOO_SMALL, tok, e))
      | Some path \<Rightarrow> on_token (\<lambda>tok. delete_file_at X tok path))"

definition list_files :: "('j, 'w) ext \<Rightarrow> 'w files_cb \<Rightarrow> (c_int, ('j, 'w) onedrive_connect, 'w) call" where
  "list_files X callback = on_token (\<lambda>tok. list_files_at X tok callback)"

definition put_value ::
    "('j, 'w) ext \<Rightarrow> string \<Rightarrow> bytes \<Rightarrow> size_t \<Rightarrow> bool \<Rightarrow> (c_int, ('j, 'w) onedrive_connect, 'w) call" where
  "put_value X key value len encrypt = on_token (\<lambda>tok. od_put_value X tok key (take (unat len) value))"

definition set_value ::
    "('j, 'w) ext \<Rightarrow> string \<Rightarrow> bytes \<Rightarrow> size_t \<Rightarrow> bool \<Rightarrow> (c_int, ('j, 'w) onedrive_connect, 'w) call" where
  "set_value X key value len encrypt = on_token (\<lambda>tok. od_set_value X tok key (take (unat len) value))"

definition get_values ::
    "('j, 'w) ext \<Rightarrow> string \<Rightarrow> bool \<Rightarrow> 'w values_cb \<Rightarrow> (c_int, ('j, 'w) onedrive_connect, 'w) call" where
  "get_values X key decrypt callback = on_token (\<lambda>tok. od_get_values X tok key callback)"

definition delete_key :: "('j, 'w) ext \<Rightarrow> string \<Rightarrow> (c_int, ('j, 'w) onedrive_connect, 'w) call" where
  "delete_key X key = on_token (\<lambda>tok. od_delete_key X tok key)"

definition od_disconnect :: "(c_int, ('j, 'w) onedrive_connect, 'w) call" where
  "od_disconnect d e = Some (0, d, e)"

definition expire_token :: "(c_int, ('j, 'w) onedrive_connect, 'w) call" where
  "expire_token = on_token (\<lambda>tok e. Some (0, oauth_token_set_expired tok, e))"

subsection \<open>Connecting\<close>

record 'w onedrive_options = hive_connect_options +
  ood_client_id :: "string option"
  ood_scope :: "string option"
  ood_redirect_url :: "string option"
  ood_callback :: "(string \<Rightarrow> 'w \<Rightarrow> 'w) option"

definition onedrive_methods :: "('j, 'w) ext \<Rightarrow> ('j, 'w) onedrive_connect \<Rightarrow> (('j, 'w) onedrive_connect, 'w) hive_connect" where
  "onedrive_methods X d = (no_methods d)\<lparr>
     put_file_from_buffer_m := Some (put_file_from_buffer X), get_file_length_m := Some (get_file_length X),
     get_file_to_buffer_m := Some (get_file_to_buffer X), list_files_m := Some (list_files X),
     delete_file_m := Some (delete_file X), put_value_m := Some (put_value X), set_value_m := Some (set_value X),
     get_values_m := Some (get_values X), delete_key_m := Some (delete_key X), disconnect_m := Some od_disconnect,
     expire_token_m := Some expire_token\<rparr>"

definition connect_with_token ::
    "('j, 'w) ext \<Rightarrow> string \<Rightarrow> 'j option \<Rightarrow> string \<Rightarrow> string \<Rightarrow> string \<Rightarrow> (string \<Rightarrow> 'w \<Rightarrow> 'w) \<Rightarrow> 'w env
      \<Rightarrow> ((('j, 'w) onedrive_connect, 'w) hive_connect option \<times> 'w env) option" where
  \<comment> \<open>the part of \<open>onedrive_client_connect\<close> after the key store is loaded\<close>
  "connect_with_token X path keystore cid scp redirect callback e =
     do {
       (token, e) \<leftarrow> oauth_token_new X
         \<lparr>opt_authorize_url = URL_OAUTH @ ''authorize'', opt_token_url = URL_OAUTH @ ''token'', opt_client_id = cid,
          opt_scope = scp, opt_redirect_url = redirect, opt_store = keystore\<rparr>
         (\<lambda>json e. Some (oauth_writeback X path json e)) e;
       case token of
         None \<Rightarrow> Some (None, e)
       | Some tok \<Rightarrow>
           do {
             (rc, tok, e) \<leftarrow> oauth_token_request X tok callback e;
             if neg rc then Some (None, e)
             else Some (Some (onedrive_methods X \<lparr>od_token = tok, keystore_path = path\<rparr>), e) } }"

definition onedrive_client_connect ::
    "('j, 'w) ext \<Rightarrow> hive_client \<Rightarrow> 'w onedrive_options \<Rightarrow> 'w env
      \<Rightarrow> ((('j, 'w) onedrive_connect, 'w) hive_connect option \<times> 'w env) option" where
  "onedrive_client_connect X client options e =
     (if \<not> is_str (ood_client_id options) \<or> \<not> is_str (ood_redirect_url options) \<or> \<not> is_str (ood_scope options) \<or>
         \<not> strstr (the (ood_scope options)) ''Files.ReadWrite.AppFolder'' \<or> ood_callback options = None \<or>
         backendType options \<noteq> HiveBackendType_OneDrive
      then Some (None, hive_set_error (HIVE_GENERAL_ERROR HIVEERR_INVALID_ARGS) e)
      else
        (let (ok, e) = alloc X 4352 e in
         if \<not> ok then Some (None, hive_set_error (HIVE_GENERAL_ERROR HIVEERR_OUT_OF_MEMORY) e)
         else
           (let (rc, path) = snprintf PATH_MAX (data_location client @ ''/.data/onedrive.json'') in
            if neg rc \<or> sint rc \<ge> int PATH_MAX
            then Some (None, hive_set_error (HIVE_GENERAL_ERROR HIVEERR_INVALID_ARGS) e)
            else
              (let (rc, e) = mkdirs X (posix_dirname path) e in
               if neg rc \<and> env_errno e \<noteq> EEXIST
               then Some (None, hive_set_error (HIVE_SYS_ERROR (env_errno e)) e)
               else
                 (let (there, e) = sys_access X path e;
                      (keystore, e) = (if there then load_keystore_in_json X path e else (None, e)) in
                  if there \<and> keystore = None then Some (None, hive_set_error (HIVE_SYS_ERROR (env_errno e)) e)
                  else connect_with_token X path keystore (the (ood_client_id options)) (the (ood_scope options))
                         (the (ood_redirect_url options)) (the (ood_callback options)) e)))))"

end
