(* ===== verification/Onedrive_Drive.thy ===== *)
theory Onedrive_Drive
  imports Onedrive_Store Http_Service Oauth_Flow
begin

text \<open>
  What the operations of the OneDrive backend do against a drive that answers: the requests they
  make, the service they need, and one lemma per operation that gives its result from the files the
  drive holds.
\<close>

subsection \<open>The requests\<close>

definition auth_header :: "string \<Rightarrow> string" where
  "auth_header auth = ''Authorization: '' @ auth"

definition info_request :: "string \<Rightarrow> string \<Rightarrow> string \<Rightarrow> request" where
  "info_request auth path query =
     \<lparr>rq_opts = default_opts @ CURLOPT_HTTPGET # body_opts @ [CURLOPT_HTTPHEADER [auth_header auth]],
      rq_url = [url_part (APP_ROOT @ '':'' @ path),
        \<lparr>uc_part = CURLUPART_QUERY, uc_text = Some (''select='' @ query), uc_encode = True, uc_append = True\<rparr>],
      rq_mime = []\<rparr>"

definition download_request :: "string \<Rightarrow> request" where
  "download_request url =
     \<lparr>rq_opts = default_opts @ CURLOPT_HTTPGET # body_opts @
        [CURLOPT_WRITEFUNCTION USER_WRITE, CURLOPT_WRITEDATA USER_WRITE],
      rq_url = [url_part url], rq_mime = []\<rparr>"

definition upload_request :: "string \<Rightarrow> string \<Rightarrow> bytes \<Rightarrow> request" where
  "upload_request auth path data =
     \<lparr>rq_opts = default_opts @ [CURLOPT_CUSTOMREQUEST ''PUT'',
        CURLOPT_POSTFIELDS (if data = [] then None else Some data), CURLOPT_POSTFIELDSIZE (length data),
        CURLOPT_HTTPHEADER [auth_header auth]],
      rq_url = [url_part (APP_ROOT @ '':'' @ path @ '':/content'')], rq_mime = []\<rparr>"

definition delete_request :: "string \<Rightarrow> string \<Rightarrow> request" where
  "delete_request auth path =
     \<lparr>rq_opts = default_opts @ [CURLOPT_CUSTOMREQUEST ''DELETE'', CURLOPT_HTTPHEADER [auth_header auth]],
      rq_url = [url_part (APP_ROOT @ '':'' @ path @ '':'')], rq_mime = []\<rparr>"

subsection \<open>The drive\<close>

definition short_path :: "string \<Rightarrow> bool" where
  "short_path path \<longleftrightarrow> is_cstr path \<and> length path \<le> 900"

definition URL_QUERY :: string where
  "URL_QUERY = ''size,@microsoft.graph.downloadUrl''"

definition describes :: "('j, 'w) ext \<Rightarrow> 'j \<Rightarrow> string \<Rightarrow> nat \<Rightarrow> string \<Rightarrow> bool" where
  \<comment> \<open>the JSON object about a file of \<open>n\<close> bytes that can be downloaded at \<open>url\<close>\<close>
  "describes X j query n url \<longleftrightarrow>
     (\<exists>s. cj_get_cs X j ''size'' = Some s \<and> cj_is_number X s \<and> cj_valuelong X s = word_of_nat n) \<and>
     (query = URL_QUERY \<longrightarrow> (\<exists>d. cj_get_cs X j ''@microsoft.graph.downloadUrl'' = Some d \<and> cj_is_string X d \<and>
        cj_valuestring X d = Some url \<and> url \<noteq> []))"

definition drive_service ::
    "('j, 'w) ext \<Rightarrow> 'w service \<Rightarrow> string \<Rightarrow> ('w \<Rightarrow> string \<Rightarrow> bytes option) \<Rightarrow> (string \<Rightarrow> string) \<Rightarrow> bool" where
  \<comment> \<open>the documented behaviour of the drive for the requests above: \<open>files\<close> is what it holds\<close>
  "drive_service X serve auth files durl \<longleftrightarrow> http_service X serve \<and>
     (\<forall>path w query. short_path path \<longrightarrow> query \<in> {''size'', URL_QUERY} \<longrightarrow>
        (\<forall>bs. files w path = Some bs \<longrightarrow> length bs < 2 ^ 31) \<longrightarrow>
        (\<exists>status cs w'. answers serve (info_request auth path query) w status cs w' \<and> files w' = files w \<and>
           (case files w path of
              None \<Rightarrow> status = HttpStatus_NotFound
            | Some bs \<Rightarrow> status = HttpStatus_OK \<and> concat cs \<noteq> [] \<and>
                (\<exists>j. (\<forall>rest. cj_parse X (concat cs @ rest) = Some j) \<and> describes X j query (length bs) (durl path))))) \<and>
     (\<forall>path w bs. short_path path \<longrightarrow> files w path = Some bs \<longrightarrow>
        (\<exists>cs w'. serve (download_request (durl path)) w = (HttpStatus_OK, cs, w') \<and> files w' = files w \<and> concat cs = bs)) \<and>
     (\<forall>path w bs. short_path path \<longrightarrow> length bs \<le> 4194304 \<longrightarrow>
        (\<exists>status cs w'. answers serve (upload_request auth path bs) w status cs w' \<and>
           status \<in> {HttpStatus_OK, HttpStatus_Created} \<and> files w' = (files w)(path \<mapsto> bs))) \<and>
     (\<forall>path w. short_path path \<longrightarrow>
        (\<exists>status cs w'. answers serve (delete_request auth path) w status cs w' \<and>
           files w' = (files w)(path := None) \<and>
           status = (if files w path = None then HttpStatus_NotFound else HttpStatus_NoContent)))"

definition drive_ready ::
    "('j, 'w) ext \<Rightarrow> 'w service \<Rightarrow> string \<Rightarrow> ('w \<Rightarrow> string \<Rightarrow> bytes option) \<Rightarrow> (string \<Rightarrow> string) \<Rightarrow>
      ('j, 'w) oauth_token \<Rightarrow> bool" where
  \<comment> \<open>moreover the system works and the token is not expired\<close>
  "drive_ready X serve auth files durl tok \<longleftrightarrow>
     os_still X \<and> curl_works X \<and> drive_service X serve auth files durl \<and> access_token tok = Some auth \<and>
     (\<forall>w. \<exists>now. os_now X w = (now, w) \<and> \<not> timer_after now (expires_at tok))"

lemma drive_readyD:
  assumes "drive_ready X serve auth files durl tok"
  shows "os_still X" "curl_works X" "http_service X serve" "access_token tok = Some auth"
    "drive_service X serve auth files durl"
  using assms by (auto simp: drive_ready_def drive_service_def)

lemma ready_not_expired:
  "drive_ready X serve auth files durl tok \<Longrightarrow> oauth_token_check_expire X tok e = Some (0, tok, e)"
proof -
  assume "drive_ready X serve auth files durl tok"
  then obtain now where "os_now X (env_world e) = (now, env_world e)" "\<not> timer_after now (expires_at tok)"
    unfolding drive_ready_def by blast
  then show ?thesis
    by (simp add: oauth_token_check_expire_def oauth_token_is_expired_def gettimeofday_def)
qed

lemma ready_client: "drive_ready X serve auth files durl tok \<Longrightarrow>
   http_client_new X e = (Some new_client, moved e (env_world e))"
  by (simp add: client_new_works drive_readyD moved_def)

subsection \<open>Exchanges\<close>

lemma exchange_eats:
  assumes "http_service X serve" "write_target (hc_opts c) = EAT_OUTPUT"
    and "answers serve (ready_request X c) (env_world e) status cs w'"
  shows "authorized_exchange X tok c e = (Inr status, tok, prepare_request X c, e\<lparr>env_world := w'\<rparr>)"
  using request_answered [OF assms(1,2), of e status cs w'] assms(3)
  by (simp add: authorized_exchange_def exchange_def answers_def ready_request_def http_client_get_response_code_def)

lemma exchange_takes:
  assumes "os_still X" "http_service X serve" "write_target (hc_opts c) = HTTP_RESPONSE_BODY_WRITE"
    and "hc_body c = hc_body new_client" "answers serve (ready_request X c) (env_world e) status cs w'"
  shows "\<exists>r. authorized_exchange X tok c e =
      (Inr status, tok, (prepare_request X c)\<lparr>hc_body := r\<rparr>, e\<lparr>env_world := w'\<rparr>) \<and> holds_body r (concat cs)"
  using request_taken [OF assms] assms(5)
  by (auto simp: authorized_exchange_def exchange_def answers_def http_client_get_response_code_def)

subsection \<open>The operations\<close>

lemmas setter_defs = http_setter_defs set_authorization_def get_bearer_token_def

lemma length_APP_ROOT: "length APP_ROOT = 57"
  by (simp add: APP_ROOT_def)

definition info_client :: "string \<Rightarrow> string \<Rightarrow> string \<Rightarrow> http_client" where
  "info_client auth path query = new_client\<lparr>
     hc_opts := default_opts @ CURLOPT_HTTPGET # body_opts, hc_hdr := [auth_header auth],
     hc_url := rq_url (info_request auth path query)\<rparr>"

lemma info_client:
  "ready_request X (info_client auth path query) = info_request auth path query"
  "write_target (hc_opts (info_client auth path query)) = HTTP_RESPONSE_BODY_WRITE"
  "hc_body (info_client auth path query) = hc_body new_client"
  by (simp_all add: ready_request_def request_of_def prepare_request_def info_client_def info_request_def
      easy_setopt_def new_client_def body_opts_def)

lemma drive_info:
  assumes R: "drive_ready X serve auth files durl tok" and path: "short_path path" and q: "query \<in> {''size'', URL_QUERY}"
    and size: "\<And>bs. files (env_world e) path = Some bs \<Longrightarrow> length bs < 2 ^ 31"
  shows "\<exists>r c w'. od_get_file_info X tok new_client path query e = Some (r, tok, c, e\<lparr>env_world := w'\<rparr>) \<and>
    files w' = files (env_world e) \<and>
    (case files (env_world e) path of
       None \<Rightarrow> r = Inl (status_error HttpStatus_NotFound)
     | Some bs \<Rightarrow> \<exists>j. r = Inr j \<and> describes X j query (length bs) (durl path))"
proof -
  note D = drive_readyD [OF R]
  let ?c = "info_client auth path query"
  from size have small: "\<forall>bs. files (env_world e) path = Some bs \<longrightarrow> length bs < 2 ^ 31" by blast
  from D(5) path q small obtain status cs w' where
    a: "answers serve (info_request auth path query) (env_world e) status cs w'" "files w' = files (env_world e)"
    "case files (env_world e) path of
       None \<Rightarrow> status = HttpStatus_NotFound
     | Some bs \<Rightarrow> status = HttpStatus_OK \<and> concat cs \<noteq> [] \<and>
         (\<exists>j. (\<forall>rest. cj_parse X (concat cs @ rest) = Some j) \<and> describes X j query (length bs) (durl path))"
    unfolding drive_service_def by meson
  have a1: "answers serve (ready_request X ?c) (env_world e) status cs w'"
    using a(1) by (simp add: info_client(1))
  obtain r where r: "authorized_exchange X tok ?c e =
      (Inr status, tok, (prepare_request X ?c)\<lparr>hc_body := r\<rparr>, e\<lparr>env_world := w'\<rparr>)"
    "holds_body r (concat cs)"
    using exchange_takes [OF D(1,3) info_client(2,3) a1, of tok] by blast
  have url: "sprintf_buf MAX_URL_LEN (APP_ROOT @ '':'' @ path) = Some (APP_ROOT @ '':'' @ path)"
    using path by (intro sprintf_fits) (simp add: length_APP_ROOT short_path_def MAX_URL_LEN_def)
  have made: "od_get_file_info X tok new_client path query e = (case (authorized_exchange X tok ?c e) of (r, tok, c, e) \<Rightarrow>
      (case r of
         Inl rc \<Rightarrow> Some (Inl rc, tok, c, e)
       | Inr resp_code \<Rightarrow>
           if resp_code \<noteq> HttpStatus_OK then Some (Inl (status_error resp_code), tok, c, e)
           else
             do {
               (body, n, c) \<leftarrow> http_client_move_response_body False c;
               case body of
                 None \<Rightarrow> Some (Inl (HIVE_GENERAL_ERROR HIVEERR_OUT_OF_MEMORY), tok, c, e)
               | Some b \<Rightarrow>
                   (case cj_parse X b of
                      None \<Rightarrow> Some (Inl (HIVE_GENERAL_ERROR HIVEERR_OUT_OF_MEMORY), tok, c, e)
                    | Some resp \<Rightarrow>
                        do { rc \<leftarrow> check_file_info X query resp;
                             Some (if rc \<noteq> 0 then Inl rc else Inr resp, tok, c, e) }) }))"
    using D(2,4) url
    by (simp add: od_get_file_info_def setter_defs info_client_def info_request_def new_client_def
        url_part_def auth_header_def body_opts_def Let_def)
  show ?thesis
  proof (cases "files (env_world e) path")
    case None
    with a(3) have "status = HttpStatus_NotFound" by simp
    with made r(1) a(2) None show ?thesis by simp (intro exI [of _ w'], simp)
  next
    case (Some bs)
    with a(3) obtain j where st: "status = HttpStatus_OK" and ne: "concat cs \<noteq> []"
      and j: "\<And>rest. cj_parse X (concat cs @ rest) = Some j" "describes X j query (length bs) (durl path)"
      by auto
    have "rb_used r \<noteq> 0" "cj_parse X (rb_data r) = Some j"
      using holds_body_parses [where X = X, OF r(2) ne j(1)] by auto
    moreover have "check_file_info X query j = Some 0"
    proof -
      from j(2) obtain s where s: "cj_get_cs X j ''size'' = Some s" "cj_is_number X s"
        "cj_valuelong X s = word_of_nat (length bs)" unfolding describes_def by blast
      have "\<not> neg (word_of_nat (length bs) :: ssize_t)"
        using size [OF Some] by simp
      with s j(2) q show ?thesis
        by (auto simp: check_file_info_def IS_NUMBER_def IS_STRING_def describes_def URL_QUERY_def prefixb_def Let_def)
    qed
    ultimately show ?thesis using made r(1) a(2) Some st j(2)
      by (simp add: http_client_move_response_body_def) (intro exI [of _ w'], simp)
  qed
qed

lemma drive_length:
  assumes R: "drive_ready X serve auth files durl tok" and path: "short_path path"
    and size: "\<And>bs. files (env_world e) path = Some bs \<Longrightarrow> length bs < 2 ^ 31"
  shows "\<exists>w'. get_file_length_at X tok path e =
      Some (case files (env_world e) path of None \<Rightarrow> int_to_ssize (status_error HttpStatus_NotFound)
            | Some bs \<Rightarrow> word_of_nat (length bs), tok, moved e w') \<and> files w' = files (env_world e)"
proof -
  obtain r c w' where i: "od_get_file_info X tok new_client path ''size'' (moved e (env_world e)) =
      Some (r, tok, c, moved e w')" "files w' = files (env_world e)"
    "case files (env_world e) path of
       None \<Rightarrow> r = Inl (status_error HttpStatus_NotFound)
     | Some bs \<Rightarrow> \<exists>j. r = Inr j \<and> describes X j ''size'' (length bs) (durl path)"
    using drive_info [OF R path, of "''size''" "moved e (env_world e)"] size by auto
  then show ?thesis
    using ready_not_expired [OF R] ready_client [OF R]
    by (intro exI [of _ w'])
      (auto simp: get_file_length_at_def info_size_def describes_def split: option.splits)
qed

lemma deliver_download:
  "us_pos u + length (concat cs) \<le> length (us_mem u) \<Longrightarrow> length (us_mem u) < 2 ^ 64 \<Longrightarrow>
   deliver (user_writer download_callback) cs (UserSink u) w =
     Some (UserSink (u\<lparr>us_mem := take (us_pos u) (us_mem u) @ concat cs @ drop (us_pos u + length (concat cs)) (us_mem u),
       us_pos := us_pos u + length (concat cs)\<rparr>))"
proof (induction cs arbitrary: u)
  case (Cons c cs)
  let ?u = "u\<lparr>us_mem := take (us_pos u) (us_mem u) @ c @ drop (us_pos u + length c) (us_mem u),
      us_pos := us_pos u + length c\<rparr>"
  from Cons.prems have "mem_store (us_mem u) (us_pos u) c =
      Some (take (us_pos u) (us_mem u) @ c @ drop (us_pos u + length c) (us_mem u))"
    by (simp add: mem_store_def)
  moreover have "unat (word_of_nat (length c) :: size_t) = length c"
    by (rule unat_len) (use Cons.prems in simp)
  ultimately have "deliver (user_writer download_callback) (c # cs) (UserSink u) w =
      deliver (user_writer download_callback) cs (UserSink ?u) w"
    by (simp add: user_writer_def download_callback_def)
  also have "\<dots> = Some (UserSink (u\<lparr>us_mem := take (us_pos u) (us_mem u) @ concat (c # cs) @
      drop (us_pos u + length (concat (c # cs))) (us_mem u), us_pos := us_pos u + length (concat (c # cs))\<rparr>))"
    using Cons.IH [of ?u] Cons.prems by (simp add: ac_simps)
  finally show ?case .
qed simp

lemma drive_download:
  assumes R: "drive_ready X serve auth files durl tok"
    and s: "serve (download_request url) (env_world e) = (HttpStatus_OK, cs, w')"
    and to: "length (concat cs) \<le> length to" "length to < 2 ^ 64"
  shows "\<exists>c'. od_download_file X (http_client_reset c) url to e =
    Some ((0, concat cs @ drop (length (concat cs)) to), c', e\<lparr>env_world := w'\<rparr>)"
proof -
  note D = drive_readyD [OF R]
  let ?u = "\<lparr>us_mem = to, us_pos = 0, us_limit = length to, us_ub = False\<rparr>"
  let ?u' = "\<lparr>us_mem = concat cs @ drop (length (concat cs)) to, us_pos = length (concat cs), us_limit = length to, us_ub = False\<rparr>"
  have "deliver (user_writer download_callback) cs (UserSink ?u) w' = Some (UserSink ?u')"
    using deliver_download [of ?u cs w'] to by simp
  moreover have "still_writer (user_writer download_callback)"
    by (auto simp: still_writer_def user_writer_def split: sink.splits prod.splits)
  ultimately have "curl_perform X (download_request url) (user_writer download_callback) (UserSink ?u) (env_world e) =
      (CURLE_OK, UserSink ?u', w') \<and> curl_response_code X w' = (CURLE_OK, HttpStatus_OK)"
    using http_serviceD [OF D(3) _ s] by blast
  then show ?thesis
    using D(2)
    by (simp add: od_download_file_def setter_defs exchange_def http_client_request_def prepare_request_def
        request_of_def download_request_def url_part_def body_opts_def http_client_reset_def Let_def
        http_client_get_response_code_def)
qed

lemma drive_read:
  assumes R: "drive_ready X serve auth files durl tok" and path: "short_path path"
    and bs: "files (env_world e) path = Some bs" "length bs < 2 ^ 31"
    and to: "length bs \<le> length to" "length to < 2 ^ 31" "length bs \<le> n" "n < 2 ^ 31"
  shows "\<exists>w'. get_file_to_buffer_at X tok path to (word_of_nat n) e =
      Some ((word_of_nat (length bs), bs @ drop (length bs) to), tok, moved e w') \<and> files w' = files (env_world e)"
proof -
  obtain r c w' where i: "od_get_file_info X tok new_client path URL_QUERY (moved e (env_world e)) =
      Some (r, tok, c, moved e w')" "files w' = files (env_world e)"
    "case files (env_world e) path of
       None \<Rightarrow> r = Inl (status_error HttpStatus_NotFound)
     | Some bs \<Rightarrow> \<exists>j. r = Inr j \<and> describes X j URL_QUERY (length bs) (durl path)"
    using drive_info [OF R path, of URL_QUERY "moved e (env_world e)"] bs by auto
  then obtain j where j: "r = Inr j" "describes X j URL_QUERY (length bs) (durl path)" using bs by auto
  obtain cs w'' where s: "serve (download_request (durl path)) w' = (HttpStatus_OK, cs, w'')"
    "files w'' = files w'" "concat cs = bs"
    using drive_readyD(5) [OF R] path bs(1) i(2) unfolding drive_service_def by metis
  obtain c' where d: "od_download_file X (http_client_reset c) (durl path) to (moved e w') =
      Some ((0, bs @ drop (length bs) to), c', moved e w'')"
    using drive_download [OF R, of "durl path" "moved e w'" cs w'' to c] s to by auto
  have size: "info_size X j = word_of_nat (length bs)" and url: "od_download_url X j = Some (durl path)"
    using j(2) by (auto simp: describes_def info_size_def od_download_url_def)
  have lens: "sint (word_of_nat n :: ssize_t) = int n"
    "sint (word_of_nat (length bs) :: ssize_t) = int (length bs)"
    using to by (simp_all add: sint_small)
  have zero: "(word_of_nat (length bs) :: ssize_t) = 0 \<longleftrightarrow> bs = []"
    using lens(2) by (auto dest: arg_cong [where f = sint])
  have q: "''size,@microsoft.graph.downloadUrl'' = URL_QUERY" by (simp add: URL_QUERY_def)
  show ?thesis
  proof (cases "bs = []")
    case True
    then show ?thesis
      using ready_not_expired [OF R] ready_client [OF R] i(1,2) j(1) size lens to
      by (intro exI [of _ w']) (simp add: get_file_to_buffer_at_def q)
  next
    case False
    then show ?thesis
      using ready_not_expired [OF R] ready_client [OF R] i(1,2) j(1) size url lens to d s(2) zero
      by (intro exI [of _ w'']) (simp add: get_file_to_buffer_at_def q)
  qed
qed

definition upload_client :: "string \<Rightarrow> string \<Rightarrow> bytes \<Rightarrow> http_client" where
  "upload_client auth path data = new_client\<lparr>
     hc_opts := default_opts @ [CURLOPT_CUSTOMREQUEST ''PUT'',
        CURLOPT_POSTFIELDS (if data = [] then None else Some data), CURLOPT_POSTFIELDSIZE (length data)],
     hc_hdr := [auth_header auth], hc_url := rq_url (upload_request auth path data)\<rparr>"

lemma upload_client:
  "ready_request X (upload_client auth path data) = upload_request auth path data"
  "write_target (hc_opts (upload_client auth path data)) = EAT_OUTPUT"
  by (simp_all add: ready_request_def request_of_def prepare_request_def upload_client_def upload_request_def
      easy_setopt_def new_client_def)

lemma drive_write:
  assumes R: "drive_ready X serve auth files durl tok" and path: "short_path path" and len: "length bs \<le> 4194304"
  shows "\<exists>w'. put_file_from_buffer_at X tok (Some bs) (word_of_nat (length bs)) path e = Some (0, tok, moved e w') \<and>
    files w' = (files (env_world e))(path \<mapsto> bs)"
proof -
  note D = drive_readyD [OF R]
  let ?c = "upload_client auth path bs" and ?e = "moved e (env_world e)"
  from D(5) path len obtain status cs w' where
    a: "answers serve (upload_request auth path bs) (env_world e) status cs w'"
    "status \<in> {HttpStatus_OK, HttpStatus_Created}" "files w' = (files (env_world e))(path \<mapsto> bs)"
    unfolding drive_service_def by meson
  have x: "authorized_exchange X tok ?c ?e = (Inr status, tok, prepare_request X ?c, moved e w')"
    using exchange_eats [OF D(3) upload_client(2)] a(1) by (simp add: upload_client(1))
  have url: "sprintf_buf MAX_URL_LEN (APP_ROOT @ '':'' @ path @ '':/content'') = Some (APP_ROOT @ '':'' @ path @ '':/content'')"
    using path by (intro sprintf_fits) (simp add: length_APP_ROOT short_path_def MAX_URL_LEN_def)
  have n: "unat (word_of_nat (length bs) :: size_t) = length bs" by (rule unat_len) (use len in simp)
  then have le: "(word_of_nat (length bs) :: size_t) \<le> 4 * 1024 * 1024" using len by (simp add: word_le_nat_alt)
  have z: "(word_of_nat (length bs) :: size_t) \<noteq> 0 \<longleftrightarrow> bs \<noteq> []" using n by (auto dest: arg_cong [where f = unat])
  have "od_upload_file X tok new_client path (Some bs) (word_of_nat (length bs)) ?e =
      Some (0, tok, prepare_request X ?c, moved e w')"
    using D(2,4) url x a(2) n z
    by (auto simp: od_upload_file_def setter_defs upload_client_def upload_request_def new_client_def
        url_part_def auth_header_def Let_def)
  then show ?thesis
    using ready_not_expired [OF R] ready_client [OF R] le a(3)
    by (intro exI [of _ w']) (simp add: put_file_from_buffer_at_def)
qed

definition delete_client :: "string \<Rightarrow> string \<Rightarrow> http_client" where
  "delete_client auth path = new_client\<lparr>
     hc_opts := default_opts @ [CURLOPT_CUSTOMREQUEST ''DELETE''],
     hc_hdr := [auth_header auth], hc_url := rq_url (delete_request auth path)\<rparr>"

lemma delete_client:
  "ready_request X (delete_client auth path) = delete_request auth path"
  "write_target (hc_opts (delete_client auth path)) = EAT_OUTPUT"
  by (simp_all add: ready_request_def request_of_def prepare_request_def delete_client_def delete_request_def
      easy_setopt_def new_client_def)

lemma drive_delete:
  assumes R: "drive_ready X serve auth files durl tok" and path: "short_path path"
  shows "\<exists>w'. delete_file_at X tok path e =
      Some (if files (env_world e) path = None then status_error HttpStatus_NotFound else 0, tok, moved e w') \<and>
    files w' = (files (env_world e))(path := None)"
proof -
  note D = drive_readyD [OF R]
  let ?c = "delete_client auth path" and ?e = "moved e (env_world e)"
  from D(5) path obtain status cs w' where
    a: "answers serve (delete_request auth path) (env_world e) status cs w'"
    "files w' = (files (env_world e))(path := None)"
    "status = (if files (env_world e) path = None then HttpStatus_NotFound else HttpStatus_NoContent)"
    unfolding drive_service_def by meson
  have x: "authorized_exchange X tok ?c ?e = (Inr status, tok, prepare_request X ?c, moved e w')"
    using exchange_eats [OF D(3) delete_client(2)] a(1) by (simp add: delete_client(1))
  have url: "sprintf_buf MAX_URL_LEN (APP_ROOT @ '':'' @ path @ '':'') = Some (APP_ROOT @ '':'' @ path @ '':'')"
    using path by (intro sprintf_fits) (simp add: length_APP_ROOT short_path_def MAX_URL_LEN_def)
  show ?thesis
    using D(2,4) url x a(2,3) ready_not_expired [OF R] ready_client [OF R]
    by (intro exI [of _ w'])
      (simp add: delete_file_at_def setter_defs delete_client_def delete_request_def new_client_def
        url_part_def auth_header_def Let_def)
qed

end
