(* ===== verification/Onedrive_Kv.thy ===== *)
theory Onedrive_Kv
  imports Onedrive_Drive Hive_Key
begin

text \<open>
  The key-value operations on OneDrive refine a multimap from keys to lists of values: the record
  codec, one simulation lemma per operation, and the contract \<open>value_store\<close> that any script of
  operations of the interface follows the abstract ones.
\<close>

subsection \<open>The record codec\<close>

lemma rd_be32_be32 [simp]: "rd_be32 (be32 n @ rest) = n"
proof -
  have "unat n < 2 ^ 32" by (rule order_less_le_trans [OF unsigned_less]) simp
  then have top: "unat n div 2 ^ 24 mod 256 = unat n div 2 ^ 24" by simp
  have "unat n div 2 ^ 24 = unat n div 2 ^ 16 div 256" "unat n div 2 ^ 16 = unat n div 2 ^ 8 div 256"
    by (simp_all add: div_mult2_eq [symmetric])
  then have "((unat n div 2 ^ 24 * 256 + unat n div 2 ^ 16 mod 256) * 256 + unat n div 2 ^ 8 mod 256) * 256 +
      unat n mod 256 = unat n"
    by (simp only: div_mult_mod_eq) simp
  then show ?thesis using top by (simp add: rd_be32_def be32_def)
qed

lemma length_be32 [simp]: "length (be32 n) = 4"
  by (simp add: be32_def)

definition legal_value :: "bytes \<Rightarrow> bool" where
  "legal_value v \<longleftrightarrow> v \<noteq> [] \<and> length v \<le> 32768"

definition kv_encode :: "bytes list \<Rightarrow> bytes" where
  "kv_encode vs = concat (map kv_entry vs)"

lemma kv_encode_simps [simp]:
  "kv_encode [] = []" "kv_encode (v # vs) = kv_entry v @ kv_encode vs" "kv_encode (us @ vs) = kv_encode us @ kv_encode vs"
  by (simp_all add: kv_encode_def)

lemma length_kv_entry [simp]: "length (kv_entry v) = 4 + length v"
  by (simp add: kv_entry_def)

lemma kv_encode_long: "vs \<noteq> [] \<Longrightarrow> list_all legal_value vs \<Longrightarrow> 4 < length (kv_encode vs)"
  by (cases vs) (auto simp: legal_value_def)

fun iterate_values :: "string \<Rightarrow> 'w values_cb \<Rightarrow> bytes list \<Rightarrow> 'w env \<Rightarrow> 'w env" where
  \<comment> \<open>the callback on each value in turn, until it says stop\<close>
  "iterate_values key cb [] e = e"
| "iterate_values key cb (v # vs) e =
     (let (proceed, e) = cb key v (word_of_nat (length v)) e in if proceed then iterate_values key cb vs e else e)"

lemma kv_loop_encode:
  "vs \<noteq> [] \<Longrightarrow> list_all legal_value vs \<Longrightarrow>
     kv_loop key cb (kv_encode vs) (int (length (kv_encode vs))) e = (0, iterate_values key cb vs e)"
proof (induction vs arbitrary: e)
  case (Cons v vs)
  let ?n = "word_of_nat (length v) :: c_uint"
  have v: "length v \<le> 32768" "list_all legal_value vs" using Cons.prems(2) legal_value_def [of v] by simp_all
  then have n: "unat ?n = length v" by (simp add: unat_of_nat)
  then have le: "\<not> ?n > 32768" using v(1) by (simp add: word_less_nat_alt)
  have u: "(unsigned ?n :: size_t) = word_of_nat (length v)" 
    using v(1) by (simp add: unsigned_of_nat take_bit_nat_eq_self)
  have rd: "rd_be32 (kv_encode (v # vs)) = ?n" by (simp add: kv_entry_def)
  have val: "take (unat ?n) (drop 4 (kv_encode (v # vs))) = v" using n by (simp add: kv_entry_def)
  have rest: "drop (4 + unat ?n) (kv_encode (v # vs)) = kv_encode vs" using n by (simp add: kv_entry_def)
  have left: "int (length (kv_encode (v # vs))) - int (4 + unat ?n) = int (length (kv_encode vs))" using n by simp
  obtain p e1 where cb: "cb key v (word_of_nat (length v)) e = (p, e1)" by fastforce
  show ?case
  proof (cases "vs = []")
    case True
    with cb rd val rest left le u show ?thesis by (subst kv_loop.simps) (simp add: Let_def)
  next
    case False
    have "kv_encode vs \<noteq> []" using kv_encode_long [OF False v(2)] by auto
    with False Cons.IH [OF False v(2), of e1] cb rd val rest left le u kv_encode_long [OF False v(2)] show ?thesis
      by (subst kv_loop.simps) (simp add: Let_def)
  qed
qed simp

subsection \<open>Keys\<close>

definition short_key :: "string \<Rightarrow> bool" where
  "short_key key \<longleftrightarrow> key \<noteq> [] \<and> is_cstr key \<and> length key \<le> 800"

lemma key_path_short: "short_key key \<Longrightarrow> key_path key = ''/KeyValues/'' @ key"
  by (simp add: key_path_def short_key_def snprintf_def KEYS_DIR_def PATH_MAX_def)

lemma short_key_path: "short_key key \<Longrightarrow> short_path (key_path key)"
  by (simp add: key_path_short short_path_def) (simp add: short_key_def NUL_def)

lemma key_path_inj: "short_key k \<Longrightarrow> short_key k' \<Longrightarrow> key_path k = key_path k' \<longleftrightarrow> k = k'"
  by (simp add: key_path_short)

definition stored :: "(string \<Rightarrow> bytes option) \<Rightarrow> string \<Rightarrow> bytes list \<Rightarrow> bool" where
  \<comment> \<open>the drive holds exactly the values \<open>vs\<close> for the key\<close>
  "stored fls key vs \<longleftrightarrow> fls (key_path key) = (if vs = [] then None else Some (kv_encode vs)) \<and> list_all legal_value vs"

lemma not_found_error: "status_error HttpStatus_NotFound = NOT_FOUND_ERROR"
  using mk_error_long [of HIVEF_HTTP_STATUS 404] ssize_to_int_uint_to_ssize [of NOT_FOUND_ERROR]
  by (simp add: status_error_def NOT_FOUND_ERROR_def uint_to_ssize_def)

lemma neg_not_found: "neg NOT_FOUND_ERROR"
  by (simp add: NOT_FOUND_ERROR_def mk_error_neg)

subsection \<open>The operations\<close>

definition fits_drive :: "bytes list \<Rightarrow> bool" where
  \<comment> \<open>the limit of a simple upload\<close>
  "fits_drive vs \<longleftrightarrow> length (kv_encode vs) \<le> 4194304"

lemma word_of_nat_zero_iff: "n < 2 ^ 64 \<Longrightarrow> (word_of_nat n :: size_t) = 0 \<longleftrightarrow> n = 0"
  using unat_of_nat [of n, where ?'a = 64] by auto

lemma ssize_to_int_small: "ssize_to_int (word_of_nat n) = word_of_nat n"
  unfolding ssize_to_int_def by (rule bit_word_eqI) (simp add: bit_simps)

lemma neg_int_small: "n < 2 ^ 31 \<Longrightarrow> \<not> neg (word_of_nat n :: c_int)"
  unfolding neg_def by (simp only: signed_of_nat) (simp add: signed_take_bit_int_eq_self)

lemma small_not_found: "n < 2 ^ 31 \<Longrightarrow> ssize_to_int (word_of_nat n) \<noteq> NOT_FOUND_ERROR"
  using neg_int_small [of n] neg_not_found by (auto simp: ssize_to_int_small)

lemma kv_length:
  assumes R: "drive_ready X serve auth files durl tok" and key: "short_key key"
    and st: "stored (files (env_world e)) key vs" "fits_drive vs"
  shows "\<exists>w' n. get_file_length_at X tok (key_path key) e = Some (n, tok, moved e w') \<and>
    files w' = files (env_world e) \<and>
    (if ssize_to_int n = NOT_FOUND_ERROR then 0 else n) = word_of_nat (length (kv_encode vs))"
proof -
  have "length bs < 2 ^ 31" if "files (env_world e) (key_path key) = Some bs" for bs
    using that st by (auto simp: stored_def fits_drive_def split: if_splits)
  from drive_length [OF R short_key_path [OF key] this] obtain w' where
    w': "get_file_length_at X tok (key_path key) e =
      Some (case files (env_world e) (key_path key) of None \<Rightarrow> int_to_ssize (status_error HttpStatus_NotFound)
            | Some bs \<Rightarrow> word_of_nat (length bs), tok, moved e w')" "files w' = files (env_world e)"
    by blast
  then show ?thesis
    using st small_not_found [of "length (kv_encode vs)"]
    by (intro exI [of _ w']) (auto simp: stored_def fits_drive_def not_found_error)
qed

lemma kv_read:
  assumes R: "drive_ready X serve auth files durl tok" and key: "short_key key"
    and st: "stored (files (env_world e)) key vs" "fits_drive vs" "vs \<noteq> []"
    and to: "length (kv_encode vs) \<le> length to" "length to < 2 ^ 31"
  shows "\<exists>w'. get_file_to_buffer_at X tok (key_path key) to (word_of_nat (length (kv_encode vs))) e =
      Some ((word_of_nat (length (kv_encode vs)), kv_encode vs @ drop (length (kv_encode vs)) to), tok, moved e w') \<and>
    files w' = files (env_world e)"
  by (rule drive_read [OF R short_key_path [OF key]]) (use st to in \<open>auto simp: stored_def fits_drive_def\<close>)

lemma kv_get:
  assumes R: "drive_ready X serve auth files durl tok" and key: "short_key key"
    and st: "stored (files (env_world e)) key vs" "fits_drive vs"
  shows "\<exists>w'. od_get_values X tok key cb e =
      Some (0, tok, if vs = [] then moved e w' else iterate_values key cb vs (moved e w')) \<and>
    files w' = files (env_world e)"
proof -
  have X: "os_still X" using drive_readyD(1) [OF R] .
  obtain w1 n where l: "get_file_length_at X tok (key_path key) e = Some (n, tok, moved e w1)"
    "files w1 = files (env_world e)"
    "(if ssize_to_int n = NOT_FOUND_ERROR then 0 else n) = word_of_nat (length (kv_encode vs))"
    using kv_length [OF R key st] by blast
  have small: "length (kv_encode vs) < 2 ^ 31" using st(2) by (simp add: fits_drive_def)
  then have u: "unat (word_of_nat (length (kv_encode vs)) :: size_t) = length (kv_encode vs)"
    by (intro unat_len) simp
  show ?thesis
  proof (cases "vs = []")
    case True
    with l show ?thesis by (intro exI [of _ w1]) (simp add: od_get_values_def Let_def)
  next
    case False
    have legal: "list_all legal_value vs" using st(1) by (simp add: stored_def)
    have long: "4 < length (kv_encode vs)" by (rule kv_encode_long [OF False legal])
    then have "\<not> (word_of_nat (length (kv_encode vs)) :: size_t) \<le> 4" using u by (simp add: word_le_nat_alt)
    moreover have "(word_of_nat (length (kv_encode vs)) :: size_t) \<noteq> 0" using u long by (metis unat_0 not_less_zero)
    moreover obtain w2 where r: "get_file_to_buffer_at X tok (key_path key)
        (replicate (length (kv_encode vs)) NUL) (word_of_nat (length (kv_encode vs))) (moved e w1) =
        Some ((word_of_nat (length (kv_encode vs)), kv_encode vs), tok, moved e w2)" "files w2 = files w1"
      using kv_read [OF R key, of "moved e w1" vs "replicate (length (kv_encode vs)) NUL"] st False l(2) small
      by auto
    ultimately show ?thesis
      using l u X False small kv_loop_encode [OF False legal, of key cb "moved e w2"] sint_small [of "length (kv_encode vs)"]
      by (intro exI [of _ w2]) (simp add: od_get_values_def Let_def)
  qed
qed

lemma kv_set:
  assumes R: "drive_ready X serve auth files durl tok" and key: "short_key key" and v: "legal_value v"
  shows "\<exists>w'. od_set_value X tok key v e = Some (0, tok, moved e w') \<and>
    files w' = (files (env_world e))(key_path key \<mapsto> kv_encode [v])"
proof -
  have fits: "length (kv_entry v) \<le> 4194304" using v by (simp add: legal_value_def)
  obtain w' where w: "put_file_from_buffer_at X tok (Some (kv_entry v)) (word_of_nat (length (kv_entry v))) (key_path key) e =
      Some (0, tok, moved e w')" "files w' = (files (env_world e))(key_path key \<mapsto> kv_entry v)"
    using drive_write [OF R short_key_path [OF key] fits, of e] by blast
  show ?thesis
    by (intro exI [of _ w']) (use w drive_readyD(1) [OF R] in \<open>simp add: od_set_value_def\<close>)
qed

lemma kv_put:
  assumes R: "drive_ready X serve auth files durl tok" and key: "short_key key" and v: "legal_value v"
    and st: "stored (files (env_world e)) key vs" "fits_drive (vs @ [v])"
  shows "\<exists>w'. od_put_value X tok key v e = Some (0, tok, moved e w') \<and>
    files w' = (files (env_world e))(key_path key \<mapsto> kv_encode (vs @ [v]))"
proof -
  let ?m = "length (kv_encode vs)" and ?all = "kv_encode vs @ kv_entry v"
  have X: "os_still X" using drive_readyD(1) [OF R] .
  have fit: "fits_drive vs" and fits: "length ?all \<le> 4194304" using st(2) by (simp_all add: fits_drive_def)
  obtain w1 n where l: "get_file_length_at X tok (key_path key) e = Some (n, tok, moved e w1)"
    "files w1 = files (env_world e)" "(if ssize_to_int n = NOT_FOUND_ERROR then 0 else n) = word_of_nat ?m"
    using kv_length [OF R key st(1) fit] by blast
  have sz: "(word_of_nat ?m + 4 + word_of_nat (length v) :: size_t) = word_of_nat (length ?all)" by simp
  have u: "unat (word_of_nat (length ?all) :: size_t) = length ?all" "unat (word_of_nat ?m :: size_t) = ?m"
    by (rule unat_len, use fits in simp)+
  have small: "?m < 2 ^ 31" using fits by simp
  have put: "od_put_value X tok key v e = append_value X tok (key_path key) (word_of_nat ?m) v (moved e w1)"
    using l small by (simp add: od_put_value_def Let_def)
  show ?thesis
  proof (cases "vs = []")
    case True
    obtain w3 where w: "put_file_from_buffer_at X tok (Some ?all) (word_of_nat (length ?all)) (key_path key) (moved e w1) =
        Some (0, tok, moved e w3)" "files w3 = (files w1)(key_path key \<mapsto> ?all)"
      using drive_write [OF R short_key_path [OF key] fits, of "moved e w1"] by auto
    have "mem_store (replicate (length ?all) NUL) 0 (kv_entry v) = Some ?all"
      using True by (simp add: mem_store_def)
    then have "append_value X tok (key_path key) (word_of_nat ?m) v (moved e w1) = Some (0, tok, moved e w3)"
      unfolding append_value_def sz Let_def
      using True w(1) u X by (simp del: length_append of_nat_add length_kv_entry kv_encode_simps(2-3))
    with put w(2) l(2) show ?thesis by auto
  next
    case False
    have nz: "(word_of_nat ?m :: size_t) \<noteq> 0"
      using u(2) kv_encode_long [OF False] st(1) by (metis stored_def unat_0 not_less_zero)
    define buf where "buf = kv_encode vs @ drop ?m (replicate (length ?all) NUL)"
    have st1: "stored (files (env_world (moved e w1))) key vs" using st(1) l(2) by simp
    obtain w2 where r: "get_file_to_buffer_at X tok (key_path key) (replicate (length ?all) NUL)
        (word_of_nat ?m) (moved e w1) = Some ((word_of_nat ?m, buf), tok, moved e w2)" "files w2 = files w1"
      using kv_read [OF R key st1 fit False, of "replicate (length ?all) NUL"] fits by (auto simp: buf_def)
    have store: "mem_store buf ?m (kv_entry v) = Some ?all" by (simp add: mem_store_def buf_def)
    obtain w4 where w: "put_file_from_buffer_at X tok (Some ?all) (word_of_nat (length ?all)) (key_path key) (moved e w2) =
        Some (0, tok, moved e w4)" "files w4 = (files w2)(key_path key \<mapsto> ?all)"
      using drive_write [OF R short_key_path [OF key] fits, of "moved e w2"] by auto
    have i: "\<not> neg (ssize_to_int (word_of_nat ?m))"
      using neg_int_small [OF small] by (simp add: ssize_to_int_small)
    have "append_value X tok (key_path key) (word_of_nat ?m) v (moved e w1) = Some (0, tok, moved e w4)"
      unfolding append_value_def sz Let_def
      using r(1) w(1) u X nz i store by (simp del: length_append of_nat_add length_kv_entry)
    with put w(2) l(2) r(2) show ?thesis by (intro exI [of _ w4]) simp
  qed
qed

lemma kv_delete:
  assumes R: "drive_ready X serve auth files durl tok" and key: "short_key key"
  shows "\<exists>w'. od_delete_key X tok key e = Some (0, tok, moved e w') \<and>
    files w' = (files (env_world e))(key_path key := None)"
proof -
  obtain w' where "delete_file_at X tok (key_path key) e =
      Some (if files (env_world e) (key_path key) = None then status_error HttpStatus_NotFound else 0, tok, moved e w')"
    "files w' = (files (env_world e))(key_path key := None)"
    using drive_delete [OF R short_key_path [OF key]] by blast
  then show ?thesis by (intro exI [of _ w']) (simp add: od_delete_key_def not_found_error)
qed

subsection \<open>Scripts of operations\<close>

datatype kv_op = Put string bytes | Set string bytes | Delete string

fun abs_op :: "kv_op \<Rightarrow> (string \<Rightarrow> bytes list) \<Rightarrow> string \<Rightarrow> bytes list" where
  "abs_op (Put k v) m = m(k := m k @ [v])"
| "abs_op (Set k v) m = m(k := [v])"
| "abs_op (Delete k) m = m(k := [])"

fun abs_run :: "kv_op list \<Rightarrow> (string \<Rightarrow> bytes list) \<Rightarrow> string \<Rightarrow> bytes list" where
  "abs_run [] m = m"
| "abs_run (op # ops) m = abs_run ops (abs_op op m)"

fun op_fits :: "kv_op \<Rightarrow> (string \<Rightarrow> bytes list) \<Rightarrow> bool" where
  "op_fits (Put k v) m \<longleftrightarrow> short_key k \<and> legal_value v \<and> fits_drive (m k @ [v])"
| "op_fits (Set k v) m \<longleftrightarrow> short_key k \<and> legal_value v"
| "op_fits (Delete k) m \<longleftrightarrow> short_key k"

fun script_fits :: "kv_op list \<Rightarrow> (string \<Rightarrow> bytes list) \<Rightarrow> bool" where
  "script_fits [] m \<longleftrightarrow> True"
| "script_fits (op # ops) m \<longleftrightarrow> op_fits op m \<and> script_fits ops (abs_op op m)"

fun run_script :: "(kv_op \<Rightarrow> 's \<Rightarrow> 's option) \<Rightarrow> kv_op list \<Rightarrow> 's \<Rightarrow> 's option" where
  "run_script step [] s = Some s"
| "run_script step (op # ops) s = do { s \<leftarrow> step op s; run_script step ops s }"

locale value_store =
  fixes rel :: "'s \<Rightarrow> (string \<Rightarrow> bytes list) \<Rightarrow> bool" and step :: "kv_op \<Rightarrow> 's \<Rightarrow> 's option"
  assumes simulates: "rel s m \<Longrightarrow> op_fits op m \<Longrightarrow> \<exists>s'. step op s = Some s' \<and> rel s' (abs_op op m)"
begin

lemma script_simulates:
  "rel s m \<Longrightarrow> script_fits ops m \<Longrightarrow> \<exists>s'. run_script step ops s = Some s' \<and> rel s' (abs_run ops m)"
proof (induction ops arbitrary: s m)
  case (Cons op ops)
  then obtain s' where "step op s = Some s'" "rel s' (abs_op op m)" using simulates by fastforce
  with Cons.IH [of s'] Cons.prems show ?case by auto
qed simp

end

subsection \<open>The interface over the backend\<close>

fun hive_step :: "kv_op \<Rightarrow> ('c, 'w) hive_connect \<times> 'w env \<Rightarrow> (('c, 'w) hive_connect \<times> 'w env) option" where
  \<comment> \<open>one call of the interface, which has to return 0\<close>
  "hive_step (Put k v) (c, e) =
     (case hive_put_value (Some c) (Some k) (Some v) (word_of_nat (length v)) False e of
        Some (rc, Some c', e') \<Rightarrow> if rc = 0 then Some (c', e') else None | _ \<Rightarrow> None)"
| "hive_step (Set k v) (c, e) =
     (case hive_set_value (Some c) (Some k) (Some v) (word_of_nat (length v)) False e of
        Some (rc, Some c', e') \<Rightarrow> if rc = 0 then Some (c', e') else None | _ \<Rightarrow> None)"
| "hive_step (Delete k) (c, e) =
     (case hive_delete_key (Some c) (Some k) e of
        Some (rc, Some c', e') \<Rightarrow> if rc = 0 then Some (c', e') else None | _ \<Rightarrow> None)"

definition on_drive ::
    "('j, 'w) ext \<Rightarrow> 'w service \<Rightarrow> string \<Rightarrow> ('w \<Rightarrow> string \<Rightarrow> bytes option) \<Rightarrow> (string \<Rightarrow> string) \<Rightarrow>
      (('j, 'w) onedrive_connect, 'w) hive_connect \<times> 'w env \<Rightarrow> (string \<Rightarrow> bytes list) \<Rightarrow> bool" where
  \<comment> \<open>a connection to a drive that holds the multimap\<close>
  "on_drive X serve auth files durl s m \<longleftrightarrow>
     (\<exists>d. fst s = onedrive_methods X d \<and> drive_ready X serve auth files durl (od_token d)) \<and>
     (\<forall>k. short_key k \<longrightarrow> stored (files (env_world (snd s))) k (m k) \<and> fits_drive (m k))"

lemma onedrive_methods_simps [simp]:
  "put_value_m (onedrive_methods X d) = Some (put_value X)" "set_value_m (onedrive_methods X d) = Some (set_value X)"
  "get_values_m (onedrive_methods X d) = Some (get_values X)" "delete_key_m (onedrive_methods X d) = Some (delete_key X)"
  "conn_data (onedrive_methods X d) = d" "(onedrive_methods X d)\<lparr>conn_data := d'\<rparr> = onedrive_methods X d'"
  by (simp_all add: onedrive_methods_def no_methods_def)

lemma stored_update:
  assumes "\<forall>k. short_key k \<longrightarrow> stored fls k (m k) \<and> fits_drive (m k)" "short_key key"
    and "fls' = fls(key_path key := (if vs = [] then None else Some (kv_encode vs)))"
    and "list_all legal_value vs" "fits_drive vs"
  shows "\<forall>k. short_key k \<longrightarrow> stored fls' k ((m(key := vs)) k) \<and> fits_drive ((m(key := vs)) k)"
  using assms by (auto simp: stored_def key_path_inj)

lemma legal_len:
  assumes "legal_value v"
  shows "unat (word_of_nat (length v) :: size_t) = length v" "(word_of_nat (length v) :: size_t) \<noteq> 0"
    "(word_of_nat (length v) :: size_t) \<le> 32768"
proof -
  show u: "unat (word_of_nat (length v) :: size_t) = length v"
    by (rule unat_len) (use assms in \<open>simp add: legal_value_def\<close>)
  show "(word_of_nat (length v) :: size_t) \<noteq> 0"
  proof
    assume "(word_of_nat (length v) :: size_t) = 0"
    with u assms show False by (simp add: legal_value_def)
  qed
  show "(word_of_nat (length v) :: size_t) \<le> 32768" using u assms by (simp add: word_le_nat_alt legal_value_def)
qed

lemma drive_simulates:
  assumes "on_drive X serve auth files durl s m" "op_fits op m"
  shows "\<exists>s'. hive_step op s = Some s' \<and> on_drive X serve auth files durl s' (abs_op op m)"
proof -
  obtain c e where s: "s = (c, e)" by fastforce
  from assms(1) s obtain d where c: "c = onedrive_methods X d" and R: "drive_ready X serve auth files durl (od_token d)"
    and st: "\<forall>k. short_key k \<longrightarrow> stored (files (env_world e)) k (m k) \<and> fits_drive (m k)"
    by (auto simp: on_drive_def)
  have same: "d\<lparr>od_token := od_token d\<rparr> = d" by simp
  have fin: ?thesis if "hive_step op s = Some (c, moved e w')"
    "files w' = (files (env_world e))(key_path key := (if vs = [] then None else Some (kv_encode vs)))"
    "short_key key" "list_all legal_value vs" "fits_drive vs" "abs_op op m = m(key := vs)" for w' key vs
    using stored_update [OF st that(3,2,4,5)] that(1,6) R c
    by (intro exI [of _ "(c, moved e w')"]) (auto simp: on_drive_def)
  show ?thesis
  proof (cases op)
    case (Put key v)
    with assms(2) have v: "short_key key" "legal_value v" "fits_drive (m key @ [v])" by auto
    from st v(1) have old: "stored (files (env_world e)) key (m key)" by blast
    obtain w' where w: "od_put_value X (od_token d) key v e = Some (0, od_token d, moved e w')"
      "files w' = (files (env_world e))(key_path key \<mapsto> kv_encode (m key @ [v]))"
      using kv_put [OF R v(1,2) old v(3)] by blast
    have "hive_step op s = Some (c, moved e w')"
      using Put s c w(1) v(1) legal_len [OF v(2)] same
      by (simp add: hive_put_value_def Option.is_none_def put_value_def on_token_def short_key_def not_less)
    then show ?thesis by (rule fin [of w' key "m key @ [v]"]) (use w(2) v old Put in \<open>auto simp: stored_def\<close>)
  next
    case (Set key v)
    with assms(2) have v: "short_key key" "legal_value v" by auto
    obtain w' where w: "od_set_value X (od_token d) key v e = Some (0, od_token d, moved e w')"
      "files w' = (files (env_world e))(key_path key \<mapsto> kv_encode [v])"
      using kv_set [OF R v] by blast
    have "hive_step op s = Some (c, moved e w')"
      using Set s c w(1) v(1) legal_len [OF v(2)] same
      by (simp add: hive_set_value_def Option.is_none_def set_value_def on_token_def short_key_def not_less)
    then show ?thesis
      by (rule fin [of w' key "[v]"]) (use w(2) v Set in \<open>auto simp: fits_drive_def legal_value_def\<close>)
  next
    case (Delete key)
    with assms(2) have v: "short_key key" by simp
    obtain w' where w: "od_delete_key X (od_token d) key e = Some (0, od_token d, moved e w')"
      "files w' = (files (env_world e))(key_path key := None)"
      using kv_delete [OF R v] by blast
    have "hive_step op s = Some (c, moved e w')"
      using Delete s c w(1) v same
      by (simp add: hive_delete_key_def Option.is_none_def delete_key_def on_token_def short_key_def)
    then show ?thesis by (rule fin [of w' key "[]"]) (use w(2) v Delete in \<open>auto simp: fits_drive_def\<close>)
  qed
qed

interpretation drive_store: value_store "on_drive X serve auth files durl" hive_step
  for X serve auth files durl
  by unfold_locales (rule drive_simulates)

end
