(* ===== verification/Onedrive_Store_Props.thy ===== *)
theory Onedrive_Store_Props
  imports Onedrive_Kv Oauth_Login Hive_File
begin

text \<open>
  The properties of files and values on OneDrive, over the operations of the interface, and a small
  drive for their closed examples: the world is what the drive holds and the last status, the JSON of
  a file is its length in unary and its path.
\<close>

subsection \<open>A drive\<close>

type_synonym drive_world = "(string \<Rightarrow> bytes option) \<times> c_long"

definition drive_text :: "nat \<Rightarrow> string \<Rightarrow> bytes" where
  "drive_text n path = replicate n CHR ''x'' @ NUL # path @ [NUL]"

definition drive_json :: "bytes \<Rightarrow> json option" where
  "drive_json t =
     (let n = length (cstr t); path = cstr (drop (n + 1) t) in
      Some (JObj [(''size'', JNum (word_of_nat n)), (''@microsoft.graph.downloadUrl'', JStr (CHR ''d'' # path))]))"

definition drive_serve :: "drive_world service" where
  "drive_serve rq w =
     (case w of (fls, st) \<Rightarrow>
        let url = the (uc_text (hd (rq_url rq))); p = drop 58 url in
        if CURLOPT_CUSTOMREQUEST ''PUT'' \<in> set (rq_opts rq) then
          (let path = take (length p - 9) p; data = (case rq_opts rq ! 6 of CURLOPT_POSTFIELDS (Some d) \<Rightarrow> d | _ \<Rightarrow> [])
           in (201, [], fls(path \<mapsto> data), 201))
        else if CURLOPT_CUSTOMREQUEST ''DELETE'' \<in> set (rq_opts rq) then
          (let path = butlast p; st = (if fls path = None then 404 else 204) in (st, [], fls(path := None), st))
        else if CURLOPT_WRITEFUNCTION USER_WRITE \<in> set (rq_opts rq) then
          (case fls (tl url) of None \<Rightarrow> (404, [], fls, 404) | Some bs \<Rightarrow> (200, [bs], fls, 200))
        else
          (case fls p of None \<Rightarrow> (404, [], fls, 404) | Some bs \<Rightarrow> (200, [drive_text (length bs) p], fls, 200)))"

definition drive_ext :: "(json, drive_world) ext" where
  "drive_ext = json_ext\<lparr>cj_parse := drive_json,
     curl_perform := (\<lambda>rq wr s w. case drive_serve rq w of (st, cs, w') \<Rightarrow>
        (case deliver wr cs s w' of Some s' \<Rightarrow> (CURLE_OK, s', w') | None \<Rightarrow> (23, s, w'))),
     curl_response_code := (\<lambda>w. (CURLE_OK, snd w))\<rparr>"

lemma drive_json_text:
  "is_cstr path \<Longrightarrow> drive_json (drive_text n path @ rest) =
     Some (JObj [(''size'', JNum (word_of_nat n)), (''@microsoft.graph.downloadUrl'', JStr (CHR ''d'' # path))])"
proof -
  assume p: "is_cstr path"
  have "is_cstr (replicate n CHR ''x'')" by (simp add: is_cstr_def NUL_def)
  then have "cstr (drive_text n path @ rest) = replicate n CHR ''x''" by (simp add: drive_text_def)
  with p show ?thesis by (simp add: drive_json_def drive_text_def)
qed

lemma drive_http: "http_service drive_ext drive_serve"
  by (auto simp: http_service_def drive_ext_def json_ext_def curl_os.defs drive_serve_def Let_def
      split: prod.splits option.splits if_splits)

lemma drive_ext_fields:
  "os_still drive_ext" "curl_works drive_ext" "os_now drive_ext w = (\<lparr>tv_sec = 1000, tv_usec = 0\<rparr>, w)"
  "cj_parse drive_ext = drive_json" "cj_get_cs drive_ext j k = member ((=) k) j"
  "cj_is_number drive_ext (JNum n)" "cj_valuelong drive_ext (JNum n) = n" "cj_is_string drive_ext (JStr s)"
  "cj_valuestring drive_ext (JStr s) = Some s"
  by (simp_all add: os_still_def curl_works_def drive_ext_def json_ext_def sample_curl_def sample_os_def curl_os.defs os.defs)

lemma drive_put:
  "short_path path \<Longrightarrow> drive_serve (upload_request auth path bs) (fls, st) = (201, [], fls(path \<mapsto> bs), 201)"
  by (simp add: drive_serve_def upload_request_def url_part_def length_APP_ROOT default_opts_def)

lemma drive_del:
  "drive_serve (delete_request auth path) (fls, st) =
     (if fls path = None then 404 else 204, [], fls(path := None), if fls path = None then 404 else 204)"
  by (simp add: drive_serve_def delete_request_def url_part_def length_APP_ROOT default_opts_def)

lemma drive_get:
  "drive_serve (download_request (CHR ''d'' # path)) (fls, st) =
     (case fls path of None \<Rightarrow> (404, [], fls, 404) | Some bs \<Rightarrow> (200, [bs], fls, 200))"
  by (simp add: drive_serve_def download_request_def url_part_def default_opts_def body_opts_def split: option.splits)

lemma drive_inf:
  "drive_serve (info_request auth path query) (fls, st) =
     (case fls path of None \<Rightarrow> (404, [], fls, 404) | Some bs \<Rightarrow> (200, [drive_text (length bs) path], fls, 200))"
  by (simp add: drive_serve_def info_request_def url_part_def default_opts_def body_opts_def length_APP_ROOT split: option.splits)

definition drive_request :: "string \<Rightarrow> request \<Rightarrow> bool" where
  \<comment> \<open>no post, and the only header is this authorization\<close>
  "drive_request auth rq \<longleftrightarrow> CURLOPT_POST \<notin> set (rq_opts rq) \<and>
     list_all (\<lambda>opt. case opt of CURLOPT_HTTPHEADER h \<Rightarrow> h = [auth_header auth] | _ \<Rightarrow> True) (rq_opts rq)"

lemma drive_requests:
  "drive_request auth (info_request auth path query)" "drive_request auth (download_request url)"
  "drive_request auth (upload_request auth path bs)" "drive_request auth (delete_request auth path)"
  by (simp_all add: drive_request_def info_request_def download_request_def upload_request_def delete_request_def
      default_opts_def body_opts_def)

definition reads_drive :: "(json, 'w) ext \<Rightarrow> bool" where
  \<comment> \<open>the JSON functions read what the drive says about a file\<close>
  "reads_drive X \<longleftrightarrow> (\<forall>n path rest. is_cstr path \<longrightarrow>
       cj_parse X (drive_text n path @ rest) =
         Some (JObj [(''size'', JNum (word_of_nat n)), (''@microsoft.graph.downloadUrl'', JStr (CHR ''d'' # path))])) \<and>
     cj_get_cs X = (\<lambda>j k. member ((=) k) j) \<and> (\<forall>n. cj_is_number X (JNum n) \<and> cj_valuelong X (JNum n) = n) \<and>
     (\<forall>s. cj_is_string X (JStr s) \<and> cj_valuestring X (JStr s) = Some s)"

lemma drive_service_over:
  \<comment> \<open>a service whose world contains a drive\<close>
  assumes http: "http_service X serve" and json: "reads_drive X"
    and same: "\<And>rq w. drive_request auth rq \<Longrightarrow>
      \<exists>w'. serve rq w = (fst (drive_serve rq (p w)), fst (snd (drive_serve rq (p w))), w') \<and> p w' = snd (snd (drive_serve rq (p w)))"
  shows "drive_service X serve auth (\<lambda>w. fst (p w)) (\<lambda>path. CHR ''d'' # path)"
  unfolding drive_service_def
proof (intro conjI allI impI, goal_cases)
  case 1
  show ?case by (rule http)
next
  case (2 path w query)
  obtain fls st where w: "p w = (fls, st)" by fastforce
  obtain w' where s: "serve (info_request auth path query) w = (fst (drive_serve (info_request auth path query) (p w)),
      fst (snd (drive_serve (info_request auth path query) (p w))), w')"
    "p w' = snd (snd (drive_serve (info_request auth path query) (p w)))"
    using same [OF drive_requests(1)] by blast
  show ?case
  proof (cases "fls path")
    case None
    then show ?thesis using s
      by (intro exI [of _ 404] exI [of _ "[]"] exI [of _ w']) (simp add: w answers_def drive_inf)
  next
    case (Some bs)
    let ?j = "JObj [(''size'', JNum (word_of_nat (length bs))),
      (''@microsoft.graph.downloadUrl'', JStr (CHR ''d'' # path))]"
    have "length (drive_text (length bs) path) < 2 ^ 40"
      using 2(1,3) Some w by (simp add: drive_text_def short_path_def)
    moreover have "\<forall>rest. cj_parse X (drive_text (length bs) path @ rest) = Some ?j"
      using 2(1) json by (simp add: reads_drive_def short_path_def)
    moreover have "describes X ?j query (length bs) (CHR ''d'' # path)"
      using json by (simp add: reads_drive_def describes_def member_def)
    ultimately show ?thesis
      using Some s
      by (intro exI [of _ 200] exI [of _ "[drive_text (length bs) path]"] exI [of _ w'])
        (auto simp: w answers_def drive_inf drive_text_def)
  qed
next
  case (3 path w bs)
  obtain fls st where w: "p w = (fls, st)" by fastforce
  from same [OF drive_requests(2) [of auth "CHR ''d'' # path"], of w] 3 show ?case by (auto simp: w drive_get)
next
  case (4 path w bs)
  obtain fls st where w: "p w = (fls, st)" by fastforce
  from same [OF drive_requests(3) [of auth path bs], of w] 4 show ?case by (force simp: w answers_def drive_put)
next
  case (5 path w)
  obtain fls st where w: "p w = (fls, st)" by fastforce
  from same [OF drive_requests(4) [of auth path], of w] 5 show ?case by (force simp: w answers_def drive_del)
qed

lemma drive_service_like:
  assumes "http_service X serve" "reads_drive X" "\<And>rq w. drive_request auth rq \<Longrightarrow> serve rq w = drive_serve rq w"
  shows "drive_service X serve auth fst (\<lambda>path. CHR ''d'' # path)"
proof -
  have "drive_service X serve auth (\<lambda>w. fst ((\<lambda>w. w) w)) (\<lambda>path. CHR ''d'' # path)"
  proof (rule drive_service_over [OF assms(1,2)], goal_cases)
    case (1 rq w)
    then show ?case by (intro exI [of _ "snd (snd (drive_serve rq w))"]) (simp add: assms(3))
  qed
  then show ?thesis by simp
qed

lemma drive_service_sample: "drive_service drive_ext drive_serve auth fst (\<lambda>path. CHR ''d'' # path)"
  by (rule drive_service_like [OF drive_http _ refl])
    (simp add: reads_drive_def drive_ext_fields drive_json_text fun_eq_iff)

definition drive_token :: "(json, drive_world) oauth_token" where
  "drive_token = json_token\<lparr>expires_at := \<lparr>tv_sec = 2000, tv_usec = 0\<rparr>\<rparr>"

definition drive_connect :: "(json, drive_world) onedrive_connect" where
  "drive_connect = \<lparr>od_token = drive_token, keystore_path = ''/k''\<rparr>"

definition drive_env :: "drive_world env" where
  "drive_env = \<lparr>env_err = 0, env_errno = 0, env_fs = (\<lambda>p. None), env_curl_ready = True, env_world = (\<lambda>p. None, 200)\<rparr>"

lemma drive_sample_ready: "drive_ready drive_ext drive_serve ''at'' fst (\<lambda>path. CHR ''d'' # path) drive_token"
  by (simp add: drive_ready_def drive_ext_fields drive_service_sample drive_token_def json_token_def timer_after_def)

lemma drive_sample:
  "on_drive drive_ext drive_serve ''at'' fst (\<lambda>path. CHR ''d'' # path) (onedrive_methods drive_ext drive_connect, drive_env) (\<lambda>k. [])"
  by (auto simp: on_drive_def drive_sample_ready drive_connect_def drive_env_def stored_def fits_drive_def
      intro!: exI [of _ drive_connect])

subsection \<open>Properties\<close>

text \<open>
  C1: The key-value operations on a OneDrive connection implement a map from keys to lists of
  values: a sequence of puts, sets and deletes through the interface that stays within the size
  limits succeeds, and the files of the drive hold exactly the records of the abstract map the
  same sequence gives.
\<close>

theorem key_operations_refine_a_multimap:
  assumes "on_drive X serve auth files durl (c, e) m" "script_fits ops m"
  shows "\<exists>c' e'. run_script hive_step ops (c, e) = Some (c', e') \<and>
    on_drive X serve auth files durl (c', e') (abs_run ops m)"
  using drive_store.script_simulates [OF assms] by auto

theorem key_operations_refine_a_multimap_witness:
  "\<exists>c' e'. run_script hive_step [Put ''k'' ''a'', Put ''k'' ''bc'', Set ''l'' ''d'', Delete ''l'']
      (onedrive_methods drive_ext drive_connect, drive_env) = Some (c', e') \<and>
    on_drive drive_ext drive_serve ''at'' fst (\<lambda>path. CHR ''d'' # path) (c', e') ((\<lambda>k. [])(''k'' := [''a'', ''bc'']))"
proof -
  have "script_fits [Put ''k'' ''a'', Put ''k'' ''bc'', Set ''l'' ''d'', Delete ''l''] (\<lambda>k. [])"
    by (simp add: short_key_def legal_value_def fits_drive_def NUL_def)
  moreover have "abs_run [Put ''k'' ''a'', Put ''k'' ''bc'', Set ''l'' ''d'', Delete ''l''] (\<lambda>k. []) =
      (\<lambda>k. [])(''k'' := [''a'', ''bc''])" by auto
  ultimately show ?thesis using key_operations_refine_a_multimap [OF drive_sample] by metis
qed

lemma drive_visits_values:
  assumes "on_drive X serve auth files durl (c, e) m" "short_key key"
  shows "\<exists>w'. hive_get_values (Some c) (Some key) decrypt (Some cb) e =
      Some (0, Some c, if m key = [] then moved e w' else iterate_values key cb (m key) (moved e w')) \<and>
    files w' = files (env_world e)"
proof -
  from assms obtain d where c: "c = onedrive_methods X d" and R: "drive_ready X serve auth files durl (od_token d)"
    and st: "stored (files (env_world e)) key (m key)" "fits_drive (m key)"
    by (auto simp: on_drive_def)
  have key: "key \<noteq> []" using assms(2) by (simp add: short_key_def)
  obtain w' where w: "od_get_values X (od_token d) key cb e =
      Some (0, od_token d, if m key = [] then moved e w' else iterate_values key cb (m key) (moved e w'))"
    "files w' = files (env_world e)"
    using kv_get [OF R assms(2) st] by blast
  show ?thesis
    by (intro exI [of _ w'])
      (use c w key in \<open>simp add: hive_get_values_def Option.is_none_def get_values_def on_token_def\<close>)
qed

text \<open>
  C11: hive_get_values on a drive that holds the values of a key calls the callback with each of
  them in the order they were put, stops when it says so, and returns 0; a key without values
  gives no call.
\<close>

theorem get_values_visits_the_stored_values:
  assumes "on_drive X serve auth files durl (c, e) m" "short_key key"
  shows "\<exists>w'. hive_get_values (Some c) (Some key) decrypt (Some cb) e =
      Some (0, Some c, if m key = [] then moved e w' else iterate_values key cb (m key) (moved e w')) \<and>
    files w' = files (env_world e)"
  using assms by (rule drive_visits_values)

lemma drive_sample_holding:
  "on_drive drive_ext drive_serve ''at'' fst (\<lambda>path. CHR ''d'' # path) (onedrive_methods drive_ext drive_connect,
     drive_env\<lparr>env_world := ([''/KeyValues/k'' \<mapsto> kv_encode [''a'', ''bc'']], 200)\<rparr>) ((\<lambda>k. [])(''k'' := [''a'', ''bc'']))"
proof -
  have "short_key k \<Longrightarrow> k \<noteq> ''k'' \<Longrightarrow> key_path k \<noteq> ''/KeyValues/k''" for k by (simp add: key_path_short)
  moreover have "key_path ''k'' = ''/KeyValues/k''" by (simp add: key_path_short short_key_def NUL_def)
  ultimately show ?thesis
    by (auto simp: on_drive_def drive_sample_ready drive_connect_def drive_env_def stored_def fits_drive_def
        legal_value_def intro!: exI [of _ drive_connect])
qed

theorem get_values_visits_the_stored_values_witness:
  "\<exists>w'. hive_get_values (Some (onedrive_methods drive_ext drive_connect)) (Some ''k'') False
      (Some (\<lambda>k v n e. (True, e\<lparr>env_errno := env_errno e + word_of_nat (length v)\<rparr>)))
      (drive_env\<lparr>env_world := ([''/KeyValues/k'' \<mapsto> kv_encode [''a'', ''bc'']], 200)\<rparr>) =
    Some (0, Some (onedrive_methods drive_ext drive_connect), (moved drive_env w')\<lparr>env_errno := 3\<rparr>)"
  using get_values_visits_the_stored_values [OF drive_sample_holding, of "''k''" False
      "\<lambda>k v n e. (True, e\<lparr>env_errno := env_errno e + word_of_nat (length v)\<rparr>)"]
  by (auto simp: short_key_def NUL_def moved_def drive_env_def)

text \<open>
  The loop of get_values over the concatenated records of any non-empty list of legal values
  visits exactly these values in order.
\<close>

theorem value_records_roundtrip:
  assumes "vs \<noteq> []" "list_all legal_value vs"
  shows "kv_loop key cb (kv_encode vs) (int (length (kv_encode vs))) e = (0, iterate_values key cb vs e)"
  using assms by (rule kv_loop_encode)

theorem value_records_roundtrip_witness:
  "kv_loop ''k'' (\<lambda>k v n e. (v \<noteq> ''bc'', e\<lparr>env_errno := word_of_nat (length v)\<rparr>))
      (kv_encode [''a'', ''bc'', ''def'']) 18 sample_env = (0, sample_env\<lparr>env_errno := 2\<rparr>)"
  using value_records_roundtrip [of "[''a'', ''bc'', ''def'']" "''k''"
      "\<lambda>k v n e. (v \<noteq> ''bc'', e\<lparr>env_errno := word_of_nat (length v)\<rparr>)" sample_env]
  by (simp add: legal_value_def sample_env_def)

subsection \<open>Files\<close>

definition file_name_ok :: "string \<Rightarrow> bool" where
  "file_name_ok name \<longleftrightarrow> name \<noteq> [] \<and> is_cstr name \<and> length name \<le> 800"

lemma file_path_ok:
  assumes "file_name_ok name"
  shows "file_path name = Some (''/Files/'' @ name)" "short_path (''/Files/'' @ name)"
    "snd (snprintf PATH_MAX (FILES_DIR @ ''/'' @ name)) = ''/Files/'' @ name"
proof -
  have n: "length (FILES_DIR @ ''/'' @ name) < 4096" using assms by (simp add: file_name_ok_def FILES_DIR_def)
  then have "sint (word_of_nat (length (FILES_DIR @ ''/'' @ name)) :: c_int) = int (length (FILES_DIR @ ''/'' @ name))"
    by (simp only: signed_of_nat) (simp add: signed_take_bit_int_eq_self)
  then show "file_path name = Some (''/Files/'' @ name)"
    using n by (simp add: file_path_def snprintf_def neg_def PATH_MAX_def FILES_DIR_def)
  show "short_path (''/Files/'' @ name)" using assms by (simp add: short_path_def file_name_ok_def NUL_def)
  show "snd (snprintf PATH_MAX (FILES_DIR @ ''/'' @ name)) = ''/Files/'' @ name"
    using n by (simp add: snprintf_def PATH_MAX_def FILES_DIR_def)
qed

lemma onedrive_file_methods [simp]:
  "put_file_from_buffer_m (onedrive_methods X d) = Some (put_file_from_buffer X)"
  "get_file_length_m (onedrive_methods X d) = Some (get_file_length X)"
  "get_file_to_buffer_m (onedrive_methods X d) = Some (get_file_to_buffer X)"
  "delete_file_m (onedrive_methods X d) = Some (delete_file X)"
  "list_files_m (onedrive_methods X d) = Some (list_files X)"
  by (simp_all add: onedrive_methods_def no_methods_def)

lemma put_get_through:
  assumes name: "file_name_ok name" and bs: "bs \<noteq> []" "length bs \<le> 33554432" and to: "length to = length bs"
    and put: "put_file_from_buffer_at X (od_token d) (Some bs) (word_of_nat (length bs)) (''/Files/'' @ name) e =
      Some (0, od_token d, e1)"
    and got: "get_file_to_buffer_at X (od_token d) (''/Files/'' @ name) to (word_of_nat (length to)) e1 =
      Some ((word_of_nat (length bs), bs), od_token d, e2)"
  shows "hive_put_file_from_buffer (Some (onedrive_methods X d)) (Some bs) (word_of_nat (length bs)) False (Some name) e =
      Some (0, Some (onedrive_methods X d), e1)"
    and "hive_get_file_to_buffer (Some (onedrive_methods X d)) (Some name) False (Some to) (word_of_nat (length to)) e1 =
      Some ((word_of_nat (length bs), Some bs), Some (onedrive_methods X d), e2)"
proof -
  note F = file_path_ok [OF name]
  have same: "d\<lparr>od_token := od_token d\<rparr> = d" by simp
  have ne: "name \<noteq> []" using name by (simp add: file_name_ok_def)
  have u: "unat (word_of_nat (length bs) :: size_t) = length bs" by (rule unat_len) (use bs in simp)
  have z: "(word_of_nat (length bs) :: size_t) \<noteq> 0" using u bs(1) by (metis length_0_conv unat_0)
  have le: "\<not> 33554432 < (word_of_nat (length bs) :: size_t)" using u bs by (simp add: word_less_nat_alt)
  have n: "\<not> neg (word_of_nat (length bs) :: ssize_t)" using bs by simp
  show "hive_put_file_from_buffer (Some (onedrive_methods X d)) (Some bs) (word_of_nat (length bs)) False (Some name) e =
      Some (0, Some (onedrive_methods X d), e1)"
    using put F(3) ne le same
    by (simp add: hive_put_file_from_buffer_def Option.is_none_def put_file_from_buffer_def on_token_def)
  show "hive_get_file_to_buffer (Some (onedrive_methods X d)) (Some name) False (Some to) (word_of_nat (length to)) e1 =
      Some ((word_of_nat (length bs), Some bs), Some (onedrive_methods X d), e2)"
    using got F(1) ne z n same to
    by (simp add: hive_get_file_to_buffer_def Option.is_none_def get_file_to_buffer_def on_token_def)
qed

text \<open>
  C8: A file of at most 4 MB put on OneDrive through the interface is read back byte for byte, and
  no other file of the drive changes.
\<close>

theorem file_put_then_get:
  assumes R: "drive_ready X serve auth files durl (od_token d)" and name: "file_name_ok name"
    and bs: "length bs \<le> 4194304" and to: "length to = length bs" "bs \<noteq> []"
  shows "\<exists>w1 w2. hive_put_file_from_buffer (Some (onedrive_methods X d)) (Some bs) (word_of_nat (length bs)) False (Some name) e =
      Some (0, Some (onedrive_methods X d), moved e w1) \<and>
    files w1 = (files (env_world e))(''/Files/'' @ name \<mapsto> bs) \<and>
    hive_get_file_to_buffer (Some (onedrive_methods X d)) (Some name) False (Some to) (word_of_nat (length to)) (moved e w1) =
      Some ((word_of_nat (length bs), Some bs), Some (onedrive_methods X d), moved e w2) \<and> files w2 = files w1"
proof -
  note path = file_path_ok(2) [OF name]
  obtain w1 where w1: "put_file_from_buffer_at X (od_token d) (Some bs) (word_of_nat (length bs)) (''/Files/'' @ name) e =
      Some (0, od_token d, moved e w1)" "files w1 = (files (env_world e))(''/Files/'' @ name \<mapsto> bs)"
    using drive_write [OF R path bs] by blast
  obtain w2 where w2: "get_file_to_buffer_at X (od_token d) (''/Files/'' @ name) to (word_of_nat (length to)) (moved e w1) =
      Some ((word_of_nat (length bs), bs), od_token d, moved e w2)" "files w2 = files w1"
    using drive_read [OF R path, of "moved e w1" bs to "length to"] w1(2) bs to by auto
  have "length bs \<le> 33554432" using bs by simp
  then show ?thesis using put_get_through [OF name to(2) _ to(1) w1(1) w2(1)] w1(2) w2(2) by blast
qed

lemma drive_connect_ready: "drive_ready drive_ext drive_serve ''at'' fst (\<lambda>path. CHR ''d'' # path) (od_token drive_connect)"
  using drive_sample_ready by (simp add: drive_connect_def)

theorem file_put_then_get_witness:
  "\<exists>w1 w2. hive_put_file_from_buffer (Some (onedrive_methods drive_ext drive_connect)) (Some ''data'') 4 False (Some ''f'') drive_env =
      Some (0, Some (onedrive_methods drive_ext drive_connect), moved drive_env w1) \<and>
    hive_get_file_to_buffer (Some (onedrive_methods drive_ext drive_connect)) (Some ''f'') False (Some ''....'') 4 (moved drive_env w1) =
      Some ((4, Some ''data''), Some (onedrive_methods drive_ext drive_connect), moved drive_env w2)"
  using file_put_then_get [OF drive_connect_ready, of "''f''" "''data''" "''....''" drive_env]
  by (auto simp: file_name_ok_def NUL_def)

text \<open>
  C36: Deleting a file that exists succeeds and removes only this file; its length afterwards is
  -1 with the recorded error HTTP 404.
\<close>

theorem delete_file_then_length:
  assumes R: "drive_ready X serve auth files durl (od_token d)" and name: "file_name_ok name"
    and there: "files (env_world e) (''/Files/'' @ name) = Some bs"
  shows "\<exists>w1 w2. hive_delete_file (Some (onedrive_methods X d)) (Some name) e =
      Some (0, Some (onedrive_methods X d), moved e w1) \<and>
    files w1 = (files (env_world e))(''/Files/'' @ name := None) \<and>
    hive_get_file_length (Some (onedrive_methods X d)) (Some name) (moved e w1) =
      Some (- 1, Some (onedrive_methods X d), hive_set_error NOT_FOUND_ERROR (moved e w2)) \<and> files w2 = files w1"
proof -
  note F = file_path_ok [OF name]
  have same: "d\<lparr>od_token := od_token d\<rparr> = d" by simp
  have ne: "name \<noteq> []" using name by (simp add: file_name_ok_def)
  obtain w1 where w1: "delete_file_at X (od_token d) (''/Files/'' @ name) e = Some (0, od_token d, moved e w1)"
    "files w1 = (files (env_world e))(''/Files/'' @ name := None)"
    using drive_delete [OF R F(2), of e] there by auto
  obtain w2 where w2: "get_file_length_at X (od_token d) (''/Files/'' @ name) (moved e w1) =
      Some (int_to_ssize NOT_FOUND_ERROR, od_token d, moved e w2)" "files w2 = files w1"
    using drive_length [OF R F(2), of "moved e w1"] w1(2) by (auto simp: not_found_error)
  have "hive_delete_file (Some (onedrive_methods X d)) (Some name) e = Some (0, Some (onedrive_methods X d), moved e w1)"
    using w1(1) F(1) ne same by (simp add: hive_delete_file_def Option.is_none_def delete_file_def on_token_def)
  moreover have "hive_get_file_length (Some (onedrive_methods X d)) (Some name) (moved e w1) =
      Some (- 1, Some (onedrive_methods X d), hive_set_error NOT_FOUND_ERROR (moved e w2))"
    using w2(1) F(1) ne same neg_not_found
    by (simp add: hive_get_file_length_def Option.is_none_def get_file_length_def on_token_def)
  ultimately show ?thesis using w1(2) w2(2) by blast
qed

theorem delete_file_then_length_witness:
  "\<exists>w1 w2. hive_delete_file (Some (onedrive_methods drive_ext drive_connect)) (Some ''f'')
        (drive_env\<lparr>env_world := ([''/Files/f'' \<mapsto> ''data''], 200)\<rparr>) =
      Some (0, Some (onedrive_methods drive_ext drive_connect), moved drive_env w1) \<and>
    hive_get_file_length (Some (onedrive_methods drive_ext drive_connect)) (Some ''f'') (moved drive_env w1) =
      Some (- 1, Some (onedrive_methods drive_ext drive_connect), hive_set_error NOT_FOUND_ERROR (moved drive_env w2))"
  using delete_file_then_length [OF drive_connect_ready, of "''f''" "drive_env\<lparr>env_world := ([''/Files/f'' \<mapsto> ''data''], 200)\<rparr>" "''data''"]
  by (auto simp: file_name_ok_def NUL_def moved_def)

lemma callback_overflow:
  "us_ub u \<or> us_pos u \<le> length (us_mem u) \<and> length (us_mem u) < us_pos u + length (concat cs) \<Longrightarrow> \<forall>c \<in> set cs. length c < 2 ^ 64 \<Longrightarrow>
   \<exists>u'. deliver (user_writer download_callback) cs (UserSink u) w = Some (UserSink u') \<and> us_ub u'"
proof (induction cs arbitrary: u)
  case (Cons c cs)
  have len: "unat (word_of_nat (length c) :: size_t) = length c"
    by (rule unat_len) (use Cons.prems(2) in simp)
  let ?u1 = "snd (download_callback c u)"
  have "download_callback c u = (word_of_nat (length c), ?u1)"
    by (simp add: download_callback_def split: option.splits)
  moreover have "us_ub ?u1 \<or> us_pos ?u1 \<le> length (us_mem ?u1) \<and> length (us_mem ?u1) < us_pos ?u1 + length (concat cs)"
    using Cons.prems(1) by (auto simp: download_callback_def mem_store_def split: option.splits if_splits)
  ultimately show ?case using Cons.IH [of ?u1] Cons.prems(2) len by (auto simp: user_writer_def split: prod.splits)
qed auto

text \<open>
  C29: The download callback of OneDrive copies whatever the server sends: a download longer than
  the buffer stores behind its end, whatever size the file was said to have before.
\<close>

theorem longer_download_overflows_the_buffer:
  assumes "http_service X serve" "curl_works X" "serve (download_request url) (env_world e) = (HttpStatus_OK, cs, w')"
    and "length to < length (concat cs)" "length (concat cs) < 2 ^ 64"
  shows "od_download_file X new_client url to e = None"
proof -
  let ?u = "\<lparr>us_mem = to, us_pos = 0, us_limit = length to, us_ub = False\<rparr>"
  have small: "\<forall>c \<in> set cs. length c < 2 ^ 64"
  proof
    fix c assume "c \<in> set cs"
    then have "length c \<le> length (concat cs)" by (metis split_list concat.simps(2) concat_append length_append trans_le_add1 trans_le_add2 order_refl)
    then show "length c < 2 ^ 64" using assms(5) by simp
  qed
  obtain u' where u': "deliver (user_writer download_callback) cs (UserSink ?u) w' = Some (UserSink u')" "us_ub u'"
    using callback_overflow [OF _ small, of ?u w'] assms(4) by auto
  moreover have "still_writer (user_writer download_callback)"
    by (auto simp: still_writer_def user_writer_def split: sink.splits prod.splits)
  ultimately have "curl_perform X (download_request url) (user_writer download_callback) (UserSink ?u) (env_world e) =
      (CURLE_OK, UserSink u', w') \<and> curl_response_code X w' = (CURLE_OK, HttpStatus_OK)"
    using http_serviceD [OF assms(1) _ assms(3)] by blast
  then show ?thesis
    using assms(2) u'(2)
    by (simp add: od_download_file_def setter_defs exchange_def http_client_request_def prepare_request_def
        request_of_def download_request_def url_part_def body_opts_def new_client_def Let_def
        http_client_get_response_code_def)
qed

theorem longer_download_overflows_the_buffer_witness:
  "od_download_file drive_ext new_client ''df'' ''..'' (drive_env\<lparr>env_world := ([''f'' \<mapsto> ''data''], 200)\<rparr>) = None"
  by (rule longer_download_overflows_the_buffer [OF drive_http, of _ _ "[''data'']" "([''f'' \<mapsto> ''data''], 200)"])
    (simp_all add: drive_ext_fields drive_get)

end
