(* ===== verification/Ipfs.thy ===== *)
theory Ipfs
  imports Hive_Client Http_Client Oauth_Token
begin

text \<open>
  The IPFS backend: \<open>src/vendors/ipfs/ipfs_rpc.c\<close>, the pool of nodes of which one is current, and
  \<open>src/vendors/ipfs/ipfs.c\<close>, the operations on content identifiers and the connect function.
\<close>

subsection \<open>The pool of nodes\<close>

type_synonym port = "16 word"

record rpc_node =
  node_ipv4 :: string
  node_ipv6 :: string
  node_port :: port

record ipfs_rpc =
  current_node_ip :: string
  current_node_port :: port
  rpc_nodes :: "rpc_node list"

abbreviation (input) HIVE_MAX_IPV4_ADDRESS_LEN :: nat where "HIVE_MAX_IPV4_ADDRESS_LEN \<equiv> 15"
abbreviation (input) HIVE_MAX_IPV6_ADDRESS_LEN :: nat where "HIVE_MAX_IPV6_ADDRESS_LEN \<equiv> 47"

definition RC_NODE_UNREACHABLE :: "c_int \<Rightarrow> bool" where
  "RC_NODE_UNREACHABLE rc \<longleftrightarrow>
     rc = CURLE_COULDNT_CONNECT \<or> rc = CURLE_REMOTE_ACCESS_DENIED \<or> rc = CURLE_OPERATION_TIMEDOUT"

definition node_url :: "string \<Rightarrow> port \<Rightarrow> string \<Rightarrow> string" where
  \<comment> \<open>\<open>"http://%s:%u<path>"\<close>; an IPv6 address is not put into brackets\<close>
  "node_url ip port path = ''http://'' @ ip @ '':'' @ nat_digits (unat port) @ path"

definition test_reachable :: "('w, 'a) curl_os_scheme \<Rightarrow> string \<Rightarrow> port \<Rightarrow> 'w env \<Rightarrow> c_int \<times> 'w env" where
  "test_reachable X ipaddr port e =
     (let (rc, url) = snprintf 4097 (node_url ipaddr port ''/version'') in
      if neg rc \<or> sint rc \<ge> 4097 then (HIVE_GENERAL_ERROR HIVEERR_BUFFER_TOO_SMALL, e)
      else
        (case http_client_new X e of
           (None, e) \<Rightarrow> (HIVE_GENERAL_ERROR HIVEERR_OUT_OF_MEMORY, e)
         | (Some c, e) \<Rightarrow>
             (let c = snd (http_client_set_url X url c);
                  c = snd (http_client_set_method X HTTP_METHOD_POST c);
                  c = snd (http_client_set_request_body_instant X None 0 c);
                  c = snd (http_client_set_timeout X 5 c);
                  (rc, c, e) = http_client_request X c e in
              if rc \<noteq> 0 then (HIVE_CURL_ERROR rc, e)
              else
                (let (rc, resp_code) = http_client_get_response_code X 0 e in
                 if rc \<noteq> 0 then (HIVE_CURL_ERROR rc, e)
                 else if resp_code \<noteq> HttpStatus_OK
                 then (ssize_to_int (HIVE_HTTP_STATUS_ERROR resp_code), e)
                 else (0, e)))))"

definition try_address ::
    "('w, 'a) curl_os_scheme \<Rightarrow> string \<Rightarrow> port \<Rightarrow> 'w env \<Rightarrow> (string \<times> port) option \<times> 'w env" where
  \<comment> \<open>\<open>if (ip[0]) { rc = test_reachable(...); if (!rc) ... }\<close>\<close>
  "try_address X ip port e =
     (if ip = [] then (None, e)
      else (let (rc, e) = test_reachable X ip port e in (if rc = 0 then Some (ip, port) else None, e)))"

definition try_node ::
    "('w, 'a) curl_os_scheme \<Rightarrow> rpc_node \<Rightarrow> 'w env \<Rightarrow> (string \<times> port) option \<times> 'w env" where
  "try_node X node e =
     (case try_address X (node_ipv4 node) (node_port node) e of
        (Some sel, e) \<Rightarrow> (Some sel, e)
      | (None, e) \<Rightarrow> try_address X (node_ipv6 node) (node_port node) e)"

partial_function (option) select_loop ::
    "('w, 'a) curl_os_scheme \<Rightarrow> rpc_node list \<Rightarrow> nat \<Rightarrow> nat \<Rightarrow> 'w env
      \<Rightarrow> ((string \<times> port) option \<times> 'w env) option" where
  \<comment> \<open>\<open>do { ...; i = (i + 1) % nodes_cnt; } while (i != base)\<close>\<close>
  "select_loop X nodes base i e =
     (case try_node X (nodes ! i) e of
        (Some sel, e) \<Rightarrow> Some (Some sel, e)
      | (None, e) \<Rightarrow>
          if (i + 1) mod length nodes \<noteq> base then select_loop X nodes base ((i + 1) mod length nodes) e
          else Some (None, e))"

definition select_bootstrap ::
    "('w, 'a) curl_os_scheme \<Rightarrow> rpc_node list \<Rightarrow> 'w env \<Rightarrow> ((c_int \<times> (string \<times> port) option) \<times> 'w env) option" where
  \<comment> \<open>a pool without nodes would divide by zero\<close>
  "select_bootstrap X nodes e =
     (let (r, w) = os_rand X (env_world e); e = e\<lparr>env_world := w\<rparr> in
      if nodes = [] then None
      else
        do { (sel, e) \<leftarrow> select_loop X nodes (r mod length nodes) (r mod length nodes) e;
             Some ((if sel = None then HIVE_GENERAL_ERROR HIVEERR_BAD_BOOTSTRAP_HOST else 0, sel), e) })"

definition set_current :: "(string \<times> port) option \<Rightarrow> ipfs_rpc \<Rightarrow> ipfs_rpc" where
  "set_current sel rpc =
     (case sel of None \<Rightarrow> rpc | Some (ip, port) \<Rightarrow> rpc\<lparr>current_node_ip := ip, current_node_port := port\<rparr>)"

definition ipfs_rpc_check_reachable ::
    "('w, 'a) curl_os_scheme \<Rightarrow> ipfs_rpc \<Rightarrow> 'w env \<Rightarrow> (c_int \<times> ipfs_rpc \<times> 'w env) option" where
  "ipfs_rpc_check_reachable X rpc e =
     (if current_node_ip rpc \<noteq> [] then Some (0, rpc, e)
      else
        do { ((rc, sel), e) \<leftarrow> select_bootstrap X (rpc_nodes rpc) e; Some (rc, set_current sel rpc, e) })"

definition ipfs_rpc_mark_node_unreachable :: "ipfs_rpc \<Rightarrow> ipfs_rpc" where
  "ipfs_rpc_mark_node_unreachable rpc = rpc\<lparr>current_node_ip := []\<rparr>"

definition ipfs_rpc_get_current_node_ip :: "ipfs_rpc \<Rightarrow> string" where
  "ipfs_rpc_get_current_node_ip rpc = current_node_ip rpc"

definition ipfs_rpc_get_current_node_port :: "ipfs_rpc \<Rightarrow> port" where
  "ipfs_rpc_get_current_node_port rpc = current_node_port rpc"

definition ipfs_rpc_new ::
    "('w, 'a) curl_os_scheme \<Rightarrow> rpc_node list \<Rightarrow> 'w env \<Rightarrow> (ipfs_rpc option \<times> 'w env) option" where
  "ipfs_rpc_new X nodes e =
     (let (ok, e) = alloc X (64 + 66 * length nodes) e in
      if \<not> ok then Some (None, hive_set_error (HIVE_GENERAL_ERROR HIVEERR_OUT_OF_MEMORY) e)
      else
        do {
          ((rc, sel), e) \<leftarrow> select_bootstrap X nodes e;
          if neg rc then Some (None, hive_set_error rc e)
          else Some (Some (set_current sel \<lparr>current_node_ip = [], current_node_port = 0, rpc_nodes = nodes\<rparr>), e) })"

subsection \<open>Operations on content identifiers\<close>

definition ipfs_exchange ::
    "('j, 'w) ext \<Rightarrow> ipfs_rpc \<Rightarrow> http_client \<Rightarrow> 'w env \<Rightarrow> (c_int + c_long) \<times> ipfs_rpc \<times> http_client \<times> 'w env" where
  \<comment> \<open>the request, its response code, and dropping a node that cannot be reached\<close>
  "ipfs_exchange X rpc c e =
     (let (rc, c, e) = http_client_request X c e in
      if rc \<noteq> 0 then
        (if RC_NODE_UNREACHABLE rc
         then (Inl (HIVE_GENERAL_ERROR HIVEERR_TRY_AGAIN), ipfs_rpc_mark_node_unreachable rpc, c, e)
         else (Inl (HIVE_CURL_ERROR rc), rpc, c, e))
      else
        (let (rc, resp_code) = http_client_get_response_code X 0 e in
         if rc \<noteq> 0 then (Inl (HIVE_CURL_ERROR rc), rpc, c, e) else (Inr resp_code, rpc, c, e)))"

definition current_url :: "ipfs_rpc \<Rightarrow> string \<Rightarrow> string option" where
  \<comment> \<open>\<open>sprintf\<close> into an array of \<open>MAX_URL_LEN\<close> bytes\<close>
  "current_url rpc path =
     sprintf_buf 1024 (node_url (ipfs_rpc_get_current_node_ip rpc) (ipfs_rpc_get_current_node_port rpc) path)"

definition store_cid :: "('j, 'w) ext \<Rightarrow> bytes \<Rightarrow> bytes \<Rightarrow> (c_int \<times> bytes) option" where
  \<comment> \<open>the answer to \<open>add\<close>: its \<open>Hash\<close> goes to the caller's identifier\<close>
  "store_cid X body cid =
     (case cj_parse X body of
        None \<Rightarrow> Some (HIVE_GENERAL_ERROR HIVEERR_OUT_OF_MEMORY, cid)
      | Some resp \<Rightarrow>
          (let cid_json = cj_get_cs X resp ''Hash'' in
           if \<not> IS_STRING X cid_json then Some (HIVE_GENERAL_ERROR HIVEERR_BAD_JSON_FORMAT, cid)
           else
             do { v \<leftarrow> cj_valuestring X (the cid_json);
                  if v = [] \<or> length v \<ge> 65 then Some (HIVE_GENERAL_ERROR HIVEERR_BAD_JSON_FORMAT, cid)
                  else do { cid \<leftarrow> strcpy_at cid 0 v; Some (0, cid) } }))"

definition ipfs_put_file_from_buffer ::
    "('j, 'w) ext \<Rightarrow> bytes option \<Rightarrow> size_t \<Rightarrow> bool \<Rightarrow> bytes \<Rightarrow> (c_int \<times> bytes, ipfs_rpc, 'w) call" where
  "ipfs_put_file_from_buffer X from len encrypt cid rpc e =
     do {
       (rc, rpc, e) \<leftarrow> ipfs_rpc_check_reachable X rpc e;
       if neg rc then Some ((rc, cid), rpc, e)
       else
         do {
           url \<leftarrow> current_url rpc ''/api/v0/add'';
           case http_client_new X e of
             (None, e) \<Rightarrow> Some ((HIVE_GENERAL_ERROR HIVEERR_OUT_OF_MEMORY, cid), rpc, e)
           | (Some c, e) \<Rightarrow>
               (let c = snd (http_client_set_url X url c);
                    c = snd (http_client_set_mime_instant X ''file'' None None
                          (case from of None \<Rightarrow> [] | Some b \<Rightarrow> take (unat len) b) c);
                    c = snd (http_client_set_method X HTTP_METHOD_POST c);
                    c = snd (http_client_enable_response_body X c);
                    (r, rpc, c, e) = ipfs_exchange X rpc c e in
                case r of
                  Inl rc \<Rightarrow> Some ((rc, cid), rpc, e)
                | Inr resp_code \<Rightarrow>
                    if resp_code \<noteq> HttpStatus_OK
                    then Some ((ssize_to_int (HIVE_HTTP_STATUS_ERROR resp_code), cid), rpc, e)
                    else
                      do { (body, n, c) \<leftarrow> http_client_move_response_body False c;
                           case body of
                             None \<Rightarrow> Some ((HIVE_GENERAL_ERROR HIVEERR_OUT_OF_MEMORY, cid), rpc, e)
                           | Some b \<Rightarrow> do { r \<leftarrow> store_cid X b cid; Some (r, rpc, e) } }) } }"

definition cid_length :: "('j, 'w) ext \<Rightarrow> bytes \<Rightarrow> string \<Rightarrow> ssize_t" where
  \<comment> \<open>the answer to \<open>file/ls\<close>. The error codes are \<open>unsigned\<close>, so as \<open>ssize_t\<close> they are positive\<close>
  "cid_length X body cid =
     (let bad = uint_to_ssize (HIVE_GENERAL_ERROR HIVEERR_BAD_JSON_FORMAT) in
      case cj_parse X body of
        None \<Rightarrow> uint_to_ssize (HIVE_GENERAL_ERROR HIVEERR_OUT_OF_MEMORY)
      | Some resp \<Rightarrow>
          (case cj_get_cs X resp ''Objects'' of
             None \<Rightarrow> bad
           | Some objects \<Rightarrow>
               if \<not> cj_is_object X objects then bad
               else
                 (case cj_get_cs X objects cid of
                    None \<Rightarrow> bad
                  | Some cid_json \<Rightarrow>
                      if \<not> cj_is_object X cid_json then bad
                      else
                        (let sz = cj_get_cs X cid_json ''Size'' in
                         if \<not> IS_NUMBER X sz \<or> neg (cj_valuelong X (the sz)) then bad
                         else cj_valuelong X (the sz)))))"

definition ipfs_get_file_length ::
    "('j, 'w) ext \<Rightarrow> string \<Rightarrow> (ssize_t, ipfs_rpc, 'w) call" where
  "ipfs_get_file_length X cid rpc e =
     do {
       (rc, rpc, e) \<leftarrow> ipfs_rpc_check_reachable X rpc e;
       if neg rc then Some (int_to_ssize rc, rpc, e)
       else
         do {
           url \<leftarrow> current_url rpc ''/api/v0/file/ls'';
           case http_client_new X e of
             (None, e) \<Rightarrow> Some (uint_to_ssize (HIVE_GENERAL_ERROR HIVEERR_OUT_OF_MEMORY), rpc, e)
           | (Some c, e) \<Rightarrow>
               (let c = snd (http_client_set_url X url c);
                    c = snd (http_client_set_query X ''arg'' cid c);
                    c = snd (http_client_set_method X HTTP_METHOD_POST c);
                    c = snd (http_client_enable_response_body X c);
                    (r, rpc, c, e) = ipfs_exchange X rpc c e in
                case r of
                  Inl rc \<Rightarrow> Some (int_to_ssize rc, rpc, e)
                | Inr resp_code \<Rightarrow>
                    if resp_code \<noteq> HttpStatus_OK
                    then Some (int_to_ssize (ssize_to_int (HIVE_HTTP_STATUS_ERROR resp_code)), rpc, e)
                    else
                      do { (body, n, c) \<leftarrow> http_client_move_response_body False c;
                           case body of
                             None \<Rightarrow> Some (uint_to_ssize (HIVE_GENERAL_ERROR HIVEERR_OUT_OF_MEMORY), rpc, e)
                           | Some b \<Rightarrow> Some (cid_length X b cid, rpc, e) }) } }"

definition get_response_body_cb :: user_cb where
  \<comment> \<open>\<open>us_limit\<close> is \<open>bufsz\<close>; a chunk that does not fit is refused\<close>
  "get_response_body_cb buffer u =
     (if us_pos u + length buffer > us_limit u then (0, u)
      else
        (case mem_store (us_mem u) (us_pos u) buffer of
           None \<Rightarrow> (word_of_nat (length buffer), u\<lparr>us_ub := True\<rparr>)
         | Some m \<Rightarrow> (word_of_nat (length buffer), u\<lparr>us_mem := m, us_pos := us_pos u + length buffer\<rparr>)))"

definition ipfs_cat ::
    "('j, 'w) ext \<Rightarrow> string \<Rightarrow> bytes \<Rightarrow> size_t \<Rightarrow> ssize_t \<Rightarrow> ipfs_rpc \<Rightarrow> 'w env
      \<Rightarrow> ((ssize_t \<times> bytes) \<times> ipfs_rpc \<times> 'w env) option" where
  \<comment> \<open>the part of \<open>get_file_to_buffer\<close> after the length of the file is known and a node is current\<close>
  "ipfs_cat X cid to buflen fsize rpc e =
     do {
       url \<leftarrow> current_url rpc ''/api/v0/cat'';
       case http_client_new X e of
         (None, e) \<Rightarrow> Some ((uint_to_ssize (HIVE_GENERAL_ERROR HIVEERR_OUT_OF_MEMORY), to), rpc, e)
       | (Some c, e) \<Rightarrow>
           (let c = snd (http_client_set_url X url c);
                c = snd (http_client_set_query X ''arg'' cid c);
                c = snd (http_client_set_method X HTTP_METHOD_POST c);
                c = snd (http_client_set_request_body_instant X None 0 c);
                c = snd (http_client_set_response_body X get_response_body_cb
                      \<lparr>us_mem = to, us_pos = 0, us_limit = unat buflen, us_ub = False\<rparr> c);
                (rc, c, e) = http_client_request X c e in
            case hc_user c of
              None \<Rightarrow> None
            | Some (cb, u) \<Rightarrow>
                if us_ub u then None
                else if rc \<noteq> 0 then
                  (if RC_NODE_UNREACHABLE rc
                   then Some ((int_to_ssize (HIVE_GENERAL_ERROR HIVEERR_TRY_AGAIN), us_mem u),
                          ipfs_rpc_mark_node_unreachable rpc, e)
                   else Some ((int_to_ssize (HIVE_CURL_ERROR rc), us_mem u), rpc, e))
                else
                  (let (rc, resp_code) = http_client_get_response_code X 0 e in
                   Some ((if rc \<noteq> 0 then uint_to_ssize (HIVE_CURL_ERROR rc)
                          else if resp_code \<noteq> HttpStatus_OK then HIVE_HTTP_STATUS_ERROR resp_code
                          else if unat fsize \<noteq> us_pos u
                          then uint_to_ssize (HIVE_GENERAL_ERROR HIVEERR_BAD_PERSISTENT_DATA)
                          else fsize, us_mem u), rpc, e))) }"

definition ipfs_get_file_to_buffer ::
    "('j, 'w) ext \<Rightarrow> string \<Rightarrow> bool \<Rightarrow> bytes \<Rightarrow> size_t \<Rightarrow> (ssize_t \<times> bytes, ipfs_rpc, 'w) call" where
  "ipfs_get_file_to_buffer X cid decrypt to buflen rpc e =
     do {
       (fsize, rpc, e) \<leftarrow> ipfs_get_file_length X cid rpc e;
       if sint fsize \<le> 0 then Some ((fsize, to), rpc, e)
       else if sint buflen > 0 \<and> sint fsize > sint buflen
       then Some ((uint_to_ssize (HIVE_GENERAL_ERROR HIVEERR_BUFFER_TOO_SMALL), to), rpc, e)
       else
         do {
           (rc, rpc, e) \<leftarrow> ipfs_rpc_check_reachable X rpc e;
           if neg rc then Some ((int_to_ssize rc, to), rpc, e)
           else ipfs_cat X cid to buflen fsize rpc e } }"

definition ipfs_disconnect :: "(c_int, ipfs_rpc, 'w) call" where
  "ipfs_disconnect rpc e = Some (0, rpc, e)"

subsection \<open>Connecting\<close>

record ipfs_node =
  in_ipv4 :: "string option"
  in_ipv6 :: "string option"
  in_port :: "string option"

record ipfs_options = hive_connect_options +
  rpc_node_list :: "ipfs_node list"

definition is_valid_ip :: "('w, 'a) os_scheme \<Rightarrow> string \<Rightarrow> bool" where
  "is_valid_ip X ip = os_inet_pton X ip"

definition is_valid_ipv6 :: "('w, 'a) os_scheme \<Rightarrow> string \<Rightarrow> bool" where
  "is_valid_ipv6 X ip = os_inet_pton6 X ip"

definition dec_value :: "string \<Rightarrow> int" where
  "dec_value ds = foldl (\<lambda>v c. 10 * v + int (ccode c) - 48) 0 ds"

definition strtol :: "string \<Rightarrow> int \<times> string" where
  \<comment> \<open>\<open>strtol(s, &end, 10)\<close> of the C library with the text at \<open>end\<close>; a value out of range is only
     compared with the bounds of a port, so it is not clamped here\<close>
  "strtol s =
     (let t = dropWhile is_space s;
          minus = (t \<noteq> [] \<and> hd t = CHR ''-'');
          u = (if t \<noteq> [] \<and> (hd t = CHR ''-'' \<or> hd t = CHR ''+'') then tl t else t);
          ds = takeWhile is_digit u
      in if ds = [] then (0, s) else (if minus then - dec_value ds else dec_value ds, dropWhile is_digit u))"

definition check_address :: "(string \<Rightarrow> bool) \<Rightarrow> nat \<Rightarrow> string option \<Rightarrow> string option" where
  \<comment> \<open>the checks of one address: too long or malformed is \<open>None\<close>, an absent one the empty string\<close>
  "check_address valid max_len ip =
     (case ip of None \<Rightarrow> Some []
      | Some s \<Rightarrow> if s = [] then Some [] else if length s \<ge> max_len + 1 then None
                  else if \<not> valid s then None else Some s)"

definition check_node :: "('w, 'a) os_scheme \<Rightarrow> ipfs_node \<Rightarrow> rpc_node option" where
  \<comment> \<open>the body of the loop over the configured nodes\<close>
  "check_node X node =
     (if \<not> is_str (in_ipv4 node) \<and> \<not> is_str (in_ipv6 node) then None
      else
        do {
          ip4 \<leftarrow> check_address (is_valid_ip X) HIVE_MAX_IPV4_ADDRESS_LEN (in_ipv4 node);
          ip6 \<leftarrow> check_address (is_valid_ipv6 X) HIVE_MAX_IPV6_ADDRESS_LEN (in_ipv6 node);
          if \<not> is_str (in_port node) then None
          else
            (let (port, endptr) = strtol (the (in_port node)) in
             if endptr \<noteq> [] then None
             else if port < 1 \<or> port > 65535 then None
             else Some \<lparr>node_ipv4 = ip4, node_ipv6 = ip6, node_port = word_of_int port\<rparr>) })"

fun check_nodes :: "('w, 'a) os_scheme \<Rightarrow> ipfs_node list \<Rightarrow> rpc_node list option" where
  "check_nodes X [] = Some []"
| "check_nodes X (n # ns) = do { r \<leftarrow> check_node X n; rs \<leftarrow> check_nodes X ns; Some (r # rs) }"

definition ipfs_methods :: "('j, 'w) ext \<Rightarrow> ipfs_rpc \<Rightarrow> (ipfs_rpc, 'w) hive_connect" where
  "ipfs_methods X rpc = (no_methods rpc)\<lparr>
     ipfs_put_file_from_buffer_m := Some (ipfs_put_file_from_buffer X),
     ipfs_get_file_length_m := Some (ipfs_get_file_length X),
     ipfs_get_file_to_buffer_m := Some (ipfs_get_file_to_buffer X), disconnect_m := Some ipfs_disconnect\<rparr>"

definition ipfs_client_connect ::
    "('j, 'w) ext \<Rightarrow> hive_client \<Rightarrow> ipfs_options \<Rightarrow> 'w env \<Rightarrow> ((ipfs_rpc, 'w) hive_connect option \<times> 'w env) option" where
  "ipfs_client_connect X client options e =
     (if rpc_node_list options = [] then Some (None, e)
      else
        (case check_nodes X (rpc_node_list options) of
           None \<Rightarrow> Some (None, e)
         | Some nodes \<Rightarrow>
             (let (ok, e) = alloc X 120 e in
              if \<not> ok then Some (None, e)
              else
                do { (rpc, e) \<leftarrow> ipfs_rpc_new X nodes e;
                     Some (map_option (ipfs_methods X) rpc, e) })))"

end
