(* ===== verification/Ipfs_Node.thy ===== *)
theory Ipfs_Node
  imports Ipfs Http_Service
begin

text \<open>
  What the operations of the IPFS backend do against a node that answers: the requests they make, the
  service they need, and one lemma per operation that gives its result from the blocks the node holds.
\<close>

subsection \<open>The requests\<close>

definition arg_part :: "string \<Rightarrow> url_call" where
  "arg_part cid = \<lparr>uc_part = CURLUPART_QUERY, uc_text = Some (''arg='' @ cid), uc_encode = True, uc_append = True\<rparr>"

definition ls_request :: "string \<Rightarrow> port \<Rightarrow> string \<Rightarrow> request" where
  "ls_request ip port cid =
     \<lparr>rq_opts = default_opts @ CURLOPT_POST # body_opts,
      rq_url = [url_part (node_url ip port ''/api/v0/file/ls''), arg_part cid], rq_mime = []\<rparr>"

definition cat_request :: "string \<Rightarrow> port \<Rightarrow> string \<Rightarrow> request" where
  "cat_request ip port cid =
     \<lparr>rq_opts = default_opts @ [CURLOPT_POST, CURLOPT_POSTFIELDS None, CURLOPT_POSTFIELDSIZE 0,
        CURLOPT_WRITEFUNCTION USER_WRITE, CURLOPT_WRITEDATA USER_WRITE],
      rq_url = [url_part (node_url ip port ''/api/v0/cat''), arg_part cid], rq_mime = []\<rparr>"

definition add_request :: "string \<Rightarrow> port \<Rightarrow> bytes \<Rightarrow> request" where
  "add_request ip port data =
     \<lparr>rq_opts = default_opts @ CURLOPT_POST # body_opts @ [CURLOPT_MIMEPOST],
      rq_url = [url_part (node_url ip port ''/api/v0/add'')],
      rq_mime = [\<lparr>mp_name = ''file'', mp_filename = None, mp_type = None, mp_data = data\<rparr>]\<rparr>"

subsection \<open>The node\<close>

definition valid_cid :: "string \<Rightarrow> bool" where
  "valid_cid cid \<longleftrightarrow> cid \<noteq> [] \<and> is_cstr cid \<and> length cid \<le> 64"

definition sized :: "('j, 'w) ext \<Rightarrow> 'j \<Rightarrow> string \<Rightarrow> nat \<Rightarrow> bool" where
  \<comment> \<open>the answer to \<open>file/ls\<close> gives the content identifier this size\<close>
  "sized X j cid n \<longleftrightarrow>
     (\<exists>os c s. cj_get_cs X j ''Objects'' = Some os \<and> cj_is_object X os \<and> cj_get_cs X os cid = Some c \<and>
        cj_is_object X c \<and> cj_get_cs X c ''Size'' = Some s \<and> cj_is_number X s \<and> cj_valuelong X s = word_of_nat n)"

definition named :: "('j, 'w) ext \<Rightarrow> 'j \<Rightarrow> string \<Rightarrow> bool" where
  \<comment> \<open>the answer to \<open>add\<close> names this content identifier\<close>
  "named X j cid \<longleftrightarrow>
     (\<exists>h. cj_get_cs X j ''Hash'' = Some h \<and> cj_is_string X h \<and> cj_valuestring X h = Some cid)"

definition parses :: "('j, 'w) ext \<Rightarrow> bytes \<Rightarrow> ('j \<Rightarrow> bool) \<Rightarrow> bool" where
  \<comment> \<open>the text is a JSON value, whatever follows it in memory\<close>
  "parses X bs P \<longleftrightarrow> bs \<noteq> [] \<and> (\<exists>j. (\<forall>rest. cj_parse X (bs @ rest) = Some j) \<and> P j)"

definition ipfs_service ::
    "('j, 'w) ext \<Rightarrow> 'w service \<Rightarrow> string \<Rightarrow> port \<Rightarrow> ('w \<Rightarrow> string \<Rightarrow> bytes option) \<Rightarrow> (bytes \<Rightarrow> string) \<Rightarrow> bool" where
  \<comment> \<open>the documented behaviour of the node for the requests above: \<open>blocks\<close> is what it holds, \<open>cid_of\<close>
     the identifier of a content\<close>
  "ipfs_service X serve ip port blocks cid_of \<longleftrightarrow> http_service X serve \<and>
     (\<forall>cid w bs. valid_cid cid \<longrightarrow> blocks w cid = Some bs \<longrightarrow> length bs < 2 ^ 31 \<longrightarrow>
        (\<exists>cs w'. answers serve (ls_request ip port cid) w HttpStatus_OK cs w' \<and> blocks w' = blocks w \<and>
           parses X (concat cs) (\<lambda>j. sized X j cid (length bs)))) \<and>
     (\<forall>cid w bs. valid_cid cid \<longrightarrow> blocks w cid = Some bs \<longrightarrow>
        (\<exists>cs w'. serve (cat_request ip port cid) w = (HttpStatus_OK, cs, w') \<and> blocks w' = blocks w \<and> concat cs = bs)) \<and>
     (\<forall>data w. length data < 2 ^ 31 \<longrightarrow> valid_cid (cid_of data) \<and>
        (\<exists>cs w'. answers serve (add_request ip port data) w HttpStatus_OK cs w' \<and>
           blocks w' = (blocks w)(cid_of data \<mapsto> data) \<and> parses X (concat cs) (\<lambda>j. named X j (cid_of data))))"

definition node_ready ::
    "('j, 'w) ext \<Rightarrow> 'w service \<Rightarrow> ('w \<Rightarrow> string \<Rightarrow> bytes option) \<Rightarrow> (bytes \<Rightarrow> string) \<Rightarrow> ipfs_rpc \<Rightarrow> bool" where
  \<comment> \<open>the current node is such a service and the system works\<close>
  "node_ready X serve blocks cid_of rpc \<longleftrightarrow>
     os_still X \<and> curl_works X \<and> current_node_ip rpc \<noteq> [] \<and> length (current_node_ip rpc) \<le> 47 \<and>
     ipfs_service X serve (current_node_ip rpc) (current_node_port rpc) blocks cid_of"

lemma node_readyD:
  assumes "node_ready X serve blocks cid_of rpc"
  shows "os_still X" "curl_works X" "current_node_ip rpc \<noteq> []" "http_service X serve" "length (current_node_ip rpc) \<le> 47"
    "ipfs_service X serve (current_node_ip rpc) (current_node_port rpc) blocks cid_of"
  using assms by (auto simp: node_ready_def ipfs_service_def)

lemma reachable_at_once: "current_node_ip rpc \<noteq> [] \<Longrightarrow> ipfs_rpc_check_reachable X rpc e = Some (0, rpc, e)"
  by (simp add: ipfs_rpc_check_reachable_def)

lemma nat_digits_length: "n < 10 ^ Suc k \<Longrightarrow> length (nat_digits n) \<le> Suc k"
proof (induction k arbitrary: n)
  case 0
  then show ?case by (subst nat_digits.simps) simp
next
  case (Suc k)
  then have "n div 10 < 10 ^ Suc k" by simp
  from Suc.IH [OF this] show ?case by (subst nat_digits.simps) simp
qed

lemma current_url_fits:
  assumes "length (current_node_ip rpc) \<le> 47" "length path \<le> 100"
  shows "current_url rpc path = Some (node_url (current_node_ip rpc) (current_node_port rpc) path)"
proof -
  have "unat (current_node_port rpc) < 2 ^ 16" by (rule order_less_le_trans [OF unsigned_less]) simp
  then have "length (nat_digits (unat (current_node_port rpc))) \<le> Suc 4" by (intro nat_digits_length) simp
  then show ?thesis
    using assms
    by (auto simp: current_url_def ipfs_rpc_get_current_node_ip_def ipfs_rpc_get_current_node_port_def node_url_def
        intro!: sprintf_fits)
qed

subsection \<open>The operations\<close>

definition body_client :: "string \<Rightarrow> url_call list \<Rightarrow> mime_part list option \<Rightarrow> http_client" where
  "body_client url query mime = new_client\<lparr>hc_opts := default_opts @ CURLOPT_POST # body_opts,
     hc_url := url_part url # query, hc_mime := mime\<rparr>"

lemma body_client:
  "ready_request X (body_client (node_url ip port ''/api/v0/file/ls'') [arg_part cid] None) = ls_request ip port cid"
  "ready_request X (body_client (node_url ip port ''/api/v0/add'') []
     (Some [\<lparr>mp_name = ''file'', mp_filename = None, mp_type = None, mp_data = data\<rparr>])) = add_request ip port data"
  "write_target (hc_opts (body_client url query mime)) = HTTP_RESPONSE_BODY_WRITE"
  "hc_body (body_client url query mime) = hc_body new_client"
  by (simp_all add: ready_request_def request_of_def prepare_request_def body_client_def ls_request_def add_request_def
      easy_setopt_def new_client_def body_opts_def)

lemma exchange_body:
  assumes "os_still X" "http_service X serve"
    and "answers serve (ready_request X (body_client url query mime)) (env_world e) status cs w'"
  shows "\<exists>c'. ipfs_exchange X rpc (body_client url query mime) e = (Inr status, rpc, c', e\<lparr>env_world := w'\<rparr>) \<and>
    holds_body (hc_body c') (concat cs)"
proof -
  obtain r where "http_client_request X (body_client url query mime) e =
      (CURLE_OK, (prepare_request X (body_client url query mime))\<lparr>hc_body := r\<rparr>, e\<lparr>env_world := w'\<rparr>)"
    "curl_response_code X w' = (CURLE_OK, status)" "holds_body r (concat cs)"
    using request_taken [OF assms(1,2) body_client(3,4) assms(3)] by blast
  then show ?thesis
    by (intro exI [of _ "(prepare_request X (body_client url query mime))\<lparr>hc_body := r\<rparr>"])
      (simp add: ipfs_exchange_def http_client_get_response_code_def)
qed

lemma parsed_body:
  assumes "holds_body r bs" "parses X bs P"
  shows "\<exists>j. rb_used r \<noteq> 0 \<and> cj_parse X (rb_data r) = Some j \<and> P j"
proof -
  from assms(2) obtain j where "bs \<noteq> []" and j: "\<And>rest. cj_parse X (bs @ rest) = Some j" "P j" by (auto simp: parses_def)
  from holds_body_parses [where X = X, OF assms(1) this(1) j(1)] j(2) show ?thesis by blast
qed

lemma node_client: "node_ready X serve blocks cid_of rpc \<Longrightarrow>
   http_client_new X e = (Some new_client, moved e (env_world e))"
  by (simp add: client_new_works node_readyD moved_def)

lemma answered_length:
  \<comment> \<open>whatever the node answers, the result is what \<open>cid_length\<close> reads from it\<close>
  assumes S: "os_still X" "curl_works X" "http_service X serve"
    and ip: "current_node_ip rpc \<noteq> []" "length (current_node_ip rpc) \<le> 47"
    and a: "answers serve (ls_request (current_node_ip rpc) (current_node_port rpc) cid) (env_world e) HttpStatus_OK cs w'"
    and p: "parses X (concat cs) P"
  shows "\<exists>b j. ipfs_get_file_length X cid rpc e = Some (cid_length X b cid, rpc, moved e w') \<and>
    cj_parse X b = Some j \<and> P j"
proof -
  let ?url = "node_url (current_node_ip rpc) (current_node_port rpc) ''/api/v0/file/ls''"
  have "answers serve (ready_request X (body_client ?url [arg_part cid] None)) (env_world (moved e (env_world e))) HttpStatus_OK cs w'"
    using a by (simp add: body_client(1))
  from exchange_body [OF S(1,3) this, of rpc] obtain c' where
    x: "ipfs_exchange X rpc (body_client ?url [arg_part cid] None) (moved e (env_world e)) =
      (Inr HttpStatus_OK, rpc, c', moved e w')" "holds_body (hc_body c') (concat cs)"
    by auto
  from parsed_body [OF x(2) p] obtain j
    where "rb_used (hc_body c') \<noteq> 0" "cj_parse X (rb_data (hc_body c')) = Some j" "P j" by blast
  then show ?thesis
    using x(1) client_new_works [OF S(1,2), of e] S(2)
    by (intro exI [of _ "rb_data (hc_body c')"] exI [of _ j])
      (simp add: ipfs_get_file_length_def reachable_at_once [OF ip(1)] current_url_fits [OF ip(2)] http_setter_defs
        body_client_def new_client_def url_part_def arg_part_def body_opts_def Let_def http_client_move_response_body_def
        moved_def)
qed

lemma sized_length: "sized X j cid n \<Longrightarrow> cj_parse X b = Some j \<Longrightarrow> n < 2 ^ 63 \<Longrightarrow> cid_length X b cid = word_of_nat n"
  by (auto simp: cid_length_def sized_def IS_NUMBER_def Let_def)

lemma node_length:
  assumes R: "node_ready X serve blocks cid_of rpc" and cid: "valid_cid cid"
    and bs: "blocks (env_world e) cid = Some bs" "length bs < 2 ^ 31"
  shows "\<exists>w'. ipfs_get_file_length X cid rpc e = Some (word_of_nat (length bs), rpc, moved e w') \<and>
    blocks w' = blocks (env_world e)"
proof -
  note D = node_readyD [OF R]
  from D(6) cid bs obtain cs w' where
    a: "answers serve (ls_request (current_node_ip rpc) (current_node_port rpc) cid) (env_world e) HttpStatus_OK cs w'"
    "blocks w' = blocks (env_world e)" "parses X (concat cs) (\<lambda>j. sized X j cid (length bs))"
    unfolding ipfs_service_def by meson
  from answered_length [OF D(1,2,4,3,5) a(1,3)] a(2) bs(2) sized_length show ?thesis by fastforce
qed

lemma deliver_bounded:
  "us_pos u + length (concat cs) \<le> us_limit u \<Longrightarrow> us_limit u \<le> length (us_mem u) \<Longrightarrow> length (us_mem u) < 2 ^ 64 \<Longrightarrow>
   deliver (user_writer get_response_body_cb) cs (UserSink u) w =
     Some (UserSink (u\<lparr>us_mem := take (us_pos u) (us_mem u) @ concat cs @ drop (us_pos u + length (concat cs)) (us_mem u),
       us_pos := us_pos u + length (concat cs)\<rparr>))"
proof (induction cs arbitrary: u)
  case (Cons c cs)
  let ?u = "u\<lparr>us_mem := take (us_pos u) (us_mem u) @ c @ drop (us_pos u + length c) (us_mem u),
      us_pos := us_pos u + length c\<rparr>"
  from Cons.prems have "mem_store (us_mem u) (us_pos u) c =
      Some (take (us_pos u) (us_mem u) @ c @ drop (us_pos u + length c) (us_mem u))"
    by (simp add: mem_store_def)
  moreover have "unat (word_of_nat (length c) :: size_t) = length c"
    by (rule unat_len) (use Cons.prems in simp)
  ultimately have "deliver (user_writer get_response_body_cb) (c # cs) (UserSink u) w =
      deliver (user_writer get_response_body_cb) cs (UserSink ?u) w"
    using Cons.prems(1) by (simp add: user_writer_def get_response_body_cb_def)
  also have "\<dots> = Some (UserSink (u\<lparr>us_mem := take (us_pos u) (us_mem u) @ concat (c # cs) @
      drop (us_pos u + length (concat (c # cs))) (us_mem u), us_pos := us_pos u + length (concat (c # cs))\<rparr>))"
    using Cons.IH [of ?u] Cons.prems by (simp add: ac_simps)
  finally show ?case .
qed simp

lemma node_cat:
  assumes R: "node_ready X serve blocks cid_of rpc" and cid: "valid_cid cid"
    and bs: "blocks (env_world e) cid = Some bs" "length bs \<le> n" "n \<le> length to" "length to < 2 ^ 63"
  shows "\<exists>w'. ipfs_cat X cid to (word_of_nat n) (word_of_nat (length bs)) rpc e =
      Some ((word_of_nat (length bs), bs @ drop (length bs) to), rpc, moved e w') \<and> blocks w' = blocks (env_world e)"
proof -
  note D = node_readyD [OF R]
  let ?rq = "cat_request (current_node_ip rpc) (current_node_port rpc) cid"
  from D(6) cid bs(1) obtain cs w' where a: "serve ?rq (env_world e) = (HttpStatus_OK, cs, w')"
    "blocks w' = blocks (env_world e)" "concat cs = bs"
    unfolding ipfs_service_def by meson
  let ?u = "\<lparr>us_mem = to, us_pos = 0, us_limit = n, us_ub = False\<rparr>"
  let ?u' = "\<lparr>us_mem = bs @ drop (length bs) to, us_pos = length bs, us_limit = n, us_ub = False\<rparr>"
  have "deliver (user_writer get_response_body_cb) cs (UserSink ?u) w' = Some (UserSink ?u')"
    using deliver_bounded [of ?u cs w'] bs a(3) by simp
  moreover have "still_writer (user_writer get_response_body_cb)"
    by (auto simp: still_writer_def user_writer_def split: sink.splits prod.splits)
  ultimately have "curl_perform X ?rq (user_writer get_response_body_cb) (UserSink ?u) (env_world e) =
      (CURLE_OK, UserSink ?u', w') \<and> curl_response_code X w' = (CURLE_OK, HttpStatus_OK)"
    using http_serviceD [OF D(4) _ a(1)] by blast
  moreover have "unat (word_of_nat n :: size_t) = n" "unat (word_of_nat (length bs) :: size_t) = length bs"
    using bs by (simp_all add: unat_of_nat)
  ultimately show ?thesis
    using node_client [OF R, of e] D(2) a(2)
    by (intro exI [of _ w'])
      (simp add: ipfs_cat_def current_url_fits [OF D(5)] http_setter_defs http_client_request_def prepare_request_def
        request_of_def cat_request_def url_part_def arg_part_def new_client_def Let_def http_client_get_response_code_def
        moved_def)
qed

lemma node_get:
  assumes R: "node_ready X serve blocks cid_of rpc" and cid: "valid_cid cid"
    and bs: "blocks (env_world e) cid = Some bs" "bs \<noteq> []" "length bs \<le> n" "n \<le> length to" "length to < 2 ^ 31"
  shows "\<exists>w'. ipfs_get_file_to_buffer X cid dec to (word_of_nat n) rpc e =
      Some ((word_of_nat (length bs), bs @ drop (length bs) to), rpc, moved e w') \<and> blocks w' = blocks (env_world e)"
proof -
  obtain w1 where 1: "ipfs_get_file_length X cid rpc e = Some (word_of_nat (length bs), rpc, moved e w1)"
    "blocks w1 = blocks (env_world e)"
    using node_length [OF R cid bs(1)] bs(3-5) by auto
  obtain w2 where 2: "ipfs_cat X cid to (word_of_nat n) (word_of_nat (length bs)) rpc (moved e w1) =
      Some ((word_of_nat (length bs), bs @ drop (length bs) to), rpc, moved e w2)" "blocks w2 = blocks w1"
    using node_cat [OF R cid, of "moved e w1" bs n to] 1(2) bs by auto
  have "sint (word_of_nat (length bs) :: ssize_t) = int (length bs)" "sint (word_of_nat n :: size_t) = int n"
    using bs(3-5) by (simp_all add: sint_small)
  then show ?thesis
    using 1 2 bs(2,3)
    by (intro exI [of _ w2]) (simp add: ipfs_get_file_to_buffer_def reachable_at_once [OF node_readyD(3) [OF R]])
qed

lemma node_put:
  assumes R: "node_ready X serve blocks cid_of rpc" and data: "length data < 2 ^ 31" and cid: "length cid = 65"
  shows "\<exists>b w'. ipfs_put_file_from_buffer X (Some data) (word_of_nat (length data)) enc cid rpc e =
      Some ((0, b), rpc, moved e w') \<and> cstr b = cid_of data \<and> length b = 65 \<and>
      blocks w' = (blocks (env_world e))(cid_of data \<mapsto> data)"
proof -
  note D = node_readyD [OF R]
  let ?url = "node_url (current_node_ip rpc) (current_node_port rpc) ''/api/v0/add''"
  let ?c = "body_client ?url [] (Some [\<lparr>mp_name = ''file'', mp_filename = None, mp_type = None, mp_data = data\<rparr>])"
  from D(6) data obtain cs w' where v: "valid_cid (cid_of data)"
    and a: "answers serve (ready_request X ?c) (env_world (moved e (env_world e))) HttpStatus_OK cs w'"
    "blocks w' = (blocks (env_world e))(cid_of data \<mapsto> data)" "parses X (concat cs) (\<lambda>j. named X j (cid_of data))"
    unfolding ipfs_service_def body_client(2) moved_simps by meson
  from exchange_body [OF D(1,4) a(1), of rpc] obtain c' where
    x: "ipfs_exchange X rpc ?c (moved e (env_world e)) = (Inr HttpStatus_OK, rpc, c', moved e w')"
    "holds_body (hc_body c') (concat cs)"
    by auto
  from parsed_body [OF x(2) a(3)] obtain j
    where j: "rb_used (hc_body c') \<noteq> 0" "cj_parse X (rb_data (hc_body c')) = Some j" "named X j (cid_of data)" by blast
  have "length (cid_of data) < 65" using v by (simp add: valid_cid_def)
  then obtain b where b: "strcpy_at cid 0 (cid_of data) = Some b" using cid strcpy_at_eq_None by fastforce
  have "cstr b = cid_of data" "length b = 65"
    using strcpy_at_cstr [OF b] strcpy_at_length [OF b] v cid by (simp_all add: valid_cid_def)
  moreover have "store_cid X (rb_data (hc_body c')) cid = Some (0, b)"
    using j(2,3) v b by (auto simp: store_cid_def named_def IS_STRING_def valid_cid_def Let_def)
  moreover have "unat (word_of_nat (length data) :: size_t) = length data" using data by (simp add: unat_len)
  ultimately show ?thesis
    using x(1) j(1) node_client [OF R, of e] D(2) a(2)
    by (intro exI [of _ b] exI [of _ w'])
      (simp add: ipfs_put_file_from_buffer_def reachable_at_once [OF D(3)] current_url_fits [OF D(5)] http_setter_defs
        body_client_def new_client_def url_part_def body_opts_def Let_def http_client_move_response_body_def moved_def)
qed

definition version_request :: "string \<Rightarrow> port \<Rightarrow> request" where
  "version_request ip port =
     \<lparr>rq_opts = default_opts @ [CURLOPT_POST, CURLOPT_POSTFIELDS None, CURLOPT_POSTFIELDSIZE 0, CURLOPT_TIMEOUT 5],
      rq_url = [url_part (node_url ip port ''/version'')], rq_mime = []\<rparr>"

lemma test_reachable_request:
  \<comment> \<open>the test of an address is this one request\<close>
  assumes "os_still X" "curl_works X" "length ip \<le> 47"
    and p: "curl_perform X (version_request ip port) eat_output NoSink (env_world e) = (code, s, w')"
  shows "test_reachable X ip port e =
    (let (rc, status) = http_client_get_response_code X 0 (moved e w') in
     (if code \<noteq> 0 then HIVE_CURL_ERROR code else if rc \<noteq> 0 then HIVE_CURL_ERROR rc
      else if status \<noteq> HttpStatus_OK then ssize_to_int (HIVE_HTTP_STATUS_ERROR status) else 0, moved e w'))"
proof -
  have "unat port < 2 ^ 16" by (rule order_less_le_trans [OF unsigned_less]) simp
  then have "length (nat_digits (unat port)) \<le> Suc 4" by (intro nat_digits_length) simp
  then have len: "length (node_url ip port ''/version'') < 100" using assms(3) by (simp add: node_url_def)
  then have "sint (word_of_nat (length (node_url ip port ''/version'')) :: c_int) = int (length (node_url ip port ''/version''))"
    by (simp only: signed_of_nat) (simp add: signed_take_bit_int_eq_self)
  then have sp: "snprintf 4097 (node_url ip port ''/version'') =
      (word_of_nat (length (node_url ip port ''/version'')), node_url ip port ''/version'')"
    "\<not> neg (word_of_nat (length (node_url ip port ''/version'')) :: c_int)"
    "\<not> 4097 \<le> sint (word_of_nat (length (node_url ip port ''/version'')) :: c_int)"
    using len by (simp_all add: snprintf_def neg_def)
  let ?c = "new_client\<lparr>hc_opts := rq_opts (version_request ip port), hc_url := rq_url (version_request ip port)\<rparr>"
  have "write_target (hc_opts ?c) = EAT_OUTPUT" by (simp add: version_request_def)
  moreover have "prepare_request X ?c = ?c" by (simp add: prepare_request_def new_client_def)
  moreover have "request_of ?c = version_request ip port"
    by (simp add: request_of_def version_request_def new_client_def)
  ultimately have r: "http_client_request X ?c (moved e (env_world e)) = (code, ?c, moved e w')"
    using p by (simp add: http_client_request_def)
  have "http_client_new X e = (Some new_client, moved e (env_world e))"
    using assms(1,2) by (simp add: client_new_works moved_def)
  then show ?thesis
    using r sp assms(2)
    by (auto simp: test_reachable_def http_setter_defs http_client_set_timeout_def version_request_def url_part_def
        new_client_def Let_def split: prod.splits)
qed

lemma answered_reachable:
  assumes "os_still X" "curl_works X" "http_service X serve" "length ip \<le> 47"
    and a: "answers serve (version_request ip port) (env_world e) HttpStatus_OK cs w'"
  shows "test_reachable X ip port e = (0, moved e w')"
proof -
  have "length (concat cs) < 2 ^ 64" using a by (simp add: answers_def)
  then have d: "deliver eat_output cs NoSink w' = Some NoSink" by (rule eat_output_delivers)
  have "still_writer eat_output" by (simp add: still_writer_def eat_output_def)
  from http_serviceD [OF assms(3) this _ d, of "version_request ip port" "env_world e" HttpStatus_OK] a
  have "curl_perform X (version_request ip port) eat_output NoSink (env_world e) = (CURLE_OK, NoSink, w')"
    "curl_response_code X w' = (CURLE_OK, HttpStatus_OK)"
    by (simp_all add: answers_def)
  then show ?thesis
    using test_reachable_request [OF assms(1,2,4)] by (simp add: http_client_get_response_code_def)
qed

end
