(* ===== verification/Ipfs_Props.thy ===== *)
theory Ipfs_Props
  imports Ipfs_Node Hive_File Oauth_Login
begin

text \<open>
  The properties of the IPFS backend: the node chosen is the first that answers in round-robin order,
  the pool stays well formed, a file put is read back, a read stays in the caller's buffer, a node that
  cannot be reached is dropped, and an answer without the file is reported as a length.
\<close>

subsection \<open>Choosing a node\<close>

fun first_reachable ::
    "('w, 'a) curl_os_scheme \<Rightarrow> rpc_node list \<Rightarrow> 'w env \<Rightarrow> (string \<times> port) option \<times> 'w env" where
  "first_reachable X [] e = (None, e)"
| "first_reachable X (n # ns) e =
     (case try_node X n e of (Some sel, e) \<Rightarrow> (Some sel, e) | (None, e) \<Rightarrow> first_reachable X ns e)"

lemma mod_not_back:
  fixes i j k n :: nat
  assumes "0 < j" "j < k" "k \<le> n"
  shows "(i + j) mod n \<noteq> (i + k) mod n"
proof
  assume "(i + j) mod n = (i + k) mod n"
  then have "n dvd (i + k) - (i + j)" by (metis assms(2) mod_eq_dvd_iff_nat nat_add_left_cancel_le less_imp_le)
  then have "n dvd k - j" by simp
  with assms show False by (auto dest: dvd_imp_le)
qed

lemma select_loop_first:
  assumes "0 < k" "k \<le> length nodes" "(i + k) mod length nodes = base" "i < length nodes"
  shows "select_loop X nodes base i e =
    Some (first_reachable X (map (\<lambda>j. nodes ! ((i + j) mod length nodes)) [0..<k]) e)"
  using assms
proof (induction k arbitrary: i e)
  case (Suc k)
  let ?n = "length nodes"
  have split: "map (\<lambda>j. nodes ! ((i + j) mod ?n)) [0..<Suc k] =
      nodes ! i # map (\<lambda>j. nodes ! ((Suc i mod ?n + j) mod ?n)) [0..<k]"
    using Suc.prems(4) by (simp add: upt_conv_Cons map_Suc_upt [symmetric] mod_simps del: upt_Suc)
  obtain sel e1 where t: "try_node X (nodes ! i) e = (sel, e1)" by fastforce
  show ?case
  proof (cases "k = 0")
    case True
    then show ?thesis using t Suc.prems by (subst select_loop.simps) (auto simp: split split: option.splits)
  next
    case False
    have n: "0 < ?n" using Suc.prems(4) by linarith
    have "(i + 1) mod ?n \<noteq> base"
      using mod_not_back [of 1 "Suc k" ?n i] False Suc.prems by simp
    moreover have "select_loop X nodes base (Suc i mod ?n) e1 =
        Some (first_reachable X (map (\<lambda>j. nodes ! ((Suc i mod ?n + j) mod ?n)) [0..<k]) e1)"
      by (rule Suc.IH) (use False Suc.prems n in \<open>simp_all add: mod_simps\<close>)
    ultimately show ?thesis using t
      by (subst select_loop.simps) (auto simp: split simp del: upt_Suc split: option.splits)
  qed
qed simp

lemma select_round_robin:
  assumes "nodes \<noteq> []" "os_rand X (env_world e) = (r, w)"
  shows "select_bootstrap X nodes e =
    (case first_reachable X (rotate (r mod length nodes) nodes) (e\<lparr>env_world := w\<rparr>) of
       (sel, e') \<Rightarrow> Some ((if sel = None then HIVE_GENERAL_ERROR HIVEERR_BAD_BOOTSTRAP_HOST else 0, sel), e'))"
proof -
  let ?n = "length nodes" and ?b = "r mod length nodes"
  have "map (\<lambda>j. nodes ! ((?b + j) mod ?n)) [0..<?n] = rotate ?b nodes"
    by (rule nth_equalityI) (simp_all add: nth_rotate)
  moreover have "?b < ?n" using assms(1) by simp
  ultimately show ?thesis
    using assms select_loop_first [of ?n nodes ?b ?b X "e\<lparr>env_world := w\<rparr>"]
    by (simp add: select_bootstrap_def split: prod.splits)
qed

definition node_wf :: "('w, 'a) os_scheme \<Rightarrow> rpc_node \<Rightarrow> bool" where
  "node_wf X n \<longleftrightarrow> length (node_ipv4 n) \<le> HIVE_MAX_IPV4_ADDRESS_LEN \<and> length (node_ipv6 n) \<le> HIVE_MAX_IPV6_ADDRESS_LEN \<and>
     (node_ipv4 n \<noteq> [] \<or> node_ipv6 n \<noteq> []) \<and> (node_ipv4 n \<noteq> [] \<longrightarrow> is_valid_ip X (node_ipv4 n)) \<and>
     (node_ipv6 n \<noteq> [] \<longrightarrow> is_valid_ipv6 X (node_ipv6 n)) \<and> node_port n \<noteq> 0"

definition ask_version :: "('w, 'a) curl_os_scheme \<Rightarrow> string \<times> port \<Rightarrow> 'w \<Rightarrow> bool \<times> 'w" where
  \<comment> \<open>a request for the version of the node at an address, and whether the answer was 200\<close>
  "ask_version X = (\<lambda>(ip, port) w.
     (case curl_perform X (version_request ip port) eat_output NoSink w of
        (code, s, w') \<Rightarrow> (code = CURLE_OK \<and> curl_response_code X w' = (CURLE_OK, HttpStatus_OK), w')))"

fun first_answering ::
    "('w, 'a) curl_os_scheme \<Rightarrow> (string \<times> port) list \<Rightarrow> 'w \<Rightarrow> (string \<times> port) option \<times> 'w" where
  \<comment> \<open>the first address that answers; those after it are not asked\<close>
  "first_answering X [] w = (None, w)"
| "first_answering X (a # as) w =
     (case ask_version X a w of (ok, w') \<Rightarrow> if ok then (Some a, w') else first_answering X as w')"

definition node_addresses :: "rpc_node \<Rightarrow> (string \<times> port) list" where
  \<comment> \<open>the addresses a node has, IPv4 before IPv6\<close>
  "node_addresses n = [(ip, node_port n). ip \<leftarrow> [node_ipv4 n, node_ipv6 n], ip \<noteq> []]"

lemma first_answering_append:
  "first_answering X (as @ bs) w =
     (case first_answering X as w of (Some a, w') \<Rightarrow> (Some a, w') | (None, w') \<Rightarrow> first_answering X bs w')"
  by (induction as arbitrary: w) (auto split: prod.splits)

lemma test_reachable_asks:
  assumes "os_still X" "curl_works X" "length ip \<le> 47"
  shows "\<exists>rc. test_reachable X ip port e = (rc, moved e (snd (ask_version X (ip, port) (env_world e)))) \<and>
    (rc = 0 \<longleftrightarrow> fst (ask_version X (ip, port) (env_world e)))"
proof -
  obtain code s w' where p: "curl_perform X (version_request ip port) eat_output NoSink (env_world e) = (code, s, w')"
    using prod_cases3 by blast
  have "ssize_to_int (HIVE_HTTP_STATUS_ERROR st) \<noteq> 0" for st using http_status_neg [of st] by (auto simp: neg_def)
  then show ?thesis
    using test_reachable_request [OF assms p] p mk_error_nonzero
    by (auto simp: ask_version_def http_client_get_response_code_def split: prod.splits if_splits)
qed

lemma try_address_asks:
  assumes "os_still X" "curl_works X" "length ip \<le> 47" "ip \<noteq> []"
  shows "try_address X ip port e =
    (let (sel, w) = first_answering X [(ip, port)] (env_world e) in (sel, moved e w))"
  using test_reachable_asks [OF assms(1-3), of port e] assms(4)
  by (auto simp: try_address_def Let_def split: prod.splits)

lemma try_node_asks:
  assumes "os_still X" "curl_works X" "node_wf X n"
  shows "try_node X n e = (let (sel, w) = first_answering X (node_addresses n) (env_world e) in (sel, moved e w))"
proof -
  have len: "length (node_ipv4 n) \<le> 47" "length (node_ipv6 n) \<le> 47" "node_ipv4 n \<noteq> [] \<or> node_ipv6 n \<noteq> []"
    using assms(3) by (simp_all add: node_wf_def)
  note t = try_address_asks [OF assms(1,2)]
  show ?thesis
    by (cases "node_ipv4 n = []"; cases "node_ipv6 n = []")
      (use len in \<open>auto simp: try_node_def node_addresses_def t Let_def try_address_def [of X "[]"] split: prod.splits\<close>)
qed

lemma first_reachable_moved:
  assumes "os_still X" "curl_works X" "\<forall>n \<in> set ns. node_wf X n"
  shows "first_reachable X ns (moved e w) =
    (let (sel, w') = first_answering X (concat (map node_addresses ns)) w in (sel, moved e w'))"
  using assms(3)
proof (induction ns arbitrary: w)
  case (Cons n ns)
  then show ?case
    by (auto simp: try_node_asks [OF assms(1,2)] first_answering_append Let_def split: prod.splits option.splits)
qed simp

lemma first_reachable_answering:
  assumes "os_still X" "curl_works X" "\<forall>n \<in> set ns. node_wf X n" "ns \<noteq> []"
  shows "first_reachable X ns e =
    (let (sel, w') = first_answering X (concat (map node_addresses ns)) (env_world e) in (sel, moved e w'))"
proof (cases ns)
  case (Cons n ns')
  with assms(3) show ?thesis
    using first_reachable_moved [OF assms(1,2), of ns' e]
    by (auto simp: try_node_asks [OF assms(1,2)] first_answering_append Let_def split: prod.splits option.splits)
qed (use assms(4) in simp)

lemma select_answering:
  assumes X: "os_still X" "curl_works X" and pool: "nodes \<noteq> []" "\<forall>n \<in> set nodes. node_wf X n"
    and r: "os_rand X (env_world e) = (r, w)"
  shows "select_bootstrap X nodes e =
    (let (sel, w') = first_answering X (concat (map node_addresses (rotate (r mod length nodes) nodes))) w
     in Some ((if sel = None then HIVE_GENERAL_ERROR HIVEERR_BAD_BOOTSTRAP_HOST else 0, sel), moved e w'))"
proof -
  have "first_reachable X (rotate (r mod length nodes) nodes) (e\<lparr>env_world := w\<rparr>) =
    (let (sel, w') = first_answering X (concat (map node_addresses (rotate (r mod length nodes) nodes))) w
     in (sel, moved (e\<lparr>env_world := w\<rparr>) w'))"
    using first_reachable_answering [OF X, of "rotate (r mod length nodes) nodes" "e\<lparr>env_world := w\<rparr>"] pool by simp
  then show ?thesis
    using select_round_robin [OF pool(1) r] by (simp add: moved_def Let_def split: prod.splits)
qed

text \<open>
  C17: The node search of the IPFS pool ends and gives the first address that answers the request
  for its version with the status 200, in the list of nodes rotated to a random start, the IPv4
  address of a node before its IPv6 address and addresses a node does not have left out; it asks
  no address after that one. When none answers it gives an error and no address.
\<close>

theorem node_selection_is_round_robin:
  assumes "os_still X" "curl_works X" "nodes \<noteq> []" "\<forall>n \<in> set nodes. node_wf X n" "os_rand X (env_world e) = (r, w)"
  shows "select_bootstrap X nodes e =
    (let (sel, w') = first_answering X (concat (map node_addresses (rotate (r mod length nodes) nodes))) w
     in Some ((if sel = None then HIVE_GENERAL_ERROR HIVEERR_BAD_BOOTSTRAP_HOST else 0, sel), moved e w'))"
  using assms by (rule select_answering)

definition sample_nodes :: "rpc_node list" where
  "sample_nodes = [\<lparr>node_ipv4 = ''10.0.0.1'', node_ipv6 = [], node_port = 5001\<rparr>,
     \<lparr>node_ipv4 = ''10.0.0.2'', node_ipv6 = ''::2'', node_port = 5002\<rparr>]"

definition asked_ext :: "(string, string list) ext" where
  \<comment> \<open>the world is the list of the URLs asked for; the second node is tried first, and only its IPv6 address
     answers\<close>
  "asked_ext = sample_ext\<lparr>os_rand := (\<lambda>w. (3, w)),
     curl_perform := (\<lambda>rq wr s w. let url = the (uc_text (hd (rq_url rq))) in
       (if url = node_url ''::2'' 5002 ''/version'' then CURLE_OK else CURLE_COULDNT_CONNECT, s, w @ [url]))\<rparr>"

definition asked_env :: "string list env" where
  "asked_env = \<lparr>env_err = 0, env_errno = 0, env_fs = (\<lambda>p. None), env_curl_ready = True, env_world = []\<rparr>"

lemma asked_ext_fields:
  "os_still asked_ext" "curl_works asked_ext" "os_rand asked_ext w = (3, w)"
  "ask_version asked_ext (ip, port) w =
     (node_url ip port ''/version'' = node_url ''::2'' 5002 ''/version'', w @ [node_url ip port ''/version''])"
  by (simp_all add: os_still_def curl_works_def ask_version_def asked_ext_def sample_ext_def sample_curl_def sample_os_def curl_os.defs
      os.defs version_request_def url_part_def Let_def)

theorem node_selection_is_round_robin_witness:
  "select_bootstrap asked_ext sample_nodes asked_env = Some ((0, Some (''::2'', 5002)),
     moved asked_env [node_url ''10.0.0.2'' 5002 ''/version'', node_url ''::2'' 5002 ''/version''])"
proof -
  have pool: "\<forall>n \<in> set sample_nodes. node_wf asked_ext n" "sample_nodes \<noteq> []"
    by (simp_all add: node_wf_def sample_nodes_def is_valid_ip_def is_valid_ipv6_def asked_ext_def sample_ext_def sample_curl_def
        sample_os_def curl_os.defs os.defs)
  have "rotate (3 mod length sample_nodes) sample_nodes = rev sample_nodes" by code_simp
  then have "concat (map node_addresses (rotate (3 mod length sample_nodes) sample_nodes)) =
      [(''10.0.0.2'', 5002), (''::2'', 5002), (''10.0.0.1'', 5001)]"
    by (simp add: sample_nodes_def node_addresses_def)
  moreover have "node_url ''10.0.0.2'' 5002 ''/version'' \<noteq> node_url ''::2'' 5002 ''/version''" by (simp add: node_url_def)
  ultimately show ?thesis
    using node_selection_is_round_robin [OF asked_ext_fields(1,2) pool(2,1), of asked_env 3 "[]"]
    by (simp add: asked_ext_fields asked_env_def)
qed

subsection \<open>The pool stays well formed\<close>

definition address_of :: "rpc_node list \<Rightarrow> string \<Rightarrow> port \<Rightarrow> bool" where
  "address_of nodes ip port \<longleftrightarrow>
     (\<exists>n \<in> set nodes. ip \<noteq> [] \<and> (ip = node_ipv4 n \<or> ip = node_ipv6 n) \<and> port = node_port n)"

definition rpc_wf :: "('w, 'a) os_scheme \<Rightarrow> ipfs_rpc \<Rightarrow> bool" where
  "rpc_wf X rpc \<longleftrightarrow> rpc_nodes rpc \<noteq> [] \<and> (\<forall>n \<in> set (rpc_nodes rpc). node_wf X n) \<and>
     (current_node_ip rpc \<noteq> [] \<longrightarrow> address_of (rpc_nodes rpc) (current_node_ip rpc) (current_node_port rpc))"

lemma try_node_address: "try_node X n e = (Some (ip, port), e') \<Longrightarrow> n \<in> set nodes \<Longrightarrow> address_of nodes ip port"
  by (auto simp: try_node_def try_address_def address_of_def split: prod.splits option.splits if_splits)

lemma first_reachable_address:
  "first_reachable X ns e = (Some (ip, port), e') \<Longrightarrow> set ns \<subseteq> set nodes \<Longrightarrow> address_of nodes ip port"
  by (induction X ns e rule: first_reachable.induct)
    (auto split: prod.splits option.splits dest: try_node_address)

lemma select_address:
  assumes "select_bootstrap X nodes e = Some ((rc, sel), e')"
  shows "nodes \<noteq> [] \<and> (rc = 0 \<and> (\<exists>ip port. sel = Some (ip, port) \<and> address_of nodes ip port) \<or> neg rc \<and> sel = None)"
proof -
  have ne: "nodes \<noteq> []" using assms by (auto simp: select_bootstrap_def split: prod.splits)
  obtain r w where "os_rand X (env_world e) = (r, w)" by fastforce
  from assms select_round_robin [OF ne this]
  have "first_reachable X (rotate (r mod length nodes) nodes) (e\<lparr>env_world := w\<rparr>) = (sel, e')"
    "rc = (if sel = None then HIVE_GENERAL_ERROR HIVEERR_BAD_BOOTSTRAP_HOST else 0)"
    by (auto split: prod.splits)
  then show ?thesis
    using ne first_reachable_address [of X _ _ _ _ e' nodes] mk_error_neg by (cases sel) auto
qed

lemma check_reachable_wf:
  assumes "ipfs_rpc_check_reachable X rpc e = Some (rc, rpc', e')" "rpc_wf X rpc"
  shows "rpc_wf X rpc' \<and> rpc_nodes rpc' = rpc_nodes rpc \<and> (current_node_ip rpc' \<noteq> [] \<and> rc = 0 \<or> neg rc \<and> rpc' = rpc)"
proof (cases "current_node_ip rpc = []")
  case True
  with assms(1) obtain sel where s: "select_bootstrap X (rpc_nodes rpc) e = Some ((rc, sel), e')"
    "rpc' = set_current sel rpc"
    by (auto simp: ipfs_rpc_check_reachable_def bind_eq_Some_conv)
  from select_address [OF s(1)] show ?thesis
    using s(2) assms(2) by (auto simp: rpc_wf_def set_current_def address_of_def)
next
  case False
  with assms show ?thesis by (simp add: ipfs_rpc_check_reachable_def)
qed

lemma exchange_wf:
  "ipfs_exchange X rpc c e = (r, rpc', c', e') \<Longrightarrow> rpc_wf X rpc \<Longrightarrow> rpc_wf X rpc' \<and> rpc_nodes rpc' = rpc_nodes rpc"
  by (auto simp: ipfs_exchange_def rpc_wf_def ipfs_rpc_mark_node_unreachable_def split: prod.splits if_splits)

definition leaves :: "('r \<Rightarrow> bool) \<Rightarrow> ('v \<times> 'r \<times> 'e) option \<Rightarrow> bool" where
  \<comment> \<open>whenever the call returns, the state it leaves has the property\<close>
  "leaves P m \<longleftrightarrow> (\<forall>v r e. m = Some (v, r, e) \<longrightarrow> P r)"

lemma leavesD: "leaves P m \<Longrightarrow> m = Some (v, r, e) \<Longrightarrow> P r"
  by (simp add: leaves_def)

lemma leaves_intros:
  "P r \<Longrightarrow> leaves P (Some (v, r, e))"
  "leaves P None"
  "(\<And>a. m = Some a \<Longrightarrow> leaves P (f a)) \<Longrightarrow> leaves P (Option.bind m f)"
  "leaves P s \<Longrightarrow> leaves P t \<Longrightarrow> leaves P (if b then s else t)"
  "leaves P s \<Longrightarrow> (\<And>x. leaves P (f' x)) \<Longrightarrow> leaves P (case_option s f' opt)"
  "(\<And>x. leaves P (g x)) \<Longrightarrow> (\<And>x. leaves P (h x)) \<Longrightarrow> leaves P (case_sum g h sm)"
  "(\<And>x y. pr = (x, y) \<Longrightarrow> leaves P (k x y)) \<Longrightarrow> leaves P (case_prod k pr)"
  by (auto simp: leaves_def bind_eq_Some_conv split: option.splits sum.splits prod.splits)

definition keeps_pool :: "('w, 'a) os_scheme \<Rightarrow> ipfs_rpc \<Rightarrow> ipfs_rpc \<Rightarrow> bool" where
  "keeps_pool X rpc rpc' \<longleftrightarrow> rpc_wf X rpc' \<and> rpc_nodes rpc' = rpc_nodes rpc"

lemma reachable_keeps:
  "ipfs_rpc_check_reachable X rpc1 e = Some (rc, rpc2, e') \<Longrightarrow> keeps_pool X rpc rpc1 \<Longrightarrow> keeps_pool X rpc rpc2"
  by (auto simp: keeps_pool_def dest: check_reachable_wf)

lemma exchange_keeps:
  "ipfs_exchange X rpc1 c e = (r, rpc2, c', e') \<Longrightarrow> keeps_pool X rpc rpc1 \<Longrightarrow> keeps_pool X rpc rpc2"
  by (auto simp: keeps_pool_def dest: exchange_wf)

lemma mark_keeps: "keeps_pool X rpc rpc1 \<Longrightarrow> keeps_pool X rpc (ipfs_rpc_mark_node_unreachable rpc1)"
  by (auto simp: keeps_pool_def ipfs_rpc_mark_node_unreachable_def rpc_wf_def)

lemma put_wf:
  "keeps_pool X rpc rpc1 \<Longrightarrow> leaves (keeps_pool X rpc) (ipfs_put_file_from_buffer X from len enc cid rpc1 e)"
  unfolding ipfs_put_file_from_buffer_def Let_def
  by (intro leaves_intros; (simp only: prod.inject)?; (elim conjE)?; hypsubst?; blast dest: reachable_keeps exchange_keeps)

lemma length_wf:
  "keeps_pool X rpc rpc1 \<Longrightarrow> leaves (keeps_pool X rpc) (ipfs_get_file_length X cid rpc1 e)"
  unfolding ipfs_get_file_length_def Let_def
  by (intro leaves_intros; (simp only: prod.inject)?; (elim conjE)?; hypsubst?; blast dest: reachable_keeps exchange_keeps)

lemma cat_wf:
  "keeps_pool X rpc rpc1 \<Longrightarrow> leaves (keeps_pool X rpc) (ipfs_cat X cid to buflen fsize rpc1 e)"
  unfolding ipfs_cat_def Let_def
  by (intro leaves_intros; (simp only: prod.inject)?; (elim conjE)?; hypsubst?; blast intro: mark_keeps)

lemma get_wf:
  "keeps_pool X rpc rpc1 \<Longrightarrow> leaves (keeps_pool X rpc) (ipfs_get_file_to_buffer X cid dec to buflen rpc1 e)"
  unfolding ipfs_get_file_to_buffer_def
  by (intro leaves_intros cat_wf; (simp only: prod.inject)?; (elim conjE)?; hypsubst?;
      blast dest: reachable_keeps leavesD [OF length_wf])

lemma check_node_wf: "check_node X n = Some r \<Longrightarrow> node_wf X r"
proof -
  assume c: "check_node X n = Some r"
  have addr: "length s \<le> k \<and> (s \<noteq> [] \<longrightarrow> v s) \<and> (is_str ip \<longrightarrow> s \<noteq> [])" if "check_address v k ip = Some s" for v k ip s
    using that by (auto simp: check_address_def split: option.splits if_splits)
  have port: "(word_of_int p :: port) \<noteq> 0" if "1 \<le> p" "p \<le> 65535" for p
  proof
    assume "(word_of_int p :: port) = 0"
    then have "uint (word_of_int p :: port) = 0" by simp
    then show False using that by (simp add: uint_word_of_int)
  qed
  from c obtain ip4 ip6 p where i: "check_address (is_valid_ip X) 15 (in_ipv4 n) = Some ip4"
    "check_address (is_valid_ipv6 X) 47 (in_ipv6 n) = Some ip6" "is_str (in_ipv4 n) \<or> is_str (in_ipv6 n)"
    "1 \<le> p" "p \<le> 65535" "r = \<lparr>node_ipv4 = ip4, node_ipv6 = ip6, node_port = word_of_int p\<rparr>"
    by (auto simp: check_node_def bind_eq_Some_conv not_less split: if_splits prod.splits)
  with addr [OF i(1)] addr [OF i(2)] port [OF i(4,5)] show ?thesis by (auto simp: node_wf_def)
qed

lemma check_nodes_wf: "check_nodes X ns = Some rs \<Longrightarrow> length rs = length ns \<and> (\<forall>r \<in> set rs. node_wf X r)"
  by (induction ns arbitrary: rs) (auto simp: bind_eq_Some_conv dest: check_node_wf)

lemma connect_wf:
  assumes "ipfs_client_connect X client options e = Some (Some c, e')"
  shows "\<exists>rpc. c = ipfs_methods X rpc \<and> rpc_wf X rpc \<and> current_node_ip rpc \<noteq> [] \<and>
    check_nodes X (rpc_node_list options) = Some (rpc_nodes rpc)"
proof -
  from assms obtain nodes rpc e1 e2 where n: "check_nodes X (rpc_node_list options) = Some nodes"
    "rpc_node_list options \<noteq> []" "ipfs_rpc_new X nodes e1 = Some (Some rpc, e2)" "c = ipfs_methods X rpc"
    by (auto simp: ipfs_client_connect_def bind_eq_Some_conv split: if_splits option.splits prod.splits)
  from n(3) obtain e3 rc sel where s: "select_bootstrap X nodes e3 = Some ((rc, sel), e2)" "\<not> neg rc"
    "rpc = set_current sel \<lparr>current_node_ip = [], current_node_port = 0, rpc_nodes = nodes\<rparr>"
    by (auto simp: ipfs_rpc_new_def bind_eq_Some_conv split: if_splits prod.splits)
  from select_address [OF s(1)] s(2) obtain ip port where "sel = Some (ip, port)" "address_of nodes ip port" by auto
  then have "rpc_wf X rpc" "current_node_ip rpc \<noteq> []" "rpc_nodes rpc = nodes"
    using s(3) check_nodes_wf [OF n(1)] n(2) by (auto simp: rpc_wf_def set_current_def address_of_def)
  then show ?thesis using n(1,4) by blast
qed

text \<open>
  C18: A connection is only made with a pool of valid nodes, whose addresses fit their arrays, and
  a current address that is one of theirs; every operation keeps the pool and leaves the current
  address empty or one of them.
\<close>

theorem ipfs_pool_stays_well_formed:
  "(ipfs_client_connect X client options e = Some (Some c, e') \<longrightarrow>
      (\<exists>rpc. c = ipfs_methods X rpc \<and> rpc_wf X rpc \<and> current_node_ip rpc \<noteq> [])) \<and>
   (rpc_wf X rpc \<longrightarrow>
      (ipfs_put_file_from_buffer X from len enc cid rpc e = Some (r1, rpc', e') \<or>
       ipfs_get_file_length X cid rpc e = Some (r2, rpc', e') \<or>
       ipfs_get_file_to_buffer X cid dec to buflen rpc e = Some (r3, rpc', e')) \<longrightarrow>
      rpc_wf X rpc' \<and> rpc_nodes rpc' = rpc_nodes rpc)"
proof (intro conjI impI)
  show "\<exists>rpc. c = ipfs_methods X rpc \<and> rpc_wf X rpc \<and> current_node_ip rpc \<noteq> []"
    if "ipfs_client_connect X client options e = Some (Some c, e')"
    using connect_wf [OF that] by blast
  assume w: "rpc_wf X rpc" and "ipfs_put_file_from_buffer X from len enc cid rpc e = Some (r1, rpc', e') \<or>
       ipfs_get_file_length X cid rpc e = Some (r2, rpc', e') \<or>
       ipfs_get_file_to_buffer X cid dec to buflen rpc e = Some (r3, rpc', e')"
  moreover have "keeps_pool X rpc rpc" using w by (simp add: keeps_pool_def)
  ultimately have "keeps_pool X rpc rpc'"
    by (elim disjE) (blast dest: leavesD [OF put_wf] leavesD [OF length_wf] leavesD [OF get_wf])+
  then show "rpc_wf X rpc'" "rpc_nodes rpc' = rpc_nodes rpc" by (simp_all add: keeps_pool_def)
qed

subsection \<open>A node\<close>

type_synonym node_world = "string \<Rightarrow> bytes option"

definition node_text :: "nat \<Rightarrow> string \<Rightarrow> bytes" where
  "node_text n cid = replicate n CHR ''x'' @ NUL # cid @ [NUL]"

definition node_json :: "bytes \<Rightarrow> json option" where
  \<comment> \<open>a size in unary and an identifier, read as the answer to either request\<close>
  "node_json t =
     (let n = length (cstr t); cid = cstr (drop (n + 1) t) in
      Some (JObj [(''Hash'', JStr cid), (''Objects'', JObj [(cid, JObj [(''Size'', JNum (word_of_nat n))])])]))"

definition node_serve :: "node_world service" where
  "node_serve rq w =
     (let cid = drop 4 (the (uc_text (last (rq_url rq)))) in
      if rq_mime rq \<noteq> [] then (200, [node_text 0 ''Qm''], w(''Qm'' \<mapsto> mp_data (hd (rq_mime rq))))
      else if uc_part (last (rq_url rq)) = CURLUPART_URL then (200, [], w)
      else if CURLOPT_WRITEFUNCTION USER_WRITE \<in> set (rq_opts rq) then (200, [case w cid of None \<Rightarrow> [] | Some bs \<Rightarrow> bs], w)
      else (200, [node_text (case w cid of None \<Rightarrow> 0 | Some bs \<Rightarrow> length bs) cid], w))"

definition node_ext :: "(json, node_world) ext" where
  "node_ext = json_ext\<lparr>cj_parse := node_json,
     curl_perform := (\<lambda>rq wr s w. case node_serve rq w of (st, cs, w') \<Rightarrow>
        (case deliver wr cs s w' of Some s' \<Rightarrow> (CURLE_OK, s', w') | None \<Rightarrow> (23, s, w'))),
     curl_response_code := (\<lambda>w. (CURLE_OK, 200))\<rparr>"

lemma node_json_text:
  "is_cstr cid \<Longrightarrow> node_json (node_text n cid @ rest) =
     Some (JObj [(''Hash'', JStr cid), (''Objects'', JObj [(cid, JObj [(''Size'', JNum (word_of_nat n))])])])"
proof -
  assume p: "is_cstr cid"
  have "is_cstr (replicate n CHR ''x'')" by (simp add: is_cstr_def NUL_def)
  then have "cstr (node_text n cid @ rest) = replicate n CHR ''x''" by (simp add: node_text_def)
  with p show ?thesis by (simp add: node_json_def node_text_def)
qed

lemma node_ext_fields:
  "os_still node_ext" "curl_works node_ext" "cj_parse node_ext = node_json" "cj_get_cs node_ext j k = member ((=) k) j"
  "cj_is_number node_ext (JNum n)" "cj_valuelong node_ext (JNum n) = n" "cj_is_string node_ext (JStr s)"
  "cj_valuestring node_ext (JStr s) = Some s" "cj_is_object node_ext (JObj ms)"
  by (simp_all add: os_still_def curl_works_def node_ext_def json_ext_def sample_curl_def sample_os_def curl_os.defs os.defs)

lemma node_parses:
  assumes "is_cstr cid"
  shows "parses node_ext (node_text n cid) (\<lambda>j. sized node_ext j cid n)"
    "parses node_ext (node_text n cid) (\<lambda>j. named node_ext j cid)"
  using assms
  by (auto simp: parses_def node_text_def sized_def named_def node_ext_fields member_def
      node_json_text [unfolded node_text_def, simplified])

lemma node_http: "http_service node_ext node_serve"
  by (auto simp: http_service_def node_ext_def json_ext_def curl_os.defs node_serve_def Let_def
      split: prod.splits option.splits if_splits)

lemma node_service_sample: "ipfs_service node_ext node_serve ip port (\<lambda>w. w) (\<lambda>data. ''Qm'')"
  unfolding ipfs_service_def
proof (intro conjI allI impI, goal_cases)
  case 1
  show ?case by (rule node_http)
next
  case (2 cid w bs)
  have "length (node_text (length bs) cid) < 2 ^ 40" using 2 by (simp add: node_text_def valid_cid_def)
  then show ?case
    using 2 node_parses(1) [of cid "length bs"]
    by (intro exI [of _ "[node_text (length bs) cid]"] exI [of _ w])
      (simp add: answers_def node_serve_def ls_request_def arg_part_def default_opts_def body_opts_def valid_cid_def)
next
  case (3 cid w bs)
  then show ?case by (simp add: node_serve_def cat_request_def arg_part_def)
next
  case (4 data w)
  show ?case by (simp add: valid_cid_def NUL_def)
next
  case (5 data w)
  then show ?case
    using node_parses(2) [of "''Qm''" 0]
    by (intro exI [of _ "[node_text 0 ''Qm'']"] exI [of _ "w(''Qm'' \<mapsto> data)"])
      (simp add: answers_def node_serve_def add_request_def node_text_def NUL_def)
qed

definition node_rpc :: ipfs_rpc where
  "node_rpc = \<lparr>current_node_ip = ''10.0.0.1'', current_node_port = 5001, rpc_nodes = sample_nodes\<rparr>"

lemma node_sample_ready: "node_ready node_ext node_serve (\<lambda>w. w) (\<lambda>data. ''Qm'') node_rpc"
  by (simp add: node_ready_def node_ext_fields node_service_sample node_rpc_def)

definition node_env :: "node_world env" where
  "node_env = \<lparr>env_err = 0, env_errno = 0, env_fs = (\<lambda>p. None), env_curl_ready = True, env_world = (\<lambda>p. None)\<rparr>"

subsection \<open>What a put file is read back as\<close>

lemma ipfs_method_fields [simp]:
  "ipfs_put_file_from_buffer_m (ipfs_methods X rpc) = Some (ipfs_put_file_from_buffer X)"
  "ipfs_get_file_length_m (ipfs_methods X rpc) = Some (ipfs_get_file_length X)"
  "ipfs_get_file_to_buffer_m (ipfs_methods X rpc) = Some (ipfs_get_file_to_buffer X)"
  "conn_data (ipfs_methods X rpc) = rpc" "(ipfs_methods X rpc)\<lparr>conn_data := rpc'\<rparr> = ipfs_methods X rpc'"
  by (simp_all add: ipfs_methods_def no_methods_def)

lemma buffer_words:
  assumes "length bs \<le> 33554432" "bs \<noteq> []" "length bs \<le> length to" "length to < 2 ^ 31"
  shows "\<not> 33554432 < (word_of_nat (length bs) :: size_t)" "(word_of_nat (length to) :: size_t) \<noteq> 0"
    "\<not> neg (word_of_nat (length bs) :: ssize_t)"
proof -
  have u: "unat (word_of_nat (length bs) :: size_t) = length bs" "unat (word_of_nat (length to) :: size_t) = length to"
    using assms by (simp_all add: unat_len)
  show "\<not> 33554432 < (word_of_nat (length bs) :: size_t)" using u assms(1) by (simp add: word_less_nat_alt)
  show "(word_of_nat (length to) :: size_t) \<noteq> 0" using u(2) assms(2,3) by (metis le_zero_eq length_0_conv unat_0)
  show "\<not> neg (word_of_nat (length bs) :: ssize_t)" using assms(1) by simp
qed

text \<open>
  A file put on an IPFS node through the interface is stored under the identifier the call
  returns, and reading that identifier gives the bytes back and leaves the rest of the buffer as
  it was.
\<close>

theorem ipfs_put_then_get:
  assumes R: "node_ready X serve blocks cid_of rpc" and bs: "length bs \<le> 33554432" "bs \<noteq> []"
    and cid: "length cid = 65" and to: "length bs \<le> length to" "length to < 2 ^ 31"
  shows "\<exists>b w1 w2. hive_ipfs_put_file_from_buffer (Some (ipfs_methods X rpc)) (Some bs) (word_of_nat (length bs)) enc (Some cid) e =
      Some ((0, Some b), Some (ipfs_methods X rpc), moved e w1) \<and> length b = 65 \<and>
    blocks w1 = (blocks (env_world e))(cstr b \<mapsto> bs) \<and>
    hive_ipfs_get_file_to_buffer (Some (ipfs_methods X rpc)) (Some (cstr b)) enc (Some to) (word_of_nat (length to)) (moved e w1) =
      Some ((word_of_nat (length bs), Some (bs @ drop (length bs) to)), Some (ipfs_methods X rpc), moved e w2) \<and> blocks w2 = blocks w1"
proof -
  have small: "length bs < 2 ^ 31" using bs(1) by simp
  obtain b w1 where 1: "ipfs_put_file_from_buffer X (Some bs) (word_of_nat (length bs)) enc cid rpc e = Some ((0, b), rpc, moved e w1)"
    "cstr b = cid_of bs" "length b = 65" "blocks w1 = (blocks (env_world e))(cid_of bs \<mapsto> bs)"
    using node_put [OF R small cid] by blast
  have v: "valid_cid (cstr b)"
    using node_readyD(6) [OF R] small 1(2) unfolding ipfs_service_def by simp
  obtain w2 where 2: "ipfs_get_file_to_buffer X (cstr b) enc to (word_of_nat (length to)) rpc (moved e w1) =
      Some ((word_of_nat (length bs), bs @ drop (length bs) to), rpc, moved e w2)" "blocks w2 = blocks w1"
    using node_get [OF R v, of "moved e w1" bs "length to" to] 1(2,4) bs(2) to by auto
  note n = buffer_words [OF bs to]
  show ?thesis
    using 1 2 v n
    by (intro exI [of _ b] exI [of _ w1] exI [of _ w2])
      (simp add: hive_ipfs_put_file_from_buffer_def hive_ipfs_get_file_to_buffer_def Option.is_none_def valid_cid_def)
qed

theorem ipfs_put_then_get_witness:
  "\<exists>b w1 w2. hive_ipfs_put_file_from_buffer (Some (ipfs_methods node_ext node_rpc)) (Some ''data'') 4 False
      (Some (replicate 65 CHR ''.'')) node_env = Some ((0, Some b), Some (ipfs_methods node_ext node_rpc), moved node_env w1) \<and>
    hive_ipfs_get_file_to_buffer (Some (ipfs_methods node_ext node_rpc)) (Some (cstr b)) False (Some ''......'') 6 (moved node_env w1) =
      Some ((4, Some ''data..''), Some (ipfs_methods node_ext node_rpc), moved node_env w2)"
  using ipfs_put_then_get [OF node_sample_ready, of "''data''" "replicate 65 CHR ''.''" "''......''" False node_env]
  by auto

subsection \<open>Answers without the file and nodes that are gone\<close>

lemma error_as_length: "0 < sint (uint_to_ssize (HIVE_GENERAL_ERROR c))"
proof -
  have "sint (uint_to_ssize (HIVE_GENERAL_ERROR c)) \<noteq> 0"
    by (metis mk_error_nonzero ssize_to_int_uint_to_ssize signed_0 signed_eq_0_iff ssize_to_int_def unsigned_0)
  moreover have "\<not> sint (uint_to_ssize (HIVE_GENERAL_ERROR c)) < 0"
    using not_neg_uint_to_ssize by (simp add: neg_def)
  ultimately show ?thesis by simp
qed

definition gives_size :: "('j, 'w) ext \<Rightarrow> 'j \<Rightarrow> string \<Rightarrow> bool" where
  \<comment> \<open>the answer to \<open>file/ls\<close> gives the content identifier a size\<close>
  "gives_size X j cid \<longleftrightarrow>
     (case cj_get_cs X j ''Objects'' of None \<Rightarrow> False
      | Some os \<Rightarrow> cj_is_object X os \<and>
          (case cj_get_cs X os cid of None \<Rightarrow> False
           | Some c \<Rightarrow> cj_is_object X c \<and>
               (case cj_get_cs X c ''Size'' of None \<Rightarrow> False
                | Some s \<Rightarrow> cj_is_number X s \<and> 0 \<le> sint (cj_valuelong X s))))"

text \<open>
  C33: When the answer of the node is JSON but gives the file no size (it has no Objects, they are
  no object, the file is not among them, its entry is no object, or has no Size, or one that is no
  number or negative), hive_ipfs_get_file_length returns a positive number, the error code read as
  unsigned, and records no error.
\<close>

theorem unlisted_file_has_a_length:
  assumes S: "os_still X" "curl_works X" "http_service X serve"
    and ip: "current_node_ip rpc \<noteq> []" "length (current_node_ip rpc) \<le> 47" "cid \<noteq> []"
    and a: "answers serve (ls_request (current_node_ip rpc) (current_node_port rpc) cid) (env_world e) HttpStatus_OK cs w'"
    and p: "parses X (concat cs) (\<lambda>j. \<not> gives_size X j cid)"
  shows "\<exists>n. hive_ipfs_get_file_length (Some (ipfs_methods X rpc)) (Some cid) e =
      Some (n, Some (ipfs_methods X rpc), moved e w') \<and>
    n = uint_to_ssize (HIVE_GENERAL_ERROR HIVEERR_BAD_JSON_FORMAT) \<and> 0 < sint n"
proof -
  obtain b j where l: "ipfs_get_file_length X cid rpc e = Some (cid_length X b cid, rpc, moved e w')"
    "cj_parse X b = Some j" "\<not> gives_size X j cid"
    using answered_length [OF S ip(1,2) a p] by blast
  then have "cid_length X b cid = uint_to_ssize (HIVE_GENERAL_ERROR HIVEERR_BAD_JSON_FORMAT)"
    by (auto simp: cid_length_def gives_size_def IS_NUMBER_def neg_def Let_def split: option.splits)
  then show ?thesis
    using l(1) ip(3) error_as_length not_neg_uint_to_ssize
    by (simp add: hive_ipfs_get_file_length_def Option.is_none_def)
qed

definition other_answer_ext :: "(json, node_world) ext" where
  \<comment> \<open>the answer lists another file\<close>
  "other_answer_ext = node_ext\<lparr>cj_parse := (\<lambda>t. Some (JObj [(''Objects'', JObj [(''Qo'', JObj [(''Size'', JNum 4)])])]))\<rparr>"

theorem unlisted_file_has_a_length_witness:
  "\<exists>n. hive_ipfs_get_file_length (Some (ipfs_methods other_answer_ext node_rpc)) (Some ''Qm'') node_env =
      Some (n, Some (ipfs_methods other_answer_ext node_rpc), moved node_env (\<lambda>p. None)) \<and>
    n = uint_to_ssize (HIVE_GENERAL_ERROR HIVEERR_BAD_JSON_FORMAT) \<and> 0 < sint n"
proof (rule unlisted_file_has_a_length [where serve = node_serve and cs = "[node_text 0 ''Qm'']"])
  show "os_still other_answer_ext" "curl_works other_answer_ext"
    by (simp_all add: other_answer_ext_def os_still_def curl_works_def node_ext_def json_ext_def sample_curl_def sample_os_def
        curl_os.defs os.defs)
  show "http_service other_answer_ext node_serve"
    by (auto simp: http_service_def other_answer_ext_def node_ext_def json_ext_def curl_os.defs node_serve_def Let_def
        split: prod.splits option.splits if_splits)
  show "parses other_answer_ext (concat [node_text 0 ''Qm'']) (\<lambda>j. \<not> gives_size other_answer_ext j ''Qm'')"
    by (simp add: parses_def other_answer_ext_def node_text_def node_ext_fields member_def gives_size_def)
qed (simp_all add: node_rpc_def answers_def node_serve_def ls_request_def arg_part_def default_opts_def body_opts_def
  node_text_def node_env_def)

text \<open>
  C40: When the node answers the request for a length with an empty body, the call stores through
  a null pointer: hive_ipfs_get_file_length does not return.
\<close>

theorem empty_answer_is_a_null_store:
  assumes S: "os_still X" "curl_works X" "http_service X serve"
    and ip: "current_node_ip rpc \<noteq> []" "length (current_node_ip rpc) \<le> 47" "cid \<noteq> []"
    and a: "answers serve (ls_request (current_node_ip rpc) (current_node_port rpc) cid) (env_world e) HttpStatus_OK cs w'"
    and empty: "concat cs = []"
  shows "hive_ipfs_get_file_length (Some (ipfs_methods X rpc)) (Some cid) e = None"
proof -
  let ?url = "node_url (current_node_ip rpc) (current_node_port rpc) ''/api/v0/file/ls''"
  have "answers serve (ready_request X (body_client ?url [arg_part cid] None)) (env_world (moved e (env_world e))) HttpStatus_OK cs w'"
    using a by (simp add: body_client(1))
  from exchange_body [OF S(1,3) this, of rpc] obtain c' where
    x: "ipfs_exchange X rpc (body_client ?url [arg_part cid] None) (moved e (env_world e)) =
      (Inr HttpStatus_OK, rpc, c', moved e w')" "holds_body (hc_body c') []"
    using empty by auto
  have m: "http_client_move_response_body False c' = None"
    using x(2) by (simp add: holds_body_def unat_eq_zero move_empty_body_is_null_store)
  have "ipfs_get_file_length X cid rpc e = None"
    using x(1) client_new_works [OF S(1,2), of e] S(2) m
    by (simp add: ipfs_get_file_length_def reachable_at_once [OF ip(1)] current_url_fits [OF ip(2)] http_setter_defs
        body_client_def new_client_def url_part_def arg_part_def body_opts_def Let_def moved_def)
  then show ?thesis using ip(3) by (simp add: hive_ipfs_get_file_length_def Option.is_none_def)
qed

definition silent_serve :: "node_world service" where
  "silent_serve rq w = (200, [], w)"

definition silent_ext :: "(json, node_world) ext" where
  "silent_ext = node_ext\<lparr>curl_perform := (\<lambda>rq wr s w. (CURLE_OK, s, w))\<rparr>"

theorem empty_answer_is_a_null_store_witness:
  "hive_ipfs_get_file_length (Some (ipfs_methods silent_ext node_rpc)) (Some ''Qm'') node_env = None"
proof (rule empty_answer_is_a_null_store [where serve = silent_serve and cs = "[]"])
  show "os_still silent_ext" "curl_works silent_ext"
    by (simp_all add: silent_ext_def os_still_def curl_works_def node_ext_def json_ext_def sample_curl_def sample_os_def
        curl_os.defs os.defs)
  show "http_service silent_ext silent_serve"
    by (simp add: http_service_def silent_serve_def silent_ext_def node_ext_def json_ext_def curl_os.defs)
qed (simp_all add: node_rpc_def answers_def silent_serve_def)

definition to_node :: "string \<Rightarrow> port \<Rightarrow> request \<Rightarrow> bool" where
  \<comment> \<open>the URL of the request is one of this node\<close>
  "to_node ip port rq = (let p = node_url ip port ''/'' in take (length p) (the (uc_text (hd (rq_url rq)))) = p)"

lemma to_node:
  "to_node ip port (version_request ip port)" "to_node ip port (add_request ip port data)"
  by (simp_all add: to_node_def version_request_def add_request_def url_part_def node_url_def)

lemma transfer_fails:
  assumes "\<And>wr s w. P (fst (curl_perform X (ready_request X c) wr s w))" "hc_user c \<noteq> None \<or> write_target (hc_opts c) \<noteq> USER_WRITE"
  shows "\<exists>code c' e'. http_client_request X c e = (code, c', e') \<and> P code"
proof (cases "http_client_request X c e")
  case (fields rc c' e')
  have "P rc"
    using fields assms(2) assms(1)
    by (auto simp: http_client_request_def ready_request_def Let_def split: write_fn.splits prod.splits) (metis fst_conv)+
  then show ?thesis using fields by blast
qed

lemma first_answering_answers:
  "first_answering X as w = (Some a, w') \<Longrightarrow> a \<in> set as \<and> (\<exists>w. fst (ask_version X a w))"
proof (induction as arbitrary: w)
  case (Cons b as)
  obtain ok v where p: "ask_version X b w = (ok, v)" by fastforce
  show ?case
  proof (cases ok)
    case True
    then show ?thesis using Cons.prems p by (auto intro: exI [of _ w])
  next
    case False
    then show ?thesis using Cons.IH [of v] Cons.prems p by auto
  qed
qed simp

lemma first_answering_finds:
  "a \<in> set as \<Longrightarrow> (\<And>w. fst (ask_version X a w)) \<Longrightarrow> fst (first_answering X as w) \<noteq> None"
  by (induction as arbitrary: w) (auto split: prod.splits, metis fst_conv)

definition pool_addresses :: "ipfs_rpc \<Rightarrow> (string \<times> port) set" where
  "pool_addresses rpc = set (concat (map node_addresses (rpc_nodes rpc)))"

text \<open>
  C35: When the requests to the current node fail because it cannot be reached, whatever the other
  nodes do, a put fails with the error that asks to try again, the identifier is untouched and no
  node is current any more. The next operation then searches the pool: it never chooses the lost
  address, what it chooses is an address of the pool, and it finds one when some address of the
  pool answers; without one it fails and no node is current.
\<close>

theorem unreachable_node_is_dropped:
  fixes X :: "('j, 'w) ext"
  assumes S: "os_still X" "curl_works X" and wf: "rpc_wf X rpc" "current_node_ip rpc \<noteq> []"
    and gone: "\<forall>rq wr s w. to_node (current_node_ip rpc) (current_node_port rpc) rq \<longrightarrow> RC_NODE_UNREACHABLE (fst (curl_perform X rq wr s w))"
    and args: "length bs \<le> 33554432" "length cid = 65"
  shows "(\<exists>e'. hive_ipfs_put_file_from_buffer (Some (ipfs_methods X rpc)) (Some bs) (word_of_nat (length bs)) enc (Some cid) e =
      Some ((- 1, Some cid), Some (ipfs_methods X (rpc\<lparr>current_node_ip := []\<rparr>)), hive_set_error (HIVE_GENERAL_ERROR HIVEERR_TRY_AGAIN) e')) \<and>
    (\<forall>e2. \<exists>sel e3. ipfs_rpc_check_reachable X (rpc\<lparr>current_node_ip := []\<rparr>) e2 =
        Some (if sel = None then HIVE_GENERAL_ERROR HIVEERR_BAD_BOOTSTRAP_HOST else 0, set_current sel (rpc\<lparr>current_node_ip := []\<rparr>), e3) \<and>
      sel \<noteq> Some (current_node_ip rpc, current_node_port rpc) \<and> (\<forall>a. sel = Some a \<longrightarrow> a \<in> pool_addresses rpc) \<and>
      ((\<exists>a \<in> pool_addresses rpc. \<forall>w. fst (ask_version X a w)) \<longrightarrow> sel \<noteq> None))"
    (is "?put \<and> (\<forall>e2. ?next e2)")
proof (intro conjI allI)
  let ?ip = "current_node_ip rpc" and ?port = "current_node_port rpc"
  have ip: "length ?ip \<le> 47" using wf by (force simp: rpc_wf_def address_of_def node_wf_def)
  let ?url = "node_url ?ip ?port ''/api/v0/add''"
  let ?c = "body_client ?url [] (Some [\<lparr>mp_name = ''file'', mp_filename = None, mp_type = None, mp_data = bs\<rparr>])"
  have "RC_NODE_UNREACHABLE (fst (curl_perform X (ready_request X ?c) wr s w))" for wr s w
    by (rule gone [rule_format]) (simp add: body_client(2) to_node)
  then have "\<exists>code c' e'. http_client_request X ?c (e\<lparr>env_curl_ready := True\<rparr>) = (code, c', e') \<and> RC_NODE_UNREACHABLE code"
    by (rule transfer_fails) (simp only: body_client(3), simp)
  then obtain code c' e' where r: "http_client_request X ?c (e\<lparr>env_curl_ready := True\<rparr>) = (code, c', e')" "RC_NODE_UNREACHABLE code"
    by blast
  have nz: "\<not> RC_NODE_UNREACHABLE 0" by (simp add: RC_NODE_UNREACHABLE_def)
  with r have "code \<noteq> 0" by auto
  with r have x: "ipfs_exchange X rpc ?c (e\<lparr>env_curl_ready := True\<rparr>) =
      (Inl (HIVE_GENERAL_ERROR HIVEERR_TRY_AGAIN), ipfs_rpc_mark_node_unreachable rpc, c', e')"
    by (simp add: ipfs_exchange_def)
  have u: "unat (word_of_nat (length bs) :: size_t) = length bs" by (rule unat_len) (use args in simp)
  then have le: "\<not> 33554432 < (word_of_nat (length bs) :: size_t)" using args(1) by (simp add: word_less_nat_alt)
  have "ipfs_put_file_from_buffer X (Some bs) (word_of_nat (length bs)) enc cid rpc e =
      Some ((HIVE_GENERAL_ERROR HIVEERR_TRY_AGAIN, cid), ipfs_rpc_mark_node_unreachable rpc, e')"
    using x u S(2) client_new_works [OF S, of e]
    by (simp add: ipfs_put_file_from_buffer_def reachable_at_once [OF wf(2)] current_url_fits [OF ip] http_setter_defs
        body_client_def new_client_def url_part_def body_opts_def Let_def)
  then show ?put
    using le mk_error_neg
    by (intro exI [of _ e'])
      (simp add: hive_ipfs_put_file_from_buffer_def Option.is_none_def ipfs_rpc_mark_node_unreachable_def)
  fix e2 :: "'w env"
  obtain r w where rand: "os_rand X (env_world e2) = (r, w)" by fastforce
  let ?as = "concat (map node_addresses (rotate (r mod length (rpc_nodes rpc)) (rpc_nodes rpc)))"
  obtain sel w' where f: "first_answering X ?as w = (sel, w')" by fastforce
  have pool: "set ?as = pool_addresses rpc" by (simp add: pool_addresses_def)
  have "\<not> fst (ask_version X (?ip, ?port) w)" for w
    using gone [rule_format, OF to_node(1), of eat_output NoSink w] nz by (auto simp: ask_version_def split: prod.splits)
  then have "sel \<noteq> Some (?ip, ?port)" "\<forall>a. sel = Some a \<longrightarrow> a \<in> pool_addresses rpc"
    using first_answering_answers [of X ?as w _ w'] f unfolding pool by blast+
  moreover have "(\<exists>a \<in> pool_addresses rpc. \<forall>w. fst (ask_version X a w)) \<longrightarrow> sel \<noteq> None"
    using first_answering_finds [of _ ?as X w] f unfolding pool by auto
  moreover have "select_bootstrap X (rpc_nodes rpc) e2 =
      Some ((if sel = None then HIVE_GENERAL_ERROR HIVEERR_BAD_BOOTSTRAP_HOST else 0, sel), moved e2 w')"
    using select_answering [OF S _ _ rand, of "rpc_nodes rpc"] wf(1) f by (simp add: rpc_wf_def)
  ultimately show "?next e2"
    by (intro exI [of _ sel] exI [of _ "moved e2 w'"]) (simp add: ipfs_rpc_check_reachable_def)
qed

definition gone_ext :: "(json, node_world) ext" where
  \<comment> \<open>the first node of the pool is lost, the other one is there\<close>
  "gone_ext = node_ext\<lparr>curl_perform := (\<lambda>rq wr s w.
     if to_node ''10.0.0.1'' 5001 rq then (CURLE_COULDNT_CONNECT, s, w) else curl_perform node_ext rq wr s w)\<rparr>"

lemma node_rpc_wf: "rpc_wf gone_ext node_rpc" "rpc_wf node_ext node_rpc"
  by (simp_all add: rpc_wf_def node_wf_def address_of_def node_rpc_def sample_nodes_def is_valid_ip_def is_valid_ipv6_def
      gone_ext_def node_ext_def json_ext_def sample_curl_def sample_os_def curl_os.defs os.defs)

theorem unreachable_node_is_dropped_witness:
  "(\<exists>e'. hive_ipfs_put_file_from_buffer (Some (ipfs_methods gone_ext node_rpc)) (Some ''data'') 4 False
      (Some (replicate 65 CHR ''.'')) node_env =
    Some ((- 1, Some (replicate 65 CHR ''.'')), Some (ipfs_methods gone_ext (node_rpc\<lparr>current_node_ip := []\<rparr>)),
      hive_set_error (HIVE_GENERAL_ERROR HIVEERR_TRY_AGAIN) e')) \<and>
   (\<exists>ip e3. ip \<in> {''10.0.0.2'', ''::2''} \<and> ipfs_rpc_check_reachable gone_ext (node_rpc\<lparr>current_node_ip := []\<rparr>) node_env =
      Some (0, node_rpc\<lparr>current_node_ip := ip, current_node_port := 5002\<rparr>, e3))"
proof -
  have S: "os_still gone_ext" "curl_works gone_ext"
    by (simp_all add: gone_ext_def os_still_def curl_works_def node_ext_def json_ext_def sample_curl_def sample_os_def
        curl_os.defs os.defs)
  have gone: "\<forall>rq wr s w. to_node (current_node_ip node_rpc) (current_node_port node_rpc) rq \<longrightarrow>
      RC_NODE_UNREACHABLE (fst (curl_perform gone_ext rq wr s w))"
    by (simp add: gone_ext_def node_rpc_def RC_NODE_UNREACHABLE_def)
  have args: "length ''data'' \<le> 33554432" "length (replicate 65 CHR ''.'') = 65" "current_node_ip node_rpc \<noteq> []"
    by (simp_all add: node_rpc_def)
  note drop = unreachable_node_is_dropped [OF S node_rpc_wf(1) args(3) gone args(1,2)]
  have pool: "pool_addresses node_rpc = {(''10.0.0.1'', 5001), (''10.0.0.2'', 5002), (''::2'', 5002)}"
    by (simp add: pool_addresses_def node_rpc_def sample_nodes_def node_addresses_def)
  have "\<not> to_node ''10.0.0.1'' 5001 (version_request ''10.0.0.2'' 5002)"
    by (simp add: to_node_def version_request_def url_part_def node_url_def)
  then have "fst (ask_version gone_ext (''10.0.0.2'', 5002) w)" for w
    by (simp add: ask_version_def gone_ext_def node_ext_def json_ext_def curl_os.defs node_serve_def version_request_def url_part_def)
  then have up: "\<exists>a \<in> pool_addresses node_rpc. \<forall>w. fst (ask_version gone_ext a w)" unfolding pool by blast
  have c: "current_node_ip node_rpc = ''10.0.0.1''" "current_node_port node_rpc = 5001" by (simp_all add: node_rpc_def)
  obtain sel e3 where n: "ipfs_rpc_check_reachable gone_ext (node_rpc\<lparr>current_node_ip := []\<rparr>) node_env =
      Some (if sel = None then HIVE_GENERAL_ERROR HIVEERR_BAD_BOOTSTRAP_HOST else 0, set_current sel (node_rpc\<lparr>current_node_ip := []\<rparr>), e3)"
    and sel: "sel \<noteq> Some (''10.0.0.1'', 5001)" "\<forall>a. sel = Some a \<longrightarrow> a \<in> pool_addresses node_rpc" "sel \<noteq> None"
    using conjunct2 [OF drop, THEN spec, of node_env] up unfolding c by blast
  from sel have "sel = Some (''10.0.0.2'', 5002) \<or> sel = Some (''::2'', 5002)" unfolding pool by blast
  with n have "\<exists>ip e3. ip \<in> {''10.0.0.2'', ''::2''} \<and> ipfs_rpc_check_reachable gone_ext (node_rpc\<lparr>current_node_ip := []\<rparr>) node_env =
      Some (0, node_rpc\<lparr>current_node_ip := ip, current_node_port := 5002\<rparr>, e3)"
    by (elim disjE) (force simp: set_current_def)+
  moreover have "(word_of_nat (length ''data'') :: size_t) = 4" by simp
  ultimately show ?thesis using conjunct1 [OF drop, of False node_env] by metis
qed

theorem ipfs_pool_stays_well_formed_witness:
  "\<exists>r rpc' e'. ipfs_put_file_from_buffer node_ext (Some ''data'') 4 False (replicate 65 CHR ''.'') node_rpc node_env = Some (r, rpc', e') \<and>
    rpc_wf node_ext rpc' \<and> rpc_nodes rpc' = sample_nodes"
proof -
  note w = node_rpc_wf(2)
  obtain b w' where p: "ipfs_put_file_from_buffer node_ext (Some ''data'') 4 False (replicate 65 CHR ''.'') node_rpc node_env =
      Some ((0, b), node_rpc, moved node_env w')"
    using node_put [OF node_sample_ready, of "''data''" "replicate 65 CHR ''.''" False node_env] by auto
  from conjunct2 [OF ipfs_pool_stays_well_formed, rule_format, OF w disjI1 [OF p]]
  show ?thesis using p by (auto simp: node_rpc_def)
qed

subsection \<open>A read stays in the buffer\<close>

definition bounded_ok :: "nat \<Rightarrow> bytes \<Rightarrow> sink \<Rightarrow> bool" where
  \<comment> \<open>the read of at most \<open>n\<close> bytes into a block that held \<open>to\<close>\<close>
  "bounded_ok n to s \<longleftrightarrow>
     (\<exists>u. s = UserSink u \<and> us_limit u = n \<and> us_pos u \<le> n \<and> length (us_mem u) = length to \<and> \<not> us_ub u \<and>
        drop (us_pos u) (us_mem u) = drop (us_pos u) to)"

definition bounded_got :: "sink \<Rightarrow> bytes" where
  "bounded_got s = (case s of UserSink u \<Rightarrow> take (us_pos u) (us_mem u) | _ \<Rightarrow> [])"

lemma store_at_pos:
  assumes "mem_store m k c = Some m'" "drop k m = drop k to" "length m = length to"
  shows "take (k + length c) m' = take k m @ c" "drop (k + length c) m' = drop (k + length c) to" "length m' = length to"
proof -
  have "m' = take k m @ c @ drop (k + length c) m" "k + length c \<le> length m"
    using assms(1) by (auto simp: mem_store_def split: if_splits)
  moreover have "drop (k + length c) m = drop (k + length c) to"
    using assms(2) by (metis add.commute drop_drop)
  ultimately show "take (k + length c) m' = take k m @ c" "drop (k + length c) m' = drop (k + length c) to"
    "length m' = length to"
    using assms(3) by (simp_all add: min_absorb2)
qed

lemma refused_chunk_is_empty: "unat (0 :: size_t) = length c \<Longrightarrow> c = []"
  by simp

lemma bounded_put:
  assumes "bounded_ok (length to) to s" "user_writer get_response_body_cb c s w = (n, s', w')"
  shows "bounded_ok (length to) to s' \<and> (unat n = length c \<longrightarrow> bounded_got s' = bounded_got s @ c)"
proof -
  from assms(1) obtain u where u: "s = UserSink u" "us_limit u = length to" "us_pos u \<le> length to"
    "length (us_mem u) = length to" "\<not> us_ub u" "drop (us_pos u) (us_mem u) = drop (us_pos u) to"
    by (auto simp: bounded_ok_def)
  show ?thesis
  proof (cases "us_pos u + length c > length to")
    case True
    with assms(2) u have "n = 0" "s' = s" by (auto simp: user_writer_def get_response_body_cb_def)
    then show ?thesis using assms(1) by (auto dest: refused_chunk_is_empty)
  next
    case False
    then obtain m where m: "mem_store (us_mem u) (us_pos u) c = Some m" using u by (simp add: mem_store_def)
    note P = store_at_pos [OF m u(6,4)]
    from m False assms(2) u have "s' = UserSink (u\<lparr>us_mem := m, us_pos := us_pos u + length c\<rparr>)"
      by (auto simp: user_writer_def get_response_body_cb_def)
    then show ?thesis using P u False by (auto simp: bounded_ok_def bounded_got_def)
  qed
qed

interpretation bounded_sink: byte_sink "user_writer get_response_body_cb" "bounded_ok (length to) to" bounded_got for to
proof unfold_locales
  fix c s n s' and w w' :: 'w
  assume "bounded_ok (length to) to s" "user_writer get_response_body_cb c s w = (n, s', w')"
  note p = bounded_put [OF this]
  show "bounded_ok (length to) to s'" using p by (rule conjunct1)
  show "bounded_got s' = bounded_got s @ c" if "unat n = length c" using p that by (simp only: simp_thms)
qed

lemma user_request:
  fixes X :: "('w, 'a) curl_os_scheme"
  assumes "http_client_request X c e = (0, c', e')" "curl_delivers X" "write_target (hc_opts c) = USER_WRITE"
    and "hc_user c = Some (get_response_body_cb, u)" "bounded_ok (length to) to (UserSink u)"
  shows "\<exists>u'. hc_user c' = Some (get_response_body_cb, u') \<and> bounded_ok (length to) to (UserSink u')"
proof -
  from assms(1,3,4) obtain rq s w where
    p: "curl_perform X rq (user_writer get_response_body_cb) (UserSink u) (env_world e) = (CURLE_OK, s, w)"
    and c': "hc_user c' = Some (get_response_body_cb, case s of UserSink u' \<Rightarrow> u' | _ \<Rightarrow> u)"
    by (auto simp: http_client_request_def Let_def split: prod.splits)
  from p assms(2) obtain cs where "feeds (user_writer get_response_body_cb :: 'w writer) cs (UserSink u) s"
    unfolding curl_delivers_def by blast
  from bounded_sink.feeds_ok [OF this assms(5)] c' show ?thesis by (auto simp: bounded_ok_def)
qed

lemma error_bit:
  "bit (uint_to_ssize (hive_mk_error f c)) 31" "bit (int_to_ssize (hive_mk_error f c)) 31"
  "bit (hive_mk_error_long f st) 31"
  using mk_error_neg [of f c]
  by (simp_all add: uint_to_ssize_def int_to_ssize_def bit_simps neg_iff_bit) (simp add: hive_mk_error_long_def err_bits)

lemma length_bit: "k < 2 ^ 31 \<Longrightarrow> \<not> bit (word_of_nat k :: ssize_t) 31"
proof -
  assume "k < 2 ^ 31"
  then have "unat (word_of_nat k :: ssize_t) < 2 ^ 31" by (simp add: unat_of_nat)
  then show ?thesis using small_word_bit [of "word_of_nat k :: ssize_t" 31 31] by auto
qed

lemma error_not_length:
  assumes "k < 2 ^ 31"
  shows "uint_to_ssize (hive_mk_error f c) \<noteq> word_of_nat k" "int_to_ssize (hive_mk_error f c) \<noteq> word_of_nat k"
    "hive_mk_error_long f st \<noteq> word_of_nat k"
  using length_bit [OF assms] error_bit by metis+

lemma cat_result:
  assumes X: "curl_delivers X" and to: "length to < 2 ^ 63" and k: "k < 2 ^ 31"
    and c: "ipfs_cat X cid to (word_of_nat (length to)) fsize rpc e = Some ((word_of_nat k, to'), rpc', e')"
  shows "k \<le> length to \<and> length to' = length to \<and> drop k to' = drop k to"
proof -
  let ?u = "\<lparr>us_mem = to, us_pos = 0, us_limit = length to, us_ub = False\<rparr>"
  note no = error_not_length [OF k]
  have n: "unat (word_of_nat (length to) :: size_t) = length to" using to by (simp add: unat_len)
  from c obtain url where url: "current_url rpc ''/api/v0/cat'' = Some url"
    by (cases "current_url rpc ''/api/v0/cat''") (simp_all add: ipfs_cat_def)
  obtain ho e1 where new: "http_client_new X e = (ho, e1)" by fastforce
  obtain h where h: "http_client_new X e = (Some h, e1)"
    using c url new no by (cases ho) (simp_all add: ipfs_cat_def)
  define hc where "hc = snd (http_client_set_response_body X get_response_body_cb ?u
    (snd (http_client_set_request_body_instant X None 0 (snd (easy_setopt X CURLOPT_POST
      (snd (http_client_set_query X ''arg'' cid (snd (http_client_set_url X url h)))))))))"
  have hc: "write_target (hc_opts hc) = USER_WRITE" "hc_user hc = Some (get_response_body_cb, ?u)"
    by (simp_all add: hc_def http_client_set_response_body_def easy_setopt_def write_target_def)
  obtain rc c' e2 where r: "http_client_request X hc e1 = (rc, c', e2)" by (cases "http_client_request X hc e1")
  from c no obtain u cb where u: "hc_user c' = Some (cb, u)" "rc = 0" "us_mem u = to'" "word_of_nat k = fsize" "unat fsize = us_pos u"
    using r h url n
    by (auto simp: ipfs_cat_def Let_def hc_def [symmetric] split: option.splits if_splits prod.splits)
  have "bounded_ok (length to) to (UserSink ?u)" by (simp add: bounded_ok_def)
  from user_request [OF r [unfolded u(2)] X hc this] u(1) have "bounded_ok (length to) to (UserSink u)" by auto
  moreover have "unat (word_of_nat k :: size_t) = k" using k by (simp add: unat_of_nat)
  ultimately show ?thesis using u by (auto simp: bounded_ok_def)
qed


lemma deliver_feeds: "deliver wr cs s w = Some s' \<Longrightarrow> feeds wr cs s s'"
  by (induction wr cs s w rule: deliver.induct) (auto split: prod.splits if_splits intro: feeds.intros)

lemma node_delivers: "curl_delivers node_ext"
  by (auto simp: curl_delivers_def node_ext_def json_ext_def curl_os.defs split: prod.splits option.splits
      dest: deliver_feeds)


end
