(* ===== verification/Onedrive_Keystore.thy ===== *)
theory Onedrive_Keystore
  imports Onedrive_Store Oauth_Login
begin

text \<open>
  The key store of the OneDrive backend: what \<open>oauth_writeback\<close> leaves on disk is what
  \<open>load_keystore_in_json\<close> reads, so a connection made after a login needs no second login.
\<close>

subsection \<open>Directories that are there\<close>

definition dir_chain :: "fs \<Rightarrow> string \<Rightarrow> bool" where
  \<comment> \<open>the directory and what leads to it exist\<close>
  "dir_chain f dir \<longleftrightarrow> (\<forall>p q. dir = p @ q \<longrightarrow> p \<noteq> [] \<longrightarrow> (q = [] \<or> hd q = SLASH) \<longrightarrow> fs_lookup f p = Some FDir)"

definition way_to :: "fs \<Rightarrow> string \<Rightarrow> bool" where
  \<comment> \<open>what leads to the path exists\<close>
  "way_to f path \<longleftrightarrow> (\<forall>p q. path = p @ SLASH # q \<longrightarrow> p \<noteq> [] \<longrightarrow> fs_lookup f p = Some FDir)"

lemma dir_chain_way: "dir_chain f dir \<Longrightarrow> way_to f dir"
  by (auto simp: dir_chain_def way_to_def)

lemma mkdir_existing: "os_still X \<Longrightarrow> fs_lookup (env_fs e) p = Some FDir \<Longrightarrow> mkdir_internal X p e = (0, e)"
  by (simp add: mkdir_internal_def sys_stat_def)

lemma mkdirs_loop_existing:
  "os_still X \<Longrightarrow> way_to (env_fs e) (before @ rest) \<Longrightarrow> mkdirs_loop X before rest e = (0, e)"
proof (induction X before rest e rule: mkdirs_loop.induct)
  case (1 X before rest e)
  let ?seg = "takeWhile (\<lambda>c. c \<noteq> SLASH) rest" and ?after = "dropWhile (\<lambda>c. c \<noteq> SLASH) rest"
  have r: "rest = ?seg @ ?after" by simp
  show ?case
  proof (cases "?after = []")
    case True
    then show ?thesis by (subst mkdirs_loop.simps) simp
  next
    case False
    then have hd: "hd ?after = SLASH" by (meson hd_dropWhile)
    have one: "(if ?seg \<noteq> [] then mkdir_internal X (before @ ?seg) e else (0, e)) = (0, e)"
    proof (cases "?seg = []")
      case False
      have "before @ rest = (before @ ?seg) @ SLASH # tl ?after"
        using hd \<open>?after \<noteq> []\<close> by (metis append.assoc list.collapse r)
      with "1.prems"(2) False have "fs_lookup (env_fs e) (before @ ?seg) = Some FDir"
        unfolding way_to_def by (metis append_is_Nil_conv)
      then show ?thesis using "1.prems"(1) False by (simp add: mkdir_existing)
    qed simp
    have "(before @ ?seg @ [SLASH]) @ tl ?after = before @ rest"
      using False hd by (metis append.assoc append_Cons append_Nil list.collapse r)
    then have "mkdirs_loop X (before @ ?seg @ [SLASH]) (tl ?after) e = (0, e)"
      using "1.IH" [OF refl refl False one [symmetric] refl] "1.prems" by simp
    then show ?thesis using False one by (subst mkdirs_loop.simps) (simp add: Let_def)
  qed
qed

lemma mkdirs_last:
  assumes "os_still X" "way_to (env_fs e) path" "length path < PATH_MAX"
  shows "mkdirs X path e = mkdir_internal X path e"
  using assms mkdirs_loop_existing [OF assms(1), of e "[]" path] by (simp add: mkdirs_def)

lemma mkdirs_existing:
  assumes "os_still X" "dir_chain (env_fs e) path" "path \<noteq> []" "length path < PATH_MAX"
  shows "mkdirs X path e = (0, e)"
proof -
  have "fs_lookup (env_fs e) path = Some FDir" using assms(2,3) unfolding dir_chain_def by auto
  then show ?thesis
    using mkdirs_last [OF assms(1) dir_chain_way [OF assms(2)] assms(4)] assms(1) by (simp add: mkdir_existing)
qed

lemma lookup_put_same:
  "path \<noteq> [] \<Longrightarrow> fs_lookup f path \<noteq> Some FDir \<Longrightarrow> fs_lookup (fs_put path (FFile bs) f) path = Some (FFile bs)"
  by (auto simp: fs_lookup_def fs_put_def split: if_splits)

lemma lookup_put_dir:
  "fs_lookup f path \<noteq> Some FDir \<Longrightarrow> path \<noteq> [] \<Longrightarrow> fs_lookup f p = Some FDir \<Longrightarrow>
     fs_lookup (fs_put path (FFile bs) f) p = Some FDir"
  by (auto simp: fs_lookup_def fs_put_def split: if_splits)

lemma dir_chain_put:
  "dir_chain f dir \<Longrightarrow> fs_lookup f path \<noteq> Some FDir \<Longrightarrow> path \<noteq> [] \<Longrightarrow> dir_chain (fs_put path (FFile bs) f) dir"
  unfolding dir_chain_def by (blast intro: lookup_put_dir)

subsection \<open>Writing and loading\<close>

definition os_works :: "('w, 'a) os_scheme \<Rightarrow> bool" where
  \<comment> \<open>no call fails, no transfer is cut short and only the network moves the world\<close>
  "os_works X \<longleftrightarrow> os_still X \<and> (\<forall>n w. os_xfer X n w = (n, w))"

lemma os_worksD: "os_works X \<Longrightarrow> os_still X" "os_works X \<Longrightarrow> os_xfer X n w = (n, w)"
  by (simp_all add: os_works_def)

definition prints_back :: "('j, 'w) ext \<Rightarrow> 'j \<Rightarrow> string \<Rightarrow> bool" where
  \<comment> \<open>cJSON prints the value as this text and reads the text back\<close>
  "prints_back X j s \<longleftrightarrow> cj_print X j = Some s \<and> s \<noteq> [] \<and> (\<forall>rest. cj_parse X (s @ NUL # rest) = Some j)"

lemma small_int: "n \<le> 4096 \<Longrightarrow> ssize_to_int (word_of_nat n) = word_of_nat n"
  by (simp add: ssize_to_int_def unsigned_of_nat take_bit_nat_eq_self)

lemma small_signed: "n \<le> 4096 \<Longrightarrow> sint (ssize_to_int (word_of_nat n)) = int n"
  by (simp add: small_int signed_of_nat signed_take_bit_int_eq_self)

lemma writeback_stores:
  assumes "os_works X" "prints_back X j s" "length s < 4096" "path \<noteq> []"
    and "fs_lookup (env_fs e) path \<noteq> Some FDir" "fs_lookup (env_fs e) path = None \<Longrightarrow> has_parent (env_fs e) path"
  shows "oauth_writeback X path j e = (0, e\<lparr>env_fs := fs_put path (FFile (s @ [NUL])) (env_fs e)\<rparr>)"
proof -
  have c: "sys_create_trunc X path e = (True, e\<lparr>env_fs := fs_put path (FFile []) (env_fs e)\<rparr>)"
    using assms by (auto simp: sys_create_trunc_def os_worksD)
  have two: "fs_put path n (fs_put path m f) = fs_put path n f" for n m f by (simp add: fs_put_def)
  have w: "ssize_to_int (word_of_nat (Suc (length s))) = (word_of_nat (Suc (length s)) :: c_int)"
    by (rule small_int) (use assms(3) in simp)
  show ?thesis
    using assms(1,2) c w
    by (simp add: oauth_writeback_def prints_back_def sys_write_def os_worksD two Let_def del: of_nat_Suc of_nat_add)
qed

lemma load_file:
  assumes "os_works X" "fs_lookup (env_fs e) path = Some (FFile bs)" "bs \<noteq> []" "length bs \<le> 4096"
    and "cj_parse X (bs @ replicate (4096 - length bs) NUL) = Some j"
  shows "load_keystore_in_json X path e = (Some j, e)"
  using assms small_signed [OF assms(4)]
  by (simp add: load_keystore_in_json_def sys_stat_def sys_open_rd_def sys_read_def os_worksD neg_def Let_def)

lemma load_stored:
  assumes "os_works X" "prints_back X j s" "length s < 4096" "fs_lookup (env_fs e) path = Some (FFile (s @ [NUL]))"
  shows "load_keystore_in_json X path e = (Some j, e)"
  by (rule load_file [OF assms(1,4)]) (use assms(2,3) in \<open>simp_all add: prints_back_def\<close>)

subsection \<open>Connecting again\<close>

definition keystore_file :: "string \<Rightarrow> string" where
  "keystore_file loc = loc @ ''/.data/onedrive.json''"

definition keystore_dir :: "string \<Rightarrow> string" where
  "keystore_dir loc = loc @ ''/.data''"

lemma keystore_dirname: "posix_dirname (keystore_file loc) = keystore_dir loc"
  by (simp add: posix_dirname_def keystore_file_def keystore_dir_def strip_slashes_def Let_def)

definition saved_token :: "('j, 'w) ext \<Rightarrow> string \<Rightarrow> 'w onedrive_options \<Rightarrow> ('j, 'w) oauth_token \<Rightarrow> bool" where
  \<comment> \<open>a token with tokens of a connection with these options whose client data are at \<open>loc\<close>\<close>
  "saved_token X loc opts tok \<longleftrightarrow>
     token_type tok \<noteq> None \<and> access_token tok \<noteq> None \<and> refresh_token tok \<noteq> None \<and>
     authorize_url tok = URL_OAUTH @ ''authorize'' \<and> token_url tok = URL_OAUTH @ ''token'' \<and>
     ood_client_id opts = Some (client_id tok) \<and> ood_scope opts = Some (scope tok) \<and>
     ood_redirect_url opts = Some (redirect_url tok) \<and>
     writeback_cb tok = (\<lambda>json e. Some (oauth_writeback X (keystore_file loc) json e))"

definition good_options :: "'w onedrive_options \<Rightarrow> bool" where
  "good_options opts \<longleftrightarrow> is_str (ood_client_id opts) \<and> is_str (ood_redirect_url opts) \<and> is_str (ood_scope opts) \<and>
     strstr (the (ood_scope opts)) ''Files.ReadWrite.AppFolder'' \<and> ood_callback opts \<noteq> None \<and>
     backendType opts = HiveBackendType_OneDrive"

definition restored :: "('j, 'w) oauth_token \<Rightarrow> ('j, 'w) oauth_token" where
  \<comment> \<open>the expiry is stored in whole seconds\<close>
  "restored tok = tok\<lparr>expires_at := (expires_at tok)\<lparr>tv_usec := 0\<rparr>\<rparr>"

lemma saved_connects:
  assumes X: "os_works X" "json_objects X" "cj_new_object X = Some j0" "token_json X tok j0 = Some j"
    and tok: "saved_token X (data_location cl) opts tok" "good_options opts"
    and s: "prints_back X j s" "length s < 4096"
    and fs: "fs_lookup (env_fs e) (keystore_file (data_location cl)) = Some (FFile (s @ [NUL]))"
      "dir_chain (env_fs e) (keystore_dir (data_location cl))" "length (keystore_file (data_location cl)) < PATH_MAX"
  shows "onedrive_client_connect X cl opts e =
    Some (Some (onedrive_methods X \<lparr>od_token = restored tok, keystore_path = keystore_file (data_location cl)\<rparr>), e)"
proof -
  let ?path = "keystore_file (data_location cl)"
  note S = os_worksD(1) [OF X(1)]
  let ?oopts = "\<lparr>opt_authorize_url = URL_OAUTH @ ''authorize'', opt_token_url = URL_OAUTH @ ''token'',
    opt_client_id = client_id tok, opt_scope = scope tok, opt_redirect_url = redirect_url tok, opt_store = Some j\<rparr>"
  have new: "oauth_token_new X ?oopts (\<lambda>json e. Some (oauth_writeback X ?path json e)) e = Some (Some (restored tok), e)"
    using token_new_restores [OF X(2) S X(3,4), of ?oopts e] tok(1) by (simp add: saved_token_def restored_def)
  have "access_token (restored tok) \<noteq> None" using tok(1) by (simp add: saved_token_def restored_def)
  with new have c: "connect_with_token X ?path (Some j) (client_id tok) (scope tok) (redirect_url tok) cb e =
      Some (Some (onedrive_methods X \<lparr>od_token = restored tok, keystore_path = ?path\<rparr>), e)" for cb
    by (simp add: connect_with_token_def oauth_token_request_def neg_def)
  have len: "sint (word_of_nat (length ?path) :: c_int) = int (length ?path)"
    using fs(3) by (simp only: signed_of_nat) (simp add: signed_take_bit_int_eq_self PATH_MAX_def)
  have sp: "snprintf PATH_MAX (data_location cl @ ''/.data/onedrive.json'') = (word_of_nat (length ?path), ?path)"
    using fs(3) by (simp add: snprintf_def keystore_file_def)
  have m: "mkdirs X (posix_dirname ?path) e = (0, e)"
    unfolding keystore_dirname
    by (rule mkdirs_existing [OF S fs(2)]) (use fs(3) in \<open>simp_all add: keystore_dir_def keystore_file_def\<close>)
  have a: "sys_access X ?path e = (True, e)" using S fs(1) by (simp add: sys_access_def)
  show ?thesis
    using tok c m a S len fs(3) load_stored [OF X(1) s fs(1)]
    by (auto simp: onedrive_client_connect_def good_options_def saved_token_def sp neg_def)
qed

end
