(* ===== verification/Onedrive_List.thy ===== *)
theory Onedrive_List
  imports Onedrive_Drive Oauth_Login Hive_File
begin

text \<open>
  Listing the files of a drive: the drive answers in pages, each with the URL of the next, and
  \<open>list_files\<close> gives the application the names of all pages in order once the last has arrived.
\<close>

subsection \<open>Pages\<close>

definition list_request :: "string \<Rightarrow> string \<Rightarrow> request" where
  "list_request auth url =
     \<lparr>rq_opts = default_opts @ CURLOPT_HTTPGET # body_opts @ [CURLOPT_HTTPHEADER [auth_header auth]],
      rq_url = [url_part url], rq_mime = []\<rparr>"

definition drive_entry :: "('j, 'w) ext \<Rightarrow> 'j \<Rightarrow> string \<Rightarrow> bool" where
  \<comment> \<open>an item of a listing: a name, and either a file or a folder\<close>
  "drive_entry X item name \<longleftrightarrow>
     (\<exists>n. cj_get_cs X item ''name'' = Some n \<and> cj_is_string X n \<and> cj_valuestring X n = Some name \<and> name \<noteq> []) \<and>
     (\<exists>m. cj_is_object X m \<and>
        (cj_get_cs X item ''file'' = Some m \<and> cj_get_cs X item ''folder'' = None \<or>
         cj_get_cs X item ''file'' = None \<and> cj_get_cs X item ''folder'' = Some m))"

definition page_json :: "('j, 'w) ext \<Rightarrow> 'j \<Rightarrow> 'j list \<Rightarrow> string option \<Rightarrow> bool" where
  "page_json X j items nxt \<longleftrightarrow>
     (\<exists>sub. cj_get_cs X j ''value'' = Some sub \<and> cj_is_array X sub \<and> cj_items X sub = items) \<and>
     (case nxt of
        None \<Rightarrow> cj_get_cs X j ''@odata.nextLink'' = None
      | Some u \<Rightarrow> u \<noteq> [] \<and>
          (\<exists>l. cj_get_cs X j ''@odata.nextLink'' = Some l \<and> cj_is_string X l \<and> cj_valuestring X l = Some u))"

definition page_served ::
    "('j, 'w) ext \<Rightarrow> 'w service \<Rightarrow> string \<Rightarrow> string \<Rightarrow> 'w \<Rightarrow> 'j list \<Rightarrow> string option \<Rightarrow> 'w \<Rightarrow> bool" where
  "page_served X serve auth url w items nxt w' \<longleftrightarrow>
     (\<exists>cs j. answers serve (list_request auth url) w HttpStatus_OK cs w' \<and> concat cs \<noteq> [] \<and>
        (\<forall>rest. cj_parse X (concat cs @ rest) = Some j) \<and> page_json X j items nxt)"

inductive listing ::
    "('j, 'w) ext \<Rightarrow> 'w service \<Rightarrow> string \<Rightarrow> string \<Rightarrow> 'w \<Rightarrow> 'j list \<Rightarrow> 'w \<Rightarrow> bool"
  for X serve auth where
  last_page: "page_served X serve auth url w items None w' \<Longrightarrow> listing X serve auth url w items w'"
| more_pages: "page_served X serve auth url w items (Some u) w1 \<Longrightarrow> listing X serve auth u w1 rest w2 \<Longrightarrow>
     listing X serve auth url w (items @ rest) w2"

inductive_cases listingE: "listing X serve auth url w items w'"

fun visit_names :: "'w files_cb \<Rightarrow> string list \<Rightarrow> 'w env \<Rightarrow> 'w env" where
  \<comment> \<open>the names in order and then a null pointer, unless the callback stops it\<close>
  "visit_names cb [] e = snd (cb None e)"
| "visit_names cb (n # ns) e = (let (resume, e) = cb (Some n) e in if \<not> resume then e else visit_names cb ns e)"

lemma merge_entries:
  "list_all2 (drive_entry X) items names \<Longrightarrow> merge_array X items array = (0, array @ items)"
  by (induction items names arbitrary: array rule: list_all2_induct)
    (auto simp: drive_entry_def IS_STRING_NODE_def Let_def)

lemma notify_entries:
  "list_all2 (drive_entry X) items names \<Longrightarrow> notify_user_files X items cb e = Some (visit_names cb names e)"
  by (induction items names arbitrary: e rule: list_all2_induct) (auto simp: drive_entry_def split: prod.split)

definition list_client :: "string \<Rightarrow> string \<Rightarrow> http_client" where
  "list_client auth url = new_client\<lparr>hc_opts := default_opts @ CURLOPT_HTTPGET # body_opts,
     hc_hdr := [auth_header auth], hc_url := [url_part url]\<rparr>"

lemma list_client:
  "ready_request X (list_client auth url) = list_request auth url"
  "write_target (hc_opts (list_client auth url)) = HTTP_RESPONSE_BODY_WRITE"
  "hc_body (list_client auth url) = hc_body new_client"
  by (simp_all add: ready_request_def request_of_def prepare_request_def list_client_def list_request_def
      easy_setopt_def new_client_def body_opts_def)

lemma reset_new: "hc_body c = hc_body new_client \<Longrightarrow> http_client_reset c = new_client"
  by (cases c) (simp add: http_client_reset_def new_client_def)

lemma page_result:
  assumes X: "os_still X" "curl_works X" "http_service X serve" "access_token tok = Some auth"
    and p: "page_served X serve auth url (env_world e) items nxt w'" "list_all2 (drive_entry X) items names"
    and c: "hc_body c = hc_body new_client"
  shows "\<exists>c'. hc_body c' = hc_body new_client \<and> list_page X cb tok c url array e =
    (case nxt of
       Some u \<Rightarrow> Some (Inr u, tok, c', array @ items, e\<lparr>env_world := w'\<rparr>)
     | None \<Rightarrow> do { e \<leftarrow> notify_user_files X (array @ items) cb (e\<lparr>env_world := w'\<rparr>);
                    Some (Inl 0, tok, c', array @ items, e) })"
proof -
  from p(1) obtain cs j where a: "answers serve (list_request auth url) (env_world e) HttpStatus_OK cs w'"
    "concat cs \<noteq> []" "\<And>rest. cj_parse X (concat cs @ rest) = Some j" "page_json X j items nxt"
    unfolding page_served_def by (elim exE conjE) (rule that, assumption+, erule spec, assumption)
  have "answers serve (ready_request X (list_client auth url)) (env_world e) HttpStatus_OK cs w'"
    using a(1) by (simp add: list_client(1))
  from exchange_takes [OF X(1,3) list_client(2,3) this, of tok] obtain r where
    r: "authorized_exchange X tok (list_client auth url) e =
      (Inr HttpStatus_OK, tok, (prepare_request X (list_client auth url))\<lparr>hc_body := r\<rparr>, e\<lparr>env_world := w'\<rparr>)"
    "holds_body r (concat cs)" by blast
  note b = holds_body_parses [where X = X, OF r(2) a(2,3)]
  let ?c = "(prepare_request X (list_client auth url))\<lparr>hc_body := \<lparr>rb_used = 0, rb_sz = 0, rb_data = []\<rparr>\<rparr>"
  obtain sub where sub: "cj_get_cs X j ''value'' = Some sub" "cj_is_array X sub" "cj_items X sub = items"
    using a(4) unfolding page_json_def by blast
  have m: "merge_array X items array = (0, array @ items)" by (rule merge_entries [OF p(2)])
  have n: "cj_get_cs X j ''@odata.nextLink'' = None" if "nxt = None" using a(4) that by (simp add: page_json_def)
  have l: "\<exists>l. cj_get_cs X j ''@odata.nextLink'' = Some l \<and> IS_STRING_NODE X (Some l) = Some u" if "nxt = Some u" for u
  proof -
    from a(4) that obtain l where "u \<noteq> []" "cj_get_cs X j ''@odata.nextLink'' = Some l" "cj_is_string X l"
      "cj_valuestring X l = Some u"
      by (simp add: page_json_def) blast
    then show ?thesis by (intro exI [of _ l]) (simp add: IS_STRING_NODE_def)
  qed
  have start: "list_page X cb tok c url array e = (case authorized_exchange X tok (list_client auth url) e of (r, tok, c, e) \<Rightarrow>
      (case r of
         Inl rc \<Rightarrow> Some (Inl rc, tok, c, array, e)
       | Inr resp_code \<Rightarrow>
           if resp_code \<noteq> HttpStatus_OK then Some (Inl (status_error resp_code), tok, c, array, e)
           else
             do {
               (body, n, c) \<leftarrow> http_client_move_response_body False c;
               let stop = (\<lambda>code. Some (Inl (HIVE_GENERAL_ERROR code), tok, c, array, e));
               case body of
                 None \<Rightarrow> stop HIVEERR_OUT_OF_MEMORY
               | Some b \<Rightarrow>
                   (case cj_parse X b of
                      None \<Rightarrow> stop HIVEERR_OUT_OF_MEMORY
                    | Some json \<Rightarrow>
                        (case cj_get_cs X json ''value'' of
                           None \<Rightarrow> stop HIVEERR_BAD_JSON_FORMAT
                         | Some sub \<Rightarrow>
                             if \<not> cj_is_array X sub then stop HIVEERR_BAD_JSON_FORMAT
                             else
                               (let (rc, array) = merge_array X (cj_items X sub) array;
                                    next_link = cj_get_cs X json ''@odata.nextLink'' in
                                if neg rc then Some (Inl rc, tok, c, array, e)
                                else if next_link = None
                                then do { e \<leftarrow> notify_user_files X array cb e;
                                          Some (Inl 0, tok, c, array, e) }
                                else
                                  (case IS_STRING_NODE X next_link of
                                     None \<Rightarrow> stop HIVEERR_BAD_JSON_FORMAT
                                   | Some u \<Rightarrow> Some (Inr u, tok, c, array, e))))) }))"
    using X(2,4) reset_new [OF c]
    by (simp add: list_page_def setter_defs list_client_def new_client_def url_part_def auth_header_def body_opts_def Let_def)
  have "hc_body ?c = hc_body new_client" by (simp add: new_client_def)
  moreover have "list_page X cb tok c url array e =
    (case nxt of
       Some u \<Rightarrow> Some (Inr u, tok, ?c, array @ items, e\<lparr>env_world := w'\<rparr>)
     | None \<Rightarrow> do { e \<leftarrow> notify_user_files X (array @ items) cb (e\<lparr>env_world := w'\<rparr>);
                    Some (Inl 0, tok, ?c, array @ items, e) })"
  proof (cases "nxt")
    case None
    then show ?thesis
      using start r(1) b sub m n by (simp add: http_client_move_response_body_def neg_def)
  next
    case (Some u)
    then show ?thesis
      using start r(1) b sub m l [OF Some] by (auto simp: http_client_move_response_body_def neg_def)
  qed
  ultimately show ?thesis by (intro exI [of _ ?c] conjI)
qed

subsection \<open>All pages\<close>

lemma list_all2_append_split:
  "list_all2 P (xs @ ys) zs \<Longrightarrow> \<exists>us vs. zs = us @ vs \<and> list_all2 P xs us \<and> list_all2 P ys vs"
  by (metis list_all2_append1)

lemma pages_result:
  assumes "listing X serve auth url w items w'"
    and X: "os_still X" "curl_works X" "http_service X serve" "access_token tok = Some auth"
    and e: "env_world e = w" and items: "list_all2 (drive_entry X) items names" "list_all2 (drive_entry X) array before"
    and c: "hc_body c = hc_body new_client"
  shows "list_pages X cb tok c url array e = Some (0, tok, visit_names cb (before @ names) (e\<lparr>env_world := w'\<rparr>))"
  using assms(1) e items c
proof (induction arbitrary: e names array before c rule: listing.induct)
  case (last_page url w items w')
  from page_result [OF X, of url e items None w' names c cb array] last_page obtain c' where
    "list_page X cb tok c url array e = do { e \<leftarrow> notify_user_files X (array @ items) cb (e\<lparr>env_world := w'\<rparr>);
       Some (Inl 0, tok, c', array @ items, e) }" by auto
  moreover have "list_all2 (drive_entry X) (array @ items) (before @ names)"
    using last_page.prems by (simp add: list_all2_appendI)
  ultimately show ?case by (subst list_pages.simps) (simp add: notify_entries)
next
  case (more_pages url w items u w1 rest w2)
  from list_all2_append_split [OF more_pages.prems(2)] obtain us vs where
    names: "names = us @ vs" "list_all2 (drive_entry X) items us" "list_all2 (drive_entry X) rest vs" by blast
  from page_result [OF X, of url e items "Some u" w1 us c cb array] more_pages names obtain c' where
    p: "hc_body c' = hc_body new_client" "list_page X cb tok c url array e = Some (Inr u, tok, c', array @ items, e\<lparr>env_world := w1\<rparr>)"
    by auto
  have "list_pages X cb tok c' u (array @ items) (e\<lparr>env_world := w1\<rparr>) =
      Some (0, tok, visit_names cb ((before @ us) @ vs) (e\<lparr>env_world := w1, env_world := w2\<rparr>))"
    by (rule more_pages.IH) (use p(1) names more_pages.prems in \<open>simp_all add: list_all2_appendI\<close>)
  then show ?case using p(2) names(1) by (subst list_pages.simps) simp
qed

definition FIRST_PAGE :: string where
  "FIRST_PAGE = APP_ROOT @ '':'' @ FILES_DIR @ '':/children''"

text \<open>
  C10: When the drive answers the listing in finitely many pages, each with the link to the next,
  hive_list_files ends with 0 and calls the callback with the names of all pages in order and then
  a null pointer, unless the callback stops it.
\<close>

theorem list_files_visits_every_page:
  assumes "os_still X" "curl_works X" "http_service X serve" "cj_new_array_ok X"
    and "access_token (od_token d) = Some auth" "oauth_token_check_expire X (od_token d) e = Some (0, od_token d, e)"
    and "listing X serve auth FIRST_PAGE (env_world e) items w'" "list_all2 (drive_entry X) items names"
  shows "hive_list_files (Some (onedrive_methods X d)) (Some cb) e =
    Some (0, Some (onedrive_methods X d), visit_names cb names (moved e w'))"
proof -
  have "list_pages X cb (od_token d) new_client FIRST_PAGE [] (moved e (env_world e)) =
      Some (0, od_token d, visit_names cb ([] @ names) ((moved e (env_world e))\<lparr>env_world := w'\<rparr>))"
    by (rule pages_result [OF assms(7,1-3,5)]) (use assms(8) in simp_all)
  then have "list_files_at X (od_token d) cb e = Some (0, od_token d, visit_names cb names (moved e w'))"
    using assms(4,6) client_new_works [OF assms(1,2), of e]
    by (simp add: list_files_at_def neg_def FIRST_PAGE_def moved_def)
  then show ?thesis
    by (simp add: hive_list_files_def Option.is_none_def onedrive_methods_def no_methods_def list_files_def on_token_def neg_def)
qed

definition two_pages_json :: "bytes \<Rightarrow> json option" where
  "two_pages_json t =
     Some (JObj (if hd t = CHR ''1'' then [(''value'', JStr ''a''), (''@odata.nextLink'', JStr ''u2'')]
                 else [(''value'', JStr ''b'')]))"

definition two_pages_serve :: "unit service" where
  "two_pages_serve rq w = (200, [if uc_text (hd (rq_url rq)) = Some ''u2'' then ''2'' else ''1''], w)"

definition item_of :: "string \<Rightarrow> json" where
  "item_of name = JObj [(''name'', JStr name), (''file'', JObj [])]"

definition two_pages_ext :: "(json, unit) ext" where
  "two_pages_ext = json_ext\<lparr>cj_parse := two_pages_json, cj_is_array := (\<lambda>j. True),
     cj_items := (\<lambda>j. case j of JStr s \<Rightarrow> [item_of s] | _ \<Rightarrow> []),
     curl_perform := (\<lambda>rq wr s w. case two_pages_serve rq w of (st, cs, w') \<Rightarrow>
        (case deliver wr cs s w' of Some s' \<Rightarrow> (CURLE_OK, s', w') | None \<Rightarrow> (23, s, w'))),
     curl_response_code := (\<lambda>w. (CURLE_OK, 200))\<rparr>"

lemma two_pages_fields:
  "os_still two_pages_ext" "curl_works two_pages_ext" "cj_new_array_ok two_pages_ext"
  "cj_parse two_pages_ext = two_pages_json" "cj_get_cs two_pages_ext j k = member ((=) k) j"
  "cj_is_array two_pages_ext j" "cj_items two_pages_ext (JStr n) = [item_of n]" "cj_is_string two_pages_ext (JStr n)"
  "cj_valuestring two_pages_ext (JStr n) = Some n" "cj_is_object two_pages_ext (JObj ms)"
  "os_now two_pages_ext w = (\<lparr>tv_sec = 1000, tv_usec = 0\<rparr>, w)"
  by (simp_all add: os_still_def curl_works_def two_pages_ext_def json_ext_def sample_curl_def sample_os_def curl_os.defs os.defs)

lemma two_pages_http: "http_service two_pages_ext two_pages_serve"
  by (auto simp: http_service_def two_pages_ext_def json_ext_def curl_os.defs two_pages_serve_def Let_def
      split: prod.splits option.splits if_splits)

lemma two_pages_listing: "listing two_pages_ext two_pages_serve auth FIRST_PAGE () [item_of ''a'', item_of ''b''] ()"
proof -
  have "page_served two_pages_ext two_pages_serve auth FIRST_PAGE () [item_of ''a''] (Some ''u2'') ()"
    by (auto simp: page_served_def answers_def two_pages_serve_def list_request_def url_part_def page_json_def
        two_pages_fields two_pages_json_def member_def FIRST_PAGE_def APP_ROOT_def intro!: exI [of _ "[''1'']"])
  moreover have "page_served two_pages_ext two_pages_serve auth ''u2'' () [item_of ''b''] None ()"
    by (auto simp: page_served_def answers_def two_pages_serve_def list_request_def url_part_def page_json_def
        two_pages_fields two_pages_json_def member_def intro!: exI [of _ "[''2'']"])
  ultimately show ?thesis using more_pages [OF _ last_page] by force
qed

theorem list_files_visits_every_page_witness:
  "hive_list_files (Some (onedrive_methods two_pages_ext \<lparr>od_token = json_token\<lparr>expires_at := \<lparr>tv_sec = 2000, tv_usec = 0\<rparr>\<rparr>,
        keystore_path = ''/k''\<rparr>))
      (Some (\<lambda>n e. (True, e\<lparr>env_errno := 10 * env_errno e + (if n = Some ''a'' then 1 else if n = Some ''b'' then 2 else 3)\<rparr>))) sample_env =
    Some (0, Some (onedrive_methods two_pages_ext \<lparr>od_token = json_token\<lparr>expires_at := \<lparr>tv_sec = 2000, tv_usec = 0\<rparr>\<rparr>,
        keystore_path = ''/k''\<rparr>), sample_env\<lparr>env_errno := 123\<rparr>)"
proof -
  let ?d = "\<lparr>od_token = json_token\<lparr>expires_at := \<lparr>tv_sec = 2000, tv_usec = 0\<rparr>\<rparr>, keystore_path = ''/k''\<rparr> :: (json, unit) onedrive_connect"
  have t: "oauth_token_check_expire two_pages_ext (od_token ?d) sample_env = Some (0, od_token ?d, sample_env)"
    by (simp add: oauth_token_check_expire_def oauth_token_is_expired_def gettimeofday_def two_pages_fields timer_after_def sample_env_def)
  have i: "list_all2 (drive_entry two_pages_ext) [item_of ''a'', item_of ''b''] [''a'', ''b'']"
    by (simp add: drive_entry_def item_of_def two_pages_fields member_def)
  have a: "access_token (od_token ?d) = Some ''at''" by (simp add: json_token_def)
  have l: "listing two_pages_ext two_pages_serve ''at'' FIRST_PAGE (env_world sample_env) [item_of ''a'', item_of ''b''] ()"
    using two_pages_listing by (simp add: sample_env_def)
  show ?thesis
    unfolding list_files_visits_every_page [OF two_pages_fields(1,2) two_pages_http two_pages_fields(3) a t l i]
    by (simp add: moved_def sample_env_def)
qed

end
