(* ===== verification/Hive_Backends.thy ===== *)
theory Hive_Backends
  imports Onedrive_Keystore Ipfs_Props
begin

text \<open>
  The table of backends of \<open>src/hive_client.c\<close> with the two backends of the sources, and the way from
  \<open>hive_client_connect\<close> to a connection that works. A connection of the table works on the data of
  either backend; the options of the application are those of the backend their type names.
\<close>

subsection \<open>The table\<close>

datatype ('j, 'w) backend = Onedrive_Data "('j, 'w) onedrive_connect" | Ipfs_Data ipfs_rpc

datatype 'w backend_options =
    Onedrive_Options "('w, unit) onedrive_options_ext"
  | Ipfs_Options "unit ipfs_options_ext"

type_synonym 'w any_options = "'w backend_options hive_connect_options_scheme"

definition lift_call :: "('d \<Rightarrow> 'c option) \<Rightarrow> ('c \<Rightarrow> 'd) \<Rightarrow> ('r, 'c, 'w) call \<Rightarrow> ('r, 'd, 'w) call" where
  \<comment> \<open>\<open>(OneDriveConnect *)base\<close>: the cast of the method to its own connection\<close>
  "lift_call out in_c f d e =
     do { c \<leftarrow> out d; (r, c, e) \<leftarrow> f c e; Some (r, in_c c, e) }"

definition lift_connect :: "('d \<Rightarrow> 'c option) \<Rightarrow> ('c \<Rightarrow> 'd) \<Rightarrow> ('c, 'w) hive_connect \<Rightarrow> ('d, 'w) hive_connect" where
  "lift_connect out in_c c =
     \<lparr>put_file_from_buffer_m = map_option (\<lambda>m a b d n. lift_call out in_c (m a b d n)) (put_file_from_buffer_m c),
      get_file_length_m = map_option (\<lambda>m n. lift_call out in_c (m n)) (get_file_length_m c),
      get_file_to_buffer_m = map_option (\<lambda>m n d t b. lift_call out in_c (m n d t b)) (get_file_to_buffer_m c),
      list_files_m = map_option (\<lambda>m cb. lift_call out in_c (m cb)) (list_files_m c),
      delete_file_m = map_option (\<lambda>m n. lift_call out in_c (m n)) (delete_file_m c),
      ipfs_put_file_from_buffer_m = map_option (\<lambda>m a b d n. lift_call out in_c (m a b d n)) (ipfs_put_file_from_buffer_m c),
      ipfs_get_file_length_m = map_option (\<lambda>m n. lift_call out in_c (m n)) (ipfs_get_file_length_m c),
      ipfs_get_file_to_buffer_m = map_option (\<lambda>m n d t b. lift_call out in_c (m n d t b)) (ipfs_get_file_to_buffer_m c),
      put_value_m = map_option (\<lambda>m k v n d. lift_call out in_c (m k v n d)) (put_value_m c),
      set_value_m = map_option (\<lambda>m k v n d. lift_call out in_c (m k v n d)) (set_value_m c),
      get_values_m = map_option (\<lambda>m k d cb. lift_call out in_c (m k d cb)) (get_values_m c),
      delete_key_m = map_option (\<lambda>m k. lift_call out in_c (m k)) (delete_key_m c),
      disconnect_m = map_option (lift_call out in_c) (disconnect_m c),
      expire_token_m = map_option (lift_call out in_c) (expire_token_m c), conn_data = in_c (conn_data c)\<rparr>"

definition as_onedrive :: "('j, 'w) backend \<Rightarrow> ('j, 'w) onedrive_connect option" where
  "as_onedrive b = (case b of Onedrive_Data d \<Rightarrow> Some d | Ipfs_Data _ \<Rightarrow> None)"

definition as_ipfs :: "('j, 'w) backend \<Rightarrow> ipfs_rpc option" where
  "as_ipfs b = (case b of Ipfs_Data d \<Rightarrow> Some d | Onedrive_Data _ \<Rightarrow> None)"

definition onedrive_entry :: "('j, 'w) ext \<Rightarrow> ('w backend_options, ('j, 'w) backend, 'w) factory" where
  "onedrive_entry X client opts e =
     (case hive_connect_options.more opts of
        Onedrive_Options x \<Rightarrow>
          do { (c, e) \<leftarrow> onedrive_client_connect X client \<lparr>backendType = backendType opts, \<dots> = x\<rparr> e;
               Some (map_option (lift_connect as_onedrive Onedrive_Data) c, e) }
      | Ipfs_Options _ \<Rightarrow> None)"

definition ipfs_entry :: "('j, 'w) ext \<Rightarrow> ('w backend_options, ('j, 'w) backend, 'w) factory" where
  "ipfs_entry X client opts e =
     (case hive_connect_options.more opts of
        Ipfs_Options x \<Rightarrow>
          do { (c, e) \<leftarrow> ipfs_client_connect X client \<lparr>backendType = backendType opts, \<dots> = x\<rparr> e;
               Some (map_option (lift_connect as_ipfs Ipfs_Data) c, e) }
      | Onedrive_Options _ \<Rightarrow> None)"

definition factory_methods ::
    "('j, 'w) ext \<Rightarrow> (c_int \<times> ('w backend_options, ('j, 'w) backend, 'w) factory option) list" where
  "factory_methods X = [(HiveBackendType_IPFS, Some (ipfs_entry X)), (HiveBackendType_OneDrive, Some (onedrive_entry X)),
     (HiveBackendType_Butt, None)]"

subsection \<open>Through the table\<close>

lemma lift_call_in: "out (in_c c) = Some c \<Longrightarrow>
   lift_call out in_c f (in_c c) e = (case f c e of None \<Rightarrow> None | Some (r, c, e) \<Rightarrow> Some (r, in_c c, e))"
  by (simp add: lift_call_def split: option.splits prod.splits)

lemma as_backend [simp]: "as_onedrive (Onedrive_Data d) = Some d" "as_ipfs (Ipfs_Data rpc) = Some rpc"
  by (simp_all add: as_onedrive_def as_ipfs_def)

definition onedrive_connection :: "('j, 'w) ext \<Rightarrow> ('j, 'w) onedrive_connect \<Rightarrow> (('j, 'w) backend, 'w) hive_connect" where
  "onedrive_connection X d = lift_connect as_onedrive Onedrive_Data (onedrive_methods X d)"

definition ipfs_connection :: "('j, 'w) ext \<Rightarrow> ipfs_rpc \<Rightarrow> (('j, 'w) backend, 'w) hive_connect" where
  "ipfs_connection X rpc = lift_connect as_ipfs Ipfs_Data (ipfs_methods X rpc)"

lemma connect_onedrive:
  assumes "backendType opts = HiveBackendType_OneDrive" "hive_connect_options.more opts = Onedrive_Options x"
  shows "hive_client_connect (factory_methods X) (Some cl) (Some opts) e =
    map_option (\<lambda>(c, e). (map_option (lift_connect as_onedrive Onedrive_Data) c, e))
      (onedrive_client_connect X cl \<lparr>backendType = HiveBackendType_OneDrive, \<dots> = x\<rparr> e)"
  using assms
  by (cases "onedrive_client_connect X cl \<lparr>backendType = HiveBackendType_OneDrive, \<dots> = x\<rparr> e")
    (simp_all add: hive_client_connect_def factory_methods_def onedrive_entry_def split: prod.split)

lemma connect_ipfs:
  assumes "backendType opts = HiveBackendType_IPFS" "hive_connect_options.more opts = Ipfs_Options x"
  shows "hive_client_connect (factory_methods X) (Some cl) (Some opts) e =
    map_option (\<lambda>(c, e). (map_option (lift_connect as_ipfs Ipfs_Data) c, e))
      (ipfs_client_connect X cl \<lparr>backendType = HiveBackendType_IPFS, \<dots> = x\<rparr> e)"
  using assms
  by (cases "ipfs_client_connect X cl \<lparr>backendType = HiveBackendType_IPFS, \<dots> = x\<rparr> e")
    (simp_all add: hive_client_connect_def factory_methods_def ipfs_entry_def split: prod.split)

lemma ipfs_connection_methods [simp]:
  "ipfs_put_file_from_buffer_m (ipfs_connection X rpc) =
     Some (\<lambda>a b c d. lift_call as_ipfs Ipfs_Data (ipfs_put_file_from_buffer X a b c d))"
  "ipfs_get_file_to_buffer_m (ipfs_connection X rpc) =
     Some (\<lambda>a b c d. lift_call as_ipfs Ipfs_Data (ipfs_get_file_to_buffer X a b c d))"
  "conn_data (ipfs_connection X rpc) = Ipfs_Data rpc"
  "(ipfs_connection X rpc)\<lparr>conn_data := Ipfs_Data rpc'\<rparr> = ipfs_connection X rpc'"
  by (simp_all add: ipfs_connection_def lift_connect_def ipfs_methods_def no_methods_def)

subsection \<open>A login is made once\<close>

text \<open>
  After the tokens of a login were written back, connecting to OneDrive with the same options
  loads them from the key store: the connection has the same tokens, its expiry cut to whole
  seconds, and neither the network nor the user is asked.
\<close>

theorem second_connect_needs_no_login:
  assumes X: "os_works X" "json_objects X" "cj_new_object X = Some j0" "token_json X tok j0 = Some j"
    and tok: "saved_token X loc \<lparr>backendType = HiveBackendType_OneDrive, \<dots> = x\<rparr> tok"
      "good_options \<lparr>backendType = HiveBackendType_OneDrive, \<dots> = x\<rparr>"
    and s: "prints_back X j s" "length s < 4096"
    and fs: "fs_lookup (env_fs e) (keystore_file loc) \<noteq> Some FDir" "has_parent (env_fs e) (keystore_file loc)"
      "dir_chain (env_fs e) (keystore_dir loc)" "length (keystore_file loc) < PATH_MAX"
  shows "\<exists>e'. writeback_tokens X tok e = Some e' \<and>
    e' = e\<lparr>env_fs := fs_put (keystore_file loc) (FFile (s @ [NUL])) (env_fs e)\<rparr> \<and>
    hive_client_connect (factory_methods X) (Some \<lparr>data_location = loc\<rparr>)
        (Some \<lparr>backendType = HiveBackendType_OneDrive, \<dots> = Onedrive_Options x\<rparr>) e' =
      Some (Some (onedrive_connection X \<lparr>od_token = restored tok, keystore_path = keystore_file loc\<rparr>), e')"
proof -
  let ?e = "e\<lparr>env_fs := fs_put (keystore_file loc) (FFile (s @ [NUL])) (env_fs e)\<rparr>"
  have ne: "keystore_file loc \<noteq> []" by (simp add: keystore_file_def)
  have w: "writeback_tokens X tok e = Some ?e"
    using writeback_stores [OF X(1) s ne fs(1,2)] X(3,4) tok(1) by (simp add: writeback_tokens_def saved_token_def)
  have "fs_lookup (env_fs ?e) (keystore_file loc) = Some (FFile (s @ [NUL]))"
    using lookup_put_same [OF ne fs(1)] by simp
  moreover have "dir_chain (env_fs ?e) (keystore_dir loc)" using dir_chain_put [OF fs(3,1) ne] by simp
  ultimately have c: "onedrive_client_connect X \<lparr>data_location = loc\<rparr> \<lparr>backendType = HiveBackendType_OneDrive, \<dots> = x\<rparr> ?e =
      Some (Some (onedrive_methods X \<lparr>od_token = restored tok, keystore_path = keystore_file loc\<rparr>), ?e)"
    using saved_connects [OF X _ tok(2) s, of "\<lparr>data_location = loc\<rparr>" ?e] tok(1) fs(4) by simp
  show ?thesis
    using w c by (intro exI [of _ ?e]) (simp add: connect_onedrive onedrive_connection_def)
qed

definition stored_json :: json where
  "stored_json = JObj [(''client_id'', JStr ''c''), (''token_type'', JStr ''bearer''), (''access_token'', JStr ''at''),
     (''refresh_token'', JStr ''rt''), (''expires_at'', JNum 9)]"

definition keystore_ext :: "(json, unit) ext" where
  "keystore_ext = json_ext\<lparr>cj_parse := (\<lambda>t. Some stored_json), cj_print := (\<lambda>j. Some ''tok'')\<rparr>"

definition kept_token :: "(json, unit) oauth_token" where
  "kept_token = json_token\<lparr>authorize_url := URL_OAUTH @ ''authorize'', token_url := URL_OAUTH @ ''token'',
     scope := ''Files.ReadWrite.AppFolder'', writeback_cb := (\<lambda>json e. Some (oauth_writeback keystore_ext (keystore_file ''/d'') json e))\<rparr>"

definition kept_options :: "unit onedrive_options" where
  "kept_options = \<lparr>backendType = HiveBackendType_OneDrive, ood_client_id = Some ''c'', ood_scope = Some ''Files.ReadWrite.AppFolder'',
     ood_redirect_url = Some ''r'', ood_callback = Some (\<lambda>url w. w)\<rparr>"

lemma keystore_objects: "json_objects keystore_ext"
proof -
  have "json_objects (X\<lparr>cj_parse := p, cj_print := q\<rparr>) = json_objects X" for X :: "(json, unit) ext" and p q
    by (simp add: json_objects_def add_string_def)
  then show ?thesis unfolding keystore_ext_def using json_ext_objects by simp
qed

lemma keystore_json:
  "cj_new_object keystore_ext = Some (JObj [])" "token_json keystore_ext kept_token (JObj []) = Some stored_json"
  "prints_back keystore_ext stored_json ''tok''" "os_works keystore_ext"
  by (simp_all add: keystore_ext_def json_ext_def curl_os.defs token_json_def kept_token_def json_token_def add_string_def
      with_member_def stored_json_def prints_back_def os_works_def os_still_def sample_curl_def sample_os_def os.defs Let_def)

theorem second_connect_needs_no_login_witness:
  "\<exists>e'. writeback_tokens keystore_ext kept_token (sample_env\<lparr>env_fs := [''/d'' \<mapsto> FDir, ''/d/.data'' \<mapsto> FDir]\<rparr>) = Some e' \<and>
    hive_client_connect (factory_methods keystore_ext) (Some \<lparr>data_location = ''/d''\<rparr>)
        (Some \<lparr>backendType = HiveBackendType_OneDrive, \<dots> = Onedrive_Options (hive_connect_options.more kept_options)\<rparr>) e' =
      Some (Some (onedrive_connection keystore_ext \<lparr>od_token = restored kept_token, keystore_path = ''/d/.data/onedrive.json''\<rparr>), e')"
proof -
  let ?f = "[''/d'' \<mapsto> FDir, ''/d/.data'' \<mapsto> FDir]"
  have o: "\<lparr>backendType = HiveBackendType_OneDrive, \<dots> = hive_connect_options.more kept_options\<rparr> = kept_options"
    by (simp add: kept_options_def)
  have saved: "saved_token keystore_ext ''/d'' \<lparr>backendType = HiveBackendType_OneDrive, \<dots> = hive_connect_options.more kept_options\<rparr> kept_token"
    "good_options \<lparr>backendType = HiveBackendType_OneDrive, \<dots> = hive_connect_options.more kept_options\<rparr>"
    unfolding o by (simp_all add: saved_token_def good_options_def kept_options_def kept_token_def json_token_def prefixb_def)
  have chain: "dir_chain ?f (keystore_dir ''/d'')"
    by (auto simp: dir_chain_def keystore_dir_def Cons_eq_append_conv fs_lookup_def fs_key_def)
  have path: "fs_lookup ?f (keystore_file ''/d'') \<noteq> Some FDir" "has_parent ?f (keystore_file ''/d'')"
    "length (keystore_file ''/d'') < PATH_MAX"
    by (simp_all add: keystore_file_def fs_lookup_def fs_key_def has_parent_def PATH_MAX_def)
  from second_connect_needs_no_login [OF keystore_json(4) keystore_objects keystore_json(1,2) saved keystore_json(3),
      of "sample_env\<lparr>env_fs := ?f\<rparr>"] chain path
  show ?thesis by (auto simp: keystore_file_def)
qed

subsection \<open>Files on the node that was found\<close>

text \<open>
  C4: A connection made through the table of backends to IPFS nodes that keep their promise works
  on one of the configured nodes: a file put through it is read back byte for byte through the
  identifier the put returned.
\<close>

theorem ipfs_connection_stores_files:
  assumes X: "os_still X" "curl_works X" and nodes: "check_nodes X (ipfs_options.rpc_node_list \<lparr>backendType = HiveBackendType_IPFS, \<dots> = x\<rparr>) = Some nodes"
    and up: "\<And>ip port. address_of nodes ip port \<Longrightarrow> ipfs_service X serve ip port blocks cid_of"
    and c: "hive_client_connect (factory_methods X) (Some cl)
      (Some \<lparr>backendType = HiveBackendType_IPFS, \<dots> = Ipfs_Options x\<rparr>) e = Some (Some c, e1)"
    and bs: "length bs \<le> 33554432" "bs \<noteq> []" and cid: "length cid = 65" and to: "length bs \<le> length to" "length to < 2 ^ 31"
  shows "\<exists>b w1 w2. hive_ipfs_put_file_from_buffer (Some c) (Some bs) (word_of_nat (length bs)) enc (Some cid) e1 =
      Some ((0, Some b), Some c, moved e1 w1) \<and> blocks w1 = (blocks (env_world e1))(cstr b \<mapsto> bs) \<and>
    hive_ipfs_get_file_to_buffer (Some c) (Some (cstr b)) enc (Some to) (word_of_nat (length to)) (moved e1 w1) =
      Some ((word_of_nat (length bs), Some (bs @ drop (length bs) to)), Some c, moved e1 w2)"
proof -
  from c obtain c0 where c0: "ipfs_client_connect X cl \<lparr>backendType = HiveBackendType_IPFS, \<dots> = x\<rparr> e = Some (Some c0, e1)"
    and lift: "c = lift_connect as_ipfs Ipfs_Data c0"
    by (auto simp: connect_ipfs)
  from connect_wf [OF c0] nodes obtain rpc where rpc: "c0 = ipfs_methods X rpc" "rpc_wf X rpc" "current_node_ip rpc \<noteq> []" "rpc_nodes rpc = nodes"
    by auto
  then have a: "address_of nodes (current_node_ip rpc) (current_node_port rpc)" by (simp add: rpc_wf_def)
  with rpc(2,4) have "length (current_node_ip rpc) \<le> 47" by (auto simp: address_of_def rpc_wf_def node_wf_def)
  with X rpc(3) up [OF a] have R: "node_ready X serve blocks cid_of rpc" by (simp add: node_ready_def)
  have C: "c = ipfs_connection X rpc" using lift rpc(1) by (simp add: ipfs_connection_def)
  have small: "length bs < 2 ^ 31" using bs(1) by simp
  obtain b w1 where 1: "ipfs_put_file_from_buffer X (Some bs) (word_of_nat (length bs)) enc cid rpc e1 = Some ((0, b), rpc, moved e1 w1)"
    "cstr b = cid_of bs" "blocks w1 = (blocks (env_world e1))(cid_of bs \<mapsto> bs)"
    using node_put [OF R small cid] by blast
  have v: "valid_cid (cstr b)" using node_readyD(6) [OF R] small 1(2) unfolding ipfs_service_def by simp
  obtain w2 where 2: "ipfs_get_file_to_buffer X (cstr b) enc to (word_of_nat (length to)) rpc (moved e1 w1) =
      Some ((word_of_nat (length bs), bs @ drop (length bs) to), rpc, moved e1 w2)"
    using node_get [OF R v, of "moved e1 w1" bs "length to" to] 1(2,3) bs(2) to by auto
  note n = buffer_words [OF bs to]
  show ?thesis
    using 1 2 v n
    by (intro exI [of _ b] exI [of _ w1] exI [of _ w2])
      (simp add: C hive_ipfs_put_file_from_buffer_def hive_ipfs_get_file_to_buffer_def Option.is_none_def valid_cid_def
        lift_call_in)
qed

definition pool_options :: ipfs_options where
  "pool_options = \<lparr>backendType = HiveBackendType_IPFS,
     rpc_node_list = [\<lparr>in_ipv4 = Some ''10.0.0.1'', in_ipv6 = None, in_port = Some ''5001''\<rparr>]\<rparr>"

definition pool_nodes :: "rpc_node list" where
  "pool_nodes = [\<lparr>node_ipv4 = ''10.0.0.1'', node_ipv6 = [], node_port = 5001\<rparr>]"

lemma pool_checked: "check_nodes node_ext (rpc_node_list pool_options) = Some pool_nodes"
proof -
  have "strtol ''5001'' = (5001, [])" by code_simp
  then show ?thesis
    by (simp add: pool_options_def pool_nodes_def check_node_def check_address_def is_valid_ip_def node_ext_def json_ext_def sample_curl_def
      sample_os_def curl_os.defs os.defs)
qed

lemma pool_connects:
  "ipfs_client_connect node_ext cl pool_options node_env = Some (Some (ipfs_methods node_ext
     \<lparr>current_node_ip = ''10.0.0.1'', current_node_port = 5001, rpc_nodes = pool_nodes\<rparr>), node_env)"
proof -
  have "answers node_serve (version_request ''10.0.0.1'' 5001) (env_world node_env) HttpStatus_OK [] (env_world node_env)"
    by (simp add: answers_def node_serve_def version_request_def url_part_def default_opts_def node_text_def node_env_def
        node_url_def nat_digits.simps)
  then have "test_reachable node_ext ''10.0.0.1'' 5001 node_env = (0, moved node_env (env_world node_env))"
    by (rule answered_reachable [OF node_ext_fields(1,2) node_http, rotated]) simp
  then have "try_node node_ext \<lparr>node_ipv4 = ''10.0.0.1'', node_ipv6 = [], node_port = 5001\<rparr> node_env =
      (Some (''10.0.0.1'', 5001), node_env)"
    by (simp add: try_node_def try_address_def moved_def node_env_def)
  moreover obtain r where "os_rand node_ext (env_world node_env) = (r, env_world node_env)"
    by (simp add: node_ext_def json_ext_def sample_curl_def sample_os_def curl_os.defs os.defs)
  ultimately have "select_bootstrap node_ext pool_nodes node_env = Some ((0, Some (''10.0.0.1'', 5001)), node_env)"
    using select_round_robin [of pool_nodes node_ext node_env] by (simp add: pool_nodes_def)
  then show ?thesis
    using pool_checked node_ext_fields(1)
    by (simp add: ipfs_client_connect_def ipfs_rpc_new_def set_current_def neg_def) (simp add: pool_options_def)
qed

theorem ipfs_connection_stores_files_witness:
  "\<exists>c e1 b w1 w2. hive_client_connect (factory_methods node_ext) (Some \<lparr>data_location = ''/d''\<rparr>)
      (Some \<lparr>backendType = HiveBackendType_IPFS, \<dots> = Ipfs_Options (hive_connect_options.more pool_options)\<rparr>) node_env =
      Some (Some c, e1) \<and>
    hive_ipfs_put_file_from_buffer (Some c) (Some ''data'') 4 False (Some (replicate 65 CHR ''.'')) e1 =
      Some ((0, Some b), Some c, moved e1 w1) \<and>
    hive_ipfs_get_file_to_buffer (Some c) (Some (cstr b)) False (Some ''......'') 6 (moved e1 w1) =
      Some ((4, Some ''data..''), Some c, moved e1 w2)"
proof -
  have o: "\<lparr>backendType = HiveBackendType_IPFS, \<dots> = hive_connect_options.more pool_options\<rparr> = pool_options"
    by (simp add: pool_options_def)
  let ?c = "ipfs_connection node_ext \<lparr>current_node_ip = ''10.0.0.1'', current_node_port = 5001, rpc_nodes = pool_nodes\<rparr>"
  have c: "hive_client_connect (factory_methods node_ext) (Some \<lparr>data_location = ''/d''\<rparr>)
      (Some \<lparr>backendType = HiveBackendType_IPFS, \<dots> = Ipfs_Options (hive_connect_options.more pool_options)\<rparr>) node_env =
      Some (Some ?c, node_env)"
    by (simp add: connect_ipfs o pool_connects ipfs_connection_def)
  have n: "check_nodes node_ext (rpc_node_list \<lparr>backendType = HiveBackendType_IPFS, \<dots> = hive_connect_options.more pool_options\<rparr>) =
      Some pool_nodes"
    unfolding o by (rule pool_checked)
  from ipfs_connection_stores_files [OF node_ext_fields(1,2) n node_service_sample c,
      of "''data''" "replicate 65 CHR ''.''" "''......''" False] c
  show ?thesis by auto
qed

end
