(* ===== verification/Onedrive_Login.thy ===== *)
theory Onedrive_Login
  imports Hive_Backends
begin

text \<open>
  The first connection to OneDrive: no key store yet, the browser brings the code, the token server
  grants the tokens, and they are written where the next connection finds them.
\<close>

subsection \<open>The directory of the key store\<close>

definition plain_dir :: "string \<Rightarrow> bool" where
  \<comment> \<open>a path in normal form that is not the root\<close>
  "plain_dir loc \<longleftrightarrow> loc \<noteq> [] \<and> squeeze loc = loc \<and> last loc \<noteq> SLASH"

lemma squeeze_append: "xs \<noteq> [] \<Longrightarrow> last xs \<noteq> SLASH \<Longrightarrow> squeeze (xs @ ys) = squeeze xs @ squeeze ys"
proof (induction xs)
  case (Cons a xs)
  then show ?case by (cases xs; cases ys) auto
qed simp

lemma plain_key: "plain_dir loc \<Longrightarrow> fs_key (loc @ s) = (let t = squeeze s in loc @ (if t \<noteq> [] \<and> last t = SLASH then butlast t else t))"
proof -
  assume loc: "plain_dir loc"
  then have "squeeze (loc @ s) = loc @ squeeze s" "loc \<noteq> []" "last loc \<noteq> SLASH"
    by (simp_all add: plain_dir_def squeeze_append)
  moreover have "1 < length loc + length (squeeze s)" if "squeeze s \<noteq> []"
    using that calculation(2) by (cases "squeeze s"; cases loc) auto
  ultimately show ?thesis by (simp add: fs_key_def Let_def butlast_append)
qed

lemma plain_keys:
  assumes "plain_dir loc"
  shows "fs_key loc = loc" "fs_key (loc @ ''/'') = loc" "fs_key (loc @ ''/.data'') = loc @ ''/.data''"
    "fs_key (loc @ ''/.data/'') = loc @ ''/.data''"
    "fs_key (loc @ ''/.data/onedrive.json'') = loc @ ''/.data/onedrive.json''"
  using plain_key [OF assms, of "[]"] plain_key [OF assms, of "''/''"] plain_key [OF assms, of "''/.data''"]
    plain_key [OF assms, of "''/.data/''"] plain_key [OF assms, of "''/.data/onedrive.json''"]
  by simp_all

lemma plain_lookup:
  assumes "plain_dir loc"
  shows "fs_lookup f loc = f loc" "fs_lookup f (loc @ ''/'') = f loc" "fs_lookup f (keystore_dir loc) = f (keystore_dir loc)"
    "fs_lookup f (loc @ ''/.data/'') = f (keystore_dir loc)" "fs_lookup f (keystore_file loc) = f (keystore_file loc)"
proof -
  have "loc \<noteq> ''/''" "loc \<noteq> []" using assms by (auto simp: plain_dir_def)
  then show "fs_lookup f loc = f loc" "fs_lookup f (loc @ ''/'') = f loc" "fs_lookup f (keystore_dir loc) = f (keystore_dir loc)"
    "fs_lookup f (loc @ ''/.data/'') = f (keystore_dir loc)" "fs_lookup f (keystore_file loc) = f (keystore_file loc)"
    by (simp_all add: fs_lookup_def plain_keys [OF assms] keystore_dir_def keystore_file_def)
qed

lemma plain_parents:
  assumes "plain_dir loc"
  shows "has_parent f (keystore_dir loc) \<longleftrightarrow> f loc = Some FDir"
    "has_parent f (keystore_file loc) \<longleftrightarrow> f (keystore_dir loc) = Some FDir"
  using plain_lookup [OF assms, of f]
  by (simp_all add: has_parent_def keystore_dir_def keystore_file_def plain_keys [OF assms])

definition with_dir :: "string \<Rightarrow> fs \<Rightarrow> fs" where
  \<comment> \<open>the tree with the directory of the key store, which is made when it is missing\<close>
  "with_dir loc f = f(keystore_dir loc \<mapsto> FDir)"

lemma plain_way: "plain_dir loc \<Longrightarrow> dir_chain f loc \<Longrightarrow> way_to f (keystore_dir loc)"
proof -
  assume loc: "plain_dir loc" and c: "dir_chain f loc"
  have "fs_lookup f p = Some FDir" if p: "keystore_dir loc = p @ SLASH # q" "p \<noteq> []" for p q
  proof -
    from p(1) consider us where "loc = p @ us" "us @ ''/.data'' = SLASH # q" | us where "p = loc @ us" "''/.data'' = us @ SLASH # q"
      by (auto simp: keystore_dir_def append_eq_append_conv2)
    then show ?thesis
    proof cases
      case 1
      then show ?thesis using c p(2) unfolding dir_chain_def by (cases us) auto
    next
      case 2
      then have "us = []" by (auto simp: Cons_eq_append_conv)
      then show ?thesis using 2(1) c p(2) unfolding dir_chain_def by simp
    qed
  qed
  then show ?thesis by (simp add: way_to_def)
qed

lemma makes_keystore_dir:
  assumes X: "os_still X" and loc: "plain_dir loc" "dir_chain (env_fs e) loc" "length (keystore_dir loc) < PATH_MAX"
    and free: "env_fs e (keystore_dir loc) \<in> {None, Some FDir}"
  shows "\<exists>n. mkdirs X (keystore_dir loc) e = (0, e\<lparr>env_errno := n, env_fs := with_dir loc (env_fs e)\<rparr>)"
proof -
  note m = mkdirs_last [OF X plain_way [OF loc(1,2)] loc(3)]
  have "fs_lookup (env_fs e) loc = Some FDir" using loc(1,2) unfolding dir_chain_def plain_dir_def by auto
  then have p: "has_parent (env_fs e) (keystore_dir loc)" by (simp add: plain_parents [OF loc(1)] plain_lookup [OF loc(1)])
  have ne: "keystore_dir loc \<noteq> []" by (simp add: keystore_dir_def)
  have k: "fs_key (keystore_dir loc) = keystore_dir loc" using plain_keys(3) [OF loc(1)] by (simp add: keystore_dir_def)
  show ?thesis
  proof (cases "env_fs e (keystore_dir loc) = None")
    case True
    then show ?thesis
      using X p ne unfolding m
      by (intro exI [of _ ENOENT])
        (simp add: mkdir_internal_def sys_stat_def sys_mkdir_def plain_lookup [OF loc(1)] set_errno_def with_dir_def fs_put_def k)
  next
    case False
    with free have "env_fs e (keystore_dir loc) = Some FDir" by simp
    then show ?thesis
      using X unfolding m
      by (intro exI [of _ "env_errno e"]) (simp add: mkdir_existing plain_lookup [OF loc(1)] with_dir_def fun_upd_idem)
  qed
qed

subsection \<open>The grant\<close>

definition login_body :: "string \<Rightarrow> string \<Rightarrow> string \<Rightarrow> string" where
  "login_body cid uri code =
     ''client_id='' @ cid @ ''&redirect_uri='' @ uri @ ''&code='' @ code @ ''&grant_type=authorization_code''"

definition token_request :: "string \<Rightarrow> string \<Rightarrow> request" where
  "token_request url body =
     \<lparr>rq_opts = default_opts @ [CURLOPT_POST, CURLOPT_POSTFIELDS (Some body), CURLOPT_POSTFIELDSIZE (length body)] @ body_opts,
      rq_url = [url_part url], rq_mime = []\<rparr>"

record grant =
  gr_type :: string
  gr_access :: string
  gr_refresh :: string
  gr_expires_in :: c_long

definition grants :: "('j, 'w) ext \<Rightarrow> bytes \<Rightarrow> grant \<Rightarrow> bool" where
  \<comment> \<open>the text is an answer of the token server that grants this\<close>
  "grants X text g \<longleftrightarrow> text \<noteq> [] \<and>
     (\<exists>json n. (\<forall>rest. cj_parse X (text @ rest) = Some json) \<and>
        IS_STRING_NODE X (cj_get_cs X json ''token_type'') = Some (gr_type g) \<and>
        IS_STRING_NODE X (cj_get_cs X json ''scope'') \<noteq> None \<and>
        IS_STRING_NODE X (cj_get_cs X json ''access_token'') = Some (gr_access g) \<and>
        IS_STRING_NODE X (cj_get_cs X json ''refresh_token'') = Some (gr_refresh g) \<and>
        cj_get_cs X json ''expires_in'' = Some n \<and> cj_is_number X n \<and> cj_valuelong X n = gr_expires_in g \<and>
        \<not> neg (gr_expires_in g))"

definition with_grant :: "('j, 'w) oauth_token \<Rightarrow> grant \<Rightarrow> timeval \<Rightarrow> ('j, 'w) oauth_token" where
  "with_grant tok g now = tok\<lparr>token_type := Some (gr_type g), access_token := Some (gr_access g),
     refresh_token := Some (gr_refresh g), expires_at := timeradd now \<lparr>tv_sec = gr_expires_in g, tv_usec = 0\<rparr>\<rparr>"

lemma decode_grant:
  assumes "os_still X" "cj_parse X b = Some json" "grants X text g" "\<forall>rest. cj_parse X (text @ rest) = Some json"
    and now: "os_now X (env_world e) = (now, w)"
  shows "decode_access_token X tok b e = (0, with_grant tok g now, e\<lparr>env_world := w\<rparr>)"
  using assms by (auto simp: decode_access_token_def grants_def with_grant_def gettimeofday_def IS_NUMBER_def split: option.splits)

definition code_granted ::
    "('j, 'w) ext \<Rightarrow> 'w service \<Rightarrow> ('j, 'w) oauth_token \<Rightarrow> string \<Rightarrow> 'w \<Rightarrow> grant \<Rightarrow> 'w \<Rightarrow> bool" where
  \<comment> \<open>the token server gives this for the code; the texts are escaped in some way and fit the array\<close>
  "code_granted X serve tok code w g w' \<longleftrightarrow>
     (\<exists>esc cs. (\<forall>s w. curl_easy_escape X s w = (Some (esc s), w)) \<and>
        length (login_body (esc (client_id tok)) (esc (redirect_url tok)) (esc code)) < 512 \<and>
        answers serve (token_request (token_url tok) (login_body (esc (client_id tok)) (esc (redirect_url tok)) (esc code)))
          w HttpStatus_OK cs w' \<and> grants X (concat cs) g)"

definition login_client :: "string \<Rightarrow> string \<Rightarrow> http_client" where
  "login_client url body = new_client\<lparr>hc_opts := rq_opts (token_request url body), hc_url := [url_part url]\<rparr>"

lemma login_client:
  "ready_request X (login_client url body) = token_request url body"
  "write_target (hc_opts (login_client url body)) = HTTP_RESPONSE_BODY_WRITE"
  "hc_body (login_client url body) = hc_body new_client"
  by (simp_all add: ready_request_def request_of_def prepare_request_def login_client_def token_request_def
      easy_setopt_def new_client_def body_opts_def)

lemma posts_login:
  "curl_works X \<Longrightarrow> token_post X tok body new_client e = http_client_request X (login_client (token_url tok) body) e"
  by (simp add: token_post_def http_setter_defs login_client_def token_request_def new_client_def url_part_def body_opts_def)

lemma grant_posted:
  assumes X: "os_still X" "curl_works X" "http_service X serve"
    and a: "answers serve (token_request (token_url tok) body) w HttpStatus_OK cs w1" and t: "grants X (concat cs) g"
    and now: "os_now X w1 = (now, w2)"
  shows "\<exists>c b n. token_post X tok body new_client (moved e w) = (CURLE_OK, c, moved e w1) \<and>
    curl_response_code X w1 = (CURLE_OK, HttpStatus_OK) \<and>
    http_client_move_response_body False c = Some (Some b, n, c\<lparr>hc_body := hc_body new_client\<rparr>) \<and>
    (\<forall>tok. decode_access_token X tok b (moved e w1) = (0, with_grant tok g now, moved e w2))"
proof -
  let ?c = "login_client (token_url tok) body"
  have a1: "answers serve (ready_request X ?c) (env_world (moved e w)) HttpStatus_OK cs w1" using a by (simp add: login_client)
  obtain r where r: "http_client_request X ?c (moved e w) = (CURLE_OK, (prepare_request X ?c)\<lparr>hc_body := r\<rparr>, (moved e w)\<lparr>env_world := w1\<rparr>)"
    "curl_response_code X w1 = (CURLE_OK, HttpStatus_OK)" "holds_body r (concat cs)"
    using request_taken [OF X(1,3) login_client(2,3) a1] by blast
  obtain json where json: "\<forall>rest. cj_parse X (concat cs @ rest) = Some json" and ne: "concat cs \<noteq> []"
    using t unfolding grants_def by blast
  have p: "rb_used r \<noteq> 0" "cj_parse X (rb_data r) = Some json"
    using holds_body_parses [where X = X, OF r(3) ne] json by auto
  have "decode_access_token X tok (rb_data r) (moved e w1) = (0, with_grant tok g now, moved e w2)" for tok
    using decode_grant [OF X(1) p(2) t json, of "moved e w1" now w2 tok] now by simp
  then show ?thesis
    using r p(1) posts_login [OF X(2)]
    by (intro exI [of _ "(prepare_request X ?c)\<lparr>hc_body := r\<rparr>"] exI [of _ "rb_data r"] exI [of _ "rb_used r"])
      (simp add: http_client_move_response_body_def new_client_def)
qed

lemma snprintf_small:
  assumes "length s < n" "n \<le> 4096"
  shows "snprintf n s = (word_of_nat (length s), s)" "sint (word_of_nat (length s) :: c_int) = int (length s)"
    "unat (word_of_nat (length s) :: c_int) = length s"
  using assms by (simp_all add: snprintf_def signed_of_nat signed_take_bit_int_eq_self unat_of_nat)

lemma redeem_granted:
  assumes X: "os_still X" "curl_works X" "http_service X serve" and g: "code_granted X serve tok code (env_world e) g w"
    and now: "os_now X w = (now, w')"
  shows "redeem_access_token X tok code e = Some (0, with_grant tok g now, moved e w')"
proof -
  from g obtain esc cs where esc: "\<And>s w. curl_easy_escape X s w = (Some (esc s), w)"
    and len: "length (login_body (esc (client_id tok)) (esc (redirect_url tok)) (esc code)) < 512"
    and a: "answers serve (token_request (token_url tok) (login_body (esc (client_id tok)) (esc (redirect_url tok)) (esc code)))
      (env_world e) HttpStatus_OK cs w" and t: "grants X (concat cs) g"
    unfolding code_granted_def by blast
  have new: "http_client_new X e = (Some new_client, moved e (env_world e))"
    using X(1,2) by (simp add: client_new_works moved_def)
  show ?thesis
    using new esc snprintf_small [OF len] len grant_posted [OF X a t now, of e]
    by (auto simp: redeem_access_token_def http_client_escape_def neg_def http_client_get_response_code_def
        login_body_def [symmetric] simp del: append_Cons)
qed

subsection \<open>The login\<close>

definition browser_agrees ::
    "('j, 'w) ext \<Rightarrow> ('j, 'w) oauth_token \<Rightarrow> (string \<Rightarrow> 'w \<Rightarrow> 'w) \<Rightarrow> 'w \<Rightarrow> string \<Rightarrow> 'w \<Rightarrow> bool" where
  \<comment> \<open>when the authorization page is opened, the browser brings this code to the host, port and path of
     the redirect URL\<close>
  "browser_agrees X tok cb w code w' \<longleftrightarrow>
     (\<exists>page host port path now fd addr chunks. login_urls X tok page host port path \<and>
        redirect_schedule X host port (cb page w) now fd addr chunks w' \<and> code_request (concat chunks) path 512 code)"

definition logs_in ::
    "('j, 'w) ext \<Rightarrow> 'w service \<Rightarrow> (string \<Rightarrow> 'w \<Rightarrow> 'w) \<Rightarrow> ('j, 'w) oauth_token \<Rightarrow> 'w \<Rightarrow> ('j, 'w) oauth_token \<Rightarrow> 'w \<Rightarrow> bool" where
  \<comment> \<open>the user agrees, the server grants, and the token becomes the second one\<close>
  "logs_in X serve cb tok w tok' w' \<longleftrightarrow>
     (\<exists>code w1 g w2 now. browser_agrees X tok cb w code w1 \<and> code_granted X serve tok code w1 g w2 \<and>
        os_now X w2 = (now, w') \<and> tok' = with_grant tok g now)"

lemma request_logs_in:
  assumes X: "os_still X" "curl_works X" "http_service X serve" and l: "logs_in X serve cb tok (env_world e) tok' w'"
    and none: "access_token tok = None"
  shows "oauth_token_request X tok cb e = map_option (\<lambda>e. (0, tok', e)) (writeback_tokens X tok' (moved e w'))"
proof -
  from l obtain code w1 g w2 now where b: "browser_agrees X tok cb (env_world e) code w1"
    and g: "code_granted X serve tok code w1 g w2" and n: "os_now X w2 = (now, w')" "tok' = with_grant tok g now"
    unfolding logs_in_def by blast
  from b obtain page host port path t fd addr chunks where u: "login_urls X tok page host port path"
    and r: "redirect_schedule X host port (cb page (env_world e)) t fd addr chunks w1" "code_request (concat chunks) path 512 code"
    unfolding browser_agrees_def by blast
  have new: "http_client_new X e = (Some new_client, e\<lparr>env_curl_ready := True\<rparr>)"
    by (rule client_new_works [OF X(1,2)])
  have sch: "redirect_schedule X host port (cb page (env_world (e\<lparr>env_curl_ready := True\<rparr>))) t fd addr chunks w1"
    using r(1) by simp
  have c: "get_authorize_code X tok cb 512 e = Some (Some code, moved e w1)"
    using wait_returns_code [where cb = cb and url = page and e = "e\<lparr>env_curl_ready := True\<rparr>", OF X(1) sch r(2)]
      get_code_waits [OF new u, of cb 512] by (simp add: moved_def)
  have "redeem_access_token X tok code (moved e w1) = Some (0, tok', moved e w')"
    using redeem_granted [OF X, of tok code "moved e w1" g w2 now w'] g n by simp
  then show ?thesis
    using none c
    by (cases "writeback_tokens X tok' (moved e w')") (simp_all add: oauth_token_request_def neg_def)
qed

definition fresh_token :: "('j, 'w) ext \<Rightarrow> string \<Rightarrow> 'w onedrive_options \<Rightarrow> ('j, 'w) oauth_token" where
  \<comment> \<open>what \<open>oauth_token_new\<close> makes for these options without a key store\<close>
  "fresh_token X loc opts = \<lparr>authorize_url = URL_OAUTH @ ''authorize'', token_url = URL_OAUTH @ ''token'',
     client_id = the (ood_client_id opts), scope = the (ood_scope opts), redirect_url = the (ood_redirect_url opts),
     token_type = None, access_token = None, refresh_token = None, expires_at = \<lparr>tv_sec = 0, tv_usec = 0\<rparr>,
     writeback_cb = (\<lambda>json e. Some (oauth_writeback X (keystore_file loc) json e))\<rparr>"

definition no_keystore :: "string \<Rightarrow> fs \<Rightarrow> bool" where
  \<comment> \<open>the data directory is there, nothing was kept in it\<close>
  "no_keystore loc f \<longleftrightarrow> plain_dir loc \<and> dir_chain f loc \<and> length (keystore_file loc) < PATH_MAX \<and>
     f (keystore_dir loc) \<in> {None, Some FDir} \<and> f (keystore_file loc) = None"

definition with_keystore :: "string \<Rightarrow> bytes \<Rightarrow> fs \<Rightarrow> fs" where
  "with_keystore loc bs f = fs_put (keystore_file loc) (FFile bs) (with_dir loc f)"

lemma keystore_ne: "keystore_file loc \<noteq> keystore_dir loc" "keystore_file loc \<noteq> []" "keystore_file loc \<noteq> loc"
  by (simp_all add: keystore_file_def keystore_dir_def)

lemma no_keystoreD:
  assumes "no_keystore loc f"
  shows "plain_dir loc" "fs_lookup (with_dir loc f) (keystore_file loc) = None"
    "has_parent (with_dir loc f) (keystore_file loc)" "length (keystore_file loc) < PATH_MAX" "length (keystore_dir loc) < PATH_MAX"
proof -
  from assms show p: "plain_dir loc" and "length (keystore_file loc) < PATH_MAX" by (simp_all add: no_keystore_def)
  then show "length (keystore_dir loc) < PATH_MAX" by (simp add: keystore_dir_def keystore_file_def)
  show "fs_lookup (with_dir loc f) (keystore_file loc) = None"
    using assms keystore_ne(1) by (simp add: no_keystore_def plain_lookup [OF p] with_dir_def)
  show "has_parent (with_dir loc f) (keystore_file loc)" by (simp add: plain_parents [OF p] with_dir_def)
qed

lemma login_connects:
  assumes X: "os_works X" "curl_works X" "http_service X serve" "cj_new_object X = Some j0" "token_json X tok j0 = Some j"
    and opts: "good_options opts" and s: "prints_back X j s" "length s < 4096"
    and l: "logs_in X serve (the (ood_callback opts)) (fresh_token X loc opts) (env_world e) tok w"
    and fs: "no_keystore loc (env_fs e)"
  shows "\<exists>n. onedrive_client_connect X \<lparr>data_location = loc\<rparr> opts e =
    Some (Some (onedrive_methods X \<lparr>od_token = tok, keystore_path = keystore_file loc\<rparr>),
      (moved e w)\<lparr>env_errno := n, env_fs := with_keystore loc (s @ [NUL]) (env_fs e)\<rparr>)"
proof -
  let ?path = "keystore_file loc" and ?fresh = "fresh_token X loc opts"
  note S = os_worksD(1) [OF X(1)] and N = no_keystoreD [OF fs]
  let ?e1 = "e\<lparr>env_errno := ENOENT, env_fs := with_dir loc (env_fs e)\<rparr>"
  obtain m where m: "mkdirs X (keystore_dir loc) e = (0, e\<lparr>env_errno := m, env_fs := with_dir loc (env_fs e)\<rparr>)"
    using makes_keystore_dir [OF S N(1) _ N(5)] fs by (auto simp: no_keystore_def)
  have a: "sys_access X ?path (e\<lparr>env_errno := m, env_fs := with_dir loc (env_fs e)\<rparr>) = (False, ?e1)"
    using S N(2) by (simp add: sys_access_def set_errno_def)
  have cb: "writeback_cb tok = (\<lambda>json e. Some (oauth_writeback X ?path json e))"
    using l by (auto simp: logs_in_def with_grant_def fresh_token_def)
  have w: "writeback_tokens X tok (moved ?e1 w) =
      Some ((moved ?e1 w)\<lparr>env_fs := with_keystore loc (s @ [NUL]) (env_fs e)\<rparr>)"
    using writeback_stores [OF X(1) s keystore_ne(2), of "moved ?e1 w" loc] N(2,3) X(4,5) cb
    by (simp add: writeback_tokens_def moved_def with_keystore_def)
  have "oauth_token_request X ?fresh (the (ood_callback opts)) ?e1 =
      Some (0, tok, (moved ?e1 w)\<lparr>env_fs := with_keystore loc (s @ [NUL]) (env_fs e)\<rparr>)"
    using request_logs_in [OF S X(2,3), of "the (ood_callback opts)" ?fresh ?e1 tok w] l w by (simp add: fresh_token_def)
  then have t: "connect_with_token X ?path None (the (ood_client_id opts)) (the (ood_scope opts)) (the (ood_redirect_url opts))
      (the (ood_callback opts)) ?e1 = Some (Some (onedrive_methods X \<lparr>od_token = tok, keystore_path = ?path\<rparr>),
        (moved ?e1 w)\<lparr>env_fs := with_keystore loc (s @ [NUL]) (env_fs e)\<rparr>)"
    using S by (simp add: connect_with_token_def oauth_token_new_def restore_access_token_def fresh_token_def neg_def)
  have len: "sint (word_of_nat (length ?path) :: c_int) = int (length ?path)"
    using N(4) by (simp only: signed_of_nat) (simp add: signed_take_bit_int_eq_self PATH_MAX_def)
  have sp: "snprintf PATH_MAX (loc @ ''/.data/onedrive.json'') = (word_of_nat (length ?path), ?path)"
    using N(4) by (simp add: snprintf_def keystore_file_def)
  show ?thesis
    using opts a t S len N(4) m
    by (intro exI [of _ ENOENT])
      (auto simp: onedrive_client_connect_def good_options_def sp neg_def keystore_dirname moved_def)
qed

subsection \<open>Connecting twice\<close>

lemma with_dir_keeps: "fs_lookup f p = Some FDir \<Longrightarrow> fs_lookup (with_dir loc f) p = Some FDir"
  by (auto simp: fs_lookup_def with_dir_def split: if_splits)

lemma with_dir_chain:
  assumes "plain_dir loc" "dir_chain f loc"
  shows "dir_chain (with_dir loc f) (keystore_dir loc)"
proof -
  have "fs_lookup (with_dir loc f) p = Some FDir" if "keystore_dir loc = p @ q" "p \<noteq> []" "q = [] \<or> hd q = SLASH" for p q
  proof (cases q)
    case Nil
    then have "p = keystore_dir loc" using that(1) by simp
    then show ?thesis by (simp only: plain_lookup [OF assms(1)]) (simp add: with_dir_def)
  next
    case (Cons c q')
    then have "keystore_dir loc = p @ SLASH # q'" using that by simp
    then show ?thesis using plain_way [OF assms] that(2) unfolding way_to_def by (blast intro: with_dir_keeps)
  qed
  then show ?thesis unfolding dir_chain_def by blast
qed

lemma kept_keystore:
  assumes "no_keystore loc f"
  shows "fs_lookup (with_keystore loc bs f) (keystore_file loc) = Some (FFile bs)"
    "dir_chain (with_keystore loc bs f) (keystore_dir loc)"
proof -
  note N = no_keystoreD [OF assms]
  have l: "fs_lookup (with_dir loc f) (keystore_file loc) \<noteq> Some FDir" using N(2) by simp
  show "fs_lookup (with_keystore loc bs f) (keystore_file loc) = Some (FFile bs)"
    unfolding with_keystore_def by (rule lookup_put_same [OF keystore_ne(2) l])
  have "dir_chain (with_dir loc f) (keystore_dir loc)"
    using assms N(1) by (intro with_dir_chain) (simp_all add: no_keystore_def)
  then show "dir_chain (with_keystore loc bs f) (keystore_dir loc)"
    unfolding with_keystore_def by (rule dir_chain_put [OF _ l keystore_ne(2)])
qed

lemma logged_in_saved:
  "logs_in X serve cb (fresh_token X loc opts) w tok w' \<Longrightarrow> good_options opts \<Longrightarrow> saved_token X loc opts tok"
  by (auto simp: logs_in_def with_grant_def fresh_token_def saved_token_def good_options_def is_str_def split: option.splits)

text \<open>
  C3: Connecting to OneDrive for the first time, with no key store yet, opens the authorization
  page of the client, waits for the browser's redirect on the host and port of the redirect URL,
  redeems the code it brings and makes a connection with the granted tokens. When their JSON text
  is shorter than the 4096 bytes the key store may have, they are kept on disk: every later
  connection with the same options in the same file system has the same tokens, its expiry cut to
  whole seconds, and asks neither the network nor the user.
\<close>

theorem first_login_is_kept:
  assumes X: "os_works X" "curl_works X" "http_service X serve" "json_objects X" "cj_new_object X = Some j0"
      "token_json X tok j0 = Some j"
    and opts: "opts = \<lparr>backendType = HiveBackendType_OneDrive, \<dots> = x\<rparr>" "good_options opts"
    and s: "prints_back X j s" "length s < 4096"
    and l: "logs_in X serve (the (ood_callback opts)) (fresh_token X loc opts) (env_world e) tok w"
    and fs: "no_keystore loc (env_fs e)"
  shows "\<exists>e'. env_world e' = w \<and>
    hive_client_connect (factory_methods X) (Some \<lparr>data_location = loc\<rparr>)
        (Some \<lparr>backendType = HiveBackendType_OneDrive, \<dots> = Onedrive_Options x\<rparr>) e =
      Some (Some (onedrive_connection X \<lparr>od_token = tok, keystore_path = keystore_file loc\<rparr>), e') \<and>
    (\<forall>e2. env_fs e2 = env_fs e' \<longrightarrow>
      hive_client_connect (factory_methods X) (Some \<lparr>data_location = loc\<rparr>)
        (Some \<lparr>backendType = HiveBackendType_OneDrive, \<dots> = Onedrive_Options x\<rparr>) e2 =
      Some (Some (onedrive_connection X \<lparr>od_token = restored tok, keystore_path = keystore_file loc\<rparr>), e2))"
proof -
  obtain n where c: "onedrive_client_connect X \<lparr>data_location = loc\<rparr> opts e =
    Some (Some (onedrive_methods X \<lparr>od_token = tok, keystore_path = keystore_file loc\<rparr>),
      (moved e w)\<lparr>env_errno := n, env_fs := with_keystore loc (s @ [NUL]) (env_fs e)\<rparr>)"
    using login_connects [OF X(1,2,3,5,6) opts(2) s l fs] by blast
  have again: "onedrive_client_connect X \<lparr>data_location = loc\<rparr> opts e2 =
      Some (Some (onedrive_methods X \<lparr>od_token = restored tok, keystore_path = keystore_file loc\<rparr>), e2)"
    if "env_fs e2 = with_keystore loc (s @ [NUL]) (env_fs e)" for e2 :: "'a env"
    using saved_connects [OF X(1,4,5,6) _ opts(2) s, of "\<lparr>data_location = loc\<rparr>" e2] logged_in_saved [OF l opts(2)]
      kept_keystore [OF fs] no_keystoreD(4) [OF fs] that by simp
  show ?thesis
    using c again unfolding opts(1)
    by (intro exI [of _ "(moved e w)\<lparr>env_errno := n, env_fs := with_keystore loc (s @ [NUL]) (env_fs e)\<rparr>"])
      (simp add: connect_onedrive onedrive_connection_def)
qed

definition login_serve :: "nat service" where
  \<comment> \<open>answers everything with a grant\<close>
  "login_serve rq w = (200, [''{''], w)"

definition login_ext :: "(json, nat) ext" where
  "login_ext = json_ext\<lparr>os_poll := browser_poll, curl_url_get := url_parts,
     curl_perform := (\<lambda>rq wr s w. case deliver wr [''{''] s w of Some s' \<Rightarrow> (CURLE_OK, s', w) | None \<Rightarrow> (23, s, w)),
     cj_parse := (\<lambda>t. Some (if t \<noteq> [] \<and> hd t = CHR ''{'' then token_answer
       else JObj [(''client_id'', JStr ''c''), (''token_type'', JStr ''bearer''), (''access_token'', JStr ''at''),
              (''refresh_token'', JStr ''rt''), (''expires_at'', JNum 4600)])),
     cj_print := (\<lambda>j. Some ''tok'')\<rparr>"

definition login_options_with :: "(string \<Rightarrow> nat \<Rightarrow> nat) option \<Rightarrow> nat onedrive_options" where
  "login_options_with cb = \<lparr>backendType = HiveBackendType_OneDrive, ood_client_id = Some ''c'',
     ood_scope = Some ''Files.ReadWrite.AppFolder'', ood_redirect_url = Some ''http://localhost:12345'', ood_callback = cb\<rparr>"

definition login_options :: "nat onedrive_options" where
  \<comment> \<open>the browser starts when it is shown the authorization page\<close>
  "login_options = login_options_with (Some (opens_page (login_page (fresh_token login_ext ''/d'' (login_options_with None)))))"

lemma login_options_fields:
  "ood_client_id login_options = Some ''c''" "ood_scope login_options = Some ''Files.ReadWrite.AppFolder''"
  "ood_redirect_url login_options = Some ''http://localhost:12345''"
  "the (ood_callback login_options) = opens_page (login_page (fresh_token login_ext ''/d'' login_options))"
  by (simp_all add: login_options_def login_options_with_def login_page_def authorize_log_def fresh_token_def)

definition login_grant :: grant where
  "login_grant = \<lparr>gr_type = ''bearer'', gr_access = ''at'', gr_refresh = ''rt'', gr_expires_in = 3600\<rparr>"

definition login_token :: "(json, nat) oauth_token" where
  "login_token = with_grant (fresh_token login_ext ''/d'' login_options) login_grant \<lparr>tv_sec = 1000, tv_usec = 0\<rparr>"

lemma login_ext_fields:
  "os_works login_ext" "curl_works login_ext" "http_service login_ext login_serve" "cj_new_object login_ext = Some (JObj [])"
  "curl_easy_escape login_ext t v = (Some t, v)" "curl_url_get login_ext = url_parts" "os_now login_ext v = (\<lparr>tv_sec = 1000, tv_usec = 0\<rparr>, v)"
  by (auto simp: os_works_def os_still_def curl_works_def http_service_def login_ext_def login_serve_def json_ext_def
      sample_curl_def sample_os_def curl_os.defs os.defs split: option.splits)

lemma login_objects: "json_objects login_ext"
proof -
  have "json_objects (X\<lparr>os_poll := a, curl_url_get := b, curl_perform := c, cj_parse := p, cj_print := q\<rparr>) = json_objects X"
    for X :: "(json, nat) ext" and a b c p q
    by (simp add: json_objects_def add_string_def)
  then show ?thesis unfolding login_ext_def using json_ext_objects by simp
qed

lemma login_grants: "grants login_ext ''{'' login_grant"
  by (simp add: grants_def login_grant_def login_ext_def json_ext_def token_answer_def member_def IS_STRING_NODE_def is_str_def
      curl_os.defs neg_def)

lemma login_happens:
  "logs_in login_ext login_serve (the (ood_callback login_options)) (fresh_token login_ext ''/d'' login_options) 0 login_token 5"
proof -
  let ?tok = "fresh_token login_ext ''/d'' login_options"
  have "redirect_schedule login_ext ''localhost'' ''12345'' 1 1000 5 ''1.2.3.4'' [take 9 sample_request, drop 9 sample_request] 5"
    by (simp add: redirect_schedule_def login_ext_def browser_poll_def browser_input_def LISTEN_FD_def)
  moreover have "login_urls login_ext ?tok (login_page ?tok) ''localhost'' ''12345'' ''/''"
    by (rule parts_of_login) (simp_all add: login_ext_fields fresh_token_def login_options_fields)
  ultimately have "browser_agrees login_ext ?tok (the (ood_callback login_options)) 0 ''ab'' 5"
    unfolding browser_agrees_def
    by (intro exI [of _ "login_page ?tok"] exI [of _ "''localhost''"] exI [of _ "''12345''"] exI [of _ "''/''"] exI [of _ 1000]
        exI [of _ 5] exI [of _ "''1.2.3.4''"] exI [of _ "[take 9 sample_request, drop 9 sample_request]"])
      (simp add: login_options_fields(4) opens_page_def sample_code_request)
  moreover have "code_granted login_ext login_serve (fresh_token login_ext ''/d'' login_options) ''ab'' 5 login_grant 5"
    using login_grants unfolding code_granted_def
    by (intro exI [of _ "\<lambda>s. s"] exI [of _ "[''{'']"])
      (simp add: login_ext_fields login_body_def fresh_token_def login_options_fields answers_def login_serve_def)
  ultimately show ?thesis
    using login_ext_fields(7) unfolding logs_in_def login_token_def by blast
qed

theorem first_login_is_kept_witness:
  "\<exists>e'. env_world e' = 5 \<and>
    hive_client_connect (factory_methods login_ext) (Some \<lparr>data_location = ''/d''\<rparr>)
        (Some \<lparr>backendType = HiveBackendType_OneDrive, \<dots> = Onedrive_Options (hive_connect_options.more login_options)\<rparr>)
        (browser_env\<lparr>env_fs := [''/d'' \<mapsto> FDir]\<rparr>) =
      Some (Some (onedrive_connection login_ext \<lparr>od_token = login_token, keystore_path = keystore_file ''/d''\<rparr>), e') \<and>
    hive_client_connect (factory_methods login_ext) (Some \<lparr>data_location = ''/d''\<rparr>)
        (Some \<lparr>backendType = HiveBackendType_OneDrive, \<dots> = Onedrive_Options (hive_connect_options.more login_options)\<rparr>) e' =
      Some (Some (onedrive_connection login_ext \<lparr>od_token = login_token, keystore_path = keystore_file ''/d''\<rparr>), e')"
proof -
  let ?f = "[''/d'' \<mapsto> FDir]" and ?x = "hive_connect_options.more login_options"
  let ?j = "JObj [(''client_id'', JStr ''c''), (''token_type'', JStr ''bearer''), (''access_token'', JStr ''at''),
     (''refresh_token'', JStr ''rt''), (''expires_at'', JNum 4600)]"
  have o: "login_options = \<lparr>backendType = HiveBackendType_OneDrive, \<dots> = ?x\<rparr>" "good_options login_options"
    by (simp_all add: login_options_def login_options_with_def good_options_def prefixb_def)
  have j: "token_json login_ext login_token (JObj []) = Some ?j" "prints_back login_ext ?j ''tok''"
    by (simp_all add: login_ext_def json_ext_def curl_os.defs token_json_def login_token_def with_grant_def fresh_token_def
        login_grant_def login_options_fields add_string_def with_member_def prints_back_def timeradd_def Let_def)
  have fs: "no_keystore ''/d'' ?f"
    by (auto simp: no_keystore_def plain_dir_def dir_chain_def Cons_eq_append_conv fs_lookup_def fs_key_def keystore_dir_def
        keystore_file_def PATH_MAX_def)
  have r: "restored login_token = login_token"
    by (simp add: restored_def login_token_def with_grant_def login_grant_def timeradd_def Let_def)
  from first_login_is_kept [OF login_ext_fields(1-3) login_objects login_ext_fields(4) j(1) o j(2) _ , of "''/d''"
      "browser_env\<lparr>env_fs := ?f\<rparr>" 5] login_happens fs
  show ?thesis by (auto simp: browser_env_def r)
qed

end
