(* ===== verification/Onedrive_Renew.thy ===== *)
theory Onedrive_Renew
  imports Onedrive_Login Onedrive_Store_Props
begin

text \<open>
  A token the drive no longer accepts: the call that finds out says that it should be tried again, and
  the next one gets new tokens with the refresh token, keeps them on disk and does its work.
\<close>

subsection \<open>Refreshing\<close>

definition refresh_body :: "string \<Rightarrow> string \<Rightarrow> string \<Rightarrow> string" where
  "refresh_body cid uri old =
     ''client_id='' @ cid @ ''&redirect_uri='' @ uri @ ''&refresh_token='' @ old @ ''&grant_type=refresh_token''"

definition refresh_granted ::
    "('j, 'w) ext \<Rightarrow> 'w service \<Rightarrow> ('j, 'w) oauth_token \<Rightarrow> 'w \<Rightarrow> grant \<Rightarrow> 'w \<Rightarrow> bool" where
  \<comment> \<open>the token server gives this for the refresh token\<close>
  "refresh_granted X serve tok w g w' \<longleftrightarrow>
     (\<exists>esc old cs. (\<forall>s w. curl_easy_escape X s w = (Some (esc s), w)) \<and> refresh_token tok = Some old \<and>
        length (refresh_body (esc (client_id tok)) (esc (redirect_url tok)) (esc old)) < 4096 \<and>
        answers serve (token_request (token_url tok) (refresh_body (esc (client_id tok)) (esc (redirect_url tok)) (esc old)))
          w HttpStatus_OK cs w' \<and> grants X (concat cs) g)"

lemma refreshes:
  assumes X: "os_still X" "curl_works X" "http_service X serve" and g: "refresh_granted X serve tok (env_world e) g w"
    and now: "os_now X w = (now, w')"
  shows "refresh_access_token X tok e =
    do { e \<leftarrow> writeback_tokens X (with_grant tok g now) (moved e w'); Some (0, with_grant tok g now, e) }"
proof -
  from g obtain esc old cs where esc: "\<And>s w. curl_easy_escape X s w = (Some (esc s), w)" and old: "refresh_token tok = Some old"
    and len: "length (refresh_body (esc (client_id tok)) (esc (redirect_url tok)) (esc old)) < 4096"
    and a: "answers serve (token_request (token_url tok) (refresh_body (esc (client_id tok)) (esc (redirect_url tok)) (esc old)))
      (env_world e) HttpStatus_OK cs w" and t: "grants X (concat cs) g"
    unfolding refresh_granted_def by blast
  have new: "http_client_new X e = (Some new_client, moved e (env_world e))"
    using X(1,2) by (simp add: client_new_works moved_def)
  show ?thesis
    using new esc old snprintf_small [OF len] len grant_posted [OF X a t now, of e]
    by (auto simp: refresh_access_token_def decode_and_store_def http_client_escape_def neg_def http_client_get_response_code_def
        refresh_body_def [symmetric] simp del: append_Cons)
qed

definition expired_at :: "('j, 'w) ext \<Rightarrow> ('j, 'w) oauth_token \<Rightarrow> 'w \<Rightarrow> bool \<Rightarrow> bool" where
  \<comment> \<open>the clock, read in this world, says whether the token is expired\<close>
  "expired_at X tok w b \<longleftrightarrow> (\<exists>now. os_now X w = (now, w) \<and> timer_after now (expires_at tok) = b)"

definition renews ::
    "('j, 'w) ext \<Rightarrow> 'w service \<Rightarrow> ('j, 'w) oauth_token \<Rightarrow> 'w \<Rightarrow> ('j, 'w) oauth_token \<Rightarrow> 'w \<Rightarrow> bool" where
  \<comment> \<open>the first token is expired and the server replaces it by the second\<close>
  "renews X serve tok w tok' w' \<longleftrightarrow> expired_at X tok w True \<and>
     (\<exists>g w1 now. refresh_granted X serve tok w g w1 \<and> os_now X w1 = (now, w') \<and> tok' = with_grant tok g now)"

definition keeps_at :: "('j, 'w) ext \<Rightarrow> string \<Rightarrow> fs \<Rightarrow> ('j, 'w) oauth_token \<Rightarrow> bool" where
  \<comment> \<open>the token is written back to this file, which can be written\<close>
  "keeps_at X path f tok \<longleftrightarrow> writeback_cb tok = (\<lambda>json e. Some (oauth_writeback X path json e)) \<and> path \<noteq> [] \<and>
     fs_lookup f path \<noteq> Some FDir \<and> (fs_lookup f path = None \<longrightarrow> has_parent f path)"

lemma check_renews:
  assumes X: "os_works X" "curl_works X" "http_service X serve" "cj_new_object X = Some j0" "token_json X tok' j0 = Some j"
    and s: "prints_back X j s" "length s < 4096" and r: "renews X serve tok (env_world e) tok' w"
    and k: "keeps_at X path (env_fs e) tok"
  shows "oauth_token_check_expire X tok e =
    Some (0, tok', (moved e w)\<lparr>env_fs := fs_put path (FFile (s @ [NUL])) (env_fs e)\<rparr>)"
proof -
  note S = os_worksD(1) [OF X(1)]
  from r obtain now g w1 now' where n: "os_now X (env_world e) = (now, env_world e)" "timer_after now (expires_at tok)"
    and g: "refresh_granted X serve tok (env_world e) g w1" "os_now X w1 = (now', w)" and tok': "tok' = with_grant tok g now'"
    unfolding renews_def expired_at_def by auto
  have cb: "writeback_cb tok' = (\<lambda>json e. Some (oauth_writeback X path json e))"
    using k tok' by (simp add: keeps_at_def with_grant_def)
  have "writeback_tokens X tok' (moved e w) = Some ((moved e w)\<lparr>env_fs := fs_put path (FFile (s @ [NUL])) (env_fs e)\<rparr>)"
    using writeback_stores [OF X(1) s, of path "moved e w"] k X(4,5) cb
    by (simp add: writeback_tokens_def keeps_at_def moved_def)
  then have "refresh_access_token X tok e = Some (0, tok', (moved e w)\<lparr>env_fs := fs_put path (FFile (s @ [NUL])) (env_fs e)\<rparr>)"
    using refreshes [OF S X(2,3) g(1,2)] tok' by simp
  then show ?thesis using n by (simp add: oauth_token_check_expire_def oauth_token_is_expired_def gettimeofday_def neg_def)
qed

lemma renewed_length:
  "oauth_token_check_expire X tok e = Some (0, tok', e') \<Longrightarrow> oauth_token_check_expire X tok' e' = Some (0, tok', e') \<Longrightarrow>
     get_file_length_at X tok path e = get_file_length_at X tok' path e'"
  by (simp add: get_file_length_at_def)

lemma renewed_put:
  "oauth_token_check_expire X tok e = Some (0, tok', e') \<Longrightarrow> oauth_token_check_expire X tok' e' = Some (0, tok', e') \<Longrightarrow>
     od_put_value X tok key v e = od_put_value X tok' key v e'"
  unfolding od_put_value_def Let_def by (subst renewed_length) simp_all

subsection \<open>A refused token\<close>

definition refuses :: "'w service \<Rightarrow> request \<Rightarrow> 'w \<Rightarrow> 'w \<Rightarrow> bool" where
  "refuses serve rq w w' \<longleftrightarrow> (\<exists>cs. serve rq w = (HttpStatus_Unauthorized, cs, w') \<and> length (concat cs) < 2 ^ 40)"

definition TRY_AGAIN :: c_int where
  "TRY_AGAIN = HIVE_GENERAL_ERROR HIVEERR_TRY_AGAIN"

lemma refused_exchange:
  assumes X: "os_still X" "http_service X serve" "write_target (hc_opts c) = HTTP_RESPONSE_BODY_WRITE" "hc_body c = hc_body new_client"
    and r: "refuses serve (ready_request X c) (env_world e) w"
  shows "\<exists>r. authorized_exchange X tok c e = (Inl TRY_AGAIN, oauth_token_set_expired tok, (prepare_request X c)\<lparr>hc_body := r\<rparr>, e\<lparr>env_world := w\<rparr>)"
proof -
  from r obtain cs where cs: "serve (ready_request X c) (env_world e) = (HttpStatus_Unauthorized, cs, w)" "length (concat cs) < 2 ^ 40"
    unfolding refuses_def by blast
  have "body_ok (hc_body c)" "unat (rb_sz (hc_body c)) \<le> 512" "rb_used (hc_body c) = 0"
    using X(4) by (simp_all add: new_client_def body_ok_def)
  moreover have "512 + 4 * length (concat cs) < 2 ^ 61" using cs(2) by simp
  ultimately show ?thesis
    using request_served [OF X(1-3) _ _ order_refl, of e HttpStatus_Unauthorized cs w] cs(1)
    by (auto simp: authorized_exchange_def exchange_def http_client_get_response_code_def ready_request_def TRY_AGAIN_def)
qed

lemma refused_length:
  assumes X: "os_still X" "curl_works X" "http_service X serve" and path: "short_path path"
    and tok: "access_token tok = Some auth" "expired_at X tok (env_world e) False"
    and r: "refuses serve (info_request auth path ''size'') (env_world e) w"
  shows "get_file_length_at X tok path e = Some (int_to_ssize TRY_AGAIN, oauth_token_set_expired tok, moved e w)"
proof -
  let ?c = "info_client auth path ''size''"
  have url: "sprintf_buf MAX_URL_LEN (APP_ROOT @ '':'' @ path) = Some (APP_ROOT @ '':'' @ path)"
    using path by (intro sprintf_fits) (simp add: length_APP_ROOT short_path_def MAX_URL_LEN_def)
  have r1: "refuses serve (ready_request X ?c) (env_world (moved e (env_world e))) w" using r by (simp add: info_client(1))
  obtain b where a: "authorized_exchange X tok ?c (moved e (env_world e)) =
      (Inl TRY_AGAIN, oauth_token_set_expired tok, (prepare_request X ?c)\<lparr>hc_body := b\<rparr>, moved e w)"
    using refused_exchange [OF X(1,3) info_client(2,3) r1, of tok] by auto
  have "od_get_file_info X tok new_client path ''size'' (moved e (env_world e)) =
      Some (Inl TRY_AGAIN, oauth_token_set_expired tok, (prepare_request X ?c)\<lparr>hc_body := b\<rparr>, moved e w)"
    using X(2) tok(1) url a
    by (simp add: od_get_file_info_def setter_defs info_client_def info_request_def new_client_def
        url_part_def auth_header_def body_opts_def Let_def)
  moreover have "oauth_token_check_expire X tok e = Some (0, tok, e)"
    using tok(2) by (auto simp: oauth_token_check_expire_def oauth_token_is_expired_def gettimeofday_def expired_at_def)
  moreover have "http_client_new X e = (Some new_client, moved e (env_world e))"
    using X(1,2) by (simp add: client_new_works moved_def)
  ultimately show ?thesis by (simp add: get_file_length_at_def neg_def)
qed

lemma try_again: "neg TRY_AGAIN" "TRY_AGAIN \<noteq> NOT_FOUND_ERROR"
  by (simp_all add: TRY_AGAIN_def NOT_FOUND_ERROR_def hive_mk_error_def mk_error_neg neg_def)

lemma refused_put:
  assumes X: "os_still X" "curl_works X" "http_service X serve" and key: "short_key key"
    and tok: "access_token tok = Some auth" "expired_at X tok (env_world e) False"
    and r: "refuses serve (info_request auth (key_path key) ''size'') (env_world e) w"
  shows "od_put_value X tok key v e = Some (TRY_AGAIN, oauth_token_set_expired tok, moved e w)"
  using refused_length [OF X short_key_path [OF key] tok r] try_again
  by (simp add: od_put_value_def)

lemma put_through:
  assumes "od_put_value X (od_token d) key v e = Some (rc, tok, e')" "short_key key" "legal_value v"
  shows "hive_put_value (Some (onedrive_methods X d)) (Some key) (Some v) (word_of_nat (length v)) enc e =
    Some (if neg rc then - 1 else 0, Some (onedrive_methods X (d\<lparr>od_token := tok\<rparr>)), if neg rc then hive_set_error rc e' else e')"
  using assms(1,2) legal_len [OF assms(3)]
  by (simp add: hive_put_value_def Option.is_none_def put_value_def on_token_def short_key_def not_less)

text \<open>
  C6: When the drive refuses the access token, putting a value fails with the error that asks to
  try again and changes nothing but the expiry of the token; the next try gets new tokens with the
  refresh token, writes them to the key store and appends the value to the values of its key.
\<close>

theorem refused_token_is_renewed:
  assumes X: "os_works X" "curl_works X" "cj_new_object X = Some j0" "token_json X tok' j0 = Some j"
    and s: "prints_back X j s" "length s < 4096" and key: "short_key key" "legal_value v"
    and old: "access_token (od_token d) = Some auth" "expired_at X (od_token d) (env_world e) False"
    and refused: "refuses serve (info_request auth (key_path key) ''size'') (env_world e) w1"
    and renew: "renews X serve (oauth_token_set_expired (od_token d)) w1 tok' w2"
    and kept: "keeps_at X (keystore_path d) (env_fs e) (od_token d)" and R: "drive_ready X serve auth' files durl tok'"
    and st: "stored (files w2) key vs" "fits_drive (vs @ [v])"
    and d: "d1 = d\<lparr>od_token := oauth_token_set_expired (od_token d)\<rparr>" "d2 = d\<lparr>od_token := tok'\<rparr>"
  shows "\<exists>e1 e2. hive_put_value (Some (onedrive_methods X d)) (Some key) (Some v) (word_of_nat (length v)) enc e =
      Some (- 1, Some (onedrive_methods X d1), e1) \<and> hive_get_error e1 = TRY_AGAIN \<and> env_fs e1 = env_fs e \<and>
    hive_put_value (Some (onedrive_methods X d1)) (Some key) (Some v) (word_of_nat (length v)) enc e1 =
      Some (0, Some (onedrive_methods X d2), e2) \<and>
    files (env_world e2) = (files w2)(key_path key \<mapsto> kv_encode (vs @ [v])) \<and>
    fs_lookup (env_fs e2) (keystore_path d) = Some (FFile (s @ [NUL]))"
proof -
  let ?e1 = "hive_set_error TRY_AGAIN (moved e w1)" and ?tok1 = "oauth_token_set_expired (od_token d)"
  let ?e2 = "(moved ?e1 w2)\<lparr>env_fs := fs_put (keystore_path d) (FFile (s @ [NUL])) (env_fs e)\<rparr>"
  note S = os_worksD(1) [OF X(1)] and H = drive_readyD(3) [OF R]
  have w: "env_world ?e1 = w1" "env_fs ?e1 = env_fs e" "hive_get_error ?e1 = TRY_AGAIN"
    by (simp_all add: hive_set_error_def hive_get_error_def moved_def)
  have k: "keeps_at X (keystore_path d) (env_fs ?e1) ?tok1" using kept w(2) by (simp add: keeps_at_def oauth_token_set_expired_def)
  have 1: "hive_put_value (Some (onedrive_methods X d)) (Some key) (Some v) (word_of_nat (length v)) enc e =
      Some (- 1, Some (onedrive_methods X d1), ?e1)"
    using put_through [OF refused_put [OF S X(2) H key(1) old refused] key] try_again d(1) by simp
  have c: "oauth_token_check_expire X ?tok1 ?e1 = Some (0, tok', ?e2)"
    using check_renews [OF X(1,2) H X(3,4) s _ k] renew w by simp
  have "env_world ?e2 = w2" by simp
  with kv_put [OF R key, of ?e2 vs] st obtain w3 where w3: "od_put_value X tok' key v ?e2 = Some (0, tok', moved ?e2 w3)"
    "files w3 = (files w2)(key_path key \<mapsto> kv_encode (vs @ [v]))" by auto
  have "od_put_value X ?tok1 key v ?e1 = Some (0, tok', moved ?e2 w3)"
    using renewed_put [OF c ready_not_expired [OF R]] w3(1) by simp
  then have "hive_put_value (Some (onedrive_methods X d1)) (Some key) (Some v) (word_of_nat (length v)) enc ?e1 =
      Some (0, Some (onedrive_methods X d2), moved ?e2 w3)"
    using put_through [of X d1 key v ?e1 0 tok' "moved ?e2 w3" enc, OF _ key] d by (simp add: neg_def)
  moreover have "fs_lookup (env_fs (moved ?e2 w3)) (keystore_path d) = Some (FFile (s @ [NUL]))"
    using kept lookup_put_same by (simp add: keeps_at_def moved_def)
  ultimately show ?thesis using 1 w w3(2) by (intro exI [of _ ?e1] exI [of _ "moved ?e2 w3"]) simp
qed

subsection \<open>An example\<close>

definition renew_serve :: "drive_world service" where
  \<comment> \<open>the drive, which knows the token \<open>old\<close> no more, and a token server\<close>
  "renew_serve rq w =
     (if CURLOPT_POST \<in> set (rq_opts rq) then (200, [''{''], (fst w, 200))
      else if CURLOPT_HTTPHEADER [auth_header ''old''] \<in> set (rq_opts rq) then (401, [], (fst w, 401))
      else drive_serve rq w)"

definition renewed_json :: json where
  "renewed_json = JObj [(''client_id'', JStr ''c''), (''token_type'', JStr ''bearer''), (''access_token'', JStr ''at''),
     (''refresh_token'', JStr ''rt''), (''expires_at'', JNum 4600)]"

definition renew_ext :: "(json, drive_world) ext" where
  "renew_ext = json_ext\<lparr>
     curl_perform := (\<lambda>rq wr s w. case renew_serve rq w of (st, cs, w') \<Rightarrow>
        (case deliver wr cs s w' of Some s' \<Rightarrow> (CURLE_OK, s', w') | None \<Rightarrow> (23, s, w))),
     curl_response_code := (\<lambda>w. (CURLE_OK, snd w)),
     cj_parse := (\<lambda>t. if take 1 t = ''{'' then Some token_answer else if take 1 t = ''t'' then Some renewed_json else drive_json t),
     cj_print := (\<lambda>j. Some ''tok'')\<rparr>"

definition old_connect :: "(json, drive_world) onedrive_connect" where
  "old_connect = \<lparr>od_token = json_token\<lparr>access_token := Some ''old'', expires_at := \<lparr>tv_sec = 2000, tv_usec = 0\<rparr>,
     writeback_cb := (\<lambda>json e. Some (oauth_writeback renew_ext ''/k'' json e))\<rparr>, keystore_path = ''/k''\<rparr>"

definition renewed_token :: "(json, drive_world) oauth_token" where
  "renewed_token = with_grant (oauth_token_set_expired (od_token old_connect)) login_grant \<lparr>tv_sec = 1000, tv_usec = 0\<rparr>"

lemma renew_ext_fields:
  "os_still renew_ext" "curl_works renew_ext" "http_service renew_ext renew_serve"
  "cj_new_object renew_ext = Some (JObj [])" "curl_easy_escape renew_ext t v = (Some t, v)"
  "os_now renew_ext v = (\<lparr>tv_sec = 1000, tv_usec = 0\<rparr>, v)"
  by (auto simp: os_still_def curl_works_def http_service_def renew_ext_def renew_serve_def drive_serve_def Let_def
      json_ext_def sample_curl_def sample_os_def curl_os.defs os.defs split: option.splits if_splits prod.splits)

lemma renew_reads: "reads_drive renew_ext"
proof -
  have "take 1 (drive_text n path @ rest) \<noteq> ''{'' \<and> take 1 (drive_text n path @ rest) \<noteq> ''t''" for n path rest
    by (cases n) (simp_all add: drive_text_def NUL_def)
  then show ?thesis
    by (simp add: reads_drive_def renew_ext_def json_ext_def curl_os.defs drive_json_text)
qed

lemma renewed_ready: "drive_ready renew_ext renew_serve ''at'' fst (\<lambda>path. CHR ''d'' # path) renewed_token"
proof -
  have "drive_service renew_ext renew_serve ''at'' fst (\<lambda>path. CHR ''d'' # path)"
    by (rule drive_service_like [OF renew_ext_fields(3) renew_reads])
      (auto simp: renew_serve_def drive_request_def list_all_iff auth_header_def split: curl_opt.splits)
  then show ?thesis
    using renew_ext_fields
    by (simp add: drive_ready_def renewed_token_def with_grant_def login_grant_def timeradd_def timer_after_def)
qed

lemma old_renews: "renews renew_ext renew_serve (oauth_token_set_expired (od_token old_connect)) w renewed_token (fst w, 200)"
proof -
  let ?tok = "oauth_token_set_expired (od_token old_connect)"
  have "expired_at renew_ext ?tok w True"
    by (simp add: expired_at_def renew_ext_fields oauth_token_set_expired_def timer_after_def)
  moreover have "grants renew_ext ''{'' login_grant"
    by (simp add: grants_def login_grant_def renew_ext_def json_ext_def token_answer_def member_def IS_STRING_NODE_def
        is_str_def curl_os.defs neg_def)
  then have "refresh_granted renew_ext renew_serve ?tok w login_grant (fst w, 200)"
    unfolding refresh_granted_def
    by (intro exI [of _ "\<lambda>s. s"] exI [of _ "''rt''"] exI [of _ "[''{'']"])
      (simp add: renew_ext_fields refresh_body_def oauth_token_set_expired_def old_connect_def json_token_def answers_def
        renew_serve_def token_request_def)
  ultimately show ?thesis using renew_ext_fields(6) unfolding renews_def renewed_token_def by blast
qed

theorem refused_token_is_renewed_witness:
  "\<exists>d1 e1 e2. hive_put_value (Some (onedrive_methods renew_ext old_connect)) (Some ''k'') (Some ''one'') 3 False drive_env =
      Some (- 1, Some (onedrive_methods renew_ext d1), e1) \<and> hive_get_error e1 = TRY_AGAIN \<and>
    hive_put_value (Some (onedrive_methods renew_ext d1)) (Some ''k'') (Some ''one'') 3 False e1 =
      Some (0, Some (onedrive_methods renew_ext (old_connect\<lparr>od_token := renewed_token\<rparr>)), e2) \<and>
    fst (env_world e2) ''/KeyValues/k'' = Some (kv_encode [''one''])"
proof -
  have j: "token_json renew_ext renewed_token (JObj []) = Some renewed_json" "prints_back renew_ext renewed_json ''tok''"
    by (simp_all add: renew_ext_def json_ext_def curl_os.defs token_json_def renewed_token_def with_grant_def login_grant_def
        oauth_token_set_expired_def old_connect_def json_token_def renewed_json_def add_string_def with_member_def
        prints_back_def timeradd_def Let_def)
  have X: "os_works renew_ext"
    by (simp add: os_works_def renew_ext_fields(1)) (simp add: renew_ext_def json_ext_def sample_curl_def sample_os_def curl_os.defs os.defs)
  have key: "short_key ''k''" "legal_value ''one''" by (simp_all add: short_key_def legal_value_def NUL_def)
  have old: "access_token (od_token old_connect) = Some ''old''" "expired_at renew_ext (od_token old_connect) (env_world drive_env) False"
    by (simp_all add: old_connect_def json_token_def expired_at_def renew_ext_fields timer_after_def)
  have refused: "refuses renew_serve (info_request ''old'' (key_path ''k'') ''size'') (env_world drive_env) (\<lambda>p. None, 401)"
    by (simp add: refuses_def renew_serve_def info_request_def default_opts_def body_opts_def drive_env_def)
  have kept: "keeps_at renew_ext (keystore_path old_connect) (env_fs drive_env) (od_token old_connect)"
    by (simp add: keeps_at_def old_connect_def drive_env_def fs_lookup_def fs_key_def has_parent_def)
  have st: "stored (fst (\<lambda>p. None, 200 :: c_long)) ''k'' []" "fits_drive ([] @ [''one''])"
    by (simp_all add: stored_def fits_drive_def)
  have renew: "renews renew_ext renew_serve (oauth_token_set_expired (od_token old_connect)) (\<lambda>p. None, 401) renewed_token (\<lambda>p. None, 200)"
    using old_renews [of "(\<lambda>p. None, 401)"] by simp
  have k: "key_path ''k'' = ''/KeyValues/k''" using key_path_short [OF key(1)] by simp
  from refused_token_is_renewed [OF X renew_ext_fields(2,4) j(1,2) _ key old refused renew kept renewed_ready st refl refl, of False]
  show ?thesis
    by (intro exI [of _ "old_connect\<lparr>od_token := oauth_token_set_expired (od_token old_connect)\<rparr>"]) (auto simp: k)
qed

end
