(* ===== verification/Onedrive_Large.thy ===== *)
theory Onedrive_Large
  imports Onedrive_Store_Props Onedrive_List
begin

text \<open>
  Files of more than 4 MB on OneDrive: the folder is created, an upload session is opened and the
  bytes go to the URL of the session.
\<close>

subsection \<open>The requests\<close>

definition folder_request :: "string \<Rightarrow> string \<Rightarrow> request" where
  "folder_request auth body =
     \<lparr>rq_opts = default_opts @ [CURLOPT_POST, CURLOPT_POSTFIELDS (Some body), CURLOPT_POSTFIELDSIZE (length body),
        CURLOPT_HTTPHEADER [''Content-Type: application/json'', auth_header auth]],
      rq_url = [url_part (APP_ROOT @ ''/children'')], rq_mime = []\<rparr>"

definition session_request :: "string \<Rightarrow> string \<Rightarrow> request" where
  "session_request auth path =
     \<lparr>rq_opts = default_opts @ [CURLOPT_POST, CURLOPT_POSTFIELDS None, CURLOPT_POSTFIELDSIZE 0] @ body_opts @
        [CURLOPT_HTTPHEADER [auth_header auth]],
      rq_url = [url_part (APP_ROOT @ '':'' @ path @ '':/createUploadSession'')], rq_mime = []\<rparr>"

definition range_headers :: "nat \<Rightarrow> string list" where
  "range_headers n = [''Content-Length: '' @ nat_digits n, ''Content-Range: bytes 0-'' @ nat_digits (n - 1) @ ''/'' @ nat_digits n,
     ''Transfer-Encoding: '', ''Expect: '']"

definition session_upload :: "string \<Rightarrow> bytes \<Rightarrow> request" where
  "session_upload url bs =
     \<lparr>rq_opts = default_opts @ [CURLOPT_CUSTOMREQUEST ''PUT'', CURLOPT_POSTFIELDS (Some bs), CURLOPT_POSTFIELDSIZE (length bs),
        CURLOPT_HTTPHEADER (range_headers (length bs))],
      rq_url = [url_part url], rq_mime = []\<rparr>"

definition upload_sessions ::
    "('j, 'w) ext \<Rightarrow> 'w service \<Rightarrow> string \<Rightarrow> ('w \<Rightarrow> string \<Rightarrow> bytes option) \<Rightarrow> ('w \<Rightarrow> bool) \<Rightarrow> (string \<Rightarrow> string) \<Rightarrow> bool" where
  \<comment> \<open>the documented behaviour of the drive for the requests above, of which \<open>folder\<close> says whether the folder
     of the files is there: the folder is created, but a name that is taken is a conflict; the session of a
     new file has a URL, and the file arrives whole there\<close>
  "upload_sessions X serve auth files folder surl \<longleftrightarrow>
     (\<exists>body. create_folder_request_body X ''Files'' = Some body \<and>
        (\<forall>w. \<exists>cs w'. answers serve (folder_request auth body) w (if folder w then HttpStatus_Conflict else HttpStatus_Created) cs w' \<and>
           files w' = files w \<and> folder w')) \<and>
     (\<forall>path w. short_path path \<longrightarrow> folder w \<longrightarrow> files w path = None \<longrightarrow>
        length (surl path) < 1024 \<and>
        (\<exists>cs w' j. answers serve (session_request auth path) w HttpStatus_OK cs w' \<and> files w' = files w \<and> folder w' \<and>
           concat cs \<noteq> [] \<and> (\<forall>rest. cj_parse X (concat cs @ rest) = Some j) \<and>
           IS_STRING_NODE X (cj_get_cs X j ''uploadUrl'') = Some (surl path))) \<and>
     (\<forall>path w bs. short_path path \<longrightarrow> folder w \<longrightarrow> files w path = None \<longrightarrow> length bs \<le> 33554432 \<longrightarrow>
        (\<exists>cs w'. answers serve (session_upload (surl path) bs) w HttpStatus_Created cs w' \<and>
           files w' = (files w)(path \<mapsto> bs) \<and> folder w'))"

lemma upload_sessionsD:
  assumes "upload_sessions X serve auth files folder surl"
  shows "\<exists>body. create_folder_request_body X ''Files'' = Some body \<and>
      (\<forall>w. \<exists>cs w'. answers serve (folder_request auth body) w (if folder w then HttpStatus_Conflict else HttpStatus_Created) cs w' \<and>
         files w' = files w \<and> folder w')"
    and "short_path path \<Longrightarrow> folder w \<Longrightarrow> files w path = None \<Longrightarrow> length (surl path) < 1024 \<and>
      (\<exists>cs w' j. answers serve (session_request auth path) w HttpStatus_OK cs w' \<and> files w' = files w \<and> folder w' \<and>
         concat cs \<noteq> [] \<and> (\<forall>rest. cj_parse X (concat cs @ rest) = Some j) \<and>
         IS_STRING_NODE X (cj_get_cs X j ''uploadUrl'') = Some (surl path))"
    and "short_path path \<Longrightarrow> folder w \<Longrightarrow> files w path = None \<Longrightarrow> length bs \<le> 33554432 \<Longrightarrow>
      \<exists>cs w'. answers serve (session_upload (surl path) bs) w HttpStatus_Created cs w' \<and>
         files w' = (files w)(path \<mapsto> bs) \<and> folder w'"
  using assms unfolding upload_sessions_def by (elim conjE; simp only: simp_thms)+

subsection \<open>The steps\<close>

definition request_client :: "request \<Rightarrow> string list \<Rightarrow> http_client" where
  \<comment> \<open>a client that sends the request, its headers still in the list\<close>
  "request_client rq hdr = new_client\<lparr>hc_opts := butlast (rq_opts rq), hc_hdr := hdr, hc_url := rq_url rq\<rparr>"

lemma request_client:
  "rq_opts rq = opts @ [CURLOPT_HTTPHEADER hdr] \<Longrightarrow> rq_mime rq = [] \<Longrightarrow> hdr \<noteq> [] \<Longrightarrow>
     ready_request X (request_client rq hdr) = rq"
  "hc_body (request_client rq hdr) = hc_body new_client"
  by (simp_all add: ready_request_def request_of_def prepare_request_def request_client_def easy_setopt_def new_client_def)

lemma creates_folder:
  assumes X: "os_still X" "curl_works X" "http_service X serve" and tok: "access_token tok = Some auth"
    and body: "create_folder_request_body X ''Files'' = Some body"
    and a: "answers serve (folder_request auth body) (env_world e) status cs w'"
  shows "\<exists>c. od_create_folder X tok new_client ''/Files'' e =
      Some (if status \<in> {HttpStatus_OK, HttpStatus_Created} then 0 else status_error status, tok, c, e\<lparr>env_world := w'\<rparr>) \<and>
    hc_body c = hc_body new_client"
proof -
  let ?rq = "folder_request auth body" and ?hdr = "[''Content-Type: application/json'', auth_header auth]"
  let ?c = "request_client ?rq ?hdr"
  have d: "posix_dirname ''/Files'' = ''/''" "posix_basename ''/Files'' = ''Files''"
    by (simp_all add: posix_dirname_def posix_basename_def strip_slashes_def Let_def)
  have url: "sprintf_buf MAX_URL_LEN (APP_ROOT @ ''/children'') = Some (APP_ROOT @ ''/children'')"
    by (intro sprintf_fits) (simp add: length_APP_ROOT MAX_URL_LEN_def)
  have "ready_request X ?c = ?rq" by (rule request_client) (simp_all add: folder_request_def)
  moreover have "write_target (hc_opts ?c) = EAT_OUTPUT"
    by (simp add: request_client_def folder_request_def butlast_append)
  ultimately have x: "authorized_exchange X tok ?c e = (Inr status, tok, prepare_request X ?c, e\<lparr>env_world := w'\<rparr>)"
    using exchange_eats [OF X(3)] a by simp
  have "od_create_folder X tok new_client ''/Files'' e =
      Some (if status \<in> {HttpStatus_OK, HttpStatus_Created} then 0 else status_error status, tok, prepare_request X ?c, e\<lparr>env_world := w'\<rparr>)"
    using X(2) tok url body x
    by (auto simp: od_create_folder_def setter_defs d request_client_def folder_request_def new_client_def butlast_append
        url_part_def auth_header_def Let_def)
  then show ?thesis by (simp add: request_client(2))
qed

lemma opens_session:
  assumes X: "os_still X" "curl_works X" "http_service X serve" and tok: "access_token tok = Some auth" and path: "short_path path"
    and a: "answers serve (session_request auth path) (env_world e) HttpStatus_OK cs w'" "concat cs \<noteq> []"
    and j: "\<And>rest. cj_parse X (concat cs @ rest) = Some j" "IS_STRING_NODE X (cj_get_cs X j ''uploadUrl'') = Some url" "length url < 1024"
  shows "\<exists>c. od_create_upload_session X tok new_client path MAX_URL_LEN e = Some ((0, url), tok, c, e\<lparr>env_world := w'\<rparr>) \<and>
    hc_body c = hc_body new_client"
proof -
  let ?rq = "session_request auth path"
  let ?c = "request_client ?rq [auth_header auth]"
  have u: "sprintf_buf MAX_URL_LEN (APP_ROOT @ '':'' @ path @ '':/createUploadSession'') = Some (APP_ROOT @ '':'' @ path @ '':/createUploadSession'')"
    using path by (intro sprintf_fits) (simp add: length_APP_ROOT short_path_def MAX_URL_LEN_def)
  have "ready_request X ?c = ?rq" by (rule request_client) (simp_all add: session_request_def)
  moreover have "write_target (hc_opts ?c) = HTTP_RESPONSE_BODY_WRITE"
    by (simp add: request_client_def session_request_def butlast_append body_opts_def)
  ultimately obtain r where r: "authorized_exchange X tok ?c e =
      (Inr HttpStatus_OK, tok, (prepare_request X ?c)\<lparr>hc_body := r\<rparr>, e\<lparr>env_world := w'\<rparr>)" "holds_body r (concat cs)"
    using exchange_takes [OF X(1,3) _ request_client(2)] a(1) by metis
  have p: "rb_used r \<noteq> 0" "cj_parse X (rb_data r) = Some j"
    using holds_body_parses [where X = X, OF r(2) a(2) j(1)] by auto
  have len: "sint (word_of_nat (length url) :: c_int) = int (length url)"
    using j(3) by (simp add: signed_of_nat signed_take_bit_int_eq_self)
  then have s: "session_url X (rb_data r) MAX_URL_LEN = (0, url)"
    using p(2) j(2,3) by (simp add: session_url_def snprintf_def neg_def MAX_URL_LEN_def)
  let ?b = "\<lparr>rb_used = 0, rb_sz = 0, rb_data = []\<rparr>"
  have "od_create_upload_session X tok new_client path MAX_URL_LEN e =
      Some ((0, url), tok, (prepare_request X ?c)\<lparr>hc_body := ?b\<rparr>, e\<lparr>env_world := w'\<rparr>)"
    using X(2) tok u r(1) p(1) s
    by (simp add: od_create_upload_session_def setter_defs request_client_def session_request_def new_client_def butlast_append
        url_part_def auth_header_def body_opts_def http_client_move_response_body_def Let_def)
  then show ?thesis by (simp add: new_client_def)
qed

lemma uploads_to_session:
  assumes X: "curl_works X" "http_service X serve" and n: "length bs < 2 ^ 63" "bs \<noteq> []"
    and a: "answers serve (session_upload url bs) (env_world e) status cs w'" "status \<in> {HttpStatus_OK, HttpStatus_Created}"
  shows "\<exists>c. od_upload_to_session X new_client url (Some bs) (word_of_nat (length bs)) e = (0, c, e\<lparr>env_world := w'\<rparr>)"
proof -
  let ?rq = "session_upload url bs" and ?n = "length bs"
  let ?c = "request_client ?rq (range_headers ?n)"
  have len: "unat (word_of_nat ?n :: size_t) = ?n" by (rule unat_len) (use n(1) in simp)
  have "word_of_nat ?n - 1 = (word_of_nat (?n - 1) :: size_t)" using n(2) by (cases bs) simp_all
  then have pred: "unat (word_of_nat ?n - 1 :: size_t) = ?n - 1" using n(1) by (simp add: unat_of_nat)
  have "ready_request X ?c = ?rq" by (rule request_client) (simp_all add: session_upload_def range_headers_def)
  moreover have w: "write_target (hc_opts ?c) = EAT_OUTPUT"
    by (simp add: request_client_def session_upload_def butlast_append)
  ultimately have "exchange X ?c e = (Inr status, prepare_request X ?c, e\<lparr>env_world := w'\<rparr>)"
    using request_answered [OF X(2) w, of e status cs w'] a(1)
    by (simp add: exchange_def answers_def ready_request_def http_client_get_response_code_def)
  then have "od_upload_to_session X new_client url (Some bs) (word_of_nat ?n) e = (0, prepare_request X ?c, e\<lparr>env_world := w'\<rparr>)"
    using X(1) a(2) len pred
    by (auto simp: od_upload_to_session_def setter_defs request_client_def session_upload_def range_headers_def new_client_def butlast_append
        url_part_def Let_def)
  then show ?thesis by blast
qed

definition plain_name :: "string \<Rightarrow> bool" where
  \<comment> \<open>a file of the top directory\<close>
  "plain_name name \<longleftrightarrow> file_name_ok name \<and> list_all (\<lambda>c. c \<noteq> SLASH) name"

lemma plain_dirname: "plain_name name \<Longrightarrow> posix_dirname (''/Files/'' @ name) = ''/Files''"
proof -
  assume "plain_name name"
  then have ne: "rev name \<noteq> []" and ok: "\<And>c. c \<in> set (rev name) \<Longrightarrow> c \<noteq> SLASH"
    by (simp_all add: plain_name_def file_name_ok_def list_all_iff)
  from ne obtain c cs where r: "rev name = c # cs" by (cases "rev name") auto
  then have "c \<noteq> SLASH" using ok by simp
  then have s: "strip_slashes (''/Files/'' @ name) = ''/Files/'' @ name"
    by (simp add: strip_slashes_def r) (simp add: rev_swap [THEN iffD1, OF r])
  have "dropWhile (\<lambda>c. c \<noteq> SLASH) (rev name @ rev ''/Files/'') = rev ''/Files/''"
    by (subst dropWhile_append2) (use ok in auto)
  then have "rev (dropWhile (\<lambda>c. c \<noteq> SLASH) (rev (''/Files/'' @ name))) = ''/Files/''" by simp
  then show ?thesis using s unfolding posix_dirname_def Let_def by (simp add: strip_slashes_def)
qed

lemma large_length:
  assumes "4194304 < length bs" "length bs \<le> 33554432"
  shows "length bs < 2 ^ 63" "\<not> (word_of_nat (length bs) :: size_t) \<le> 4 * 1024 * 1024" "bs \<noteq> []"
proof -
  show small: "length bs < 2 ^ 63" using assms(2) by simp
  have "unat (word_of_nat (length bs) :: size_t) = length bs" by (rule unat_len) (use small in simp)
  then show "\<not> (word_of_nat (length bs) :: size_t) \<le> 4 * 1024 * 1024" using assms(1) by (simp add: word_le_nat_alt)
  show "bs \<noteq> []" using assms(1) by auto
qed

lemma drive_write_large:
  assumes R: "drive_ready X serve auth files durl tok" and S: "upload_sessions X serve auth files folder surl" and name: "plain_name name"
    and bs: "4194304 < length bs" "length bs \<le> 33554432"
    and new: "\<not> folder (env_world e)" "files (env_world e) (''/Files/'' @ name) = None"
  shows "\<exists>w'. put_file_from_buffer_at X tok (Some bs) (word_of_nat (length bs)) (''/Files/'' @ name) e = Some (0, tok, moved e w') \<and>
    files w' = (files (env_world e))(''/Files/'' @ name \<mapsto> bs) \<and> folder w'"
proof -
  let ?path = "''/Files/'' @ name" and ?e = "moved e (env_world e)"
  note D = drive_readyD [OF R] and L = large_length [OF bs]
  have path: "short_path ?path" using name file_path_ok(2) by (simp add: plain_name_def)
  from upload_sessionsD(1) [OF S] obtain body where body: "create_folder_request_body X ''Files'' = Some body"
    and folders: "\<And>w. \<exists>cs w'. answers serve (folder_request auth body) w (if folder w then HttpStatus_Conflict else HttpStatus_Created) cs w' \<and>
       files w' = files w \<and> folder w'"
    by blast
  obtain cs1 w1 where f: "answers serve (folder_request auth body) (env_world ?e) HttpStatus_Created cs1 w1"
      "files w1 = files (env_world e)" "folder w1"
    using folders [of "env_world e"] new(1) by auto
  obtain c1 where 1: "od_create_folder X tok new_client ''/Files'' ?e = Some (0, tok, c1, moved e w1)" "hc_body c1 = hc_body new_client"
    using creates_folder [OF D(1,2,3,4) body f(1)] by auto
  have new1: "files w1 ?path = None" using f(2) new(2) by simp
  obtain cs2 w2 j where
    g: "answers serve (session_request auth ?path) w1 HttpStatus_OK cs2 w2" "concat cs2 \<noteq> []" "files w2 = files w1" "folder w2"
    and parse: "\<forall>rest. cj_parse X (concat cs2 @ rest) = Some j" and u: "IS_STRING_NODE X (cj_get_cs X j ''uploadUrl'') = Some (surl ?path)"
      "length (surl ?path) < 1024"
    using upload_sessionsD(2) [OF S, OF path f(3) new1] by (elim conjE exE) (rule that)
  note j = parse [rule_format] u
  obtain c2 where 2: "od_create_upload_session X tok new_client ?path MAX_URL_LEN (moved e w1) = Some ((0, surl ?path), tok, c2, moved e w2)"
    "hc_body c2 = hc_body new_client"
    using opens_session [OF D(1,2,3,4) path _ g(2) j, of "moved e w1" w2] g(1) by auto
  have new2: "files w2 ?path = None" using g(3) new1 by simp
  from upload_sessionsD(3) [OF S, OF path g(4) new2 bs(2)] obtain cs3 w3 where
    up: "answers serve (session_upload (surl ?path) bs) w2 HttpStatus_Created cs3 w3"
      "files w3 = (files w2)(?path \<mapsto> bs)" "folder w3"
    by blast
  obtain c3 where 3: "od_upload_to_session X new_client (surl ?path) (Some bs) (word_of_nat (length bs)) (moved e w2) = (0, c3, moved e w3)"
    using uploads_to_session [OF D(2,3) L(1,3), of "surl ?path" "moved e w2" HttpStatus_Created cs3 w3] up(1) by auto
  have "put_file_from_buffer_at X tok (Some bs) (word_of_nat (length bs)) ?path e = Some (0, tok, moved e w3)"
    using ready_not_expired [OF R] ready_client [OF R] L(2) 1 2 3 reset_new
    by (simp add: put_file_from_buffer_at_def put_large_file_def plain_dirname [OF name, simplified] neg_def)
  then show ?thesis using f(2) g(3) up(2,3) by auto
qed

lemma drive_refuses_large:
  assumes R: "drive_ready X serve auth files durl tok" and S: "upload_sessions X serve auth files folder surl" and name: "plain_name name"
    and bs: "4194304 < length bs" "length bs \<le> 33554432" and there: "folder (env_world e)"
  shows "\<exists>w'. put_file_from_buffer_at X tok (Some bs) (word_of_nat (length bs)) (''/Files/'' @ name) e =
      Some (status_error HttpStatus_Conflict, tok, moved e w') \<and> files w' = files (env_world e)"
proof -
  let ?e = "moved e (env_world e)"
  note D = drive_readyD [OF R] and L = large_length [OF bs]
  from upload_sessionsD(1) [OF S] there obtain body cs w' where body: "create_folder_request_body X ''Files'' = Some body"
    and f: "answers serve (folder_request auth body) (env_world ?e) HttpStatus_Conflict cs w'" "files w' = files (env_world e)"
    unfolding moved_simps by metis
  obtain c where "od_create_folder X tok new_client ''/Files'' ?e = Some (status_error HttpStatus_Conflict, tok, c, moved e w')"
    using creates_folder [OF D(1,2,3,4) body f(1)] by auto
  then have "put_file_from_buffer_at X tok (Some bs) (word_of_nat (length bs)) (''/Files/'' @ name) e =
      Some (status_error HttpStatus_Conflict, tok, moved e w')"
    using ready_not_expired [OF R] ready_client [OF R] L(2) http_status_neg [of HttpStatus_Conflict]
    by (simp add: put_file_from_buffer_at_def put_large_file_def plain_dirname [OF name, simplified] neg_def status_error_def)
  then show ?thesis using f(2) by auto
qed

lemma put_large_fails:
  assumes R: "drive_ready X serve auth files durl (od_token d)" and S: "upload_sessions X serve auth files folder surl"
    and name: "plain_name name" and bs: "4194304 < length bs" "length bs \<le> 33554432" and there: "folder (env_world e)"
  shows "\<exists>w'. hive_put_file_from_buffer (Some (onedrive_methods X d)) (Some bs) (word_of_nat (length bs)) enc (Some name) e =
      Some (- 1, Some (onedrive_methods X d), hive_set_error (status_error HttpStatus_Conflict) (moved e w')) \<and>
    files w' = files (env_world e)"
proof -
  have ok: "file_name_ok name" "name \<noteq> []" using name by (auto simp: plain_name_def file_name_ok_def)
  have same: "d\<lparr>od_token := od_token d\<rparr> = d" by simp
  have "unat (word_of_nat (length bs) :: size_t) = length bs" by (rule unat_len) (use bs in simp)
  then have le: "\<not> 33554432 < (word_of_nat (length bs) :: size_t)" using bs by (simp add: word_less_nat_alt)
  obtain w' where "put_file_from_buffer_at X (od_token d) (Some bs) (word_of_nat (length bs)) (''/Files/'' @ name) e =
      Some (status_error HttpStatus_Conflict, od_token d, moved e w')" "files w' = files (env_world e)"
    using drive_refuses_large [OF R S name bs there] by blast
  then show ?thesis
    using file_path_ok(3) [OF ok(1)] ok(2) le same http_status_neg [of HttpStatus_Conflict]
    by (intro exI [of _ w'])
      (simp add: hive_put_file_from_buffer_def Option.is_none_def put_file_from_buffer_def on_token_def status_error_def)
qed

subsection \<open>The property\<close>


subsection \<open>An example\<close>

type_synonym large_world = "drive_world \<times> bool"

definition expects :: "request \<Rightarrow> bool" where
  \<comment> \<open>the request has the header \<open>Expect\<close>, which only the uploads of a session have\<close>
  "expects rq = list_ex (\<lambda>opt. case opt of CURLOPT_HTTPHEADER h \<Rightarrow> ''Expect: '' \<in> set h | _ \<Rightarrow> False) (rq_opts rq)"

definition large_serve :: "large_world service" where
  \<comment> \<open>the drive with upload sessions and whether its folder is there: the session of a path has the URL \<open>s\<close> and
     the path\<close>
  "large_serve rq w =
     (case w of ((fls, st), folder) \<Rightarrow>
        let url = the (uc_text (hd (rq_url rq))) in
        if CURLOPT_POST \<in> set (rq_opts rq) then
          (if url = APP_ROOT @ ''/children''
           then (if folder then (409, [], (fls, 409), True) else (201, [], (fls, 201), True))
           else (200, [CHR ''u'' # take (length url - 79) (drop 58 url) @ [NUL]], (fls, 200), folder))
        else if expects rq then
          (let data = (case rq_opts rq ! 6 of CURLOPT_POSTFIELDS (Some d) \<Rightarrow> d | _ \<Rightarrow> [])
           in (201, [], (fls(tl url \<mapsto> data), 201), folder))
        else (case drive_serve rq (fls, st) of (status, cs, v) \<Rightarrow> (status, cs, v, folder)))"

definition large_ext :: "(json, large_world) ext" where
  "large_ext = json_ext\<lparr>
     curl_perform := (\<lambda>rq wr s w. case large_serve rq w of (st, cs, w') \<Rightarrow>
        (case deliver wr cs s w' of Some s' \<Rightarrow> (CURLE_OK, s', w') | None \<Rightarrow> (23, s, w))),
     curl_response_code := (\<lambda>w. (CURLE_OK, snd (fst w))),
     cj_parse := (\<lambda>t. if take 1 t = ''u'' then Some (JObj [(''uploadUrl'', JStr (CHR ''s'' # cstr (tl t)))]) else drive_json t)\<rparr>"

definition large_connect :: "(json, large_world) onedrive_connect" where
  "large_connect = \<lparr>od_token = json_token\<lparr>expires_at := \<lparr>tv_sec = 2000, tv_usec = 0\<rparr>\<rparr>, keystore_path = ''/k''\<rparr>"

definition large_env :: "large_world env" where
  "large_env = \<lparr>env_err = 0, env_errno = 0, env_fs = (\<lambda>p. None), env_curl_ready = True, env_world = ((\<lambda>p. None, 200), False)\<rparr>"

lemma drive_status: "case drive_serve rq w of (st, cs, w') \<Rightarrow> snd w' = st"
  by (auto simp: drive_serve_def Let_def split: prod.splits option.splits)

lemma large_status: "case large_serve rq w of (st, cs, w') \<Rightarrow> snd (fst w') = st"
  using drive_status [of rq "fst w"] by (auto simp: large_serve_def Let_def split: prod.splits)

lemma large_http: "http_service large_ext large_serve"
  using large_status by (fastforce simp: http_service_def large_ext_def split: prod.splits option.splits)

lemma large_ext_fields:
  "os_still large_ext" "curl_works large_ext" "os_now large_ext w = (\<lparr>tv_sec = 1000, tv_usec = 0\<rparr>, w)"
  by (simp_all add: os_still_def curl_works_def large_ext_def json_ext_def sample_curl_def sample_os_def curl_os.defs os.defs)

lemma large_reads: "reads_drive large_ext"
proof -
  have "take 1 (drive_text n path @ rest) \<noteq> ''u''" for n path rest by (cases n) (simp_all add: drive_text_def NUL_def)
  then show ?thesis by (simp add: reads_drive_def large_ext_def json_ext_def curl_os.defs drive_json_text)
qed

lemma large_ready:
  "drive_ready large_ext large_serve ''at'' (\<lambda>w. fst (fst w)) (\<lambda>path. CHR ''d'' # path) (od_token large_connect)"
proof -
  have "\<not> expects rq" if "drive_request ''at'' rq" for rq
    using that by (auto simp: drive_request_def expects_def list_all_iff list_ex_iff auth_header_def split: curl_opt.splits)
  then have "drive_service large_ext large_serve ''at'' (\<lambda>w. fst (fst w)) (\<lambda>path. CHR ''d'' # path)"
    by (intro drive_service_over [OF large_http large_reads])
      (auto simp: large_serve_def drive_request_def Let_def split: prod.splits)
  then show ?thesis
    using large_ext_fields by (simp add: drive_ready_def large_connect_def json_token_def timer_after_def)
qed

lemma large_folder:
  "create_folder_request_body large_ext ''Files'' = Some []"
  "large_serve (folder_request auth body) (v, folder) = (if folder then (409, [], (fst v, 409), True) else (201, [], (fst v, 201), True))"
  by (simp_all add: create_folder_request_body_def large_ext_def json_ext_def with_member_def curl_os.defs
      large_serve_def folder_request_def url_part_def split: prod.splits)

lemma large_open:
  "large_serve (session_request auth path) (v, folder) = (200, [CHR ''u'' # path @ [NUL]], (fst v, 200), folder)"
proof -
  have "length (APP_ROOT @ '':'' @ path @ '':/createUploadSession'') - 79 = length path" by (simp add: length_APP_ROOT)
  then show ?thesis
    by (simp add: large_serve_def session_request_def url_part_def length_APP_ROOT default_opts_def Let_def split: prod.splits)
qed

lemma large_upload:
  "large_serve (session_upload (CHR ''s'' # path) bs) (v, folder) = (201, [], ((fst v)(path \<mapsto> bs), 201), folder)"
  by (simp add: large_serve_def session_upload_def expects_def range_headers_def url_part_def default_opts_def split: prod.splits)

lemma large_sessions: "upload_sessions large_ext large_serve auth (\<lambda>w. fst (fst w)) snd (\<lambda>path. CHR ''s'' # path)"
  unfolding upload_sessions_def
proof (intro conjI allI impI, goal_cases)
  case 1
  have "answers large_serve (folder_request auth []) w (if snd w then 409 else 201) [] ((fst (fst w), if snd w then 409 else 201), True)" for w
    by (cases w) (simp add: large_folder answers_def)
  then show ?case using large_folder(1) by fastforce
next
  case (2 path w)
  then show ?case by (simp add: short_path_def)
next
  case (3 path w)
  then show ?case
    by (cases w, intro exI [of _ "[CHR ''u'' # path @ [NUL]]"] exI [of _ "((fst (fst w), 200), snd w)"]
        exI [of _ "JObj [(''uploadUrl'', JStr (CHR ''s'' # path))]"])
      (simp add: large_open answers_def short_path_def large_ext_def json_ext_def curl_os.defs IS_STRING_NODE_def is_str_def member_def)
next
  case (4 path w bs)
  then show ?case
    by (cases w, intro exI [of _ "[]"] exI [of _ "(((fst (fst w))(path \<mapsto> bs), 201), snd w)"]) (simp add: large_upload answers_def)
qed

definition large_file :: bytes where
  "large_file = replicate 4194305 CHR ''x''"

definition large_block :: bytes where
  "large_block = replicate 4194305 NUL"

lemma large_lengths: "length large_file = 4194305" "length large_block = 4194305"
  by (simp_all add: large_file_def large_block_def)


end
