(* ===== verification/Onedrive_Files.thy ===== *)
theory Onedrive_Files
  imports Onedrive_Store_Props Onedrive_Keystore
begin

text \<open>
  Fetching a file of OneDrive into a local file: \<open>hive_get_file\<close> asks for the length, creates the local
  file, reads the remote one into a buffer and writes it, and what is left when the write is cut short.
\<close>

subsection \<open>The steps before the write\<close>

lemma fs_put_put [simp]: "fs_put p a (fs_put p b f) = fs_put p a f"
  by (simp add: fs_put_def)

lemma length_through:
  assumes R: "drive_ready X serve auth files durl (od_token d)" and name: "file_name_ok name"
    and bs: "files (env_world e) (''/Files/'' @ name) = Some bs" "length bs < 2 ^ 31"
  shows "\<exists>w. hive_get_file_length (Some (onedrive_methods X d)) (Some name) e =
      Some (word_of_nat (length bs), Some (onedrive_methods X d), moved e w) \<and> files w = files (env_world e)"
proof -
  note F = file_path_ok [OF name]
  have same: "d\<lparr>od_token := od_token d\<rparr> = d" "name \<noteq> []" using name by (simp_all add: file_name_ok_def)
  have n: "\<not> neg (word_of_nat (length bs) :: ssize_t)" using bs(2) by simp
  obtain w where "get_file_length_at X (od_token d) (''/Files/'' @ name) e = Some (word_of_nat (length bs), od_token d, moved e w)"
    "files w = files (env_world e)"
    using drive_length [OF R F(2), of e] bs by auto
  then show ?thesis
    using F(1) same n
    by (intro exI [of _ w]) (simp add: hive_get_file_length_def Option.is_none_def get_file_length_def on_token_def)
qed

lemma content_through:
  assumes R: "drive_ready X serve auth files durl (od_token d)" and name: "file_name_ok name"
    and bs: "files (env_world e) (''/Files/'' @ name) = Some bs" "length bs < 2 ^ 31" "bs \<noteq> []"
    and to: "length to = length bs"
  shows "\<exists>w. hive_get_file_to_buffer (Some (onedrive_methods X d)) (Some name) dec (Some to) (word_of_nat (length bs)) e =
      Some ((word_of_nat (length bs), Some bs), Some (onedrive_methods X d), moved e w) \<and> files w = files (env_world e)"
proof -
  note F = file_path_ok [OF name]
  have same: "d\<lparr>od_token := od_token d\<rparr> = d" "name \<noteq> []" using name by (simp_all add: file_name_ok_def)
  have n: "\<not> neg (word_of_nat (length bs) :: ssize_t)" using bs(2) by simp
  have "unat (word_of_nat (length bs) :: size_t) = length bs" by (rule unat_len) (use bs in simp)
  then have z: "(word_of_nat (length bs) :: size_t) \<noteq> 0" using bs(3) by (metis length_0_conv unat_0)
  obtain w where "get_file_to_buffer_at X (od_token d) (''/Files/'' @ name) to (word_of_nat (length bs)) e =
      Some ((word_of_nat (length bs), bs), od_token d, moved e w)" "files w = files (env_world e)"
    using drive_read [OF R F(2) bs(1,2), of to "length bs"] bs to by auto
  then show ?thesis
    using F(1) same n z
    by (intro exI [of _ w]) (simp add: hive_get_file_to_buffer_def Option.is_none_def get_file_to_buffer_def on_token_def)
qed

lemma get_file_reaches_write:
  assumes R: "drive_ready X serve auth files durl (od_token d)" and name: "file_name_ok name"
    and bs: "files (env_world e) (''/Files/'' @ name) = Some bs" "length bs < 2 ^ 31" "bs \<noteq> []"
    and new: "fs_lookup (env_fs e) to = None" "has_parent (env_fs e) to" "to \<noteq> []"
  shows "\<exists>w. files w = files (env_world e) \<and> hive_get_file X (Some (onedrive_methods X d)) (Some name) dec (Some to) e =
    (let (nwr, e) = sys_write X to bs ((moved e w)\<lparr>env_fs := fs_put to (FFile []) (env_fs e)\<rparr>) in
     if nwr \<noteq> word_of_nat (length bs)
     then (let e = sys_unlink X name e
           in Some (- 1, Some (onedrive_methods X d), hive_set_error (HIVE_SYS_ERROR (env_errno e)) e))
     else Some (word_of_nat (length bs), Some (onedrive_methods X d), e))"
proof -
  note S = drive_readyD(1) [OF R]
  obtain w1 where 1: "hive_get_file_length (Some (onedrive_methods X d)) (Some name) e =
      Some (word_of_nat (length bs), Some (onedrive_methods X d), moved e w1)" "files w1 = files (env_world e)"
    using length_through [OF R name bs(1,2)] by blast
  let ?e = "(moved e w1)\<lparr>env_fs := fs_put to (FFile []) (env_fs e)\<rparr>"
  have 2: "sys_create_excl X to (moved e w1) = (True, ?e)"
    using S new by (simp add: sys_create_excl_def moved_def)
  have "length (replicate (length bs) NUL) = length bs" by simp
  from content_through [OF R name _ bs(2,3) this, of ?e dec] 1(2) bs(1)
  obtain w2 where 3: "hive_get_file_to_buffer (Some (onedrive_methods X d)) (Some name) dec (Some (replicate (length bs) NUL)) (word_of_nat (length bs)) ?e =
      Some ((word_of_nat (length bs), Some bs), Some (onedrive_methods X d), moved ?e w2)" "files w2 = files w1"
    by auto
  have m: "moved ?e w2 = (moved e w2)\<lparr>env_fs := fs_put to (FFile []) (env_fs e)\<rparr>" by (simp add: moved_def)
  have small: "length bs < 2 ^ 63" using bs(2) by simp
  note sz = small_size [OF small]
  have ne: "name \<noteq> []" using name by (simp add: file_name_ok_def)
  show ?thesis
    using 1 2 3 m sz bs(3) new(3) ne S
    by (intro exI [of _ w2]) (simp add: hive_get_file_def Option.is_none_def split: prod.split)
qed

subsection \<open>Properties\<close>

text \<open>
  C20: With an operating system that works and a OneDrive that holds the file, hive_get_file
  creates the local file with exactly the bytes of the remote one, returns their number and
  changes nothing else of the local tree and nothing on the drive.
\<close>

theorem get_file_stores_the_remote_bytes:
  assumes X: "os_works X" and R: "drive_ready X serve auth files durl (od_token d)" and name: "file_name_ok name"
    and bs: "files (env_world e) (''/Files/'' @ name) = Some bs" "length bs < 2 ^ 31" "bs \<noteq> []"
    and new: "fs_lookup (env_fs e) to = None" "has_parent (env_fs e) to" "to \<noteq> []"
  shows "\<exists>w. hive_get_file X (Some (onedrive_methods X d)) (Some name) dec (Some to) e =
      Some (word_of_nat (length bs), Some (onedrive_methods X d), (moved e w)\<lparr>env_fs := fs_put to (FFile bs) (env_fs e)\<rparr>) \<and>
    files w = files (env_world e)"
proof -
  obtain w where w: "files w = files (env_world e)" and g: "hive_get_file X (Some (onedrive_methods X d)) (Some name) dec (Some to) e =
    (let (nwr, e) = sys_write X to bs ((moved e w)\<lparr>env_fs := fs_put to (FFile []) (env_fs e)\<rparr>) in
     if nwr \<noteq> word_of_nat (length bs)
     then (let e = sys_unlink X name e
           in Some (- 1, Some (onedrive_methods X d), hive_set_error (HIVE_SYS_ERROR (env_errno e)) e))
     else Some (word_of_nat (length bs), Some (onedrive_methods X d), e))"
    using get_file_reaches_write [OF R name bs new] by blast
  have "sys_write X to bs ((moved e w)\<lparr>env_fs := fs_put to (FFile []) (env_fs e)\<rparr>) =
      (word_of_nat (length bs), (moved e w)\<lparr>env_fs := fs_put to (FFile bs) (env_fs e)\<rparr>)"
    using os_worksD [OF X] by (simp add: sys_write_def moved_def)
  then show ?thesis using g w by (intro exI [of _ w]) simp
qed

definition holding_env :: "drive_world env" where
  \<comment> \<open>the drive holds one file, and a local file has its name\<close>
  "holding_env = \<lparr>env_err = 0, env_errno = 0, env_fs = [''f'' \<mapsto> FFile ''mine''], env_curl_ready = True,
     env_world = ([''/Files/f'' \<mapsto> ''data''], 200)\<rparr>"

lemma name_f: "file_name_ok ''f''"
  by (simp add: file_name_ok_def NUL_def)

lemma holding_new:
  "fst (env_world holding_env) (''/Files/'' @ ''f'') = Some ''data''" "fs_lookup (env_fs holding_env) ''/l'' = None"
  "has_parent (env_fs holding_env) ''/l''"
  by (simp_all add: holding_env_def fs_lookup_def fs_key_def has_parent_def)

theorem get_file_stores_the_remote_bytes_witness:
  "\<exists>w. hive_get_file drive_ext (Some (onedrive_methods drive_ext drive_connect)) (Some ''f'') False (Some ''/l'') holding_env =
    Some (4, Some (onedrive_methods drive_ext drive_connect),
      (moved holding_env w)\<lparr>env_fs := [''f'' \<mapsto> FFile ''mine'', ''/l'' \<mapsto> FFile ''data'']\<rparr>)"
proof -
  have "os_works drive_ext"
    by (simp add: os_works_def drive_ext_fields) (simp add: drive_ext_def json_ext_def sample_curl_def sample_os_def curl_os.defs os.defs)
  from get_file_stores_the_remote_bytes [OF this drive_connect_ready name_f holding_new(1) _ _ holding_new(2,3), of False]
  show ?thesis by (auto simp: fs_put_def fs_key_def holding_env_def)
qed

text \<open>
  C38: When the operating system writes only a part of a file fetched from OneDrive, hive_get_file
  returns -1 but leaves the truncated local file in place; what it unlinks is a local file that
  has the name of the remote one.
\<close>

theorem short_write_leaves_the_partial_file:
  assumes R: "drive_ready X serve auth files durl (od_token d)" and name: "file_name_ok name"
    and bs: "files (env_world e) (''/Files/'' @ name) = Some bs" "length bs < 2 ^ 31" "bs \<noteq> []"
    and new: "fs_lookup (env_fs e) to = None" "has_parent (env_fs e) to" "to \<noteq> []"
    and short: "\<And>w. fst (os_xfer X (length bs) w) < length bs"
    and other: "fs_key name \<noteq> fs_key to" "fs_key to \<noteq> ''/''"
  shows "\<exists>k e'. hive_get_file X (Some (onedrive_methods X d)) (Some name) dec (Some to) e =
      Some (- 1, Some (onedrive_methods X d), e') \<and>
    k < length bs \<and> fs_lookup (env_fs e') to = Some (FFile (take k bs)) \<and>
    (\<forall>old. fs_lookup (env_fs e) name = Some (FFile old) \<longrightarrow> fs_lookup (env_fs e') name = None)"
proof -
  note S = drive_readyD(1) [OF R]
  obtain w where g: "hive_get_file X (Some (onedrive_methods X d)) (Some name) dec (Some to) e =
    (let (nwr, e) = sys_write X to bs ((moved e w)\<lparr>env_fs := fs_put to (FFile []) (env_fs e)\<rparr>) in
     if nwr \<noteq> word_of_nat (length bs)
     then (let e = sys_unlink X name e
           in Some (- 1, Some (onedrive_methods X d), hive_set_error (HIVE_SYS_ERROR (env_errno e)) e))
     else Some (word_of_nat (length bs), Some (onedrive_methods X d), e))"
    using get_file_reaches_write [OF R name bs new] by blast
  obtain k w2 where xf: "os_xfer X (length bs) w = (k, w2)" by fastforce
  have k: "k < length bs" using short [of w] xf by simp
  have ne: "(word_of_nat k :: ssize_t) \<noteq> word_of_nat (length bs)"
    using small_size(2) [of k] small_size(2) [of "length bs"] k bs(2) by auto
  let ?e2 = "(moved e w2)\<lparr>env_fs := fs_put to (FFile (take k bs)) (env_fs e)\<rparr>"
  have "sys_write X to bs ((moved e w)\<lparr>env_fs := fs_put to (FFile []) (env_fs e)\<rparr>) = (word_of_nat k, ?e2)"
    using S k xf by (simp add: sys_write_def moved_def min_def)
  then have r: "hive_get_file X (Some (onedrive_methods X d)) (Some name) dec (Some to) e =
      Some (- 1, Some (onedrive_methods X d), hive_set_error (HIVE_SYS_ERROR (env_errno (sys_unlink X name ?e2))) (sys_unlink X name ?e2))"
    using g ne by (simp add: Let_def)
  have "fs_lookup (env_fs (sys_unlink X name ?e2)) to = Some (FFile (take k bs))"
    and "\<forall>old. fs_lookup (env_fs e) name = Some (FFile old) \<longrightarrow> fs_lookup (env_fs (sys_unlink X name ?e2)) name = None"
    using S new other
    by (auto simp: sys_unlink_def fs_lookup_def fs_put_def split: option.splits fnode.splits if_splits)
  with r k show ?thesis by auto
qed

definition short_ext :: "(json, drive_world) ext" where
  \<comment> \<open>every transfer is a byte short\<close>
  "short_ext = drive_ext\<lparr>os_xfer := (\<lambda>n w. (n - 1, w))\<rparr>"

lemma short_ext_fields:
  "curl_perform short_ext = curl_perform drive_ext" "curl_response_code short_ext = curl_response_code drive_ext"
  "cj_parse short_ext = cj_parse drive_ext" "cj_get_cs short_ext = cj_get_cs drive_ext" "cj_is_number short_ext = cj_is_number drive_ext"
  "cj_valuelong short_ext = cj_valuelong drive_ext" "cj_is_string short_ext = cj_is_string drive_ext"
  "cj_valuestring short_ext = cj_valuestring drive_ext" "os_now short_ext = os_now drive_ext" "os_still short_ext" "curl_works short_ext"
  "os_xfer short_ext n w = (n - 1, w)"
  by (simp_all add: short_ext_def os_still_def curl_works_def drive_ext_def json_ext_def sample_curl_def sample_os_def curl_os.defs os.defs)

lemma short_ready: "drive_ready short_ext drive_serve ''at'' fst (\<lambda>path. CHR ''d'' # path) (od_token drive_connect)"
proof -
  have "http_service short_ext drive_serve" using drive_http by (simp only: http_service_def short_ext_fields)
  moreover have "reads_drive short_ext"
    by (simp add: reads_drive_def short_ext_fields drive_ext_fields drive_json_text fun_eq_iff)
  ultimately have "drive_service short_ext drive_serve ''at'' fst (\<lambda>path. CHR ''d'' # path)"
    by (rule drive_service_like) simp
  then show ?thesis
    using drive_connect_ready by (simp add: drive_ready_def short_ext_fields)
qed

theorem short_write_leaves_the_partial_file_witness:
  "\<exists>k e'. hive_get_file short_ext (Some (onedrive_methods short_ext drive_connect)) (Some ''f'') False (Some ''/l'') holding_env =
      Some (- 1, Some (onedrive_methods short_ext drive_connect), e') \<and> k < 4 \<and>
    fs_lookup (env_fs e') ''/l'' = Some (FFile (take k ''data'')) \<and> fs_lookup (env_fs e') ''f'' = None"
proof -
  have "fs_lookup (env_fs holding_env) ''f'' = Some (FFile ''mine'')" by (simp add: holding_env_def fs_lookup_def fs_key_def)
  moreover have "fst (os_xfer short_ext (length ''data'') w) < length ''data''" for w by (simp add: short_ext_fields)
  moreover have "fs_key ''f'' \<noteq> fs_key ''/l''" "fs_key ''/l'' \<noteq> ''/''" by (simp_all add: fs_key_def)
  ultimately obtain k e' where "hive_get_file short_ext (Some (onedrive_methods short_ext drive_connect)) (Some ''f'') False (Some ''/l'') holding_env =
      Some (- 1, Some (onedrive_methods short_ext drive_connect), e')" "k < length ''data''"
    "fs_lookup (env_fs e') ''/l'' = Some (FFile (take k ''data''))" "fs_lookup (env_fs e') ''f'' = None"
    using short_write_leaves_the_partial_file [OF short_ready name_f holding_new(1) _ _ holding_new(2,3), of False]
    by auto
  then show ?thesis by (intro exI [of _ k] exI [of _ e']) (simp add: eval_nat_numeral)
qed

end
