(* ===== verification/Shell_Config.thy ===== *)
theory Shell_Config
  imports Ipfs
begin

text \<open>
  \<open>src/apps/cmd/config.c\<close>: the configuration of the command shell. libconfig is a parameter, the record
  \<open>libconfig\<close>: reading a file gives an error text or a tree, and the tree answers lookups. The standard
  streams, \<open>system\<close>, \<open>getenv\<close>, \<open>realpath\<close> and \<open>getpid\<close> of the shell are the record \<open>terminal\<close>; a text that is
  printed moves the world. Freed memory is not tracked, so the two destructors have no definition.
\<close>

subsection \<open>The terminal and libconfig\<close>

record 'w terminal =
  tty_out :: "string \<Rightarrow> 'w \<Rightarrow> 'w"
  tty_err :: "string \<Rightarrow> 'w \<Rightarrow> 'w"
  tty_system :: "string \<Rightarrow> 'w \<Rightarrow> 'w"
  tty_home :: "string option"
  tty_cwd :: string
  tty_realpath :: "string \<Rightarrow> string"
  tty_pid :: int

record ('g, 's, 'w) libconfig =
  lc_read_file :: "string \<Rightarrow> fs \<Rightarrow> 'w \<Rightarrow> (string + 'g) \<times> 'w"
  lc_int :: "'g \<Rightarrow> string \<Rightarrow> c_int option"
  lc_string :: "'g \<Rightarrow> string \<Rightarrow> string option"
  lc_lookup :: "'g \<Rightarrow> string \<Rightarrow> 's option"
  lc_is_list :: "'s \<Rightarrow> bool"
  lc_elems :: "'s \<Rightarrow> 's list"
  lc_member_string :: "'s \<Rightarrow> string \<Rightarrow> string option"
  lc_member_int :: "'s \<Rightarrow> string \<Rightarrow> c_int option"

definition newline :: char where
  "newline = CHR 0x0A"

definition print_text :: "'w terminal \<Rightarrow> string \<Rightarrow> 'w env \<Rightarrow> 'w env" where
  "print_text T s e = e\<lparr>env_world := tty_out T s (env_world e)\<rparr>"

definition print_error :: "'w terminal \<Rightarrow> string \<Rightarrow> 'w env \<Rightarrow> 'w env" where
  \<comment> \<open>\<open>fprintf(stderr, ...)\<close>; every text of the shell ends its line\<close>
  "print_error T s e = e\<lparr>env_world := tty_err T (s @ [newline]) (env_world e)\<rparr>"

lemma print_text_sel [simp]:
  "env_err (print_text T s e) = env_err e" "env_errno (print_text T s e) = env_errno e"
  "env_fs (print_text T s e) = env_fs e" "env_curl_ready (print_text T s e) = env_curl_ready e"
  "env_world (print_text T s e) = tty_out T s (env_world e)"
  by (simp_all add: print_text_def)

definition int_digits :: "int \<Rightarrow> string" where
  \<comment> \<open>decimal output of \<open>%d\<close> and \<open>%zd\<close>\<close>
  "int_digits i = (if i < 0 then CHR ''-'' # nat_digits (nat (- i)) else nat_digits (nat i))"

definition strdup :: "('w, 'a) os_scheme \<Rightarrow> string \<Rightarrow> 'w env \<Rightarrow> string option \<times> 'w env" where
  \<comment> \<open>the callers keep a null result\<close>
  "strdup X s e = (let (ok, e) = alloc X (length s + 1) e in (if ok then Some s else None, e))"

subsection \<open>The command line\<close>

datatype cli_option = Cli_Value string | Cli_Debug | Cli_Other
  \<comment> \<open>what \<open>getopt_long\<close> returns in turn: the option with its argument, \<open>2\<close>, and \<open>h\<close>, \<open>?\<close> or the rest\<close>

fun read_options :: "cli_option list \<Rightarrow> string \<Rightarrow> bool \<Rightarrow> (string \<times> bool) option option" where
  \<comment> \<open>the loop of the two programs over their options, with \<open>strcpy\<close> into an array of 2048 bytes; the inner
     \<open>None\<close> is the exit after the usage text\<close>
  "read_options [] path wait = Some (Some (path, wait))"
| "read_options (Cli_Value optarg # opts) path wait = do { path \<leftarrow> sprintf_buf 2048 optarg; read_options opts path wait }"
| "read_options (Cli_Debug # opts) path wait = read_options opts path True"
| "read_options (Cli_Other # opts) path wait = Some None"

definition debugger_texts :: "'w terminal \<Rightarrow> 'w env \<Rightarrow> 'w env" where
  "debugger_texts T e =
     print_text T (''After debugger attached, press any key to continue......'' @ [newline])
       (print_text T (''Wait for debugger attaching, process id is: '' @ int_digits (tty_pid T) @ ''.'' @ [newline]) e)"

definition print_lines :: "'w terminal \<Rightarrow> string list \<Rightarrow> 'w env \<Rightarrow> 'w env" where
  "print_lines T = fold (\<lambda>line. print_text T (line @ [newline]))"

subsection \<open>Words\<close>

function words :: "string \<Rightarrow> string list" where
  \<comment> \<open>the words between white space, the reference for the readers of the two programs\<close>
  "words s =
     (let t = dropWhile is_space s in
      if t = [] then [] else takeWhile (\<lambda>c. \<not> is_space c) t # words (dropWhile (\<lambda>c. \<not> is_space c) t))"
  by pat_completeness auto
termination
proof (relation "measure length", goal_cases)
  case (2 s t)
  then have "\<not> is_space (hd t)" using hd_dropWhile by blast
  then have "length (dropWhile (\<lambda>c. \<not> is_space c) t) < length t"
    using 2(2) by (cases t) (simp_all add: length_dropWhile_le less_Suc_eq_le)
  moreover have "length t \<le> length s" using 2(1) length_dropWhile_le by blast
  ultimately show ?case by simp
qed simp

declare words.simps [simp del]

lemma words_Nil [simp]: "words [] = []"
  by (subst words.simps) simp

lemma words_space [simp]: "is_space c \<Longrightarrow> words (c # s) = words s"
  by (subst (1 2) words.simps) simp

lemma words_nonspace:
  "\<not> is_space c \<Longrightarrow>
     words (c # s) = (c # takeWhile (\<lambda>c. \<not> is_space c) s) # words (dropWhile (\<lambda>c. \<not> is_space c) s)"
  by (subst words.simps) simp

lemma words_dropWhile [simp]: "words (dropWhile is_space s) = words s"
  by (induction s) auto

lemma words_trailing: "list_all is_space t \<Longrightarrow> words (s @ t) = words s"
proof (induction s rule: words.induct)
  case (1 s)
  show ?case
  proof (cases "dropWhile is_space s = []")
    case True
    then have "list_all is_space (s @ t)" using 1(2) by (auto simp: list_all_iff dropWhile_eq_Nil_conv)
    then have "dropWhile is_space (s @ t) = []" by (simp add: list_all_iff dropWhile_eq_Nil_conv)
    with True show ?thesis by (subst (1 2) words.simps) simp
  next
    case False
    then obtain c u where cu: "dropWhile is_space s = c # u" by (cases "dropWhile is_space s") auto
    then have c: "\<not> is_space c" using hd_dropWhile [OF False] by simp
    have d: "dropWhile is_space (s @ t) = c # u @ t"
      using cu by (metis append_Cons append_Nil2 dropWhile_append dropWhile_eq_Nil_conv list.distinct(1))
    have tt: "takeWhile (\<lambda>c. \<not> is_space c) (u @ t) = takeWhile (\<lambda>c. \<not> is_space c) u"
      using 1(2) by (cases t) (auto simp: takeWhile_append takeWhile_tail intro: takeWhile_eq_all_conv [THEN iffD2, symmetric])
    have dt: "words (dropWhile (\<lambda>c. \<not> is_space c) (u @ t)) = words (dropWhile (\<lambda>c. \<not> is_space c) u)"
    proof (cases "dropWhile (\<lambda>c. \<not> is_space c) u = []")
      case True
      then have "dropWhile (\<lambda>c. \<not> is_space c) (u @ t) = t"
        using 1(2) by (cases t) (auto simp: dropWhile_append dropWhile_eq_Nil_conv)
      moreover have "words t = []" using 1(2) by (induction t) auto
      ultimately show ?thesis by (simp only: True words_Nil)
    next
      case False
      then have "dropWhile (\<lambda>c. \<not> is_space c) (u @ t) = dropWhile (\<lambda>c. \<not> is_space c) u @ t"
        by (auto simp: dropWhile_append dropWhile_eq_Nil_conv)
      with "1.IH" [OF refl _ 1(2)] cu c show ?thesis by simp
    qed
    have "words (s @ t) = words (dropWhile is_space (s @ t))" "words s = words (dropWhile is_space s)" by simp_all
    then show ?thesis using d cu c tt dt by (simp add: words_nonspace)
  qed
qed

subsection \<open>The configuration\<close>

record cmd_cfg =
  loglevel :: c_int
  logfile :: "string option"
  cfg_data_location :: "string option"
  ipfs_rpc_nodes :: "ipfs_node list"

definition directory_part :: "string \<Rightarrow> string" where
  \<comment> \<open>the \<open>p - ref\<close> characters before the last slash, none when there is no slash\<close>
  "directory_part ref = butlast (rev (dropWhile (\<lambda>c. c \<noteq> SLASH) (rev ref)))"

definition qualified_path :: "'w terminal \<Rightarrow> string \<Rightarrow> string option \<Rightarrow> string option" where
  \<comment> \<open>\<open>None\<close>: the text leaves the array of \<open>PATH_MAX\<close> bytes, or \<open>%s\<close> gets the null pointer of an unset \<open>HOME\<close>\<close>
  "qualified_path T path ref =
     (if take 1 path = ''/'' then sprintf_buf PATH_MAX path
      else if take 1 path = ''~'' then
        do { home \<leftarrow> tty_home T; sprintf_buf PATH_MAX (home @ drop 1 path) }
      else
        (let dir = (case ref of Some r \<Rightarrow> directory_part r | None \<Rightarrow> tty_cwd T);
             dir = (if dir \<noteq> [] then dir @ ''/'' else dir)
         in sprintf_buf PATH_MAX (dir @ path)))"

definition optional_text :: "('w, 'a) os_scheme \<Rightarrow> string option \<Rightarrow> 'w env \<Rightarrow> string option \<times> 'w env" where
  \<comment> \<open>\<open>rc && *stropt\<close>, then a copy of the text\<close>
  "optional_text X t e = (if is_str t then strdup X (the t) e else (None, e))"

fun load_nodes ::
    "('w, 'a) os_scheme \<Rightarrow> 'w terminal \<Rightarrow> ('g, 's, 'w) libconfig \<Rightarrow> 's list \<Rightarrow> 'w env \<Rightarrow> ipfs_node list option \<times> 'w env" where
  "load_nodes X T L [] e = (Some [], e)"
| "load_nodes X T L (nd # nds) e =
     (let (ok, e) = alloc X 24 e in
      if \<not> ok then (None, print_error T ''Out of memory.'' e)
      else
        (let (ipv4, e) = optional_text X (lc_member_string L nd ''ipv4'') e;
             (ipv6, e) = optional_text X (lc_member_string L nd ''ipv6'') e in
         if ipv4 = None \<and> ipv6 = None then (None, print_error T ''Missing IPFS RPC node ip address.'' e)
         else
           (let (port, e) =
                  (case lc_member_int L nd ''port'' of
                     None \<Rightarrow> (None, e)
                   | Some p \<Rightarrow> if p = 0 then (None, e) else strdup X (int_digits (sint p)) e);
                (nodes, e) = load_nodes X T L nds e
            in (map_option (\<lambda>ns. \<lparr>in_ipv4 = ipv4, in_ipv6 = ipv6, in_port = port\<rparr> # ns) nodes, e))))"

definition load_config ::
    "('w, 'a) os_scheme \<Rightarrow> 'w terminal \<Rightarrow> ('g, 's, 'w) libconfig \<Rightarrow> string \<Rightarrow> 'w env
      \<Rightarrow> (cmd_cfg option \<times> 'w env) option" where
  "load_config X T L config_file e =
     (let (r, w) = lc_read_file L config_file (env_fs e) (env_world e); e = e\<lparr>env_world := w\<rparr> in
      case r of
        Inl msg \<Rightarrow> Some (None, print_error T msg e)
      | Inr g \<Rightarrow>
          (let (ok, e) = alloc X 40 e in
           if \<not> ok then Some (None, print_error T ''Load configuration failed, out of memory.'' e)
           else
             (let level = (case lc_int L g ''loglevel'' of Some l \<Rightarrow> l | None \<Rightarrow> 3);
                  (log, e) = optional_text X (lc_string L g ''logfile'') e;
                  loc = lc_string L g ''data_location'' in
              if \<not> is_str loc then Some (None, print_error T ''Missing data_location option.'' e)
              else
                do {
                  path \<leftarrow> qualified_path T (the loc) (Some config_file);
                  let (data, e) = strdup X path e;
                  case lc_lookup L g ''ipfs_rpc_nodes'' of
                    None \<Rightarrow> Some (None, print_error T ''Missing ipfs_rpc_nodes section.'' e)
                  | Some s \<Rightarrow>
                      if \<not> lc_is_list L s then Some (None, print_error T ''Missing ipfs_rpc_nodes section.'' e)
                      else if lc_elems L s = [] then Some (None, print_error T ''Empty bootstraps option.'' e)
                      else
                        (let (ok, e) = alloc X (8 * length (lc_elems L s)) e in
                         if \<not> ok then Some (None, print_error T ''Out of memory.'' e)
                         else
                           (let (nodes, e) = load_nodes X T L (lc_elems L s) e in
                            Some (map_option (\<lambda>ns. \<lparr>loglevel = level, logfile = log, cfg_data_location = data,
                              ipfs_rpc_nodes = ns\<rparr>) nodes, e))) })))"

end
