(* ===== verification/Shell.thy ===== *)
theory Shell
  imports Shell_Config Hive_Key Hive_Backends
begin

text \<open>
  \<open>src/apps/cmd/cmd.c\<close>: the command shell over the interface. The state of the process is the record
  \<open>ctx\<close>, with the static buffer of error texts; standard input is the list of the characters up to its
  end. A handler gets the words of the command line and returns the state; \<open>None\<close> is undefined behaviour
  as in the library. What is printed goes through the terminal into the world.
\<close>

subsection \<open>Printing\<close>

definition console :: "'w terminal \<Rightarrow> string \<Rightarrow> 'w env \<Rightarrow> 'w env" where
  "console T s e = print_text T [newline] (print_text T s e)"

definition console_prompt :: "'w terminal \<Rightarrow> 'w env \<Rightarrow> 'w env" where
  "console_prompt T e = print_text T ''# '' e"

definition QUOTE :: char where
  "QUOTE = CHR 0x27"

definition open_url_command :: "string \<Rightarrow> string option" where
  \<comment> \<open>\<open>sprintf\<close> into the array of the size the code computes\<close>
  "open_url_command url = sprintf_buf (length ''xdg-open '' + length url + 3) (''xdg-open '' @ [QUOTE] @ url @ [QUOTE])"

definition open_url :: "'w terminal \<Rightarrow> string \<Rightarrow> 'w \<Rightarrow> 'w" where
  "open_url T url w = (case open_url_command url of Some cmd \<Rightarrow> tty_system T cmd w | None \<Rightarrow> w)"

subsection \<open>The tables of operations\<close>

type_synonym ('r, 'c, 'w) op_call =
  "('c, 'w) hive_connect option \<Rightarrow> 'w env \<Rightarrow> ('r \<times> ('c, 'w) hive_connect option \<times> 'w env) option"

record ('c, 'w) ops =
  op_put_file :: "(string option \<Rightarrow> bool \<Rightarrow> string option \<Rightarrow> (c_int, 'c, 'w) op_call) option"
  op_put_file_from_buffer :: "(bytes option \<Rightarrow> size_t \<Rightarrow> bool \<Rightarrow> string option \<Rightarrow> (c_int, 'c, 'w) op_call) option"
  op_get_file_length :: "(string option \<Rightarrow> (ssize_t, 'c, 'w) op_call) option"
  op_get_file :: "(string option \<Rightarrow> bool \<Rightarrow> string option \<Rightarrow> (ssize_t, 'c, 'w) op_call) option"
  op_get_file_to_buffer ::
    "(string option \<Rightarrow> bool \<Rightarrow> bytes option \<Rightarrow> size_t \<Rightarrow> (ssize_t \<times> bytes option, 'c, 'w) op_call) option"
  op_list_files :: "('w files_cb option \<Rightarrow> (c_int, 'c, 'w) op_call) option"
  op_delete_file :: "(string option \<Rightarrow> (c_int, 'c, 'w) op_call) option"
  op_put_value :: "(string option \<Rightarrow> bytes option \<Rightarrow> size_t \<Rightarrow> bool \<Rightarrow> (c_int, 'c, 'w) op_call) option"
  op_set_value :: "(string option \<Rightarrow> bytes option \<Rightarrow> size_t \<Rightarrow> bool \<Rightarrow> (c_int, 'c, 'w) op_call) option"
  op_get_values :: "(string option \<Rightarrow> bool \<Rightarrow> 'w values_cb option \<Rightarrow> (c_int, 'c, 'w) op_call) option"
  op_delete_key :: "(string option \<Rightarrow> (c_int, 'c, 'w) op_call) option"

definition general_ops :: "('w, 'a) os_scheme \<Rightarrow> ('c, 'w) ops" where
  "general_ops X =
     \<lparr>op_put_file = Some (\<lambda>from enc name c. hive_put_file X c from enc name),
      op_put_file_from_buffer = Some (\<lambda>from n enc name c. hive_put_file_from_buffer c from n enc name),
      op_get_file_length = Some (\<lambda>name c. hive_get_file_length c name),
      op_get_file = Some (\<lambda>name dec to c. hive_get_file X c name dec to),
      op_get_file_to_buffer = Some (\<lambda>name dec to n c. hive_get_file_to_buffer c name dec to n),
      op_list_files = Some (\<lambda>cb c. hive_list_files c cb),
      op_delete_file = Some (\<lambda>name c. hive_delete_file c name),
      op_put_value = Some (\<lambda>key v n enc c. hive_put_value c key v n enc),
      op_set_value = Some (\<lambda>key v n enc c. hive_set_value c key v n enc),
      op_get_values = Some (\<lambda>key dec cb c. hive_get_values c key dec cb),
      op_delete_key = Some (\<lambda>key c. hive_delete_key c key)\<rparr>"

definition local_cid :: "('w, 'a) os_scheme \<Rightarrow> 'w env \<Rightarrow> bytes" where
  \<comment> \<open>\<open>IPFSCid cid;\<close> on the stack, not initialised\<close>
  "local_cid X e = realloc_bytes X [] (HIVE_MAX_IPFS_CID_LEN + 1) (env_world e)"

definition shell_ipfs_put_file ::
    "('w, 'a) os_scheme \<Rightarrow> 'w terminal \<Rightarrow> string option \<Rightarrow> bool \<Rightarrow> string option \<Rightarrow> (c_int, 'c, 'w) op_call" where
  "shell_ipfs_put_file X T from encrypt filename connect e =
     do {
       ((rc, cid), connect, e) \<leftarrow> hive_ipfs_put_file X connect from encrypt (Some (local_cid X e)) e;
       if neg rc then Some (rc, connect, console T ''Error: failed to put file.'' e)
       else Some (0, connect, console T (''CID: '' @ cstr (the cid) @ ''.'') e) }"

definition shell_ipfs_put_file_from_buffer ::
    "('w, 'a) os_scheme \<Rightarrow> 'w terminal \<Rightarrow> bytes option \<Rightarrow> size_t \<Rightarrow> bool \<Rightarrow> string option \<Rightarrow> (c_int, 'c, 'w) op_call" where
  "shell_ipfs_put_file_from_buffer X T from len encrypt filename connect e =
     do {
       ((rc, cid), connect, e) \<leftarrow> hive_ipfs_put_file_from_buffer connect from len encrypt (Some (local_cid X e)) e;
       if neg rc then Some (rc, connect, console T ''Error: failed to put file from buffer.'' e)
       else Some (0, connect, console T (''CID: '' @ cstr (the cid) @ ''.'') e) }"

definition ipfs_ops :: "('w, 'a) os_scheme \<Rightarrow> 'w terminal \<Rightarrow> ('c, 'w) ops" where
  \<comment> \<open>the casts of the file name to \<open>IPFSCid *\<close> leave the text as it is\<close>
  "ipfs_ops X T =
     \<lparr>op_put_file = Some (shell_ipfs_put_file X T),
      op_put_file_from_buffer = Some (shell_ipfs_put_file_from_buffer X T),
      op_get_file_length = Some (\<lambda>name c. hive_ipfs_get_file_length c name),
      op_get_file = Some (\<lambda>name dec to c. hive_ipfs_get_file X c name dec to),
      op_get_file_to_buffer = Some (\<lambda>name dec to n c. hive_ipfs_get_file_to_buffer c name dec to n),
      op_list_files = None, op_delete_file = None, op_put_value = None, op_set_value = None,
      op_get_values = None, op_delete_key = None\<rparr>"

subsection \<open>The state\<close>

record ('j, 'w) ctx =
  ctx_cfg :: "cmd_cfg option"
  ctx_client :: "hive_client option"
  ctx_connect :: "(('j, 'w) backend, 'w) hive_connect option"
  ctx_ops :: "(('j, 'w) backend, 'w) ops option"
  ctx_stop :: bool
  errbuf :: bytes

definition cmd_ctx :: "('j, 'w) ctx" where
  \<comment> \<open>the static variables at the start\<close>
  "cmd_ctx = \<lparr>ctx_cfg = None, ctx_client = None, ctx_connect = None, ctx_ops = None, ctx_stop = False,
     errbuf = replicate 1024 NUL\<rparr>"

type_synonym ('j, 'w) handler = "('j, 'w) ctx \<Rightarrow> string list \<Rightarrow> 'w env \<Rightarrow> (('j, 'w) ctx \<times> 'w env) option"

definition complain :: "'w terminal \<Rightarrow> string \<Rightarrow> ('j, 'w) ctx \<Rightarrow> 'w env \<Rightarrow> (('j, 'w) ctx \<times> 'w env) option" where
  \<comment> \<open>\<open>console(...); return;\<close>\<close>
  "complain T s ctx e = Some (ctx, console T s e)"

definition report ::
    "('w, 'a) curl_os_scheme \<Rightarrow> 'w terminal \<Rightarrow> string \<Rightarrow> ('j, 'w) ctx \<Rightarrow> 'w env \<Rightarrow> (('j, 'w) ctx \<times> 'w env) option" where
  \<comment> \<open>\<open>console("... Reason: %s.", hive_get_strerror(hive_get_error(), errbuf, sizeof(errbuf)))\<close>: a null
     pointer or a text without its end under \<open>%s\<close> is undefined\<close>
  "report X T what ctx e =
     do {
       (ok, buf, e) \<leftarrow> hive_get_strerror (facility_codes X) (hive_get_error e) (Some (errbuf ctx)) e;
       if ok \<and> NUL \<in> set buf
       then Some (ctx\<lparr>errbuf := buf\<rparr>, console T (what @ '' Reason: '' @ cstr buf @ ''.'') e)
       else None }"

definition SYNTAX_TEXT :: string where
  "SYNTAX_TEXT = ''Error: invalid command syntax.''"

definition NO_CONNECT_TEXT :: string where
  "NO_CONNECT_TEXT = ''Error: No HiveConnect instance created.''"

definition NOT_SUPPORTED_TEXT :: string where
  "NOT_SUPPORTED_TEXT = ''Error: HiveConnect instance does not support this operation.''"

definition CONNECT_TEXT :: string where
  "CONNECT_TEXT = ''create HiveConnect instance failure.'' @ [newline]"

subsection \<open>Connecting\<close>

definition HIVETEST_REDIRECT_URL :: string where
  "HIVETEST_REDIRECT_URL = ''http://localhost:12345''"

definition HIVETEST_SCOPE :: string where
  "HIVETEST_SCOPE = ''Files.ReadWrite.AppFolder offline_access''"

definition HIVETEST_ONEDRIVE_CLIENT_ID :: string where
  "HIVETEST_ONEDRIVE_CLIENT_ID = ''afd3d647-a8b7-4723-bf9d-1b832f43b881''"

definition shell_onedrive_options :: "'w terminal \<Rightarrow> 'w onedrive_options" where
  "shell_onedrive_options T = \<lparr>backendType = HiveBackendType_OneDrive, ood_client_id = Some HIVETEST_ONEDRIVE_CLIENT_ID,
     ood_scope = Some HIVETEST_SCOPE, ood_redirect_url = Some HIVETEST_REDIRECT_URL, ood_callback = Some (open_url T)\<rparr>"

definition shell_ipfs_options :: "cmd_cfg \<Rightarrow> ipfs_options" where
  "shell_ipfs_options cfg = \<lparr>backendType = HiveBackendType_IPFS, rpc_node_list = ipfs_rpc_nodes cfg\<rparr>"

definition client_connect :: "('j, 'w) ext \<Rightarrow> 'w terminal \<Rightarrow> ('j, 'w) handler" where
  "client_connect X T ctx argv e =
     (if length argv \<noteq> 2 then complain T SYNTAX_TEXT ctx e
      else if ctx_connect ctx \<noteq> None then complain T ''Error: a HiveConnect instance already exists.'' ctx e
      else if argv ! 1 = ''onedrive'' then
        (let opts = shell_onedrive_options T in
         do {
           (c, e) \<leftarrow> hive_client_connect (factory_methods X) (ctx_client ctx)
             (Some \<lparr>backendType = HiveBackendType_OneDrive, \<dots> = Onedrive_Options (hive_connect_options.more opts)\<rparr>) e;
           let ctx = ctx\<lparr>ctx_connect := c\<rparr>;
           if c = None then complain T CONNECT_TEXT ctx e
           else Some (ctx\<lparr>ctx_ops := Some (general_ops X)\<rparr>, e) })
      else if argv ! 1 = ''ipfs'' then
        do {
          cfg \<leftarrow> ctx_cfg ctx;
          let (ok, e) = alloc X (24 * length (ipfs_rpc_nodes cfg)) e;
          if \<not> ok then complain T CONNECT_TEXT ctx e
          else
            do {
              (c, e) \<leftarrow> hive_client_connect (factory_methods X) (ctx_client ctx)
                (Some \<lparr>backendType = HiveBackendType_IPFS,
                   \<dots> = Ipfs_Options (hive_connect_options.more (shell_ipfs_options cfg))\<rparr>) e;
              let ctx = ctx\<lparr>ctx_connect := c\<rparr>;
              if c = None then complain T CONNECT_TEXT ctx e
              else Some (ctx\<lparr>ctx_ops := Some (ipfs_ops X T)\<rparr>, e) } }
      else complain T ''Error: unsupported backend type.'' ctx e)"

definition disconnect :: "'w terminal \<Rightarrow> ('j, 'w) handler" where
  "disconnect T ctx argv e =
     (if length argv \<noteq> 1 then complain T SYNTAX_TEXT ctx e
      else if ctx_connect ctx \<noteq> None then
        do { (rc, e) \<leftarrow> hive_client_disconnect (ctx_connect ctx) e; Some (ctx\<lparr>ctx_connect := None\<rparr>, e) }
      else Some (ctx, e))"

subsection \<open>Files\<close>

definition put_source :: "string list \<Rightarrow> bool \<times> string \<times> string option" where
  \<comment> \<open>the switch over \<open>argc\<close>: from a file or not, the source and the name\<close>
  "put_source argv =
     (if length argv = 2 then (False, argv ! 1, None)
      else if length argv = 3 then
        (if argv ! 1 = ''<'' then (True, argv ! 2, None) else (False, argv ! 1, Some (argv ! 2)))
      else (True, argv ! 2, Some (argv ! 3)))"

definition shell_put_file :: "('w, 'a) curl_os_scheme \<Rightarrow> 'w terminal \<Rightarrow> ('j, 'w) handler" where
  "shell_put_file X T ctx argv e =
     (if length argv < 2 \<or> length argv > 4 then complain T SYNTAX_TEXT ctx e
      else if ctx_connect ctx = None then complain T NO_CONNECT_TEXT ctx e
      else
        (let (from_file, from, to) = put_source argv in
         do {
           ops \<leftarrow> ctx_ops ctx;
           (rc, c, e) \<leftarrow>
             (if from_file then do { f \<leftarrow> op_put_file ops; f (Some from) True to (ctx_connect ctx) e }
              else do { f \<leftarrow> op_put_file_from_buffer ops;
                        f (Some from) (word_of_nat (length from)) True to (ctx_connect ctx) e });
           let ctx = ctx\<lparr>ctx_connect := c\<rparr>;
           if neg rc then report X T ''Error: put file failed.'' ctx e else Some (ctx, e) }))"

definition get_length :: "('w, 'a) curl_os_scheme \<Rightarrow> 'w terminal \<Rightarrow> ('j, 'w) handler" where
  "get_length X T ctx argv e =
     (if length argv \<noteq> 2 then complain T SYNTAX_TEXT ctx e
      else if ctx_connect ctx = None then complain T NO_CONNECT_TEXT ctx e
      else
        do {
          ops \<leftarrow> ctx_ops ctx;
          f \<leftarrow> op_get_file_length ops;
          (len, c, e) \<leftarrow> f (Some (argv ! 1)) (ctx_connect ctx) e;
          let ctx = ctx\<lparr>ctx_connect := c\<rparr>;
          if neg len then report X T ''Error: get length failed.'' ctx e
          else complain T (''file '' @ argv ! 1 @ '' length is '' @ int_digits (sint len) @ '' bytes.'') ctx e })"

definition print_file :: "('w, 'a) curl_os_scheme \<Rightarrow> 'w terminal \<Rightarrow> ('j, 'w) handler" where
  \<comment> \<open>the case of two words of \<open>get_file\<close>: \<open>buf[len] = 0\<close> outside the block is undefined\<close>
  "print_file X T ctx argv e =
     do {
       ops \<leftarrow> ctx_ops ctx;
       f \<leftarrow> op_get_file_length ops;
       (len, c, e) \<leftarrow> f (Some (argv ! 1)) (ctx_connect ctx) e;
       let ctx = ctx\<lparr>ctx_connect := c\<rparr>;
       if neg len then report X T ''Error: get length failed.'' ctx e
       else if len = 0 then complain T (''file '' @ argv ! 1 @ '' length is 0 bytes.'') ctx e
       else
         (let (ok, e) = alloc X (unat (len + 1)) e in
          if \<not> ok then complain T ''Error: OOM.'' ctx e
          else
            do {
              g \<leftarrow> op_get_file_to_buffer ops;
              ((got, buf), c, e) \<leftarrow> g (Some (argv ! 1)) True
                 (Some (realloc_bytes X [] (unat (len + 1)) (env_world e))) len (ctx_connect ctx) e;
              let ctx = ctx\<lparr>ctx_connect := c\<rparr>;
              if neg got then report X T ''Error: get file to buffer failed.'' ctx e
              else
                do { b \<leftarrow> mem_store (the buf) (unat got) [NUL]; complain T (cstr b) ctx e } }) }"

definition shell_get_file :: "('w, 'a) curl_os_scheme \<Rightarrow> 'w terminal \<Rightarrow> ('j, 'w) handler" where
  "shell_get_file X T ctx argv e =
     (if length argv \<noteq> 2 \<and> length argv \<noteq> 3 then complain T SYNTAX_TEXT ctx e
      else if ctx_connect ctx = None then complain T NO_CONNECT_TEXT ctx e
      else if length argv = 2 then print_file X T ctx argv e
      else
        do {
          ops \<leftarrow> ctx_ops ctx;
          f \<leftarrow> op_get_file ops;
          (len, c, e) \<leftarrow> f (Some (argv ! 1)) True (Some (argv ! 2)) (ctx_connect ctx) e;
          let ctx = ctx\<lparr>ctx_connect := c\<rparr>;
          if neg len then report X T ''Error: get file failed.'' ctx e else Some (ctx, e) })"

definition shell_delete_file :: "('w, 'a) curl_os_scheme \<Rightarrow> 'w terminal \<Rightarrow> ('j, 'w) handler" where
  "shell_delete_file X T ctx argv e =
     (if length argv \<noteq> 2 then complain T SYNTAX_TEXT ctx e
      else if ctx_connect ctx = None then complain T NO_CONNECT_TEXT ctx e
      else
        do {
          ops \<leftarrow> ctx_ops ctx;
          case op_delete_file ops of
            None \<Rightarrow> complain T NOT_SUPPORTED_TEXT ctx e
          | Some f \<Rightarrow>
              do {
                (rc, c, e) \<leftarrow> f (Some (argv ! 1)) (ctx_connect ctx) e;
                let ctx = ctx\<lparr>ctx_connect := c\<rparr>;
                if neg rc then report X T ''Error: delete file failed.'' ctx e else Some (ctx, e) } })"

definition list_files_cb :: "'w terminal \<Rightarrow> 'w files_cb" where
  "list_files_cb T filename e = (True, case filename of Some name \<Rightarrow> console T name e | None \<Rightarrow> e)"

definition shell_list_files :: "('w, 'a) curl_os_scheme \<Rightarrow> 'w terminal \<Rightarrow> ('j, 'w) handler" where
  "shell_list_files X T ctx argv e =
     (if length argv \<noteq> 1 then complain T SYNTAX_TEXT ctx e
      else if ctx_connect ctx = None then complain T NO_CONNECT_TEXT ctx e
      else
        do {
          ops \<leftarrow> ctx_ops ctx;
          case op_list_files ops of
            None \<Rightarrow> complain T NOT_SUPPORTED_TEXT ctx e
          | Some f \<Rightarrow>
              do {
                (rc, c, e) \<leftarrow> f (Some (list_files_cb T)) (ctx_connect ctx) e;
                let ctx = ctx\<lparr>ctx_connect := c\<rparr>;
                if neg rc then report X T ''Error: list files failed.'' ctx e else Some (ctx, e) } })"

subsection \<open>Values\<close>

definition shell_put_value :: "('w, 'a) curl_os_scheme \<Rightarrow> 'w terminal \<Rightarrow> ('j, 'w) handler" where
  \<comment> \<open>the value is sent with its terminator\<close>
  "shell_put_value X T ctx argv e =
     (if length argv \<noteq> 3 then complain T SYNTAX_TEXT ctx e
      else if ctx_connect ctx = None then complain T NO_CONNECT_TEXT ctx e
      else
        do {
          ops \<leftarrow> ctx_ops ctx;
          case op_put_value ops of
            None \<Rightarrow> complain T NOT_SUPPORTED_TEXT ctx e
          | Some f \<Rightarrow>
              do {
                (rc, c, e) \<leftarrow> f (Some (argv ! 1)) (Some (argv ! 2 @ [NUL])) (word_of_nat (length (argv ! 2) + 1))
                   True (ctx_connect ctx) e;
                let ctx = ctx\<lparr>ctx_connect := c\<rparr>;
                if neg rc then report X T ''Error: put value failed.'' ctx e else Some (ctx, e) } })"

definition shell_set_value :: "('w, 'a) curl_os_scheme \<Rightarrow> 'w terminal \<Rightarrow> ('j, 'w) handler" where
  "shell_set_value X T ctx argv e =
     (if length argv \<noteq> 3 then complain T SYNTAX_TEXT ctx e
      else if ctx_connect ctx = None then complain T NO_CONNECT_TEXT ctx e
      else
        do {
          ops \<leftarrow> ctx_ops ctx;
          case op_set_value ops of
            None \<Rightarrow> complain T NOT_SUPPORTED_TEXT ctx e
          | Some f \<Rightarrow>
              do {
                (rc, c, e) \<leftarrow> f (Some (argv ! 1)) (Some (argv ! 2 @ [NUL])) (word_of_nat (length (argv ! 2) + 1))
                   True (ctx_connect ctx) e;
                let ctx = ctx\<lparr>ctx_connect := c\<rparr>;
                if neg rc then report X T ''Error: set value failed.'' ctx e else Some (ctx, e) } })"

definition get_values_cb :: "'w terminal \<Rightarrow> 'w values_cb" where
  \<comment> \<open>a value without a terminator is followed by the length of the next record, whose first byte is null; only
     behind the last value of the block, when another program stored it so, does \<open>%s\<close> read on, and the model stops there\<close>
  "get_values_cb T key val n e = (True, console T (cstr val) e)"

definition shell_get_values :: "('w, 'a) curl_os_scheme \<Rightarrow> 'w terminal \<Rightarrow> ('j, 'w) handler" where
  "shell_get_values X T ctx argv e =
     (if length argv \<noteq> 2 then complain T SYNTAX_TEXT ctx e
      else if ctx_connect ctx = None then complain T NO_CONNECT_TEXT ctx e
      else
        do {
          ops \<leftarrow> ctx_ops ctx;
          case op_get_values ops of
            None \<Rightarrow> complain T NOT_SUPPORTED_TEXT ctx e
          | Some f \<Rightarrow>
              do {
                (rc, c, e) \<leftarrow> f (Some (argv ! 1)) True (Some (get_values_cb T)) (ctx_connect ctx) e;
                let ctx = ctx\<lparr>ctx_connect := c\<rparr>;
                if neg rc then report X T ''Error: get values failed.'' ctx e else Some (ctx, e) } })"

definition shell_delete_key :: "('w, 'a) curl_os_scheme \<Rightarrow> 'w terminal \<Rightarrow> ('j, 'w) handler" where
  "shell_delete_key X T ctx argv e =
     (if length argv \<noteq> 2 then complain T SYNTAX_TEXT ctx e
      else if ctx_connect ctx = None then complain T NO_CONNECT_TEXT ctx e
      else
        do {
          ops \<leftarrow> ctx_ops ctx;
          case op_delete_key ops of
            None \<Rightarrow> complain T NOT_SUPPORTED_TEXT ctx e
          | Some f \<Rightarrow>
              do {
                (rc, c, e) \<leftarrow> f (Some (argv ! 1)) (ctx_connect ctx) e;
                let ctx = ctx\<lparr>ctx_connect := c\<rparr>;
                if neg rc then report X T ''Error: delete key failed.'' ctx e else Some (ctx, e) } })"

subsection \<open>The commands\<close>

definition exit_app :: "('j, 'w) handler" where
  "exit_app ctx argv e = Some (ctx\<lparr>ctx_stop := True\<rparr>, e)"

definition command_help :: "(string \<times> string) list" where
  \<comment> \<open>names and help texts of the table \<open>commands\<close>\<close>
  "command_help =
     [(''help'', ''help [cmd]''), (''connect'', ''connect type''), (''disconnect'', ''disconnect''),
      (''put_file'', ''put_file {string | < file} [to]''), (''get_len'', ''get_len file''),
      (''get_file'', ''get_file {file | cid} [to]''), (''del_file'', ''del_file file''), (''ls'', ''ls''),
      (''put_val'', ''put_val key value''), (''set_val'', ''set_val key value''), (''get_val'', ''get_val key''),
      (''del_key'', ''del_key key''), (''exit'', ''exit'')]"

definition help_line :: "(string \<times> string) list \<Rightarrow> string option" where
  \<comment> \<open>the \<open>strcat\<close> calls into \<open>line[256]\<close>\<close>
  "help_line table = sprintf_buf 256 (concat (map (\<lambda>(name, text). name @ '' '') table))"

definition shell_help :: "'w terminal \<Rightarrow> ('j, 'w) handler" where
  "shell_help T ctx argv e =
     (if length argv = 1 then
        (let e = console T ''available commands list:'' e in
         do { line \<leftarrow> help_line command_help; complain T (''  '' @ line) ctx e })
      else
        (case map_of command_help (argv ! 1) of
           Some text \<Rightarrow> complain T (''usage: '' @ text) ctx e
         | None \<Rightarrow> complain T (''unknown command: '' @ argv ! 1 @ [newline]) ctx e))"

definition commands :: "('j, 'w) ext \<Rightarrow> 'w terminal \<Rightarrow> (string \<times> ('j, 'w) handler) list" where
  "commands X T =
     zip (map fst command_help)
      [shell_help T, client_connect X T, disconnect T, shell_put_file X T, get_length X T, shell_get_file X T,
       shell_delete_file X T, shell_list_files X T, shell_put_value X T, shell_set_value X T,
       shell_get_values X T, shell_delete_key X T, exit_app]"

subsection \<open>Reading and running a line\<close>

definition is_print :: "char \<Rightarrow> bool" where
  "is_print c \<longleftrightarrow> 32 \<le> ccode c \<and> ccode c \<le> 126"

definition trim_line :: "string \<Rightarrow> string" where
  \<comment> \<open>the first loop stops at the first character of the line, the second skips spaces at its start\<close>
  "trim_line line =
     dropWhile is_space (case line of [] \<Rightarrow> [] | c # cs \<Rightarrow> c # rev (dropWhile is_space (rev cs)))"

fun read_cmd :: "'w terminal \<Rightarrow> string \<Rightarrow> string \<Rightarrow> 'w env \<Rightarrow> (string option \<times> string \<times> 'w env) option" where
  \<comment> \<open>\<open>line\<close> is \<open>cmd_line[0 .. cmd_len)\<close> of the 1024 bytes; the result is the command and the rest of the
     input\<close>
  "read_cmd T line [] e = Some (None, [], e)"
| "read_cmd T line (ch # inp) e =
     (if ch = NUL then Some (None, inp, e)
      else if is_print ch then (if length line < 1024 then read_cmd T (line @ [ch]) inp e else None)
      else if ccode ch = 10 \<or> ccode ch = 13 then
        (if length line < 1024 then
           (if trim_line line \<noteq> [] then Some (Some (trim_line line), inp, e)
            else read_cmd T [] inp (console_prompt T e))
         else None)
      else read_cmd T line inp e)"

fun split_args :: "string \<Rightarrow> bool \<Rightarrow> string list \<Rightarrow> string list option" where
  \<comment> \<open>\<open>word\<close> tells whether the last of \<open>args\<close> is still growing; a 65th pointer leaves \<open>args[64]\<close>\<close>
  "split_args [] word args = Some args"
| "split_args (c # cs) word args =
     (if is_space c then split_args cs False args
      else if \<not> word then (if length args < 64 then split_args cs True (args @ [[c]]) else None)
      else split_args cs True (butlast args @ [last args @ [c]]))"

definition do_cmd :: "('j, 'w) ext \<Rightarrow> 'w terminal \<Rightarrow> string \<Rightarrow> ('j, 'w) ctx \<Rightarrow> 'w env \<Rightarrow> (('j, 'w) ctx \<times> 'w env) option" where
  "do_cmd X T line ctx e =
     do {
       args \<leftarrow> split_args line False [];
       if args = [] then Some (ctx, e)
       else
         (case map_of (commands X T) (hd args) of
            Some handler \<Rightarrow> handler ctx args e
          | None \<Rightarrow> complain T (''unknown command: '' @ hd args) ctx e) }"

lemma read_cmd_shorter: "read_cmd T line inp e = Some (Some l, rest, e') \<Longrightarrow> length rest < length inp"
  by (induction T line inp e rule: read_cmd.induct) (fastforce split: if_splits)+

function shell_loop ::
    "('j, 'w) ext \<Rightarrow> 'w terminal \<Rightarrow> string \<Rightarrow> ('j, 'w) ctx \<Rightarrow> 'w env \<Rightarrow> (string \<times> ('j, 'w) ctx \<times> 'w env) option" where
  "shell_loop X T inp ctx e =
     (case read_cmd T [] inp e of
        None \<Rightarrow> None
      | Some (None, rest, e) \<Rightarrow> Some (rest, ctx, e)
      | Some (Some line, rest, e) \<Rightarrow>
          (case do_cmd X T line ctx e of
             None \<Rightarrow> None
           | Some (ctx, e) \<Rightarrow>
               if ctx_stop ctx then Some (rest, ctx, e) else shell_loop X T rest ctx (console_prompt T e)))"
  by pat_completeness auto
termination
  by (relation "measure (\<lambda>(X, T, inp, ctx, e). length inp)") (auto dest: read_cmd_shorter)

declare shell_loop.simps [simp del]

subsection \<open>The process\<close>

definition deinit :: "('j, 'w) ctx \<Rightarrow> 'w env \<Rightarrow> 'w env option" where
  "deinit ctx e =
     do { (rc, e) \<leftarrow> hive_client_disconnect (ctx_connect ctx) e;
          let rc = hive_client_close (ctx_client ctx); Some e }"

definition shell_usage :: "string list" where
  "shell_usage =
     [''hivecmd, a CLI application to demonstrate use of hive apis.'', ''Usage: hivecmd [OPTION]...'', [],
      ''First run options:'', ''  -c, --config=CONFIG_FILE      Set config file path.'', [],
      ''Debugging options:'', ''      --debug                   Wait for debugger attach after start.'', []]"

definition config_path :: "'w terminal \<Rightarrow> string \<Rightarrow> string \<Rightarrow> string option" where
  \<comment> \<open>without the option \<open>-c\<close> the resolved name of the program\<close>
  "config_path T arg0 path =
     (if path \<noteq> [] then Some path else sprintf_buf 2048 (tty_realpath T arg0 @ ''.conf''))"

definition shell_main ::
    "('j, 'w) ext \<Rightarrow> 'w terminal \<Rightarrow> ('g, 's, 'w) libconfig \<Rightarrow> string \<Rightarrow> cli_option list \<Rightarrow> string \<Rightarrow> 'w env
      \<Rightarrow> (c_int \<times> 'w env) option" where
  "shell_main X T L arg0 opts inp e =
     do {
       parsed \<leftarrow> read_options opts [] False;
       case parsed of
         None \<Rightarrow> Some (- 1, print_lines T shell_usage e)
       | Some (path, wait) \<Rightarrow>
           do {
             let (inp, e) = (if wait then (drop 1 inp, debugger_texts T e) else (inp, e));
             path \<leftarrow> config_path T arg0 path;
             let (st, e) = sys_stat X path e;
             if st = None then Some (- 1, print_error T (''config file ('' @ path @ '') not exist.'') e)
             else
               do {
                 (cfg, e) \<leftarrow> load_config X T L path e;
                 case cfg of
                   None \<Rightarrow> Some (- 1, print_error T ''loading configure failed !'' e)
                 | Some cfg \<Rightarrow>
                     do {
                       let ctx = cmd_ctx\<lparr>ctx_cfg := Some cfg\<rparr>;
                       loc \<leftarrow> cfg_data_location cfg;
                       let (ok, e) = sys_mkdir X loc e;
                       if \<not> ok \<and> env_errno e \<noteq> EEXIST
                       then Some (- 1, print_error T (''failed to create directory '' @ loc) e)
                       else
                         (let (client, e) = hive_client_new X (Some (Some loc)) e in
                          if client = None then Some (- 1, print_error T ''failed to create HiveClient instance'' e)
                          else
                            do {
                              (rest, ctx, e) \<leftarrow> shell_loop X T inp (ctx\<lparr>ctx_client := client\<rparr>) (console_prompt T e);
                              e \<leftarrow> deinit ctx e;
                              Some (0, e) }) } } } }"

end
