(* ===== verification/Shell_Lines.thy ===== *)
theory Shell_Lines
  imports Shell
begin

text \<open>
  The command line of the shell: reading a line, trimming it and splitting it into words against the
  reference \<open>words\<close>, and the bounds of the two arrays on the way.
\<close>

subsection \<open>Splitting\<close>

lemma split_args_both:
  "(length args \<le> 64 \<longrightarrow>
      split_args s False args = (if length args + length (words s) \<le> 64 then Some (args @ words s) else None)) \<and>
   (length args < 64 \<longrightarrow>
      split_args s True (args @ [w]) =
        (let rest = words (dropWhile (\<lambda>c. \<not> is_space c) s) in
         if length args + 1 + length rest \<le> 64
         then Some (args @ [w @ takeWhile (\<lambda>c. \<not> is_space c) s] @ rest) else None))"
proof (induction s arbitrary: args w)
  case (Cons c s)
  show ?case
  proof (cases "is_space c")
    case True
    with Cons.IH [of args] Cons.IH [of "args @ [w]"] show ?thesis by simp
  next
    case False
    with Cons.IH [of args "[c]"] Cons.IH [of args "w @ [c]"] show ?thesis
      by (auto simp: words_nonspace Let_def butlast_append)
  qed
qed simp

lemma split_args_words: "split_args s False [] = (if length (words s) \<le> 64 then Some (words s) else None)"
  using split_args_both [of "[]" s undefined] by simp

lemma words_eq_Nil: "words s = [] \<longleftrightarrow> dropWhile is_space s = []"
  by (subst words.simps) (simp add: Let_def)

lemma words_trim [simp]: "words (trim_line line) = words line"
proof (cases line)
  case (Cons c cs)
  have "cs = rev (dropWhile is_space (rev cs)) @ rev (takeWhile is_space (rev cs))"
    by (metis rev_append rev_rev_ident takeWhile_dropWhile_id)
  then have "words (c # cs) = words ((c # rev (dropWhile is_space (rev cs))) @ rev (takeWhile is_space (rev cs)))"
    by simp
  also have "\<dots> = words (c # rev (dropWhile is_space (rev cs)))"
    by (rule words_trailing) (auto simp: list_all_iff dest: set_takeWhileD)
  finally show ?thesis using Cons by (simp add: trim_line_def)
qed (simp add: trim_line_def)

lemma trim_line_empty: "trim_line line = [] \<longleftrightarrow> words line = []"
proof -
  have "dropWhile is_space (trim_line line) = trim_line line" by (simp add: trim_line_def)
  with words_eq_Nil [of "trim_line line"] show ?thesis by simp
qed

subsection \<open>Reading\<close>

lemma is_print_not_NUL [simp]: "is_print c \<Longrightarrow> c \<noteq> NUL"
  by (auto simp: is_print_def NUL_def ccode_def)

lemma read_printable:
  "list_all is_print s \<Longrightarrow> length l \<le> 1024 \<Longrightarrow>
     read_cmd T l (s @ inp) e = (if length l + length s \<le> 1024 then read_cmd T (l @ s) inp e else None)"
  by (induction s arbitrary: l) auto

definition line_end :: "char \<Rightarrow> bool" where
  "line_end c \<longleftrightarrow> ccode c = 10 \<or> ccode c = 13"

lemma line_endD: "line_end c \<Longrightarrow> c \<noteq> NUL \<and> \<not> is_print c \<and> (ccode c = 10 \<or> ccode c = 13)"
  by (auto simp: line_end_def is_print_def NUL_def ccode_def)

lemma line_end_newline [simp]: "line_end newline"
  by (simp add: line_end_def newline_def ccode_def)

lemma read_line:
  assumes "list_all is_print line" "line_end nl"
  shows "read_cmd T [] (line @ nl # rest) e =
    (if length line \<ge> 1024 then None
     else if words line = [] then read_cmd T [] rest (console_prompt T e)
     else Some (Some (trim_line line), rest, e))"
  using read_printable [OF assms(1), of "[]" T "nl # rest" e] line_endD [OF assms(2)]
  by (simp add: trim_line_empty)

definition run_words :: "('j, 'w) ext \<Rightarrow> 'w terminal \<Rightarrow> string list \<Rightarrow> ('j, 'w) handler option" where
  \<comment> \<open>the handler the first word names\<close>
  "run_words X T ws = (if ws = [] then None else map_of (commands X T) (hd ws))"

lemma do_cmd_words:
  "words line \<noteq> [] \<Longrightarrow> do_cmd X T (trim_line line) ctx e =
     (if length (words line) > 64 then None
      else
        (case run_words X T (words line) of
           Some handler \<Rightarrow> handler ctx (words line) e
         | None \<Rightarrow> complain T (''unknown command: '' @ hd (words line)) ctx e))"
  by (simp add: do_cmd_def split_args_words run_words_def split: option.splits)

subsection \<open>A line of the session\<close>

definition typed :: "string \<Rightarrow> bool" where
  \<comment> \<open>a text that can be typed as one word\<close>
  "typed w \<longleftrightarrow> w \<noteq> [] \<and> list_all (\<lambda>c. is_print c \<and> \<not> is_space c) w"

lemma typed_nonspace: "typed w \<Longrightarrow> c \<in> set w \<Longrightarrow> \<not> is_space c"
  by (auto simp: typed_def list_all_iff)

lemma typed_print: "typed w \<Longrightarrow> list_all is_print w"
  by (auto simp: typed_def list_all_iff)

lemma typed_cstr: "typed w \<Longrightarrow> is_cstr w"
  using is_print_not_NUL [of NUL] by (auto simp: typed_def list_all_iff is_cstr_def)

lemma words_typed: "typed w \<Longrightarrow> is_space sp \<Longrightarrow> words (w @ sp # s) = w # words s"
proof -
  assume w: "typed w" "is_space sp"
  then obtain c cs where c: "w = c # cs" "\<not> is_space c" "\<forall>x \<in> set cs. \<not> is_space x"
    by (cases w) (auto simp: typed_def list_all_iff)
  with w(2) show ?thesis by (simp add: words_nonspace takeWhile_tail)
qed

lemma words_typed_end: "typed w \<Longrightarrow> words w = [w]"
proof -
  assume w: "typed w"
  have "words (w @ [SP]) = words w" by (rule words_trailing) (simp add: is_space_def)
  with words_typed [OF w, of SP "[]"] show ?thesis by (simp add: is_space_def)
qed

lemma shell_end [simp]: "shell_loop X T [] ctx e = Some ([], ctx, e)"
  by (simp add: shell_loop.simps [of _ _ "[]"])

lemma shell_line:
  assumes "list_all is_print line" "line_end nl" "length line < 1024" "words line \<noteq> []" "length (words line) \<le> 64"
    and "run_words X T (words line) = Some handler" "handler ctx (words line) e = Some (ctx', e')" "\<not> ctx_stop ctx'"
  shows "shell_loop X T (line @ nl # rest) ctx e = shell_loop X T rest ctx' (console_prompt T e')"
  using read_line [OF assms(1,2), of T rest e] do_cmd_words [OF assms(4), of X T ctx e] assms(3-)
  by (subst shell_loop.simps) simp

text \<open>
  C16: A typed line of printable characters runs the command its first word names, with the words
  of the line as arguments; a blank line only prompts again. A line of 1024 characters or more
  leaves the line buffer and one of more than 64 words the array of arguments, and nothing shorter
  does.
\<close>

theorem typed_line_runs_its_words:
  assumes "list_all is_print line" "line_end nl"
  shows "shell_loop X T (line @ nl # rest) ctx e =
    (if length line \<ge> 1024 then None
     else if words line = [] then shell_loop X T rest ctx (console_prompt T e)
     else if length (words line) > 64 then None
     else
       (case (case map_of (commands X T) (hd (words line)) of
                Some handler \<Rightarrow> handler ctx (words line) e
              | None \<Rightarrow> complain T (''unknown command: '' @ hd (words line)) ctx e) of
          None \<Rightarrow> None
        | Some (ctx', e') \<Rightarrow>
            if ctx_stop ctx' then Some (rest, ctx', e')
            else shell_loop X T rest ctx' (console_prompt T e')))"
proof (cases "words line = [] \<or> length line \<ge> 1024")
  case True
  then show ?thesis using read_line [OF assms, of T rest e] by (subst (1 2) shell_loop.simps) auto
next
  case False
  then have w: "words line \<noteq> []" and "length line < 1024" by auto
  then show ?thesis
    using read_line [OF assms, of T rest e] do_cmd_words [OF w, of X T ctx e]
    by (subst shell_loop.simps) (auto simp: run_words_def split: option.splits)
qed

definition silent_terminal :: "'w terminal" where
  "silent_terminal = \<lparr>tty_out = (\<lambda>s w. w), tty_err = (\<lambda>s w. w), tty_system = (\<lambda>s w. w), tty_home = None,
     tty_cwd = ''/'', tty_realpath = id, tty_pid = 1\<rparr>"

theorem typed_line_runs_its_words_witness:
  "shell_loop sample_ext silent_terminal ('' exit now'' @ newline # ''ls'') cmd_ctx sample_env =
     Some (''ls'', cmd_ctx\<lparr>ctx_stop := True\<rparr>, sample_env)"
proof -
  have w: "words '' exit now'' = [''exit'', ''now'']" by code_simp
  have p: "list_all is_print '' exit now''" by code_simp
  from typed_line_runs_its_words [OF p line_end_newline, of sample_ext silent_terminal "''ls''" cmd_ctx sample_env]
  show ?thesis by (simp add: w commands_def command_help_def exit_app_def)
qed

end
