(* ===== verification/Shell_Invariant.thy ===== *)
theory Shell_Invariant
  imports Shell_Lines
begin

text \<open>
  The invariant of the shell: a connection is the one its backend makes and the table of operations is
  the one that belongs to it, whatever was typed. One lemma for each operation of the interface says
  that it keeps the kind of the connection; the locale \<open>connection_command\<close> is the shape of the six
  commands that check for a missing operation.
\<close>

subsection \<open>Connections of a kind\<close>

fun table_of :: "('j, 'w) ext \<Rightarrow> ('j, 'w) backend \<Rightarrow> (('j, 'w) backend, 'w) hive_connect" where
  "table_of X (Onedrive_Data d) = onedrive_connection X d"
| "table_of X (Ipfs_Data rpc) = ipfs_connection X rpc"

fun ops_of :: "('j, 'w) ext \<Rightarrow> 'w terminal \<Rightarrow> ('j, 'w) backend \<Rightarrow> (('j, 'w) backend, 'w) ops" where
  "ops_of X T (Onedrive_Data d) = general_ops X"
| "ops_of X T (Ipfs_Data rpc) = ipfs_ops X T"

fun same_kind :: "('j, 'w) backend \<Rightarrow> ('j, 'w) backend \<Rightarrow> bool" where
  "same_kind (Onedrive_Data _) (Onedrive_Data _) \<longleftrightarrow> True"
| "same_kind (Ipfs_Data _) (Ipfs_Data _) \<longleftrightarrow> True"
| "same_kind _ _ \<longleftrightarrow> False"

lemma same_kind_refl [simp]: "same_kind b b"
  by (cases b) simp_all

lemma same_kind_trans: "same_kind a b \<Longrightarrow> same_kind b c \<Longrightarrow> same_kind a c"
  by (cases a; cases b; cases c) simp_all

lemma same_kind_ops: "same_kind b b' \<Longrightarrow> ops_of X T b' = ops_of X T b"
  by (cases b; cases b') simp_all

lemma conn_data_table [simp]: "conn_data (table_of X b) = b"
  by (cases b) (simp_all add: onedrive_connection_def ipfs_connection_def lift_connect_def onedrive_methods_def
      ipfs_methods_def no_methods_def)

lemma table_of_update: "same_kind b b' \<Longrightarrow> (table_of X b)\<lparr>conn_data := b'\<rparr> = table_of X b'"
  by (cases b; cases b') (simp_all add: onedrive_connection_def ipfs_connection_def lift_connect_def onedrive_methods_def
      ipfs_methods_def no_methods_def)

lemma lift_call_kind:
  "lift_call as_onedrive Onedrive_Data f b e = Some (q, b', e') \<Longrightarrow> same_kind b b'"
  "lift_call as_ipfs Ipfs_Data g b e = Some (q, b', e') \<Longrightarrow> same_kind b b'"
  by (cases b; auto simp: lift_call_def as_onedrive_def as_ipfs_def bind_eq_Some_conv)+

subsection \<open>Operations keep the kind\<close>

definition keeps :: "('j, 'w) ext \<Rightarrow> ('r, ('j, 'w) backend, 'w) op_call \<Rightarrow> bool" where
  "keeps X f \<longleftrightarrow> (\<forall>b e r c' e'. f (Some (table_of X b)) e = Some (r, c', e') \<longrightarrow>
     (\<exists>b'. c' = Some (table_of X b') \<and> same_kind b b'))"

lemma keepsI:
  "(\<And>b e r c' e'. f (Some (table_of X b)) e = Some (r, c', e') \<Longrightarrow> \<exists>b'. c' = Some (table_of X b') \<and> same_kind b b')
     \<Longrightarrow> keeps X f"
  by (simp add: keeps_def)

lemma keepsD:
  "keeps X f \<Longrightarrow> f (Some (table_of X b)) e = Some (r, c', e') \<Longrightarrow> \<exists>b'. c' = Some (table_of X b') \<and> same_kind b b'"
  unfolding keeps_def by blast

context dispatch
begin

lemma op_moves:
  assumes "op (Some c) a e = Some (r, c', e')"
  shows "c' = Some c \<or>
    (\<exists>m q d e''. meth c = Some m \<and> m a (conn_data c) e = Some (q, d, e'') \<and> c' = Some (c\<lparr>conn_data := d\<rparr>))"
  using assms by (rule op_cases) auto

end

lemmas method_defs = onedrive_connection_def ipfs_connection_def lift_connect_def

lemma method_kind:
  assumes "meth (table_of X b) = Some m" "m a b e = Some (q, d, e')"
    and "\<And>x m. b = Onedrive_Data x \<Longrightarrow> meth (onedrive_connection X x) = Some m \<Longrightarrow> m a b e = Some (q, d, e') \<Longrightarrow> same_kind b d"
    and "\<And>x m. b = Ipfs_Data x \<Longrightarrow> meth (ipfs_connection X x) = Some m \<Longrightarrow> m a b e = Some (q, d, e') \<Longrightarrow> same_kind b d"
  shows "same_kind b d"
  using assms by (cases b) auto

locale kind_keeping = dispatch op valid meth failed bad code
  for op :: "(('j, 'w) backend, 'w) hive_connect option \<Rightarrow> 'a \<Rightarrow> 'w env \<Rightarrow>
      ('r \<times> (('j, 'w) backend, 'w) hive_connect option \<times> 'w env) option"
    and valid meth failed bad code +
  fixes X :: "('j, 'w) ext"
  assumes kind: "meth (table_of X b) = Some m \<Longrightarrow> m a b e = Some (q, d, e') \<Longrightarrow> same_kind b d"
begin

lemma op_keeps: "keeps X (\<lambda>c. op c a)"
proof (rule keepsI)
  fix b e r c' e'
  assume "op (Some (table_of X b)) a e = Some (r, c', e')"
  from op_moves [OF this] show "\<exists>b'. c' = Some (table_of X b') \<and> same_kind b b'"
    using kind table_of_update [of b _ X] same_kind_refl [of b] by (metis conn_data_table)
qed

end

interpretation put_buffer_kept: kind_keeping
  "\<lambda>c (from, len, enc, name). hive_put_file_from_buffer c from len enc name" put_args_ok
  "\<lambda>c. map_option (\<lambda>m (from, len, enc, name). m from len enc (the name)) (put_file_from_buffer_m c)"
  neg neg id X for X
  by unfold_locales (erule method_kind; auto simp: method_defs split_beta dest: lift_call_kind)

interpretation file_length_kept: kind_keeping
  hive_get_file_length is_str
  "\<lambda>c. map_option (\<lambda>m name. m (the name)) (get_file_length_m c)"
  neg neg ssize_to_int X for X
  by unfold_locales (erule method_kind; auto simp: method_defs split_beta dest: lift_call_kind)

interpretation get_buffer_kept: kind_keeping
  "\<lambda>c (name, dec, to, n). hive_get_file_to_buffer c name dec to n" get_args_ok
  "\<lambda>c. map_option (\<lambda>m (name, dec, to, n). m (the name) dec (the to) n) (get_file_to_buffer_m c)"
  "\<lambda>r. neg (fst r)" "\<lambda>r. neg (fst r)" "\<lambda>r. ssize_to_int (fst r)" X for X
  by unfold_locales (erule method_kind; auto simp: method_defs split_beta dest: lift_call_kind)

interpretation ipfs_put_buffer_kept: kind_keeping
  "\<lambda>c (from, len, enc, cid). hive_ipfs_put_file_from_buffer c from len enc cid" ipfs_put_args_ok
  "\<lambda>c. map_option (\<lambda>m (from, len, enc, cid). m from len enc (the cid)) (ipfs_put_file_from_buffer_m c)"
  "\<lambda>r. neg (fst r)" "\<lambda>r. neg (fst r)" fst X for X
  by unfold_locales (erule method_kind; auto simp: method_defs split_beta dest: lift_call_kind)

interpretation ipfs_length_kept: kind_keeping
  hive_ipfs_get_file_length is_str
  "\<lambda>c. map_option (\<lambda>m name. m (the name)) (ipfs_get_file_length_m c)"
  neg neg ssize_to_int X for X
  by unfold_locales (erule method_kind; auto simp: method_defs split_beta dest: lift_call_kind)

interpretation ipfs_get_buffer_kept: kind_keeping
  "\<lambda>c (name, dec, to, n). hive_ipfs_get_file_to_buffer c name dec to n" get_args_ok
  "\<lambda>c. map_option (\<lambda>m (name, dec, to, n). m (the name) dec (the to) n) (ipfs_get_file_to_buffer_m c)"
  "\<lambda>r. neg (fst r)" "\<lambda>r. neg (fst r)" "\<lambda>r. ssize_to_int (fst r)" X for X
  by unfold_locales (erule method_kind; auto simp: method_defs split_beta dest: lift_call_kind)

interpretation delete_file_kept: kind_keeping
  hive_delete_file is_str
  "\<lambda>c. map_option (\<lambda>m name. m (the name)) (delete_file_m c)"
  neg neg id X for X
  by unfold_locales (erule method_kind; auto simp: method_defs split_beta dest: lift_call_kind)

interpretation list_files_kept: kind_keeping
  hive_list_files "\<lambda>cb. cb \<noteq> None"
  "\<lambda>c. map_option (\<lambda>m cb. m (the cb)) (list_files_m c)"
  neg neg id X for X
  by unfold_locales (erule method_kind; auto simp: method_defs split_beta dest: lift_call_kind)

interpretation put_value_kept: kind_keeping
  "\<lambda>c (key, val, len, enc). hive_put_value c key val len enc" value_args_ok
  "\<lambda>c. map_option (\<lambda>m (key, val, len, enc). m (the key) (the val) len enc) (put_value_m c)"
  neg neg id X for X
  by unfold_locales (erule method_kind; auto simp: method_defs split_beta dest: lift_call_kind)

interpretation set_value_kept: kind_keeping
  "\<lambda>c (key, val, len, enc). hive_set_value c key val len enc" value_args_ok
  "\<lambda>c. map_option (\<lambda>m (key, val, len, enc). m (the key) (the val) len enc) (set_value_m c)"
  neg neg id X for X
  by unfold_locales (erule method_kind; auto simp: method_defs split_beta dest: lift_call_kind)

interpretation get_values_kept: kind_keeping
  "\<lambda>c (key, dec, cb). hive_get_values c key dec cb" "\<lambda>(key, dec, cb). is_str key \<and> cb \<noteq> None"
  "\<lambda>c. map_option (\<lambda>m (key, dec, cb). m (the key) dec (the cb)) (get_values_m c)"
  neg neg id X for X
  by unfold_locales (erule method_kind; auto simp: method_defs split_beta dest: lift_call_kind)

interpretation delete_key_kept: kind_keeping
  hive_delete_key is_str
  "\<lambda>c. map_option (\<lambda>m key. m (the key)) (delete_key_m c)"
  neg neg id X for X
  by unfold_locales (erule method_kind; auto simp: method_defs split_beta dest: lift_call_kind)

lemmas kept_buffer_ops =
  put_buffer_kept.op_keeps [where a = "(from, n, enc, name)" for "from" n enc name, simplified]
  get_buffer_kept.op_keeps [where a = "(name, dec, to, n)" for name dec to n, simplified]
  ipfs_put_buffer_kept.op_keeps [where a = "(from, n, enc, cid)" for "from" n enc cid, simplified]
  ipfs_get_buffer_kept.op_keeps [where a = "(name, dec, to, n)" for name dec to n, simplified]

lemmas kept_value_ops =
  put_value_kept.op_keeps [where a = "(key, val, n, enc)" for key val n enc, simplified]
  set_value_kept.op_keeps [where a = "(key, val, n, enc)" for key val n enc, simplified]
  get_values_kept.op_keeps [where a = "(key, dec, cb)" for key dec cb, simplified]
  delete_key_kept.op_keeps

lemmas kept_ops = kept_buffer_ops kept_value_ops file_length_kept.op_keeps ipfs_length_kept.op_keeps
  delete_file_kept.op_keeps list_files_kept.op_keeps

lemma keeps_put_file: "keeps X (\<lambda>c. hive_put_file Y c from enc name)"
  by (rule keepsI)
    (auto simp: hive_put_file_def dest: keepsD [OF kept_buffer_ops(1)] split: if_splits prod.splits option.splits)

lemma keeps_ipfs_put_file: "keeps X (\<lambda>c. hive_ipfs_put_file Y c from enc cid)"
  by (rule keepsI)
    (auto simp: hive_ipfs_put_file_def dest: keepsD [OF kept_buffer_ops(3)] split: if_splits prod.splits option.splits)

lemma keeps_get_file: "keeps X (\<lambda>c. hive_get_file Y c name dec to)"
proof (rule keepsI)
  fix b e r c' e'
  assume "hive_get_file Y (Some (table_of X b)) name dec to e = Some (r, c', e')"
  then show "\<exists>b'. c' = Some (table_of X b') \<and> same_kind b b'"
    by (auto simp: hive_get_file_def bind_eq_Some_conv Let_def
        dest!: keepsD [OF file_length_kept.op_keeps] keepsD [OF kept_buffer_ops(2)] intro: same_kind_trans
        split: if_splits prod.splits)
qed

lemma ipfs_buffer_kind:
  "ipfs_get_file_to_buffer_m (table_of X b) = Some m \<Longrightarrow> m cid dec to n b e = Some (r, d, e') \<Longrightarrow> same_kind b d"
  by (cases b) (auto simp: method_defs dest: lift_call_kind)

lemma ipfs_buffer_keeps:
  "same_kind b b1 \<Longrightarrow> ipfs_get_file_to_buffer_m (table_of X b1) = Some m \<Longrightarrow>
     m cid dec to n (conn_data (table_of X b1)) e = Some (r, d, e') \<Longrightarrow>
     \<exists>b'. Some ((table_of X b1)\<lparr>conn_data := d\<rparr>) = Some (table_of X b') \<and> same_kind b b'"
  using ipfs_buffer_kind [of X b1 m] table_of_update [of b1 d X] same_kind_trans [of b b1 d] by auto

lemma keeps_ipfs_get_file: "keeps X (\<lambda>c. hive_ipfs_get_file Y c name dec to)"
proof (rule keepsI)
  fix b e r c' e'
  assume run: "hive_ipfs_get_file Y (Some (table_of X b)) name dec to e = Some (r, c', e')"
  show "\<exists>b'. c' = Some (table_of X b') \<and> same_kind b b'"
  proof (cases "\<not> is_str name \<or> \<not> is_str to")
    case False
    with run obtain n c1 e1 where l: "hive_ipfs_get_file_length (Some (table_of X b)) name e = Some (n, c1, e1)"
      by (auto simp: hive_ipfs_get_file_def bind_eq_Some_conv)
    from keepsD [OF ipfs_length_kept.op_keeps l] obtain b1 where b1: "c1 = Some (table_of X b1)" "same_kind b b1" by blast
    with run l False have "c' = Some (table_of X b1) \<or>
        (\<exists>m cid dec to k e2 q d e3. ipfs_get_file_to_buffer_m (table_of X b1) = Some m \<and>
           m cid dec to k (conn_data (table_of X b1)) e2 = Some (q, d, e3) \<and> c' = Some ((table_of X b1)\<lparr>conn_data := d\<rparr>))"
      by (simp add: hive_ipfs_get_file_def Let_def bind_eq_Some_conv split: if_splits prod.splits) blast+
    with b1(2) ipfs_buffer_keeps [OF b1(2)] show ?thesis by blast
  qed (use run in \<open>auto simp: hive_ipfs_get_file_def\<close>)
qed

lemma keeps_shell_ipfs_puts:
  "keeps X (shell_ipfs_put_file Y T from enc name)" "keeps X (shell_ipfs_put_file_from_buffer Y T data n enc name)"
  by (rule keepsI; auto simp: shell_ipfs_put_file_def shell_ipfs_put_file_from_buffer_def bind_eq_Some_conv
      dest: keepsD [OF keeps_ipfs_put_file] keepsD [OF kept_buffer_ops(3)] split: if_splits)+

lemma ops_keep:
  "op_put_file (ops_of X T b) = Some f1 \<Longrightarrow> keeps X (f1 from enc name)"
  "op_put_file_from_buffer (ops_of X T b) = Some f2 \<Longrightarrow> keeps X (f2 data n enc name)"
  "op_get_file_length (ops_of X T b) = Some f3 \<Longrightarrow> keeps X (f3 name)"
  "op_get_file (ops_of X T b) = Some f4 \<Longrightarrow> keeps X (f4 name dec to)"
  "op_get_file_to_buffer (ops_of X T b) = Some f5 \<Longrightarrow> keeps X (f5 name dec buf n)"
  "op_list_files (ops_of X T b) = Some f6 \<Longrightarrow> keeps X (f6 lcb)"
  "op_delete_file (ops_of X T b) = Some f7 \<Longrightarrow> keeps X (f7 name)"
  "op_put_value (ops_of X T b) = Some f8 \<Longrightarrow> keeps X (f8 name data n enc)"
  "op_set_value (ops_of X T b) = Some f9 \<Longrightarrow> keeps X (f9 name data n enc)"
  "op_get_values (ops_of X T b) = Some f10 \<Longrightarrow> keeps X (f10 name dec vcb)"
  "op_delete_key (ops_of X T b) = Some f11 \<Longrightarrow> keeps X (f11 name)"
  by (cases b; auto simp: general_ops_def ipfs_ops_def kept_ops keeps_put_file keeps_get_file keeps_ipfs_get_file
      keeps_shell_ipfs_puts)+

subsection \<open>The commands that check for a missing operation\<close>

locale connection_command =
  fixes X :: "('j, 'w) ext" and T :: "'w terminal" and cmd :: "('j, 'w) handler" and arity :: nat
    and op :: "(('j, 'w) backend, 'w) ops \<Rightarrow> (string list \<Rightarrow> (c_int, ('j, 'w) backend, 'w) op_call) option"
    and what :: string
  assumes misused: "length argv \<noteq> arity \<Longrightarrow> cmd ctx argv e = complain T SYNTAX_TEXT ctx e"
    and unconnected: "length argv = arity \<Longrightarrow> ctx_connect ctx = None \<Longrightarrow> cmd ctx argv e = complain T NO_CONNECT_TEXT ctx e"
    and unsupported: "length argv = arity \<Longrightarrow> ctx_connect ctx = Some c \<Longrightarrow> ctx_ops ctx = Some ops \<Longrightarrow> op ops = None \<Longrightarrow>
      cmd ctx argv e = complain T NOT_SUPPORTED_TEXT ctx e"
    and calls: "length argv = arity \<Longrightarrow> ctx_connect ctx = Some c \<Longrightarrow> ctx_ops ctx = Some ops \<Longrightarrow> op ops = Some f \<Longrightarrow>
      cmd ctx argv e =
        (case f argv (Some c) e of
           None \<Rightarrow> None
         | Some (rc, c', e') \<Rightarrow>
             if neg rc then report X T what (ctx\<lparr>ctx_connect := c'\<rparr>) e' else Some (ctx\<lparr>ctx_connect := c'\<rparr>, e'))"
    and op_kept: "op (ops_of X T b) = Some f \<Longrightarrow> keeps X (f argv)"

interpretation delete_file_cmd: connection_command X T "shell_delete_file X T" 2
  "\<lambda>ops. map_option (\<lambda>f argv. f (Some (argv ! 1))) (op_delete_file ops)" "''Error: delete file failed.''" for X T
  by unfold_locales (auto simp: shell_delete_file_def Let_def ops_keep split: option.splits prod.splits)

interpretation list_files_cmd: connection_command X T "shell_list_files X T" 1
  "\<lambda>ops. map_option (\<lambda>f argv. f (Some (list_files_cb T))) (op_list_files ops)" "''Error: list files failed.''" for X T
  by unfold_locales (auto simp: shell_list_files_def Let_def ops_keep split: option.splits prod.splits)

interpretation put_value_cmd: connection_command X T "shell_put_value X T" 3
  "\<lambda>ops. map_option (\<lambda>f argv. f (Some (argv ! 1)) (Some (argv ! 2 @ [NUL])) (word_of_nat (length (argv ! 2) + 1)) True)
     (op_put_value ops)" "''Error: put value failed.''" for X T
  by unfold_locales (auto simp: shell_put_value_def Let_def ops_keep split: option.splits prod.splits)

interpretation set_value_cmd: connection_command X T "shell_set_value X T" 3
  "\<lambda>ops. map_option (\<lambda>f argv. f (Some (argv ! 1)) (Some (argv ! 2 @ [NUL])) (word_of_nat (length (argv ! 2) + 1)) True)
     (op_set_value ops)" "''Error: set value failed.''" for X T
  by unfold_locales (auto simp: shell_set_value_def Let_def ops_keep split: option.splits prod.splits)

interpretation get_values_cmd: connection_command X T "shell_get_values X T" 2
  "\<lambda>ops. map_option (\<lambda>f argv. f (Some (argv ! 1)) True (Some (get_values_cb T))) (op_get_values ops)"
  "''Error: get values failed.''" for X T
  by unfold_locales (auto simp: shell_get_values_def Let_def ops_keep split: option.splits prod.splits)

interpretation delete_key_cmd: connection_command X T "shell_delete_key X T" 2
  "\<lambda>ops. map_option (\<lambda>f argv. f (Some (argv ! 1))) (op_delete_key ops)" "''Error: delete key failed.''" for X T
  by unfold_locales (auto simp: shell_delete_key_def Let_def ops_keep split: option.splits prod.splits)

subsection \<open>The invariant\<close>

definition shell_ok :: "('j, 'w) ext \<Rightarrow> 'w terminal \<Rightarrow> ('j, 'w) ctx \<Rightarrow> bool" where
  "shell_ok X T ctx \<longleftrightarrow> (\<forall>c. ctx_connect ctx = Some c \<longrightarrow>
     (\<exists>b. c = table_of X b \<and> ctx_ops ctx = Some (ops_of X T b)))"

definition keeps_shell :: "('j, 'w) ext \<Rightarrow> 'w terminal \<Rightarrow> ('j, 'w) handler \<Rightarrow> bool" where
  "keeps_shell X T cmd \<longleftrightarrow>
     (\<forall>ctx argv e ctx' e'. shell_ok X T ctx \<longrightarrow> cmd ctx argv e = Some (ctx', e') \<longrightarrow> shell_ok X T ctx')"

lemma keeps_shellI:
  "(\<And>ctx argv e ctx' e'. shell_ok X T ctx \<Longrightarrow> cmd ctx argv e = Some (ctx', e') \<Longrightarrow> shell_ok X T ctx') \<Longrightarrow> keeps_shell X T cmd"
  unfolding keeps_shell_def by blast

lemma complain_ok: "complain T s ctx e = Some (ctx', e') \<Longrightarrow> shell_ok X T' ctx' = shell_ok X T' ctx"
  by (simp add: complain_def)

lemma report_ok: "report X T s ctx e = Some (ctx', e') \<Longrightarrow> shell_ok Y T' ctx' = shell_ok Y T' ctx"
  by (auto simp: report_def shell_ok_def bind_eq_Some_conv split: if_splits)

lemma call_ok:
  assumes "shell_ok X T ctx" "ctx_connect ctx = Some c" "f (Some c) e = Some (r, c', e')"
    and "\<And>b. ctx_ops ctx = Some (ops_of X T b) \<Longrightarrow> keeps X f"
  shows "shell_ok X T (ctx\<lparr>ctx_connect := c'\<rparr>)"
proof -
  from assms(1,2) obtain b where b: "c = table_of X b" "ctx_ops ctx = Some (ops_of X T b)" by (auto simp: shell_ok_def)
  obtain b' where "c' = Some (table_of X b')" "same_kind b b'"
    using keepsD [OF assms(4) [OF b(2)] assms(3) [unfolded b(1)]] by blast
  with b(2) same_kind_ops [of b b' X T] show ?thesis by (auto simp: shell_ok_def intro!: exI [of _ b'])
qed

context connection_command
begin

lemma cmd_keeps: "keeps_shell X T cmd"
proof (rule keeps_shellI)
  fix ctx argv e ctx' e'
  assume ok: "shell_ok X T ctx" and run: "cmd ctx argv e = Some (ctx', e')"
  show "shell_ok X T ctx'"
  proof (cases "length argv = arity \<and> ctx_connect ctx \<noteq> None")
    case False
    then show ?thesis using ok run misused unconnected complain_ok by metis
  next
    case True
    then obtain c b where c: "length argv = arity" "ctx_connect ctx = Some c" "ctx_ops ctx = Some (ops_of X T b)"
      using ok by (auto simp: shell_ok_def)
    show ?thesis
    proof (cases "op (ops_of X T b)")
      case None
      then show ?thesis using ok run unsupported [OF c None] complain_ok by metis
    next
      case (Some f)
      have k: "keeps X (f argv)" by (rule op_kept [OF Some])
      from run calls [OF c Some] obtain rc c' e1 where "f argv (Some c) e = Some (rc, c', e1)"
        and "report X T what (ctx\<lparr>ctx_connect := c'\<rparr>) e1 = Some (ctx', e') \<or> ctx' = ctx\<lparr>ctx_connect := c'\<rparr>"
        by (auto split: option.splits if_splits)
      with call_ok [where f = "f argv", OF ok c(2) _ k] report_ok show ?thesis by metis
    qed
  qed
qed

end

lemma keeps_shell_put_file: "keeps_shell X T (shell_put_file X T)"
proof (rule keeps_shellI)
  fix ctx argv e ctx' e'
  assume ok: "shell_ok X T ctx" and run: "shell_put_file X T ctx argv e = Some (ctx', e')"
  show "shell_ok X T ctx'"
  proof (cases "length argv < 2 \<or> length argv > 4 \<or> ctx_connect ctx = None")
    case True
    with ok run show ?thesis by (auto simp: shell_put_file_def complain_def split: if_splits)
  next
    case False
    then obtain c b where c: "ctx_connect ctx = Some c" "ctx_ops ctx = Some (ops_of X T b)"
      using ok by (auto simp: shell_ok_def)
    obtain from_file "from" to where src: "put_source argv = (from_file, from, to)" by (rule prod_cases3)
    define f where "f = (if from_file then the (op_put_file (ops_of X T b)) (Some from) True to
      else the (op_put_file_from_buffer (ops_of X T b)) (Some from) (word_of_nat (length from)) True to)"
    from run False c src obtain rc c' e1 where y: "from_file \<longrightarrow> op_put_file (ops_of X T b) \<noteq> None"
        "\<not> from_file \<longrightarrow> op_put_file_from_buffer (ops_of X T b) \<noteq> None"
      and f: "f (Some c) e = Some (rc, c', e1)" and same: "shell_ok X T ctx' = shell_ok X T (ctx\<lparr>ctx_connect := c'\<rparr>)"
      by (auto simp: shell_put_file_def f_def Let_def bind_eq_Some_conv split: if_splits dest!: report_ok [where Y = X and T' = T])
    have "keeps X f" using y ops_keep(1,2) [of X T b] by (auto simp: f_def)
    with call_ok [where f = f, OF ok c(1) f] same show ?thesis by blast
  qed
qed

lemma keeps_get_length: "keeps_shell X T (get_length X T)"
proof (rule keeps_shellI)
  fix ctx argv e ctx' e'
  assume ok: "shell_ok X T ctx" and run: "get_length X T ctx argv e = Some (ctx', e')"
  show "shell_ok X T ctx'"
  proof (cases "length argv \<noteq> 2 \<or> ctx_connect ctx = None")
    case True
    with ok run show ?thesis by (auto simp: get_length_def complain_def split: if_splits)
  next
    case False
    then obtain c b where c: "ctx_connect ctx = Some c" "ctx_ops ctx = Some (ops_of X T b)"
      using ok by (auto simp: shell_ok_def)
    define f where "f = the (op_get_file_length (ops_of X T b)) (Some (argv ! 1))"
    from run False c obtain rc c' e1 where y: "op_get_file_length (ops_of X T b) \<noteq> None" and f: "f (Some c) e = Some (rc, c', e1)"
      and "shell_ok X T ctx' = shell_ok X T (ctx\<lparr>ctx_connect := c'\<rparr>)"
      by (auto simp: get_length_def f_def Let_def bind_eq_Some_conv split: if_splits dest!: report_ok [where Y = X and T' = T] complain_ok [where X = X and T' = T])
    moreover have "keeps X f" using y ops_keep(3) [of X T b] by (auto simp: f_def)
    ultimately show ?thesis using call_ok [where f = f, OF ok c(1) f] by blast
  qed
qed

lemma keeps_print_file:
  assumes ok: "shell_ok X T ctx" and c: "ctx_connect ctx \<noteq> None" and run: "print_file X T ctx argv e = Some (ctx', e')"
  shows "shell_ok X T ctx'"
proof -
  from ok c obtain b where b: "ctx_connect ctx = Some (table_of X b)" "ctx_ops ctx = Some (ops_of X T b)"
    by (auto simp: shell_ok_def)
  from run b obtain f n c1 e1 where f: "op_get_file_length (ops_of X T b) = Some f"
    "f (Some (argv ! 1)) (Some (table_of X b)) e = Some (n, c1, e1)"
    by (auto simp: print_file_def bind_eq_Some_conv)
  from keepsD [OF ops_keep(3) [OF f(1)] f(2)] obtain b1 where b1: "c1 = Some (table_of X b1)" "same_kind b b1" by blast
  then have ok1: "shell_ok X T (ctx\<lparr>ctx_connect := Some (table_of X b1)\<rparr>)"
    using call_ok [where f = "f (Some (argv ! 1))", OF ok b(1) f(2)] ops_keep(3) [of X T] f(1) b(2) by auto
  show ?thesis
  proof (cases "neg n \<or> n = 0 \<or> \<not> fst (alloc X (unat (n + 1)) e1)")
    case True
    with run b f b1 ok1 show ?thesis
      by (auto simp: print_file_def complain_def Let_def bind_eq_Some_conv dest: report_ok split: if_splits prod.splits)
  next
    case False
    define e2 where "e2 = snd (alloc X (unat (n + 1)) e1)"
    define g where "g = the (op_get_file_to_buffer (ops_of X T b)) (Some (argv ! 1)) True
      (Some (realloc_bytes X [] (unat (n + 1)) (env_world e2))) n"
    from False run b f b1 obtain r c2 e3 where g: "op_get_file_to_buffer (ops_of X T b) \<noteq> None"
      "g (Some (table_of X b1)) e2 = Some (r, c2, e3)"
      and r: "shell_ok X T ctx' = shell_ok X T (ctx\<lparr>ctx_connect := c2\<rparr>)"
      by (auto simp: print_file_def g_def e2_def Let_def bind_eq_Some_conv dest!: report_ok [where Y = X and T' = T] complain_ok [where X = X and T' = T]
          split: if_splits prod.splits)
    have k: "keeps X g" using g(1) ops_keep(5) [of X T b] by (auto simp: g_def)
    have "shell_ok X T ((ctx\<lparr>ctx_connect := Some (table_of X b1)\<rparr>)\<lparr>ctx_connect := c2\<rparr>)"
      by (rule call_ok [where f = g, OF ok1 _ g(2) k]) simp
    with r show ?thesis by simp
  qed
qed

lemma keeps_shell_get_file: "keeps_shell X T (shell_get_file X T)"
proof (rule keeps_shellI)
  fix ctx argv e ctx' e'
  assume ok: "shell_ok X T ctx" and run: "shell_get_file X T ctx argv e = Some (ctx', e')"
  show "shell_ok X T ctx'"
  proof (cases "length argv = 3 \<and> ctx_connect ctx \<noteq> None")
    case False
    with ok run show ?thesis
      by (auto simp: shell_get_file_def complain_def split: if_splits intro: keeps_print_file)
  next
    case True
    then obtain c b where c: "ctx_connect ctx = Some c" "ctx_ops ctx = Some (ops_of X T b)"
      using ok by (auto simp: shell_ok_def)
    define f where "f = the (op_get_file (ops_of X T b)) (Some (argv ! 1)) True (Some (argv ! 2))"
    from run True c obtain rc c' e1 where y: "op_get_file (ops_of X T b) \<noteq> None"
      and f: "f (Some c) e = Some (rc, c', e1)" and same: "shell_ok X T ctx' = shell_ok X T (ctx\<lparr>ctx_connect := c'\<rparr>)"
      by (auto simp: shell_get_file_def f_def Let_def bind_eq_Some_conv split: if_splits dest!: report_ok [where Y = X and T' = T])
    have "keeps X f" using y ops_keep(4) [of X T b] by (auto simp: f_def)
    with call_ok [where f = f, OF ok c(1) f] same show ?thesis by blast
  qed
qed

subsection \<open>Connecting\<close>

lemma onedrive_connects_methods:
  "onedrive_client_connect X cl opts e = Some (Some c, e') \<Longrightarrow> \<exists>d. c = onedrive_methods X d"
  by (auto simp: onedrive_client_connect_def connect_with_token_def Let_def bind_eq_Some_conv
      split: if_splits prod.splits option.splits)

lemma table_connects:
  assumes "hive_client_connect (factory_methods X) cl (Some \<lparr>backendType = t, \<dots> = x\<rparr>) e = Some (Some c, e')"
  shows "t = HiveBackendType_OneDrive \<Longrightarrow> x = Onedrive_Options y \<Longrightarrow> \<exists>d. c = table_of X (Onedrive_Data d)"
    and "t = HiveBackendType_IPFS \<Longrightarrow> x = Ipfs_Options z \<Longrightarrow> \<exists>rpc. c = table_of X (Ipfs_Data rpc)"
proof -
  from assms obtain c0 where c0: "cl = Some c0" by (cases cl) (auto simp: hive_client_connect_def)
  show "\<exists>d. c = table_of X (Onedrive_Data d)" if "t = HiveBackendType_OneDrive" "x = Onedrive_Options y"
    using assms that c0 by (auto simp: connect_onedrive onedrive_connection_def dest!: onedrive_connects_methods)
  show "\<exists>rpc. c = table_of X (Ipfs_Data rpc)" if "t = HiveBackendType_IPFS" "x = Ipfs_Options z"
    using assms that c0 by (auto simp: connect_ipfs ipfs_connection_def dest!: connect_wf)
qed

lemma table_connect_ok:
  assumes "hive_client_connect (factory_methods X) (ctx_client ctx) (Some \<lparr>backendType = t, \<dots> = x\<rparr>) e = Some (co, e1)"
    and "t = HiveBackendType_OneDrive \<and> x = Onedrive_Options y \<and> ops = general_ops X \<or>
      t = HiveBackendType_IPFS \<and> x = Ipfs_Options z \<and> ops = ipfs_ops X T"
    and "(if co = None then complain T s (ctx\<lparr>ctx_connect := co\<rparr>) e1
          else Some (ctx\<lparr>ctx_connect := co, ctx_ops := Some ops\<rparr>, e1)) = Some (ctx', e')"
  shows "shell_ok X T ctx'"
proof (cases co)
  case None
  with assms(3) show ?thesis by (auto simp: complain_def shell_ok_def)
next
  case (Some c)
  with assms table_connects(1) [of X "ctx_client ctx" t x e c e1 y] table_connects(2) [of X "ctx_client ctx" t x e c e1 z]
  obtain b where "c = table_of X b" "ops = ops_of X T b"
    by fastforce
  with Some assms(3) show ?thesis by (auto simp: shell_ok_def)
qed

lemma keeps_client_connect: "keeps_shell X T (client_connect X T)"
proof (rule keeps_shellI)
  fix ctx argv e ctx' e'
  assume ok: "shell_ok X T ctx" and run: "client_connect X T ctx argv e = Some (ctx', e')"
  consider "length argv \<noteq> 2 \<or> ctx_connect ctx \<noteq> None \<or> argv ! 1 \<noteq> ''onedrive'' \<and> argv ! 1 \<noteq> ''ipfs''"
    | "length argv = 2" "ctx_connect ctx = None" "argv ! 1 = ''onedrive''"
    | "length argv = 2" "ctx_connect ctx = None" "argv ! 1 = ''ipfs''" by blast
  then show "shell_ok X T ctx'"
  proof cases
    case 1
    with ok run show ?thesis by (auto simp: client_connect_def complain_def split: if_splits)
  next
    case 2
    with run show ?thesis by (auto simp: client_connect_def Let_def bind_eq_Some_conv intro: table_connect_ok)
  next
    case 3
    with run obtain cfg where cfg: "ctx_cfg ctx = Some cfg" by (auto simp: client_connect_def bind_eq_Some_conv)
    obtain good e1 where a: "alloc X (24 * length (ipfs_rpc_nodes cfg)) e = (good, e1)" by fastforce
    show ?thesis
    proof (cases good)
      case False
      with 3 run cfg a ok show ?thesis by (auto simp: client_connect_def complain_def)
    next
      case True
      with 3 run cfg a show ?thesis
        by (auto simp: client_connect_def Let_def bind_eq_Some_conv intro: table_connect_ok)
    qed
  qed
qed

lemma keeps_disconnect: "keeps_shell X T (disconnect T)"
  by (rule keeps_shellI) (auto simp: disconnect_def shell_ok_def complain_def bind_eq_Some_conv split: if_splits)

lemma keeps_exit: "keeps_shell X T exit_app"
  by (rule keeps_shellI) (auto simp: exit_app_def shell_ok_def)

lemma keeps_help: "keeps_shell X T (shell_help T)"
  by (rule keeps_shellI) (auto simp: shell_help_def complain_def Let_def bind_eq_Some_conv split: if_splits option.splits)

lemma commands_keep: "map_of (commands X T) name = Some handler \<Longrightarrow> keeps_shell X T handler"
  by (auto simp: commands_def command_help_def keeps_help keeps_client_connect keeps_disconnect keeps_shell_put_file
      keeps_get_length keeps_shell_get_file keeps_exit delete_file_cmd.cmd_keeps list_files_cmd.cmd_keeps
      put_value_cmd.cmd_keeps set_value_cmd.cmd_keeps get_values_cmd.cmd_keeps delete_key_cmd.cmd_keeps
      split: if_splits)

lemma do_cmd_ok: "shell_ok X T ctx \<Longrightarrow> do_cmd X T line ctx e = Some (ctx', e') \<Longrightarrow> shell_ok X T ctx'"
  using commands_keep unfolding keeps_shell_def
  by (fastforce simp: do_cmd_def complain_def bind_eq_Some_conv split: if_splits option.splits)

lemma shell_loop_ok:
  "shell_ok X T ctx \<Longrightarrow> shell_loop X T inp ctx e = Some (rest, ctx', e') \<Longrightarrow> shell_ok X T ctx'"
proof (induction X T inp ctx e rule: shell_loop.induct)
  case (1 X T inp ctx e)
  from 1(3) show ?case
    by (subst (asm) shell_loop.simps) (use 1(1,2) do_cmd_ok in \<open>fastforce split: option.splits prod.splits if_splits\<close>)
qed

subsection \<open>Properties\<close>

text \<open>
  C15: Whatever is typed into a shell that starts without a connection, a connection it has is one
  that its backend made, and the table of operations it uses is the one of this backend.
\<close>

theorem shell_uses_the_table_of_its_backend:
  assumes "shell_loop X T inp (cmd_ctx\<lparr>ctx_cfg := cfg, ctx_client := client\<rparr>) e = Some (rest, ctx, e')"
    and "ctx_connect ctx = Some c"
  shows "\<exists>b. c = table_of X b \<and> ctx_ops ctx = Some (ops_of X T b)"
proof -
  have "shell_ok X T (cmd_ctx\<lparr>ctx_cfg := cfg, ctx_client := client\<rparr>)" by (simp add: shell_ok_def cmd_ctx_def)
  from shell_loop_ok [OF this assms(1)] assms(2) show ?thesis by (simp add: shell_ok_def)
qed

definition pool_cfg :: cmd_cfg where
  "pool_cfg = \<lparr>loglevel = 3, logfile = None, cfg_data_location = Some ''/d'', ipfs_rpc_nodes = rpc_node_list pool_options\<rparr>"

definition pool_shell :: "(json, node_world) ctx" where
  "pool_shell = cmd_ctx\<lparr>ctx_cfg := Some pool_cfg, ctx_client := Some \<lparr>data_location = ''/d''\<rparr>\<rparr>"

definition pool_rpc :: ipfs_rpc where
  "pool_rpc = \<lparr>current_node_ip = ''10.0.0.1'', current_node_port = 5001, rpc_nodes = pool_nodes\<rparr>"

definition pool_connected :: "(json, node_world) ctx" where
  "pool_connected = pool_shell\<lparr>ctx_connect := Some (table_of node_ext (Ipfs_Data pool_rpc)),
     ctx_ops := Some (ipfs_ops node_ext silent_terminal)\<rparr>"

lemma silent_console [simp]:
  "console silent_terminal s e = e" "console_prompt silent_terminal e = e" "print_text silent_terminal s e = e"
  by (simp_all add: console_def console_prompt_def print_text_def silent_terminal_def)

lemma pool_shell_connects:
  "shell_loop node_ext silent_terminal (''connect ipfs'' @ [newline]) pool_shell node_env = Some ([], pool_connected, node_env)"
proof -
  have w: "words ''connect ipfs'' = [''connect'', ''ipfs'']" by code_simp
  have p: "list_all is_print ''connect ipfs''" by code_simp
  have o: "\<lparr>backendType = HiveBackendType_IPFS, \<dots> = hive_connect_options.more (shell_ipfs_options pool_cfg)\<rparr> = pool_options"
    by (simp add: shell_ipfs_options_def pool_cfg_def pool_options_def)
  have al: "alloc node_ext n node_env = (True, node_env)" for n using node_ext_fields(1) by simp
  have "client_connect node_ext silent_terminal pool_shell [''connect'', ''ipfs''] node_env = Some (pool_connected, node_env)"
    by (simp add: client_connect_def pool_shell_def pool_connected_def cmd_ctx_def connect_ipfs o pool_connects pool_rpc_def
        al ipfs_connection_def Let_def)
  then have "shell_loop node_ext silent_terminal (''connect ipfs'' @ newline # []) pool_shell node_env =
      shell_loop node_ext silent_terminal [] pool_connected (console_prompt silent_terminal node_env)"
    by (intro shell_line [where handler = "client_connect node_ext silent_terminal", OF p line_end_newline])
      (simp_all add: w run_words_def commands_def command_help_def pool_connected_def pool_shell_def cmd_ctx_def)
  then show ?thesis by simp
qed

theorem shell_uses_the_table_of_its_backend_witness:
  "\<exists>b. table_of node_ext (Ipfs_Data pool_rpc) = table_of node_ext b \<and>
    ctx_ops pool_connected = Some (ops_of node_ext silent_terminal b)"
  by (rule shell_uses_the_table_of_its_backend [OF pool_shell_connects [unfolded pool_shell_def]])
    (simp add: pool_connected_def)

end
