(* ===== verification/Shell_Drive.thy ===== *)
theory Shell_Drive
  imports Shell_Invariant Onedrive_Store_Props
begin

text \<open>
  The shell on a OneDrive connection: the operations of the interface through the connection of the
  table of backends, and what the commands print against a drive that keeps its promise.
\<close>

subsection \<open>Through the table of backends\<close>

lemma lift_connect_update:
  "(lift_connect out in_c c)\<lparr>conn_data := in_c d\<rparr> = lift_connect out in_c (c\<lparr>conn_data := d\<rparr>)"
  by (simp add: lift_connect_def)

definition lift_result ::
    "('d \<Rightarrow> 'c option) \<Rightarrow> ('c \<Rightarrow> 'd) \<Rightarrow> ('r \<times> ('c, 'w) hive_connect option \<times> 'w env) option
      \<Rightarrow> ('r \<times> ('d, 'w) hive_connect option \<times> 'w env) option" where
  "lift_result out in_c = map_option (\<lambda>(r, c, e). (r, map_option (lift_connect out in_c) c, e))"

lemma lift_result_simps [simp]:
  "lift_result out in_c None = None"
  "lift_result out in_c (Some (r, c, e)) = Some (r, map_option (lift_connect out in_c) c, e)"
  by (simp_all add: lift_result_def)

lemma lift_method_sel:
  "put_value_m (lift_connect out in_c c) = map_option (\<lambda>m k v n d. lift_call out in_c (m k v n d)) (put_value_m c)"
  "get_values_m (lift_connect out in_c c) = map_option (\<lambda>m k d cb. lift_call out in_c (m k d cb)) (get_values_m c)"
  "get_file_length_m (lift_connect out in_c c) = map_option (\<lambda>m n. lift_call out in_c (m n)) (get_file_length_m c)"
  "conn_data (lift_connect out in_c c) = in_c (conn_data c)"
  by (simp_all add: lift_connect_def)

lemma lifted_ops:
  assumes "\<And>x. out (in_c x) = Some x"
  shows "hive_put_value (Some (lift_connect out in_c c)) key val n enc e =
      lift_result out in_c (hive_put_value (Some c) key val n enc e)"
    and "hive_get_values (Some (lift_connect out in_c c)) key dec cb e =
      lift_result out in_c (hive_get_values (Some c) key dec cb e)"
    and "hive_get_file_length (Some (lift_connect out in_c c)) name e =
      lift_result out in_c (hive_get_file_length (Some c) name e)"
  by (auto simp: hive_put_value_def hive_get_values_def hive_get_file_length_def lift_method_sel Let_def
      Option.is_none_def lift_call_in [of out in_c] assms lift_connect_update split: option.splits prod.splits)

lemmas onedrive_lifted = lifted_ops [where out = as_onedrive and in_c = Onedrive_Data, OF as_backend(1),
    of "onedrive_methods X d" for X d, folded onedrive_connection_def]

subsection \<open>A shell on a drive\<close>

definition shell_drive ::
    "('j, 'w) ext \<Rightarrow> 'w service \<Rightarrow> string \<Rightarrow> ('w \<Rightarrow> string \<Rightarrow> bytes option) \<Rightarrow> (string \<Rightarrow> string) \<Rightarrow>
      ('j, 'w) onedrive_connect \<Rightarrow> ('j, 'w) ctx \<Rightarrow> bool" where
  "shell_drive X serve auth files durl d ctx \<longleftrightarrow> drive_ready X serve auth files durl (od_token d) \<and>
     ctx_connect ctx = Some (onedrive_connection X d) \<and> ctx_ops ctx = Some (general_ops X) \<and> \<not> ctx_stop ctx \<and>
     length (errbuf ctx) = 1024"

lemma on_drive_general:
  assumes R: "drive_ready X serve auth files durl (od_token d)" and name: "file_name_ok name"
    and size: "\<And>bs. files (env_world e) (''/Files/'' @ name) = Some bs \<Longrightarrow> length bs < 2 ^ 31"
  shows "\<exists>w'. files w' = files (env_world e) \<and>
    hive_get_file_length (Some (onedrive_methods X d)) (Some name) e =
      Some (case files (env_world e) (''/Files/'' @ name) of
              None \<Rightarrow> (- 1, Some (onedrive_methods X d), hive_set_error NOT_FOUND_ERROR (moved e w'))
            | Some bs \<Rightarrow> (word_of_nat (length bs), Some (onedrive_methods X d), moved e w'))"
proof -
  note F = file_path_ok [OF name]
  have same: "d\<lparr>od_token := od_token d\<rparr> = d" by simp
  have ne: "name \<noteq> []" using name by (simp add: file_name_ok_def)
  obtain w' where w': "get_file_length_at X (od_token d) (''/Files/'' @ name) e =
      Some (case files (env_world e) (''/Files/'' @ name) of None \<Rightarrow> int_to_ssize (status_error HttpStatus_NotFound)
            | Some bs \<Rightarrow> word_of_nat (length bs), od_token d, moved e w')" "files w' = files (env_world e)"
    using drive_length [OF R F(2) size] by blast
  then show ?thesis
    using F(1) ne same neg_not_found size
    by (intro exI [of _ w'])
      (auto simp: hive_get_file_length_def Option.is_none_def get_file_length_def on_token_def not_found_error
        split: option.splits)
qed

lemma NUL_after_cstr: "length (cstr b) < length b \<Longrightarrow> NUL \<in> set b"
  using cstr_id [of b] by (cases "NUL \<in> set b") (auto simp: is_cstr_def)

lemma report_not_found:
  assumes "length (errbuf ctx) = 1024" "env_err e = NOT_FOUND_ERROR"
  shows "\<exists>b. length b = 1024 \<and> report X T s ctx e = Some (ctx\<lparr>errbuf := b\<rparr>, console T (s @ '' Reason: [httpstat] Not Found.'') e)"
proof -
  have n: "NOT_FOUND_ERROR = ssize_to_int (HIVE_HTTP_STATUS_ERROR (unsigned (404 :: c_int)))"
    using mk_error_long [of HIVEF_HTTP_STATUS 404] by (simp add: NOT_FOUND_ERROR_def flip: uint_to_ssize_def)
  obtain b where b: "hive_get_strerror (facility_codes X) NOT_FOUND_ERROR (Some (errbuf ctx)) e = Some (True, b, e)"
    "length b = 1024" "cstr b = ''[httpstat] Not Found''"
    using get_strerror_http [of 404 "''Not Found''" "errbuf ctx" X e] assms(1) unfolding n by (auto simp: status_codes_def)
  then have "NUL \<in> set b" by (intro NUL_after_cstr) simp
  with b assms(2) show ?thesis by (auto simp: report_def hive_get_error_def)
qed

subsection \<open>Values\<close>

lemma same_ctx: "ctx_connect ctx = Some c \<Longrightarrow> ctx\<lparr>ctx_connect := Some c\<rparr> = ctx"
  by (cases ctx) simp

lemma print_moved [simp]:
  "print_text T s (moved e w) = moved e (tty_out T s w)"
  by (simp add: print_text_def)

lemma iterate_prints: "iterate_values key (get_values_cb T) vs e = fold (\<lambda>v. console T (cstr v)) vs e"
  by (induction vs arbitrary: e) (simp_all add: get_values_cb_def)

lemma shell_drive_put:
  assumes S: "shell_drive X serve auth files durl d ctx" and key: "short_key key" and v: "legal_value (v @ [NUL])"
    and st: "stored (files (env_world e)) key vs" "fits_drive (vs @ [v @ [NUL]])"
  shows "\<exists>w'. shell_put_value X T ctx [cmd, key, v] e = Some (ctx, moved e w') \<and>
    files w' = (files (env_world e))(key_path key \<mapsto> kv_encode (vs @ [v @ [NUL]]))"
proof -
  have R: "drive_ready X serve auth files durl (od_token d)" and c: "ctx_connect ctx = Some (onedrive_connection X d)"
    and o: "ctx_ops ctx = Some (general_ops X)" using S by (simp_all add: shell_drive_def)
  obtain w' where w: "od_put_value X (od_token d) key (v @ [NUL]) e = Some (0, od_token d, moved e w')"
    "files w' = (files (env_world e))(key_path key \<mapsto> kv_encode (vs @ [v @ [NUL]]))"
    using kv_put [OF R key v st] by blast
  have same: "d\<lparr>od_token := od_token d\<rparr> = d" by simp
  define u where "u = v @ [NUL]"
  have len: "word_of_nat (length v + 1) = (word_of_nat (length u) :: size_t)" by (simp add: u_def)
  have "hive_put_value (Some (onedrive_methods X d)) (Some key) (Some (v @ [NUL])) (word_of_nat (length v + 1)) True e =
      Some (0, Some (onedrive_methods X d), moved e w')"
    unfolding len using w(1) key legal_len [OF v] same
    by (simp add: u_def [symmetric] hive_put_value_def Option.is_none_def put_value_def on_token_def short_key_def not_less)
  then have "shell_put_value X T ctx [cmd, key, v] e = Some (ctx, moved e w')"
    using c o same_ctx [OF c]
    by (simp add: shell_put_value_def general_ops_def onedrive_lifted(1) onedrive_connection_def [symmetric])
  with w(2) show ?thesis by blast
qed

lemma shell_drive_get:
  assumes S: "shell_drive X serve auth files durl d ctx" and key: "short_key key"
    and st: "stored (files (env_world e)) key vs" "fits_drive vs"
  shows "\<exists>w'. shell_get_values X T ctx [cmd, key] e = Some (ctx, fold (\<lambda>v. console T (cstr v)) vs (moved e w')) \<and>
    files w' = files (env_world e)"
proof -
  have R: "drive_ready X serve auth files durl (od_token d)" and c: "ctx_connect ctx = Some (onedrive_connection X d)"
    and o: "ctx_ops ctx = Some (general_ops X)" using S by (simp_all add: shell_drive_def)
  obtain w' where w: "od_get_values X (od_token d) key (get_values_cb T) e =
      Some (0, od_token d, if vs = [] then moved e w' else iterate_values key (get_values_cb T) vs (moved e w'))"
    "files w' = files (env_world e)"
    using kv_get [OF R key st] by blast
  have same: "d\<lparr>od_token := od_token d\<rparr> = d" by simp
  have "hive_get_values (Some (onedrive_methods X d)) (Some key) True (Some (get_values_cb T)) e =
      Some (0, Some (onedrive_methods X d), fold (\<lambda>v. console T (cstr v)) vs (moved e w'))"
    using w(1) key same
    by (cases "vs = []") (simp_all add: hive_get_values_def Option.is_none_def get_values_def on_token_def short_key_def iterate_prints)
  then have "shell_get_values X T ctx [cmd, key] e = Some (ctx, fold (\<lambda>v. console T (cstr v)) vs (moved e w'))"
    using c o same_ctx [OF c]
    by (simp add: shell_get_values_def general_ops_def onedrive_lifted(2) onedrive_connection_def [symmetric])
  with w(2) show ?thesis by blast
qed

lemma value_lines:
  assumes S: "shell_drive X serve auth files durl d ctx" and typed: "typed key" "typed v" "length key \<le> 800"
      "length key + length v < 1000"
    and st: "stored (files (env_world e)) key vs" "fits_drive (vs @ [v @ [NUL]])"
    and quiet: "\<And>s w. files (tty_out T s w) = files w"
  shows "\<exists>w. files w = (files (env_world e))(key_path key \<mapsto> kv_encode (vs @ [v @ [NUL]])) \<and>
    (\<forall>inp. shell_loop X T (''put_val '' @ key @ '' '' @ v @ newline # ''get_val '' @ key @ newline # inp) ctx e =
      shell_loop X T inp ctx (console_prompt T (fold (\<lambda>u. console T (cstr u)) (vs @ [v @ [NUL]]) (moved e w))))"
proof -
  let ?put = "''put_val '' @ key @ '' '' @ v" and ?get = "''get_val '' @ key" and ?all = "vs @ [v @ [NUL]]"
  have key: "short_key key" using typed(1,3) by (simp add: short_key_def typed_def typed_cstr)
  have lv: "legal_value (v @ [NUL])" using typed(4) by (simp add: legal_value_def)
  have sp: "is_space CHR '' ''" by (simp add: is_space_def)
  have cmd: "typed ''put_val''" "typed ''get_val''" by code_simp+
  have wp: "words ?put = [''put_val'', key, v]"
    using words_typed [OF cmd(1) sp] words_typed [OF typed(1) sp] words_typed_end [OF typed(2)] by simp
  have wg: "words ?get = [''get_val'', key]" using words_typed [OF cmd(2) sp] words_typed_end [OF typed(1)] by simp
  have pr: "list_all is_print ?put" "list_all is_print ?get"
    using typed_print [OF typed(1)] typed_print [OF typed(2)] by (simp_all add: is_print_def ccode_def)
  obtain w1 where w1: "shell_put_value X T ctx [''put_val'', key, v] e = Some (ctx, moved e w1)"
    "files w1 = (files (env_world e))(key_path key \<mapsto> kv_encode ?all)"
    using shell_drive_put [OF S key lv st] by blast
  have st': "stored (files (env_world (console_prompt T (moved e w1)))) key ?all"
    using st(1) lv w1(2) quiet by (simp add: console_prompt_def stored_def)
  obtain w2 where w2: "shell_get_values X T ctx [''get_val'', key] (console_prompt T (moved e w1)) =
      Some (ctx, fold (\<lambda>v. console T (cstr v)) ?all (moved e w2))" "files w2 = files w1"
    using shell_drive_get [OF S key st' st(2), of T "''get_val''"] quiet by (auto simp: console_prompt_def)
  have "\<not> ctx_stop ctx" using S by (simp add: shell_drive_def)
  then have "shell_loop X T (?put @ newline # ?get @ newline # inp) ctx e =
      shell_loop X T (?get @ newline # inp) ctx (console_prompt T (moved e w1))" for inp
    using w1(1) typed(4) wp
    by (intro shell_line [where handler = "shell_put_value X T", OF pr(1) line_end_newline])
      (simp_all add: run_words_def commands_def command_help_def)
  moreover have "shell_loop X T (?get @ newline # inp) ctx (console_prompt T (moved e w1)) =
      shell_loop X T inp ctx (console_prompt T (fold (\<lambda>v. console T (cstr v)) ?all (moved e w2)))" for inp
    using w2(1) typed(4) wg \<open>\<not> ctx_stop ctx\<close>
    by (intro shell_line [where handler = "shell_get_values X T", OF pr(2) line_end_newline])
      (simp_all add: run_words_def commands_def command_help_def)
  ultimately show ?thesis using w1(2) w2(2) by (intro exI [of _ w2]) simp
qed

text \<open>
  C13: A value typed into a shell on OneDrive is appended to the values of its key, and asking for
  the key then prints all of them, the new one last.
\<close>

theorem typed_values_are_shown:
  assumes S: "shell_drive X serve auth files durl d ctx" and typed: "typed key" "typed v" "length key \<le> 800"
      "length key + length v < 1000"
    and st: "stored (files (env_world e)) key vs" "fits_drive (vs @ [v @ [NUL]])"
    and quiet: "\<And>s w. files (tty_out T s w) = files w"
  shows "\<exists>w. files w = (files (env_world e))(key_path key \<mapsto> kv_encode (vs @ [v @ [NUL]])) \<and>
    shell_loop X T (''put_val '' @ key @ '' '' @ v @ [newline] @ ''get_val '' @ key @ [newline]) ctx e =
      Some ([], ctx, console_prompt T (fold (\<lambda>u. console T (cstr u)) (vs @ [v @ [NUL]]) (moved e w)))"
  using value_lines [OF S typed st quiet] by (elim exE conjE, intro exI conjI) (assumption, simp)

definition counting_terminal :: "drive_world terminal" where
  \<comment> \<open>counts the printed characters next to the drive's files\<close>
  "counting_terminal = silent_terminal\<lparr>tty_out := (\<lambda>s w. (fst w, snd w + word_of_nat (length s)))\<rparr>"

definition drive_shell :: "(json, drive_world) ctx" where
  "drive_shell = cmd_ctx\<lparr>ctx_connect := Some (onedrive_connection drive_ext drive_connect),
     ctx_ops := Some (general_ops drive_ext)\<rparr>"

lemma drive_shell_sample:
  "shell_drive drive_ext drive_serve ''at'' fst (\<lambda>path. CHR ''d'' # path) drive_connect drive_shell"
  using drive_connect_ready by (simp add: shell_drive_def drive_shell_def cmd_ctx_def)

theorem typed_values_are_shown_witness:
  "\<exists>w. fst w ''/KeyValues/k'' = Some (kv_encode [''one'' @ [NUL]]) \<and>
    shell_loop drive_ext counting_terminal (''put_val k one'' @ newline # ''get_val k'' @ [newline]) drive_shell drive_env =
      Some ([], drive_shell, moved drive_env (fst w, snd w + 6))"
proof -
  have t: "typed ''k''" "typed ''one''" by code_simp+
  have k: "key_path ''k'' = ''/KeyValues/k''" by (simp add: key_path_short short_key_def NUL_def)
  have c: "cstr [CHR ''o'', CHR ''n'', CHR ''e'', NUL] = ''one''" by code_simp
  obtain w where w: "fst w = (fst (env_world drive_env))(key_path ''k'' \<mapsto> kv_encode ([] @ [''one'' @ [NUL]]))"
    "shell_loop drive_ext counting_terminal (''put_val '' @ ''k'' @ '' '' @ ''one'' @ [newline] @ ''get_val '' @ ''k'' @ [newline])
      drive_shell drive_env = Some ([], drive_shell, console_prompt counting_terminal
        (fold (\<lambda>u. console counting_terminal (cstr u)) ([] @ [''one'' @ [NUL]]) (moved drive_env w)))"
    using typed_values_are_shown [OF drive_shell_sample t, of drive_env "[]" counting_terminal]
    by (auto simp: stored_def drive_env_def fits_drive_def counting_terminal_def k)
  have "console_prompt counting_terminal (console counting_terminal ''one'' (moved drive_env w)) =
      moved drive_env (fst w, snd w + 6)"
    by (simp add: console_def console_prompt_def counting_terminal_def add.commute)
  with w c k show ?thesis by (intro exI [of _ w]) simp
qed

subsection \<open>Files\<close>

text \<open>
  Asked for the length of a file on OneDrive the shell prints it, and for a file that does
  not exist it prints the reason, which is the text of the recorded error; the connection stays.
\<close>

theorem get_len_tells_the_length_or_why:
  assumes S: "shell_drive X serve auth files durl d ctx" and name: "file_name_ok name" "words line = [''get_len'', name]"
    and size: "\<And>bs. files (env_world e) (''/Files/'' @ name) = Some bs \<Longrightarrow> length bs < 2 ^ 31"
  shows "\<exists>w' b. files w' = files (env_world e) \<and> length b = 1024 \<and>
    do_cmd X T (trim_line line) ctx e =
      Some (case files (env_world e) (''/Files/'' @ name) of
              None \<Rightarrow> (ctx\<lparr>errbuf := b\<rparr>, console T ''Error: get length failed. Reason: [httpstat] Not Found.''
                        (hive_set_error NOT_FOUND_ERROR (moved e w')))
            | Some bs \<Rightarrow> (ctx, console T (''file '' @ name @ '' length is '' @ nat_digits (length bs) @ '' bytes.'') (moved e w')))"
proof -
  have R: "drive_ready X serve auth files durl (od_token d)" and c: "ctx_connect ctx = Some (onedrive_connection X d)"
    and o: "ctx_ops ctx = Some (general_ops X)" and eb: "length (errbuf ctx) = 1024"
    using S by (simp_all add: shell_drive_def)
  obtain w' where w': "files w' = files (env_world e)" and
    l: "hive_get_file_length (Some (onedrive_methods X d)) (Some name) e =
      Some (case files (env_world e) (''/Files/'' @ name) of
              None \<Rightarrow> (- 1, Some (onedrive_methods X d), hive_set_error NOT_FOUND_ERROR (moved e w'))
            | Some bs \<Rightarrow> (word_of_nat (length bs), Some (onedrive_methods X d), moved e w'))"
    using on_drive_general [OF R name(1) size] by blast
  let ?e = "hive_set_error NOT_FOUND_ERROR (moved e w')"
  obtain b where b: "length b = 1024" "report X T ''Error: get length failed.'' ctx ?e =
      Some (ctx\<lparr>errbuf := b\<rparr>, console T (''Error: get length failed.'' @ '' Reason: [httpstat] Not Found.'') ?e)"
    using report_not_found [OF eb, of ?e X T "''Error: get length failed.''"] by auto
  have m: "neg (- 1 :: ssize_t)" by (simp add: neg_def)
  have "do_cmd X T (trim_line line) ctx e = get_length X T ctx [''get_len'', name] e"
    using do_cmd_words [of line X T ctx e] name(2) by (simp add: run_words_def commands_def command_help_def)
  then show ?thesis
    using b l c o w' m size
    by (intro exI [of _ w'] exI [of _ b])
      (auto simp: get_length_def general_ops_def onedrive_lifted(3) onedrive_connection_def [symmetric] complain_def
        int_digits_def sint_small same_ctx [OF c] split: option.splits)
qed

theorem get_len_tells_the_length_or_why_witness:
  "(\<exists>w. do_cmd drive_ext counting_terminal ''get_len f'' drive_shell
        (drive_env\<lparr>env_world := ([''/Files/f'' \<mapsto> ''data''], 200)\<rparr>) =
      Some (drive_shell, console counting_terminal ''file f length is 4 bytes.'' (moved drive_env w))) \<and>
    (\<exists>w b. do_cmd drive_ext counting_terminal ''get_len f'' drive_shell drive_env =
      Some (drive_shell\<lparr>errbuf := b\<rparr>, console counting_terminal ''Error: get length failed. Reason: [httpstat] Not Found.''
        (hive_set_error NOT_FOUND_ERROR (moved drive_env w))))"
proof -
  have w: "words ''get_len f'' = [''get_len'', ''f'']" "trim_line ''get_len f'' = ''get_len f''" by code_simp+
  have f: "file_name_ok ''f''" by (simp add: file_name_ok_def NUL_def)
  have d: "nat_digits (Suc (Suc (Suc (Suc 0)))) = ''4''" by code_simp
  have fe: "env_world drive_env = (\<lambda>p. None, 200)" by (simp add: drive_env_def)
  have m: "moved (drive_env\<lparr>env_world := v\<rparr>) w = moved drive_env w" for v w by (simp add: moved_def)
  from get_len_tells_the_length_or_why [OF drive_shell_sample f w(1), of "drive_env\<lparr>env_world := ([''/Files/f'' \<mapsto> ''data''], 200)\<rparr>"
      counting_terminal]
    get_len_tells_the_length_or_why [OF drive_shell_sample f w(1), of drive_env counting_terminal]
  show ?thesis by (auto simp: w(2) d m fe)
qed

end
