(* ===== verification/Shell_Node.thy ===== *)
theory Shell_Node
  imports Shell_Invariant
begin

text \<open>
  The shell on an IPFS connection: a typed text is stored and printed back through its content
  identifier, the commands IPFS has no operation for are refused, and what becomes of the nodes of the
  configuration file.
\<close>

subsection \<open>A shell on a node\<close>

definition shell_node ::
    "('j, 'w) ext \<Rightarrow> 'w terminal \<Rightarrow> 'w service \<Rightarrow> ('w \<Rightarrow> string \<Rightarrow> bytes option) \<Rightarrow> (bytes \<Rightarrow> string) \<Rightarrow>
      ipfs_rpc \<Rightarrow> ('j, 'w) ctx \<Rightarrow> bool" where
  "shell_node X T serve blocks cid_of rpc ctx \<longleftrightarrow> node_ready X serve blocks cid_of rpc \<and>
     ctx_connect ctx = Some (ipfs_connection X rpc) \<and> ctx_ops ctx = Some (ipfs_ops X T) \<and> \<not> ctx_stop ctx"

lemma same_node_ctx: "ctx_connect ctx = Some c \<Longrightarrow> ctx\<lparr>ctx_connect := Some c\<rparr> = ctx"
  by (cases ctx) simp

lemma ipfs_connection_length [simp]:
  "ipfs_get_file_length_m (ipfs_connection X rpc) = Some (\<lambda>n. lift_call as_ipfs Ipfs_Data (ipfs_get_file_length X n))"
  by (simp add: ipfs_connection_def lift_connect_def)

lemma text_words:
  assumes "t \<noteq> []" "length t < 1024"
  shows "\<not> 33554432 < (word_of_nat (length t) :: size_t)" "(word_of_nat (length t) :: size_t) \<noteq> 0"
    "\<not> neg (word_of_nat (length t) :: ssize_t)" "unat (word_of_nat (length t) :: size_t) = length t"
    "unat (word_of_nat (length t) + 1 :: size_t) = length t + 1"
proof -
  show u: "unat (word_of_nat (length t) :: size_t) = length t" using assms by (simp add: unat_len)
  show "\<not> 33554432 < (word_of_nat (length t) :: size_t)" using u assms by (simp add: word_less_nat_alt)
  show "(word_of_nat (length t) :: size_t) \<noteq> 0" using u assms(1) by (metis length_0_conv unat_0)
  show "\<not> neg (word_of_nat (length t) :: ssize_t)" using assms(2) by simp
  show "unat (word_of_nat (length t) + 1 :: size_t) = length t + 1" using u assms(2) by (simp add: unat_word_ariths)
qed

lemma shell_node_put:
  assumes S: "shell_node X T serve blocks cid_of rpc ctx" and t: "t \<noteq> []" "length t < 1024"
  shows "\<exists>w'. shell_put_file X T ctx [cmd, t] e = Some (ctx, console T (''CID: '' @ cid_of t @ ''.'') (moved e w')) \<and>
    blocks w' = (blocks (env_world e))(cid_of t \<mapsto> t)"
proof -
  have R: "node_ready X serve blocks cid_of rpc" and c: "ctx_connect ctx = Some (ipfs_connection X rpc)"
    and o: "ctx_ops ctx = Some (ipfs_ops X T)" using S by (simp_all add: shell_node_def)
  have "length (local_cid X e) = 65" by (simp add: local_cid_def)
  then obtain b w' where "ipfs_put_file_from_buffer X (Some t) (word_of_nat (length t)) True (local_cid X e) rpc e =
      Some ((0, b), rpc, moved e w')" "cstr b = cid_of t" "blocks w' = (blocks (env_world e))(cid_of t \<mapsto> t)"
    using node_put [OF R, of t] t(2) by force
  then show ?thesis
    using c o text_words [OF t]
    by (intro exI [of _ w'])
      (simp add: shell_put_file_def put_source_def ipfs_ops_def shell_ipfs_put_file_from_buffer_def
        hive_ipfs_put_file_from_buffer_def Option.is_none_def lift_call_in same_node_ctx)
qed

lemma shell_node_get:
  assumes S: "shell_node X T serve blocks cid_of rpc ctx" and cid: "valid_cid cid"
    and t: "blocks (env_world e) cid = Some t" "t \<noteq> []" "length t < 1024" "is_cstr t"
  shows "\<exists>w'. shell_get_file X T ctx [cmd, cid] e = Some (ctx, console T t (moved e w')) \<and> blocks w' = blocks (env_world e)"
proof -
  have R: "node_ready X serve blocks cid_of rpc" and c: "ctx_connect ctx = Some (ipfs_connection X rpc)"
    and o: "ctx_ops ctx = Some (ipfs_ops X T)" using S by (simp_all add: shell_node_def)
  note W = text_words [OF t(2,3)]
  obtain w1 where 1: "ipfs_get_file_length X cid rpc e = Some (word_of_nat (length t), rpc, moved e w1)"
    "blocks w1 = blocks (env_world e)"
    using node_length [OF R cid t(1)] t(3) by auto
  define to where "to = realloc_bytes X [] (length t + 1) w1"
  have to: "length to = length t + 1" by (simp add: to_def)
  obtain w2 where 2: "ipfs_get_file_to_buffer X cid True to (word_of_nat (length t)) rpc (moved e w1) =
      Some ((word_of_nat (length t), t @ drop (length t) to), rpc, moved e w2)" "blocks w2 = blocks w1"
    using node_get [OF R cid, of "moved e w1" t "length t" to True] 1(2) t to by auto
  have store: "mem_store (t @ drop (length t) to) (length t) [NUL] = Some (t @ [NUL])"
    using to by (simp add: mem_store_def)
  have "cid \<noteq> []" using cid by (simp add: valid_cid_def)
  moreover have "alloc X n (moved e w1) = (True, moved e w1)" for n
    using node_readyD(1) [OF R] by simp
  ultimately show ?thesis
    using c o W 1(1) 2 1(2) store t(4)
    by (intro exI [of _ w2])
      (simp add: shell_get_file_def print_file_def ipfs_ops_def hive_ipfs_get_file_length_def
        hive_ipfs_get_file_to_buffer_def Option.is_none_def lift_call_in same_node_ctx complain_def to_def Let_def)
qed

lemma put_and_get_lines:
  assumes S: "shell_node X T serve blocks cid_of rpc ctx" and t: "typed t" "length t < 1000" "typed (cid_of t)"
    and quiet: "\<And>s w. blocks (tty_out T s w) = blocks w"
  shows "\<exists>w1 w2. blocks w1 = (blocks (env_world e))(cid_of t \<mapsto> t) \<and> blocks w2 = blocks w1 \<and>
    (\<forall>inp. shell_loop X T (''put_file '' @ t @ newline # inp) ctx e =
      shell_loop X T inp ctx (console_prompt T (console T (''CID: '' @ cid_of t @ ''.'') (moved e w1)))) \<and>
    (\<forall>inp. shell_loop X T (''get_file '' @ cid_of t @ newline # inp) ctx (console_prompt T (console T (''CID: '' @ cid_of t @ ''.'') (moved e w1))) =
      shell_loop X T inp ctx (console_prompt T (console T t (moved e w2))))"
proof -
  let ?put = "''put_file '' @ t" and ?get = "''get_file '' @ cid_of t"
  have R: "node_ready X serve blocks cid_of rpc" and run: "\<not> ctx_stop ctx" using S by (simp_all add: shell_node_def)
  have sp: "is_space CHR '' ''" by (simp add: is_space_def)
  have cmd: "typed ''put_file''" "typed ''get_file''" by code_simp+
  have wp: "words ?put = [''put_file'', t]" using words_typed [OF cmd(1) sp] words_typed_end [OF t(1)] by simp
  have wg: "words ?get = [''get_file'', cid_of t]" using words_typed [OF cmd(2) sp] words_typed_end [OF t(3)] by simp
  have pr: "list_all is_print ?put" "list_all is_print ?get"
    using typed_print [OF t(1)] typed_print [OF t(3)] by (simp_all add: is_print_def ccode_def)
  have t': "t \<noteq> []" "length t < 1024" "is_cstr t" using t(1,2) typed_cstr by (auto simp: typed_def)
  have v: "valid_cid (cid_of t)" using node_readyD(6) [OF R] t'(2) unfolding ipfs_service_def by simp
  obtain w1 where w1: "shell_put_file X T ctx [''put_file'', t] e = Some (ctx, console T (''CID: '' @ cid_of t @ ''.'') (moved e w1))"
    "blocks w1 = (blocks (env_world e))(cid_of t \<mapsto> t)"
    using shell_node_put [OF S t'(1,2)] by blast
  let ?e = "console_prompt T (console T (''CID: '' @ cid_of t @ ''.'') (moved e w1))"
  have b: "blocks (env_world ?e) = blocks w1" using quiet by (simp add: console_prompt_def console_def)
  obtain w2 where w2: "shell_get_file X T ctx [''get_file'', cid_of t] ?e = Some (ctx, console T t (moved ?e w2))"
    "blocks w2 = blocks w1"
    using shell_node_get [OF S v, of ?e t "''get_file''"] b w1(2) t' by auto
  have e: "moved ?e w2 = moved e w2" by (simp add: console_prompt_def console_def print_text_def moved_def)
  have "shell_loop X T (?put @ newline # inp) ctx e = shell_loop X T inp ctx ?e" for inp
    using w1(1) t(2) wp run
    by (intro shell_line [where handler = "shell_put_file X T", OF pr(1) line_end_newline])
      (simp_all add: run_words_def commands_def command_help_def)
  moreover have "shell_loop X T (?get @ newline # inp) ctx ?e = shell_loop X T inp ctx (console_prompt T (console T t (moved e w2)))"
    for inp
    using w2(1) v wg run e
    by (intro shell_line [where handler = "shell_get_file X T", OF pr(2) line_end_newline])
      (simp_all add: run_words_def commands_def command_help_def valid_cid_def)
  ultimately show ?thesis using w1(2) w2(2) by (intro exI [of _ w1] exI [of _ w2]) simp
qed

text \<open>
  C14: A text typed into a shell on IPFS is put on the node and its identifier is printed; typing
  the identifier back prints the text.
\<close>

theorem typed_text_is_printed_back:
  assumes S: "shell_node X T serve blocks cid_of rpc ctx" and t: "typed t" "length t < 1000" "typed (cid_of t)"
    and quiet: "\<And>s w. blocks (tty_out T s w) = blocks w"
  shows "\<exists>w1 w2. blocks w1 = (blocks (env_world e))(cid_of t \<mapsto> t) \<and> blocks w2 = blocks w1 \<and>
    (\<forall>inp. shell_loop X T (''put_file '' @ t @ newline # inp) ctx e =
      shell_loop X T inp ctx (console_prompt T (console T (''CID: '' @ cid_of t @ ''.'') (moved e w1)))) \<and>
    (\<forall>inp. shell_loop X T (''get_file '' @ cid_of t @ newline # inp) ctx (console_prompt T (console T (''CID: '' @ cid_of t @ ''.'') (moved e w1))) =
      shell_loop X T inp ctx (console_prompt T (console T t (moved e w2))))"
  using assms by (rule put_and_get_lines)

lemma pool_connected_node:
  "shell_node node_ext silent_terminal node_serve (\<lambda>w. w) (\<lambda>data. ''Qm'') pool_rpc pool_connected"
  by (simp add: shell_node_def node_ready_def node_ext_fields node_service_sample pool_rpc_def pool_connected_def
      pool_shell_def cmd_ctx_def)

theorem typed_text_is_printed_back_witness:
  "\<exists>w. w ''Qm'' = Some ''hi'' \<and>
    shell_loop node_ext silent_terminal (''put_file hi'' @ newline # ''get_file Qm'' @ [newline]) pool_connected node_env =
      Some ([], pool_connected, moved node_env w)"
proof -
  have t: "typed ''hi''" "typed ''Qm''" by code_simp+
  have q: "tty_out silent_terminal s w = w" for s w by (simp add: silent_terminal_def)
  obtain w1 w2 where w: "w1 = (env_world node_env)(''Qm'' \<mapsto> ''hi'')" "w2 = w1"
    and "\<forall>inp. shell_loop node_ext silent_terminal (''put_file '' @ ''hi'' @ newline # inp) pool_connected node_env =
      shell_loop node_ext silent_terminal inp pool_connected (moved node_env w1)"
    and "\<forall>inp. shell_loop node_ext silent_terminal (''get_file '' @ ''Qm'' @ newline # inp) pool_connected (moved node_env w1) =
      shell_loop node_ext silent_terminal inp pool_connected (moved node_env w2)"
    using typed_text_is_printed_back [OF pool_connected_node t(1) _ t(2), of node_env] q by auto
  from this(3) [THEN spec, of "''get_file '' @ ''Qm'' @ newline # []"] this(4) [THEN spec, of "[]"] w show ?thesis
    by (intro exI [of _ w1]) simp
qed

subsection \<open>Commands without an operation\<close>

definition drive_commands :: "(string \<times> nat) list" where
  \<comment> \<open>the commands whose operation a backend may lack, with their number of words\<close>
  "drive_commands = [(''del_file'', 2), (''ls'', 1), (''put_val'', 3), (''set_val'', 3), (''get_val'', 2), (''del_key'', 2)]"

lemma drive_handlers:
  "map_of (commands X T) ''del_file'' = Some (shell_delete_file X T)"
  "map_of (commands X T) ''ls'' = Some (shell_list_files X T)"
  "map_of (commands X T) ''put_val'' = Some (shell_put_value X T)"
  "map_of (commands X T) ''set_val'' = Some (shell_set_value X T)"
  "map_of (commands X T) ''get_val'' = Some (shell_get_values X T)"
  "map_of (commands X T) ''del_key'' = Some (shell_delete_key X T)"
  by (simp_all add: commands_def command_help_def)

text \<open>
  On a connection to IPFS the commands for deleting, listing and values only print that the
  operation is not supported, after the checks of their words and of the connection; the state of
  the shell and everything but the terminal stay as they are.
\<close>

theorem ipfs_shell_refuses_drive_commands:
  assumes "words line = ws" "ws \<noteq> []" "length ws \<le> 64" "map_of drive_commands (hd ws) = Some arity"
    and "ctx_connect ctx \<noteq> None \<longrightarrow> ctx_ops ctx = Some (ipfs_ops X T)"
  shows "do_cmd X T (trim_line line) ctx e = Some (ctx, console T
    (if length ws \<noteq> arity then SYNTAX_TEXT else if ctx_connect ctx = None then NO_CONNECT_TEXT else NOT_SUPPORTED_TEXT) e)"
proof -
  have ops: "op_delete_file (ipfs_ops X T) = None" "op_list_files (ipfs_ops X T) = None" "op_put_value (ipfs_ops X T) = None"
    "op_set_value (ipfs_ops X T) = None" "op_get_values (ipfs_ops X T) = None" "op_delete_key (ipfs_ops X T) = None"
    by (simp_all add: ipfs_ops_def)
  have refused: "connection_command X T cmd k op what \<Longrightarrow> op (ipfs_ops X T) = None \<Longrightarrow> cmd ctx ws e = Some (ctx, console T
    (if length ws \<noteq> k then SYNTAX_TEXT else if ctx_connect ctx = None then NO_CONNECT_TEXT else NOT_SUPPORTED_TEXT) e)"
    for cmd k op what
    using assms(5) connection_command.misused [of X T cmd k op what ws ctx e]
      connection_command.unconnected [of X T cmd k op what ws ctx e]
      connection_command.unsupported [of X T cmd k op what ws ctx _ "ipfs_ops X T" e]
    by (cases "ctx_connect ctx") (auto simp: complain_def)
  note refusals = refused [OF delete_file_cmd.connection_command_axioms, simplified ops option.map, OF refl]
    refused [OF list_files_cmd.connection_command_axioms, simplified ops option.map, OF refl]
    refused [OF put_value_cmd.connection_command_axioms, simplified ops option.map, OF refl]
    refused [OF set_value_cmd.connection_command_axioms, simplified ops option.map, OF refl]
    refused [OF get_values_cmd.connection_command_axioms, simplified ops option.map, OF refl]
    refused [OF delete_key_cmd.connection_command_axioms, simplified ops option.map, OF refl]
  have "(hd ws, arity) \<in> set drive_commands" using assms(4) by (rule map_of_SomeD)
  then have "\<exists>handler. run_words X T ws = Some handler \<and> handler ctx ws e = Some (ctx, console T
      (if length ws \<noteq> arity then SYNTAX_TEXT else if ctx_connect ctx = None then NO_CONNECT_TEXT else NOT_SUPPORTED_TEXT) e)"
    using assms(2) refusals unfolding drive_commands_def set_simps insert_iff empty_iff prod.inject run_words_def
    by (elim disjE conjE) (simp_all only: drive_handlers if_False option.inject ex_simps simp_thms not_False_eq_True)
  then show ?thesis using do_cmd_words [of line X T ctx e] assms(1-3) by auto
qed

theorem ipfs_shell_refuses_drive_commands_witness:
  "do_cmd node_ext silent_terminal ''put_val k v'' pool_connected node_env = Some (pool_connected, node_env)"
proof -
  have w: "words ''put_val k v'' = [''put_val'', ''k'', ''v'']" "trim_line ''put_val k v'' = ''put_val k v''" by code_simp+
  show ?thesis
    using ipfs_shell_refuses_drive_commands [OF w(1), of 3 pool_connected node_ext silent_terminal node_env]
    by (simp add: drive_commands_def pool_connected_def w(2))
qed

end
