(* ===== verification/Shell_Setup.thy ===== *)
theory Shell_Setup
  imports Shell_Invariant
begin

text \<open>
  From the configuration file to a connection: what \<open>load_config\<close> accepts, and that a node it accepts
  without a port makes every connection to IPFS fail.
\<close>

subsection \<open>What the loader accepts\<close>

definition loaded_node :: "('g, 's, 'w) libconfig \<Rightarrow> 's \<Rightarrow> ipfs_node \<Rightarrow> bool" where
  \<comment> \<open>the node of a setting: an address, every text it has taken from the file\<close>
  "loaded_node L nd n \<longleftrightarrow> (in_ipv4 n \<noteq> None \<or> in_ipv6 n \<noteq> None) \<and>
     in_ipv4 n \<in> {None, lc_member_string L nd ''ipv4''} \<and> in_ipv4 n \<noteq> Some [] \<and>
     in_ipv6 n \<in> {None, lc_member_string L nd ''ipv6''} \<and> in_ipv6 n \<noteq> Some [] \<and>
     (\<forall>p. in_port n = Some p \<longrightarrow> (\<exists>i. lc_member_int L nd ''port'' = Some i \<and> i \<noteq> 0 \<and> p = int_digits (sint i)))"

lemma optional_text_result:
  "optional_text X t e = (r, e') \<Longrightarrow> r \<in> {None, t} \<and> r \<noteq> Some []"
  by (auto simp: optional_text_def strdup_def is_str_def Let_def split: if_splits prod.splits option.splits)

lemma strdup_result: "strdup X s e = (Some p, e') \<Longrightarrow> p = s"
  by (auto simp: strdup_def Let_def split: if_splits prod.splits)

lemma load_nodes_loaded: "load_nodes X T L nds e = (Some ns, e') \<Longrightarrow> list_all2 (loaded_node L) nds ns"
proof (induction nds arbitrary: e ns e')
  case (Cons nd nds)
  obtain ok e1 where 1: "alloc X 24 e = (ok, e1)" by fastforce
  obtain ipv4 e2 where 2: "optional_text X (lc_member_string L nd ''ipv4'') e1 = (ipv4, e2)" by fastforce
  obtain ipv6 e3 where 3: "optional_text X (lc_member_string L nd ''ipv6'') e2 = (ipv6, e3)" by fastforce
  let ?port = "case lc_member_int L nd ''port'' of None \<Rightarrow> (None, e3)
    | Some p \<Rightarrow> if p = 0 then (None, e3) else strdup X (int_digits (sint p)) e3"
  obtain port e4 where 4: "?port = (port, e4)" by fastforce
  obtain rest e5 where 5: "load_nodes X T L nds e4 = (rest, e5)" by fastforce
  have ok: "ok" "\<not> (ipv4 = None \<and> ipv6 = None)" using Cons.prems 1 2 3 by (auto split: if_splits)
  with Cons.prems 1 2 3 4 5 obtain ns' where ns: "rest = Some ns'" "ns = \<lparr>in_ipv4 = ipv4, in_ipv6 = ipv6, in_port = port\<rparr> # ns'"
    by (auto simp: Let_def)
  have "\<exists>i. lc_member_int L nd ''port'' = Some i \<and> i \<noteq> 0 \<and> p = int_digits (sint i)" if "port = Some p" for p
    using 4 that by (auto dest: strdup_result split: option.splits if_splits)
  then show ?case
    using ok(2) ns optional_text_result [OF 2] optional_text_result [OF 3] Cons.IH [of e4 ns' e5] 5
    by (simp add: loaded_node_def)
qed simp

lemma load_config_accepts:
  assumes "load_config X T L path e = Some (Some cfg, e')"
  shows "\<exists>g w s loc. lc_read_file L path (env_fs e) (env_world e) = (Inr g, w) \<and>
    lc_lookup L g ''ipfs_rpc_nodes'' = Some s \<and> lc_is_list L s \<and> lc_elems L s \<noteq> [] \<and>
    list_all2 (loaded_node L) (lc_elems L s) (ipfs_rpc_nodes cfg) \<and>
    lc_string L g ''data_location'' = Some loc \<and> loc \<noteq> [] \<and>
    cfg_data_location cfg \<in> {None, qualified_path T loc (Some path)}"
proof -
  obtain r w where read: "lc_read_file L path (env_fs e) (env_world e) = (r, w)" by fastforce
  with assms obtain g where g: "r = Inr g" by (cases r) (simp_all add: load_config_def)
  obtain ok e1 where 1: "alloc X 40 (e\<lparr>env_world := w\<rparr>) = (ok, e1)" by fastforce
  obtain log e2 where 2: "optional_text X (lc_string L g ''logfile'') e1 = (log, e2)" by fastforce
  have ok: ok "is_str (lc_string L g ''data_location'')"
    using assms read g 1 2 by (auto simp: load_config_def Let_def split: if_splits)
  then obtain loc where loc: "lc_string L g ''data_location'' = Some loc" "loc \<noteq> []"
    by (auto simp: is_str_def split: option.splits)
  from assms read g 1 2 ok loc(1) obtain p where p: "qualified_path T loc (Some path) = Some p"
    by (cases "qualified_path T loc (Some path)") (simp_all add: load_config_def Let_def)
  obtain data e3 where 3: "strdup X p e2 = (data, e3)" by fastforce
  from assms read g 1 2 ok loc(1) p 3 obtain s where s: "lc_lookup L g ''ipfs_rpc_nodes'' = Some s" "lc_is_list L s" "lc_elems L s \<noteq> []"
    by (auto simp: load_config_def Let_def split: option.splits if_splits)
  obtain ok' e4 where 4: "alloc X (8 * length (lc_elems L s)) e3 = (ok', e4)" by fastforce
  obtain nodes e5 where 5: "load_nodes X T L (lc_elems L s) e4 = (nodes, e5)" by fastforce
  from assms read g 1 2 ok loc(1) p 3 s 4 5 obtain ns where "nodes = Some ns" "ipfs_rpc_nodes cfg = ns" "cfg_data_location cfg = data"
    by (auto simp: load_config_def Let_def split: if_splits)
  moreover have "data \<in> {None, Some p}" using strdup_result [of X p e2 _ e3] 3 by (cases data) auto
  ultimately show ?thesis using read g loc s p load_nodes_loaded [of X T L _ e4 ns e5] 5 by auto
qed

subsection \<open>A node without a port\<close>

lemma check_nodes_all: "check_nodes X ns = Some rs \<Longrightarrow> n \<in> set ns \<Longrightarrow> check_node X n \<noteq> None"
  by (induction ns arbitrary: rs) (auto simp: bind_eq_Some_conv)

lemma check_node_port: "\<not> is_str (in_port n) \<Longrightarrow> check_node X n = None"
  by (simp add: check_node_def bind_eq_None_conv)

lemma rejected_node_no_connection:
  assumes n: "n \<in> set (ipfs_rpc_nodes cfg)" "check_node X n = None"
    and ctx: "ctx_cfg ctx = Some cfg" "ctx_client ctx = Some cl" "ctx_connect ctx = None"
  shows "client_connect X T ctx [cmd, ''ipfs''] e =
    Some (ctx, console T CONNECT_TEXT (snd (alloc X (24 * length (ipfs_rpc_nodes cfg)) e)))"
proof -
  obtain ok e1 where a: "alloc X (24 * length (ipfs_rpc_nodes cfg)) e = (ok, e1)" by fastforce
  have "check_nodes X (ipfs_rpc_nodes cfg) = None" using check_nodes_all [of X "ipfs_rpc_nodes cfg" _ n] n by (cases "check_nodes X (ipfs_rpc_nodes cfg)") auto
  moreover have "ipfs_rpc_nodes cfg \<noteq> []" using n(1) by auto
  ultimately have "hive_client_connect (factory_methods X) (Some cl) (Some \<lparr>backendType = HiveBackendType_IPFS,
      \<dots> = Ipfs_Options (hive_connect_options.more (shell_ipfs_options cfg))\<rparr>) e1 = Some (None, e1)"
    by (simp add: connect_ipfs shell_ipfs_options_def ipfs_client_connect_def)
  moreover have "ctx\<lparr>ctx_connect := None\<rparr> = ctx" using ctx(3) by (cases ctx) simp
  ultimately show ?thesis using a ctx by (simp add: client_connect_def complain_def Let_def)
qed


definition portless_config :: "(unit, unit, 'w) libconfig" where
  \<comment> \<open>one node, with an address and no port\<close>
  "portless_config = \<lparr>lc_read_file = (\<lambda>path f w. (Inr (), w)), lc_int = (\<lambda>g name. None),
     lc_string = (\<lambda>g name. if name = ''data_location'' then Some ''/d'' else None), lc_lookup = (\<lambda>g name. Some ()),
     lc_is_list = (\<lambda>s. True), lc_elems = (\<lambda>s. [()]),
     lc_member_string = (\<lambda>s name. if name = ''ipv4'' then Some ''10.0.0.1'' else None), lc_member_int = (\<lambda>s name. None)\<rparr>"

definition portless_cfg :: cmd_cfg where
  "portless_cfg = \<lparr>loglevel = 3, logfile = None, cfg_data_location = Some ''/d'',
     ipfs_rpc_nodes = [\<lparr>in_ipv4 = Some ''10.0.0.1'', in_ipv6 = None, in_port = None\<rparr>]\<rparr>"

lemma sample_alloc: "alloc sample_ext n sample_env = (True, sample_env)"
  by (simp add: alloc_def sample_ext_def sample_curl_def sample_os_def curl_os.defs os.defs sample_env_def)

lemma portless_loads: "load_config sample_ext silent_terminal portless_config ''c'' sample_env = Some (Some portless_cfg, sample_env)"
proof -
  have "qualified_path (silent_terminal :: unit terminal) ''/d'' (Some ''c'') = Some ''/d''"
    by (simp add: qualified_path_def sprintf_buf_def PATH_MAX_def)
  moreover have u: "sample_env\<lparr>env_world := ()\<rparr> = sample_env" by (simp add: sample_env_def)
  ultimately show ?thesis
    by (simp add: u load_config_def portless_config_def portless_cfg_def sample_alloc optional_text_def strdup_def is_str_def Let_def)
qed


end
