(* ===== verification/Shell_Session.thy ===== *)
theory Shell_Session
  imports Shell_Node Shell_Setup
begin

text \<open>
  A whole run of the shell, from the configuration file to the end of the process: the pool of IPFS nodes
  is found in the configuration, a node of it is chosen, a text is stored and printed back.
\<close>

subsection \<open>A pool of nodes that answer\<close>

definition node_alive ::
    "('j, 'w) ext \<Rightarrow> 'w service \<Rightarrow> ('w \<Rightarrow> string \<Rightarrow> bytes option) \<Rightarrow> (bytes \<Rightarrow> string) \<Rightarrow> string \<Rightarrow> port \<Rightarrow> bool" where
  \<comment> \<open>the node keeps its promise and tells its version\<close>
  "node_alive X serve blocks cid_of ip port \<longleftrightarrow> ipfs_service X serve ip port blocks cid_of \<and>
     (\<forall>w. \<exists>cs w'. answers serve (version_request ip port) w HttpStatus_OK cs w' \<and> blocks w' = blocks w)"

lemma alive_address:
  assumes "os_still X" "curl_works X" "node_alive X serve blocks cid_of ip port" "ip \<noteq> []" "length ip \<le> 47"
  shows "\<exists>w'. try_address X ip port e = (Some (ip, port), moved e w') \<and> blocks w' = blocks (env_world e)"
proof -
  have "http_service X serve" using assms(3) by (simp add: node_alive_def ipfs_service_def)
  moreover obtain cs w' where "answers serve (version_request ip port) (env_world e) HttpStatus_OK cs w'" "blocks w' = blocks (env_world e)"
    using assms(3) unfolding node_alive_def by blast
  ultimately show ?thesis
    using answered_reachable [OF assms(1,2) _ assms(5), of serve port e cs w'] assms(4)
    by (intro exI [of _ w']) (simp add: try_address_def)
qed

lemma alive_node:
  assumes X: "os_still X" "curl_works X" and n: "node_wf X n"
    and up: "\<And>ip. ip \<noteq> [] \<Longrightarrow> ip = node_ipv4 n \<or> ip = node_ipv6 n \<Longrightarrow> node_alive X serve blocks cid_of ip (node_port n)"
  shows "\<exists>sel w'. try_node X n e = (Some sel, moved e w') \<and> blocks w' = blocks (env_world e)"
proof (cases "node_ipv4 n = []")
  case True
  then have "node_ipv6 n \<noteq> []" "length (node_ipv6 n) \<le> 47" using n by (auto simp: node_wf_def)
  with True show ?thesis using alive_address [OF X up, of "node_ipv6 n" e] by (force simp: try_node_def try_address_def)
next
  case False
  then have "length (node_ipv4 n) \<le> 47" using n by (auto simp: node_wf_def)
  with False show ?thesis using alive_address [OF X up, of "node_ipv4 n" e] by (force simp: try_node_def)
qed

lemma alive_pool:
  assumes X: "os_still X" "curl_works X" and ns: "nodes \<noteq> []" "\<forall>n \<in> set nodes. node_wf X n"
    and up: "\<And>ip port. address_of nodes ip port \<Longrightarrow> node_alive X serve blocks cid_of ip port"
    and rand: "\<And>w. blocks (snd (os_rand X w)) = blocks w"
  shows "\<exists>sel w'. select_bootstrap X nodes e = Some ((0, Some sel), moved e w') \<and> blocks w' = blocks (env_world e)"
proof -
  obtain r w where r: "os_rand X (env_world e) = (r, w)" by fastforce
  obtain n ns' where n: "rotate (r mod length nodes) nodes = n # ns'" using ns(1) by (cases "rotate (r mod length nodes) nodes") auto
  then have "n \<in> set nodes" by (metis list.set_intros(1) set_rotate)
  with ns(2) have wf: "node_wf X n" by blast
  have "node_alive X serve blocks cid_of ip (node_port n)" if "ip \<noteq> []" "ip = node_ipv4 n \<or> ip = node_ipv6 n" for ip
    using that \<open>n \<in> set nodes\<close> by (intro up) (auto simp: address_of_def)
  from alive_node [OF X wf this, of "e\<lparr>env_world := w\<rparr>"] obtain sel w' where
    "try_node X n (e\<lparr>env_world := w\<rparr>) = (Some sel, moved (e\<lparr>env_world := w\<rparr>) w')" "blocks w' = blocks w" by auto
  moreover have "moved (e\<lparr>env_world := w\<rparr>) w' = moved e w'" by (simp add: moved_def)
  moreover have "blocks w = blocks (env_world e)" using rand [of "env_world e"] r by simp
  ultimately show ?thesis using select_round_robin [OF ns(1) r] n by (intro exI [of _ sel] exI [of _ w']) simp
qed

subsection \<open>Connecting to it\<close>

lemma shell_connects:
  assumes X: "os_still X" "curl_works X" and nodes: "check_nodes X (ipfs_rpc_nodes cfg) = Some nodes" "nodes \<noteq> []"
    and up: "\<And>ip port. address_of nodes ip port \<Longrightarrow> node_alive X serve blocks cid_of ip port"
    and rand: "\<And>w. blocks (snd (os_rand X w)) = blocks w"
    and ctx: "ctx_cfg ctx = Some cfg" "ctx_client ctx = Some cl" "ctx_connect ctx = None" "\<not> ctx_stop ctx"
  shows "\<exists>ctx' rpc w'. client_connect X T ctx [cmd, ''ipfs''] e = Some (ctx', moved e w') \<and>
    shell_node X T serve blocks cid_of rpc ctx' \<and> blocks w' = blocks (env_world e)"
proof -
  have ne: "ipfs_rpc_nodes cfg \<noteq> []" using nodes by auto
  obtain sel w' where s: "select_bootstrap X nodes e = Some ((0, Some sel), moved e w')" "blocks w' = blocks (env_world e)"
    using alive_pool [OF X nodes(2) _ up rand, of e] check_nodes_wf [OF nodes(1)] by blast
  let ?rpc = "set_current (Some sel) \<lparr>current_node_ip = [], current_node_port = 0, rpc_nodes = nodes\<rparr>"
  let ?x = "hive_connect_options.more (shell_ipfs_options cfg)"
  have "rpc_node_list \<lparr>backendType = HiveBackendType_IPFS, \<dots> = ?x\<rparr> = ipfs_rpc_nodes cfg" by (simp add: shell_ipfs_options_def)
  then have c: "ipfs_client_connect X cl \<lparr>backendType = HiveBackendType_IPFS, \<dots> = ?x\<rparr> e = Some (Some (ipfs_methods X ?rpc), moved e w')"
    using ne nodes(1) X(1) s(1) by (simp add: ipfs_client_connect_def ipfs_rpc_new_def neg_def)
  from connect_wf [OF c] have wf: "rpc_wf X ?rpc" "current_node_ip ?rpc \<noteq> []" "rpc_nodes ?rpc = nodes"
    using nodes(1) by (auto simp: ipfs_methods_def no_methods_def set_current_def split: prod.splits)
  then have a: "address_of nodes (current_node_ip ?rpc) (current_node_port ?rpc)" by (simp add: rpc_wf_def)
  with wf(1,3) have "length (current_node_ip ?rpc) \<le> 47" by (auto simp: address_of_def rpc_wf_def node_wf_def)
  with X wf(2) up [OF a] have R: "node_ready X serve blocks cid_of ?rpc" by (simp add: node_ready_def node_alive_def)
  let ?ctx = "ctx\<lparr>ctx_connect := Some (ipfs_connection X ?rpc), ctx_ops := Some (ipfs_ops X T)\<rparr>"
  have "client_connect X T ctx [cmd, ''ipfs''] e = Some (?ctx, moved e w')"
    using ctx c X(1) by (simp add: client_connect_def connect_ipfs ipfs_connection_def)
  moreover have "shell_node X T serve blocks cid_of ?rpc ?ctx" using R ctx(4) by (simp add: shell_node_def)
  ultimately show ?thesis using s(2) by (intro exI [of _ ?ctx] exI [of _ ?rpc] exI [of _ w']) simp
qed

lemma disconnects:
  "shell_node X T serve blocks cid_of rpc ctx \<Longrightarrow> deinit (ctx\<lparr>ctx_stop := s\<rparr>) e = Some e"
  by (simp add: shell_node_def deinit_def hive_client_disconnect_def ipfs_connection_def lift_connect_def lift_call_def
      ipfs_methods_def ipfs_disconnect_def)

subsection \<open>The run\<close>

lemma exit_line: "shell_loop X T (''exit'' @ newline # inp) ctx e = Some (inp, ctx\<lparr>ctx_stop := True\<rparr>, e)"
proof -
  have w: "words ''exit'' = [''exit'']" "list_all is_print ''exit''" by code_simp+
  then show ?thesis
    using read_line [OF w(2) line_end_newline, of T inp e] do_cmd_words [of "''exit''" X T ctx e]
    by (subst shell_loop.simps) (simp add: run_words_def commands_def command_help_def exit_app_def)
qed

lemma connect_line:
  assumes kind: "typed kind" "length kind < 1000"
    and c: "client_connect X T ctx [''connect'', kind] e = Some (ctx', e')" "\<not> ctx_stop ctx'"
  shows "shell_loop X T (''connect '' @ kind @ newline # inp) ctx e = shell_loop X T inp ctx' (console_prompt T e')"
proof -
  have "typed ''connect''" "is_space CHR '' ''" by code_simp+
  then have w: "words (''connect '' @ kind) = [''connect'', kind]"
    using words_typed [of "''connect''" "CHR '' ''" kind] words_typed_end [OF kind(1)] by simp
  have p: "list_all is_print (''connect '' @ kind)" using typed_print [OF kind(1)] by (simp add: is_print_def ccode_def)
  show ?thesis
    using w c kind(2)
    by (intro shell_line [where handler = "client_connect X T", OF p line_end_newline, unfolded append_assoc])
      (simp_all add: run_words_def commands_def command_help_def)
qed

lemma main_reaches_the_loop:
  assumes X: "os_still X" and path: "path \<noteq> []" "length path < 2048" "fs_lookup (env_fs e) path \<noteq> None"
    and load: "load_config X T L path e = Some (Some cfg, e1)"
    and loc: "cfg_data_location cfg = Some loc" "loc \<noteq> []" "fs_lookup (env_fs e1) loc = Some FDir"
  shows "shell_main X T L prog [Cli_Value path] inp e =
    do { (rest, ctx, e) \<leftarrow> shell_loop X T inp (cmd_ctx\<lparr>ctx_cfg := Some cfg, ctx_client := Some \<lparr>data_location = loc\<rparr>\<rparr>)
           (console_prompt T (set_errno EEXIST e1));
         e \<leftarrow> deinit ctx e; Some (0, e) }"
proof -
  have f: "fault X c e = (False, e)" for c e using X by (simp add: os_still_def fault_def)
  obtain n where "fs_lookup (env_fs e) path = Some n" using path(3) by blast
  then have "sys_stat X path e = (Some n, e)" using f by (simp add: sys_stat_def)
  moreover have "sys_mkdir X loc e1 = (False, set_errno EEXIST e1)" using f loc(2,3) by (simp add: sys_mkdir_def)
  moreover have "hive_client_new X (Some (Some loc)) (set_errno EEXIST e1) = (Some \<lparr>data_location = loc\<rparr>, set_errno EEXIST e1)"
    using f X loc(2,3) by (simp add: hive_client_new_def sys_stat_def set_errno_def)
  ultimately show ?thesis
    using path(1,2) load loc(1) by (simp add: shell_main_def sprintf_buf_def config_path_def set_errno_def)
qed

text \<open>
  C7: A shell that is started with a configuration whose IPFS nodes answer connects to one of
  them, stores a typed text there under its identifier, prints the text again when the identifier
  is typed, and ends with 0 at exit.
\<close>

theorem configured_session_stores_a_text:
  assumes X: "os_still X" "curl_works X" and path: "path \<noteq> []" "length path < 2048" "fs_lookup (env_fs e) path \<noteq> None"
    and load: "load_config X T L path e = Some (Some cfg, e1)"
    and loc: "cfg_data_location cfg = Some loc" "loc \<noteq> []" "fs_lookup (env_fs e1) loc = Some FDir"
    and nodes: "check_nodes X (ipfs_rpc_nodes cfg) = Some nodes"
    and up: "\<And>ip port. address_of nodes ip port \<Longrightarrow> node_alive X serve blocks cid_of ip port"
    and rand: "\<And>w. blocks (snd (os_rand X w)) = blocks w" and quiet: "\<And>s w. blocks (tty_out T s w) = blocks w"
    and t: "typed t" "length t < 1000" "typed (cid_of t)"
  shows "\<exists>e2 w. env_fs e2 = env_fs e1 \<and> env_err e2 = env_err e1 \<and> blocks w = (blocks (env_world e1))(cid_of t \<mapsto> t) \<and>
    shell_main X T L prog [Cli_Value path] (''connect ipfs'' @ newline # ''put_file '' @ t @ newline #
      ''get_file '' @ cid_of t @ newline # ''exit'' @ [newline]) e = Some (0, console_prompt T (console T t (moved e2 w)))"
proof -
  let ?ctx = "cmd_ctx\<lparr>ctx_cfg := Some cfg, ctx_client := Some \<lparr>data_location = loc\<rparr>\<rparr>"
  let ?e = "console_prompt T (set_errno EEXIST e1)"
  have "ipfs_rpc_nodes cfg \<noteq> []" using load_config_accepts [OF load] by auto
  then have ne: "nodes \<noteq> []" using check_nodes_wf [OF nodes] by auto
  obtain ctx rpc w1 where c: "client_connect X T ?ctx [''connect'', ''ipfs''] ?e = Some (ctx, moved ?e w1)"
    and S: "shell_node X T serve blocks cid_of rpc ctx" and b1: "blocks w1 = blocks (env_world ?e)"
    using shell_connects [OF X nodes ne up rand, of ?ctx "\<lparr>data_location = loc\<rparr>" T "''connect''" ?e]
    by (auto simp: cmd_ctx_def)
  have run: "\<not> ctx_stop ctx" using S by (simp add: shell_node_def)
  have k: "typed ''ipfs''" by code_simp
  let ?e1 = "console_prompt T (moved ?e w1)"
  obtain w2 w3 where w: "blocks w2 = (blocks (env_world ?e1))(cid_of t \<mapsto> t)" "blocks w3 = blocks w2"
    and put: "\<And>inp. shell_loop X T (''put_file '' @ t @ newline # inp) ctx ?e1 =
      shell_loop X T inp ctx (console_prompt T (console T (''CID: '' @ cid_of t @ ''.'') (moved ?e1 w2)))"
    and get: "\<And>inp. shell_loop X T (''get_file '' @ cid_of t @ newline # inp) ctx (console_prompt T (console T (''CID: '' @ cid_of t @ ''.'') (moved ?e1 w2))) =
      shell_loop X T inp ctx (console_prompt T (console T t (moved ?e1 w3)))"
    using put_and_get_lines [OF S t quiet, of ?e1] by metis
  have "blocks (env_world ?e1) = blocks (env_world e1)"
    using quiet b1 by (simp add: console_prompt_def set_errno_def)
  moreover have "env_fs ?e1 = env_fs e1" "env_err ?e1 = env_err e1" by (simp_all add: console_prompt_def set_errno_def moved_def)
  moreover have "shell_main X T L prog [Cli_Value path] (''connect ipfs'' @ newline # ''put_file '' @ t @ newline #
      ''get_file '' @ cid_of t @ newline # ''exit'' @ [newline]) e = Some (0, console_prompt T (console T t (moved ?e1 w3)))"
    unfolding main_reaches_the_loop [OF X(1) path load loc] 
    using connect_line [OF k _ c run] put get disconnects [OF S] exit_line [of X T "[]"] by simp
  ultimately show ?thesis using w by (intro exI [of _ ?e1] exI [of _ w3]) simp
qed

definition session_config :: "(unit, unit, 'w) libconfig" where
  "session_config = \<lparr>lc_read_file = (\<lambda>path f w. (Inr (), w)), lc_int = (\<lambda>g name. None),
     lc_string = (\<lambda>g name. if name = ''data_location'' then Some ''/d'' else None), lc_lookup = (\<lambda>g name. Some ()),
     lc_is_list = (\<lambda>s. True), lc_elems = (\<lambda>s. [()]),
     lc_member_string = (\<lambda>s name. if name = ''ipv4'' then Some ''10.0.0.1'' else None),
     lc_member_int = (\<lambda>s name. Some 5001)\<rparr>"

definition session_env :: "node_world env" where
  "session_env = node_env\<lparr>env_fs := [''c'' \<mapsto> FFile [], ''/d'' \<mapsto> FDir]\<rparr>"

lemma session_loads:
  assumes "os_still X"
  shows "load_config X T session_config ''c'' e = Some (Some pool_cfg, e)"
proof -
  have q: "qualified_path T ''/d'' (Some ''c'') = Some ''/d''"
    by (simp add: qualified_path_def sprintf_buf_def PATH_MAX_def)
  have d: "int_digits 5001 = ''5001''"
    by (simp add: int_digits_def nat_digits.simps char_of_def bit_0)
  show ?thesis
    by (simp add: load_config_def session_config_def pool_cfg_def pool_options_def alloc_still [OF assms]
        optional_text_def strdup_def is_str_def Let_def q d)
qed

lemma pool_alive: "node_alive node_ext node_serve (\<lambda>w. w) (\<lambda>data. ''Qm'') ip port"
  by (simp add: node_alive_def node_service_sample answers_def node_serve_def version_request_def url_part_def)

theorem configured_session_stores_a_text_witness:
  "\<exists>e'. env_world e' ''Qm'' = Some ''hi'' \<and>
    shell_main node_ext silent_terminal session_config ''cmd'' [Cli_Value ''c''] (''connect ipfs'' @ newline # ''put_file '' @ ''hi'' @ newline #
      ''get_file '' @ ''Qm'' @ newline # ''exit'' @ [newline]) session_env = Some (0, e')"
proof -
  have fs: "fs_lookup (env_fs session_env) ''c'' \<noteq> None" "fs_lookup (env_fs session_env) ''/d'' = Some FDir"
    by (simp_all add: fs_lookup_def fs_key_def session_env_def)
  have loc: "cfg_data_location pool_cfg = Some ''/d''" by (simp add: pool_cfg_def)
  have nodes: "check_nodes node_ext (ipfs_rpc_nodes pool_cfg) = Some pool_nodes" using pool_checked by (simp add: pool_cfg_def)
  have r: "snd (os_rand node_ext w) = w" for w
    by (simp add: node_ext_def json_ext_def sample_curl_def sample_os_def curl_os.defs os.defs)
  have o: "tty_out silent_terminal s w = w" for s w by (simp add: silent_terminal_def)
  have t: "typed ''hi''" "typed ''Qm''" by code_simp+
  have p: "''c'' \<noteq> []" "length ''c'' < 2048" "''/d'' \<noteq> []" "length ''hi'' < 1000" by simp_all
  from configured_session_stores_a_text [where blocks = "\<lambda>w. w" and cid_of = "\<lambda>data. ''Qm''" and t = "''hi''" and prog = "''cmd''",
        OF node_ext_fields(1,2) p(1,2) fs(1) session_loads [OF node_ext_fields(1)] loc p(3) fs(2) nodes pool_alive r o t(1) p(4) t(2)]
  obtain e2 w where w: "w = (env_world session_env)(''Qm'' \<mapsto> ''hi'')"
    and m: "shell_main node_ext silent_terminal session_config ''cmd'' [Cli_Value ''c''] (''connect ipfs'' @ newline # ''put_file '' @ ''hi'' @ newline #
      ''get_file '' @ ''Qm'' @ newline # ''exit'' @ [newline]) session_env = Some (0, moved e2 w)"
    unfolding silent_console by blast
  have "env_world (moved e2 w) ''Qm'' = Some ''hi''" unfolding w by simp
  with m show ?thesis by blast
qed

end
