(* ===== verification/Shell_Login.thy ===== *)
theory Shell_Login
  imports Shell_Session Shell_Drive Onedrive_Login
begin

text \<open>
  A whole run of the shell on OneDrive: the first connection logs in through the browser, values are
  stored on the drive and shown, and the tokens are left in the key store.
\<close>

subsection \<open>Connecting\<close>

lemma shell_options_good: "good_options (shell_onedrive_options T)"
  by (simp add: good_options_def shell_onedrive_options_def HIVETEST_ONEDRIVE_CLIENT_ID_def HIVETEST_SCOPE_def
      HIVETEST_REDIRECT_URL_def is_str_def prefixb_def)

lemma shell_logs_in:
  assumes X: "os_works X" "curl_works X" "http_service X serve" "cj_new_object X = Some j0" "token_json X tok j0 = Some j"
    and s: "prints_back X j s" "length s < 4096"
    and l: "logs_in X serve (open_url T) (fresh_token X loc (shell_onedrive_options T)) (env_world e) tok w"
    and fs: "no_keystore loc (env_fs e)"
    and ctx: "ctx_client ctx = Some \<lparr>data_location = loc\<rparr>" "ctx_connect ctx = None"
  shows "\<exists>n. client_connect X T ctx [cmd, ''onedrive''] e =
    Some (ctx\<lparr>ctx_connect := Some (onedrive_connection X \<lparr>od_token = tok, keystore_path = keystore_file loc\<rparr>),
        ctx_ops := Some (general_ops X)\<rparr>,
      (moved e w)\<lparr>env_errno := n, env_fs := with_keystore loc (s @ [NUL]) (env_fs e)\<rparr>)"
proof -
  let ?opts = "shell_onedrive_options T"
  have o: "\<lparr>backendType = HiveBackendType_OneDrive, \<dots> = hive_connect_options.more ?opts\<rparr> = ?opts"
    "the (ood_callback ?opts) = open_url T"
    by (simp_all add: shell_onedrive_options_def)
  have "logs_in X serve (the (ood_callback ?opts)) (fresh_token X loc ?opts) (env_world e) tok w" using l o(2) by simp
  then obtain n where "onedrive_client_connect X \<lparr>data_location = loc\<rparr> ?opts e =
    Some (Some (onedrive_methods X \<lparr>od_token = tok, keystore_path = keystore_file loc\<rparr>),
      (moved e w)\<lparr>env_errno := n, env_fs := with_keystore loc (s @ [NUL]) (env_fs e)\<rparr>)"
    using login_connects [OF X shell_options_good s _ fs] by blast
  then show ?thesis
    using ctx by (intro exI [of _ n]) (simp add: client_connect_def connect_onedrive o(1) onedrive_connection_def)
qed

lemma onedrive_disconnects:
  "ctx_connect ctx = Some (onedrive_connection X d) \<Longrightarrow> deinit ctx e = Some e"
  by (simp add: deinit_def hive_client_disconnect_def onedrive_connection_def lift_connect_def lift_call_def
      onedrive_methods_def od_disconnect_def as_onedrive_def)

subsection \<open>The run\<close>

text \<open>
  C5: A shell that is started for the first time with a configuration and told to connect to
  OneDrive opens the authorization page and logs in with the code the browser, shown this page,
  brings to the redirect URL; a value typed then is stored on the drive behind the earlier values
  of its key, asking for the key prints all of them, the tokens, whose text is shorter than 4096
  bytes, are in the key store, and the program ends with 0 at exit.
\<close>

theorem first_session_logs_in_and_stores:
  assumes X: "os_works X" "curl_works X" "cj_new_object X = Some j0" "token_json X tok j0 = Some j"
    and path: "path \<noteq> []" "length path < 2048" "fs_lookup (env_fs e) path \<noteq> None"
    and load: "load_config X T L path e = Some (Some cfg, e1)"
    and loc: "cfg_data_location cfg = Some loc" "no_keystore loc (env_fs e1)"
    and s: "prints_back X j s" "length s < 4096"
    and l: "logs_in X serve (open_url T) (fresh_token X loc (shell_onedrive_options T)) (env_world (console_prompt T e1)) tok w"
    and R: "drive_ready X serve auth files durl tok" and quiet: "\<And>s w. files (tty_out T s w) = files w"
    and typed: "typed key" "typed v" "length key \<le> 800" "length key + length v < 1000"
    and st: "stored (files w) key vs" "fits_drive (vs @ [v @ [NUL]])"
  shows "\<exists>e'. files (env_world e') = (files w)(key_path key \<mapsto> kv_encode (vs @ [v @ [NUL]])) \<and>
    fs_lookup (env_fs e') (keystore_file loc) = Some (FFile (s @ [NUL])) \<and>
    shell_main X T L prog [Cli_Value path] (''connect onedrive'' @ newline # ''put_val '' @ key @ '' '' @ v @ newline #
      ''get_val '' @ key @ newline # ''exit'' @ [newline]) e =
      Some (0, console_prompt T (fold (\<lambda>u. console T (cstr u)) (vs @ [v @ [NUL]]) e'))"
proof -
  let ?start = "cmd_ctx\<lparr>ctx_cfg := Some cfg, ctx_client := Some \<lparr>data_location = loc\<rparr>\<rparr>"
  let ?d = "\<lparr>od_token = tok, keystore_path = keystore_file loc\<rparr>" and ?b = "console_prompt T (set_errno EEXIST e1)"
  let ?ctx = "?start\<lparr>ctx_connect := Some (onedrive_connection X ?d), ctx_ops := Some (general_ops X)\<rparr>"
  have S: "shell_drive X serve auth files durl ?d ?ctx" using R by (simp add: shell_drive_def cmd_ctx_def)
  have e0: "env_world ?b = env_world (console_prompt T e1)" "env_fs ?b = env_fs e1"
    by (simp_all add: console_prompt_def set_errno_def)
  have l0: "logs_in X serve (open_url T) (fresh_token X loc (shell_onedrive_options T)) (env_world ?b) tok w"
    "no_keystore loc (env_fs ?b)"
    using l loc(2) e0 by simp_all
  have "ctx_client ?start = Some \<lparr>data_location = loc\<rparr>" "ctx_connect ?start = None" by (simp_all add: cmd_ctx_def)
  from shell_logs_in [OF X(1,2) drive_readyD(3) [OF R] X(3,4) s l0 this, of "''connect''"] obtain n where
    c: "client_connect X T ?start [''connect'', ''onedrive''] ?b =
      Some (?ctx, (moved ?b w)\<lparr>env_errno := n, env_fs := with_keystore loc (s @ [NUL]) (env_fs e1)\<rparr>)"
    unfolding e0(2) by blast
  let ?e1 = "console_prompt T ((moved ?b w)\<lparr>env_errno := n, env_fs := with_keystore loc (s @ [NUL]) (env_fs e1)\<rparr>)"
  have st1: "stored (files (env_world ?e1)) key vs" and f1: "files (env_world ?e1) = files w"
    using st(1) quiet by (simp_all add: console_prompt_def)
  obtain w1 where w1: "files w1 = (files w)(key_path key \<mapsto> kv_encode (vs @ [v @ [NUL]]))"
    and lines: "\<And>inp. shell_loop X T (''put_val '' @ key @ '' '' @ v @ newline # ''get_val '' @ key @ newline # inp) ?ctx ?e1 =
      shell_loop X T inp ?ctx (console_prompt T (fold (\<lambda>u. console T (cstr u)) (vs @ [v @ [NUL]]) (moved ?e1 w1)))"
    using value_lines [OF S typed st1 st(2) quiet] unfolding f1 by blast
  have k: "typed ''onedrive''" "\<not> ctx_stop ?ctx" by (code_simp, simp add: cmd_ctx_def)
  have dir: "loc \<noteq> []" "fs_lookup (env_fs e1) loc = Some FDir"
    using loc(2) unfolding no_keystore_def plain_dir_def dir_chain_def by auto
  have "fs_lookup (env_fs (moved ?e1 w1)) (keystore_file loc) = Some (FFile (s @ [NUL]))"
    using kept_keystore(1) [OF loc(2)] by (simp add: console_prompt_def moved_def)
  moreover have "shell_main X T L prog [Cli_Value path] (''connect onedrive'' @ newline # ''put_val '' @ key @ '' '' @ v @ newline #
      ''get_val '' @ key @ newline # ''exit'' @ [newline]) e =
      Some (0, console_prompt T (fold (\<lambda>u. console T (cstr u)) (vs @ [v @ [NUL]]) (moved ?e1 w1)))"
    unfolding main_reaches_the_loop [OF os_worksD(1) [OF X(1)] path load loc(1) dir]
    using connect_line [OF k(1) _ c k(2)] lines exit_line [of X T "[]" ?ctx] onedrive_disconnects [of "?ctx\<lparr>ctx_stop := True\<rparr>" X ?d]
    by simp
  ultimately show ?thesis using w1 by (intro exI [of _ "moved ?e1 w1"]) simp
qed

subsection \<open>An example\<close>

definition session_serve :: "drive_world service" where
  \<comment> \<open>the drive, with a token server at its side\<close>
  "session_serve rq w = (if CURLOPT_POST \<in> set (rq_opts rq) then (200, [''{''], (fst w, 200)) else drive_serve rq w)"

definition session_json :: json where
  "session_json = JObj [(''client_id'', JStr HIVETEST_ONEDRIVE_CLIENT_ID), (''token_type'', JStr ''bearer''), (''access_token'', JStr ''at''),
     (''refresh_token'', JStr ''rt''), (''expires_at'', JNum 4600)]"

definition session_ext :: "(json, drive_world) ext" where
  \<comment> \<open>the number in the world counts the polls of the login\<close>
  "session_ext = json_ext\<lparr>os_poll := (\<lambda>addr w.
       if addr = (Some ''localhost'', Some ''12345'') then (browser_input (unat (snd w)), (fst w, snd w + 1)) else os_poll sample_os addr w),
     curl_url_get := url_parts,
     curl_perform := (\<lambda>rq wr s w. case session_serve rq w of (st, cs, w') \<Rightarrow>
        (case deliver wr cs s w' of Some s' \<Rightarrow> (CURLE_OK, s', w') | None \<Rightarrow> (23, s, w))),
     curl_response_code := (\<lambda>w. (CURLE_OK, snd w)),
     cj_parse := (\<lambda>t. if take 1 t = ''{'' then Some token_answer else if take 1 t = ''t'' then Some session_json else drive_json t),
     cj_print := (\<lambda>j. Some ''tok'')\<rparr>"

definition session_page :: string where
  \<comment> \<open>the authorization page of the shell\<close>
  "session_page = login_page (fresh_token session_ext ''/d'' (shell_onedrive_options silent_terminal))"

definition session_terminal :: "drive_world terminal" where
  \<comment> \<open>the command that opens this page starts the browser, any other does nothing\<close>
  "session_terminal = silent_terminal\<lparr>tty_system := (\<lambda>cmd w. if Some cmd = open_url_command session_page then (fst w, 1) else w)\<rparr>"

definition session_token :: "(json, drive_world) oauth_token" where
  "session_token = with_grant (fresh_token session_ext ''/d'' (shell_onedrive_options session_terminal)) login_grant
     \<lparr>tv_sec = 1000, tv_usec = 0\<rparr>"

lemma session_ext_fields:
  "os_works session_ext" "curl_works session_ext" "http_service session_ext session_serve"
  "cj_new_object session_ext = Some (JObj [])" "curl_easy_escape session_ext t v = (Some t, v)"
  "curl_url_get session_ext = url_parts" "curl_url_set session_ext log call = CURLUE_OK"
  "os_now session_ext v = (\<lparr>tv_sec = 1000, tv_usec = 0\<rparr>, v)"
  by (auto simp: os_works_def os_still_def curl_works_def http_service_def session_ext_def session_serve_def drive_serve_def Let_def
      json_ext_def sample_curl_def sample_os_def curl_os.defs os.defs split: option.splits if_splits prod.splits)

lemma session_reads: "reads_drive session_ext"
proof -
  have "take 1 (drive_text n path @ rest) \<noteq> ''{'' \<and> take 1 (drive_text n path @ rest) \<noteq> ''t''" for n path rest
    by (cases n) (simp_all add: drive_text_def NUL_def)
  then show ?thesis
    by (simp add: reads_drive_def session_ext_def json_ext_def curl_os.defs drive_json_text)
qed

lemma session_ready: "drive_ready session_ext session_serve ''at'' fst (\<lambda>path. CHR ''d'' # path) session_token"
proof -
  have "drive_service session_ext session_serve ''at'' fst (\<lambda>path. CHR ''d'' # path)"
    by (rule drive_service_like [OF session_ext_fields(3) session_reads]) (simp add: session_serve_def drive_request_def)
  then show ?thesis
    using session_ext_fields os_worksD(1) [OF session_ext_fields(1)]
    by (simp add: drive_ready_def session_token_def with_grant_def login_grant_def timeradd_def timer_after_def)
qed

lemma session_page: "login_page (fresh_token session_ext ''/d'' (shell_onedrive_options T)) = session_page"
  by (simp add: session_page_def login_page_def authorize_log_def fresh_token_def shell_onedrive_options_def)

lemma opens_browser: "open_url session_terminal session_page w = (fst w, 1)"
proof -
  obtain cmd where c: "open_url_command session_page = Some cmd" by (simp add: open_url_command_def sprintf_buf_def)
  then show ?thesis by (simp add: open_url_def session_terminal_def)
qed

lemma session_logs_in:
  "logs_in session_ext session_serve (open_url session_terminal)
     (fresh_token session_ext ''/d'' (shell_onedrive_options session_terminal)) (f, 0) session_token (f, 200)"
proof -
  let ?fresh = "fresh_token session_ext ''/d'' (shell_onedrive_options session_terminal)"
  have sch: "redirect_schedule session_ext ''localhost'' ''12345'' (f, 1) 1000 5 ''1.2.3.4'' [take 9 sample_request, drop 9 sample_request] (f, 5)"
    by (simp add: redirect_schedule_def session_ext_def browser_input_def LISTEN_FD_def)
  have "login_urls session_ext ?fresh session_page ''localhost'' ''12345'' ''/''"
    unfolding session_page [symmetric, of session_terminal]
    by (rule parts_of_login) (simp_all add: session_ext_fields fresh_token_def shell_onedrive_options_def HIVETEST_REDIRECT_URL_def)
  then have "browser_agrees session_ext ?fresh (open_url session_terminal) (f, 0) ''ab'' (f, 5)"
    unfolding browser_agrees_def
    by (intro exI [of _ session_page] exI [of _ "''localhost''"] exI [of _ "''12345''"] exI [of _ "''/''"] exI [of _ 1000] exI [of _ 5]
        exI [of _ "''1.2.3.4''"] exI [of _ "[take 9 sample_request, drop 9 sample_request]"])
      (simp add: opens_browser sch sample_code_request)
  moreover have "grants session_ext ''{'' login_grant"
    by (simp add: grants_def login_grant_def session_ext_def json_ext_def token_answer_def member_def IS_STRING_NODE_def
        is_str_def curl_os.defs neg_def)
  then have "code_granted session_ext session_serve ?fresh ''ab'' (f, 5) login_grant (f, 200)"
    unfolding code_granted_def
    by (intro exI [of _ "\<lambda>s. s"] exI [of _ "[''{'']"])
      (simp add: session_ext_fields login_body_def fresh_token_def shell_onedrive_options_def HIVETEST_ONEDRIVE_CLIENT_ID_def
        HIVETEST_REDIRECT_URL_def answers_def session_serve_def token_request_def)
  ultimately show ?thesis using session_ext_fields(8) unfolding logs_in_def session_token_def by blast
qed

lemma session_kept:
  "token_json session_ext session_token (JObj []) = Some session_json" "prints_back session_ext session_json ''tok''"
  by (simp_all add: session_ext_def json_ext_def curl_os.defs token_json_def session_token_def with_grant_def fresh_token_def
      login_grant_def shell_onedrive_options_def session_json_def add_string_def with_member_def prints_back_def timeradd_def Let_def)

theorem first_session_logs_in_and_stores_witness:
  "\<exists>e'. fst (env_world e') ''/KeyValues/k'' = Some (kv_encode [''one'' @ [NUL]]) \<and>
    fs_lookup (env_fs e') (keystore_file ''/d'') = Some (FFile (''tok'' @ [NUL])) \<and>
    shell_main session_ext session_terminal session_config ''cmd'' [Cli_Value ''c''] (''connect onedrive'' @ newline # ''put_val k one'' @ newline #
      ''get_val k'' @ newline # ''exit'' @ [newline]) (drive_env\<lparr>env_fs := [''c'' \<mapsto> FFile [], ''/d'' \<mapsto> FDir], env_world := (\<lambda>p. None, 0)\<rparr>) = Some (0, e')"
proof -
  let ?f = "[''c'' \<mapsto> FFile [], ''/d'' \<mapsto> FDir]" and ?e = "drive_env\<lparr>env_fs := [''c'' \<mapsto> FFile [], ''/d'' \<mapsto> FDir], env_world := (\<lambda>p. None, 0)\<rparr>"
  have c: "fs_lookup (env_fs ?e) ''c'' \<noteq> None" by (simp add: fs_lookup_def fs_key_def)
  have fs: "no_keystore ''/d'' (env_fs ?e)"
    by (auto simp: no_keystore_def plain_dir_def dir_chain_def Cons_eq_append_conv fs_lookup_def fs_key_def keystore_dir_def
        keystore_file_def PATH_MAX_def)
  have loc: "cfg_data_location pool_cfg = Some ''/d''" by (simp add: pool_cfg_def)
  have o: "tty_out session_terminal s w = w" for s w by (simp add: session_terminal_def silent_terminal_def)
  then have quiet: "console session_terminal s e = e" "console_prompt session_terminal e = e" for s e
    by (simp_all add: console_def console_prompt_def print_text_def)
  have l: "logs_in session_ext session_serve (open_url session_terminal) (fresh_token session_ext ''/d'' (shell_onedrive_options session_terminal))
      (env_world (console_prompt session_terminal ?e)) session_token (\<lambda>p. None, 200)"
    using session_logs_in by (simp add: quiet)
  have t: "typed ''k''" "typed ''one''" by code_simp+
  have k: "key_path ''k'' = ''/KeyValues/k''" by (simp add: key_path_short short_key_def NUL_def)
  have st: "stored (fst (\<lambda>p. None, 200 :: c_long)) ''k'' []" "fits_drive ([] @ [''one'' @ [NUL]])"
    by (simp_all add: stored_def fits_drive_def)
  from first_session_logs_in_and_stores [where prog = "''cmd''" and path = "''c''", OF session_ext_fields(1,2,4) session_kept(1) _ _ c
      session_loads [OF os_worksD(1) [OF session_ext_fields(1)]] loc fs session_kept(2) _ l session_ready _ t _ _ st] o
  obtain e' where "fst (env_world e') = (fst (\<lambda>p. None, 200 :: c_long))(key_path ''k'' \<mapsto> kv_encode ([] @ [''one'' @ [NUL]]))"
    "fs_lookup (env_fs e') (keystore_file ''/d'') = Some (FFile (''tok'' @ [NUL]))"
    "shell_main session_ext session_terminal session_config ''cmd'' [Cli_Value ''c''] (''connect onedrive'' @ newline # ''put_val '' @ ''k'' @ '' '' @ ''one'' @ newline #
      ''get_val '' @ ''k'' @ newline # ''exit'' @ [newline]) ?e = Some (0, console_prompt session_terminal
        (fold (\<lambda>u. console session_terminal (cstr u)) ([] @ [''one'' @ [NUL]]) e'))"
    by auto
  then show ?thesis by (intro exI [of _ e']) (simp add: quiet k)
qed

end
