(* ===== verification/Prober.thy ===== *)
theory Prober
  imports Shell_Config Http_Service Oauth_Flow
begin

text \<open>
  \<open>src/apps/prober/prober.c\<close>: the program that tells which IPFS nodes answer. The parsing of the command
  line (\<open>getopt_long\<close>), the signal handlers and the key that ends the wait for a debugger are outside:
  \<open>prober_main\<close> takes the options as they are returned and the arguments that are left. The first property ties a verdict to the
  reachability test of the IPFS backend, the second says which nodes are probed.
\<close>

subsection \<open>The program\<close>

definition version_url :: "string \<Rightarrow> string" where
  "version_url address = ''http://'' @ address @ ''/version''"

definition probe :: "('w, 'a) curl_os_scheme \<Rightarrow> 'w terminal \<Rightarrow> string \<Rightarrow> 'w env \<Rightarrow> 'w env" where
  "probe X T node e =
     (let e = print_text T (''probing '' @ node @ ''...'') e in
      (case http_client_new X e of
         (None, e) \<Rightarrow> print_text T (''internal error.'' @ [newline]) e
       | (Some httpc, e) \<Rightarrow>
           (let url = snd (snprintf 1024 (version_url (node @ '':9095'')));
                (rc, httpc) = http_client_set_url X url httpc;
                url = (if rc \<noteq> 0 then snd (snprintf 1024 (version_url node)) else url);
                (rc, httpc) = (if rc \<noteq> 0 then http_client_set_url X url httpc else (rc, httpc))
            in
              if rc \<noteq> 0 then print_text T (''invalid node address.'' @ [newline]) e
              else
                (let httpc = snd (http_client_set_method X HTTP_METHOD_POST httpc);
                     httpc = snd (http_client_set_request_body_instant X None 0 httpc);
                     httpc = snd (http_client_set_timeout X 5 httpc);
                     (rc, httpc, e) = http_client_request X httpc e in
                 if rc \<noteq> 0 then print_text T (''unreachable.'' @ [newline]) e
                 else
                   (let (rc, resp_code) = http_client_get_response_code X 0 e in
                    if rc \<noteq> 0 then print_text T (''unreachable.'' @ [newline]) e
                    else if resp_code \<noteq> HttpStatus_OK then print_text T (''unreachable.'' @ [newline]) e
                    else print_text T (''ok.'' @ [newline]) e)))))"

function probe_stream ::
    "('w, 'a) curl_os_scheme \<Rightarrow> 'w terminal \<Rightarrow> bytes \<Rightarrow> 'w env \<Rightarrow> 'w env option" where
  \<comment> \<open>\<open>while (fscanf(fp, " %s ", node) == 1)\<close> into \<open>node[256]\<close>: \<open>%s\<close> stores the word and its end\<close>
  "probe_stream X T inp e =
     (let s = dropWhile is_space inp in
      if s = [] then Some e
      else
        do {
          node \<leftarrow> sprintf_buf 256 (takeWhile (\<lambda>c. \<not> is_space c) s);
          probe_stream X T (dropWhile is_space (dropWhile (\<lambda>c. \<not> is_space c) s)) (probe X T (cstr node) e) })"
  by pat_completeness auto
termination
proof (relation "measure (\<lambda>(X, T, inp, e). length inp)", goal_cases)
  case (2 X T inp e s node)
  then have "\<not> is_space (hd s)" using hd_dropWhile by blast
  then have "length (dropWhile (\<lambda>c. \<not> is_space c) s) < length s"
    using 2(2) by (cases s) (simp_all add: length_dropWhile_le less_Suc_eq_le)
  then show ?case using 2(1) length_dropWhile_le [of is_space inp]
      length_dropWhile_le [of is_space "dropWhile (\<lambda>c. \<not> is_space c) s"] by simp
qed simp

declare probe_stream.simps [simp del]

definition stream_of :: "string \<Rightarrow> 'w env \<Rightarrow> bytes" where
  \<comment> \<open>what the C library reads from an opened file; a directory gives an error at the first read\<close>
  "stream_of path e = (case fs_lookup (env_fs e) path of Some (FFile bs) \<Rightarrow> bs | _ \<Rightarrow> [])"

definition prober_usage :: "string list" where
  "prober_usage =
     [''prober, a utility detecting connectivity of IPFS nodes.'',
      ''Usage: prober [OPTION]... [NODE_IP[:NODE_PORT]] ...'',
      ''Description: prober tests connectivity of each IPFS nodes provided as command line'' @
      '' arguments and nodes listed in the file specified by -f option. Node address takes'' @
      '' the form NODE_IP[:NODE_PORT] where node port can be omitted to take the default port 9095.'',
      ''First run options:'', ''  -f, --file=FILE_PATH          File containing addresses of nodes to be tested.'' @
      '' Nodes are separated by whitespaces or newlines.'', [],
      ''Debugging options:'', ''      --debug                   Wait for debugger attach after start.'', []]"

abbreviation (input) prober_options :: "cli_option list \<Rightarrow> string \<Rightarrow> bool \<Rightarrow> (string \<times> bool) option option" where
  \<comment> \<open>the loop over the options is the one of the shell, word for word but for the letter \<open>f\<close>\<close>
  "prober_options \<equiv> read_options"

abbreviation (input) prober_debugger_texts :: "'w terminal \<Rightarrow> 'w env \<Rightarrow> 'w env" where
  "prober_debugger_texts \<equiv> debugger_texts"

definition prober_main ::
    "('w, 'a) curl_os_scheme \<Rightarrow> 'w terminal \<Rightarrow> cli_option list \<Rightarrow> string list \<Rightarrow> 'w env \<Rightarrow> (c_int \<times> 'w env) option" where
  "prober_main X T opts args e =
     do {
       parsed \<leftarrow> prober_options opts [] False;
       case parsed of
         None \<Rightarrow> Some (- 1, print_lines T prober_usage e)
       | Some (file, wait) \<Rightarrow>
           (let e = (if wait then prober_debugger_texts T e else e);
                e = fold (probe X T) args e in
            if file = [] then Some (0, e)
            else
              (let (ok, e) = sys_open_rd X file e in
               if \<not> ok then Some (0, print_text T (''cannot open file ('' @ file @ '').'' @ [newline]) e)
               else do { e \<leftarrow> probe_stream X T (stream_of file e) e; Some (0, e) })) }"

subsection \<open>A verdict\<close>

lemma set_url_accepted:
  "curl_url_set X (hc_url c) (url_part url) = CURLUE_OK \<Longrightarrow>
     http_client_set_url X url c = (0, c\<lparr>hc_url := hc_url c @ [url_part url]\<rparr>)"
  by (simp add: http_client_set_url_def url_set_def url_part_def)

lemma set_url_refused:
  "curl_url_set X (hc_url c) (url_part url) \<noteq> CURLUE_OK \<Longrightarrow>
     \<exists>rc. rc \<noteq> 0 \<and> http_client_set_url X url c = (rc, c)"
  by (simp add: http_client_set_url_def url_set_def url_part_def)

lemma snprintf_whole:
  assumes "length s < n" "n \<le> 4097"
  shows "snprintf n s = (word_of_nat (length s), s)" "\<not> neg (word_of_nat (length s) :: c_int)"
    "\<not> int n \<le> sint (word_of_nat (length s) :: c_int)"
proof -
  have "sint (word_of_nat (length s) :: c_int) = int (length s)"
    using assms by (simp only: signed_of_nat) (simp add: signed_take_bit_int_eq_self)
  then show "snprintf n s = (word_of_nat (length s), s)" "\<not> neg (word_of_nat (length s) :: c_int)"
    "\<not> int n \<le> sint (word_of_nat (length s) :: c_int)"
    using assms by (simp_all add: snprintf_def neg_def)
qed

definition asks_version :: "('w, 'a) curl_os_scheme \<Rightarrow> string \<Rightarrow> http_client \<Rightarrow> http_client" where
  \<comment> \<open>the client as both programs send it\<close>
  "asks_version X url c = snd (http_client_set_timeout X 5 (snd (http_client_set_request_body_instant X None 0
     (snd (http_client_set_method X HTTP_METHOD_POST (c\<lparr>hc_url := [url_part url]\<rparr>))))))"

definition verdict :: "('w, 'a) curl_os_scheme \<Rightarrow> 'w terminal \<Rightarrow> c_int \<times> http_client \<times> 'w env \<Rightarrow> 'w env" where
  "verdict X T r =
     (let (rc, httpc, e) = r; (rc2, resp_code) = http_client_get_response_code X 0 e in
      print_text T ((if rc = 0 \<and> rc2 = 0 \<and> resp_code = HttpStatus_OK then ''ok.'' else ''unreachable.'') @ [newline]) e)"

lemma probe_asks:
  assumes new: "http_client_new X (print_text T (''probing '' @ node @ ''...'') e) = (Some c, e1)"
    and first: "version_url (node @ '':9095'') = url \<or> version_url node = url \<and>
      curl_url_set X [] (url_part (version_url (node @ '':9095''))) \<noteq> CURLUE_OK"
    and accepted: "curl_url_set X [] (url_part url) = CURLUE_OK" and short: "length node \<le> 1000"
  shows "probe X T node e = verdict X T (http_client_request X (asks_version X url c) e1)"
proof -
  have c: "hc_url c = []" using client_new_url [OF new] .
  have set: "http_client_set_url X url c = (0, c\<lparr>hc_url := [url_part url]\<rparr>)" using set_url_accepted [of X c url] c accepted by simp
  have "length (version_url (node @ '':9095'')) < 1024" "length (version_url node) < 1024"
    using short by (simp_all add: version_url_def)
  note cut = this [THEN snprintf_whole(1), simplified]
  from first show ?thesis
  proof
    assume "version_url (node @ '':9095'') = url"
    then show ?thesis using new cut set by (simp add: probe_def asks_version_def verdict_def Let_def split: prod.splits)
  next
    assume f: "version_url node = url \<and> curl_url_set X [] (url_part (version_url (node @ '':9095''))) \<noteq> CURLUE_OK"
    then obtain bad where "bad \<noteq> 0" "http_client_set_url X (version_url (node @ '':9095'')) c = (bad, c)"
      using set_url_refused [of X c "version_url (node @ '':9095'')"] c by auto
    then show ?thesis using f new cut set by (simp add: probe_def asks_version_def verdict_def Let_def split: prod.splits)
  qed
qed

text \<open>
  C30: The prober says that a node is there exactly when the reachability test of the IPFS
  backend, by which a pool selects its node, finds it: a bare address is tested at port 9095, and
  an address with a port, whose URL with a second port libcurl refuses, at its own port.
\<close>

theorem prober_agrees_with_the_backend:
  assumes node: "node = ip \<and> p = 9095 \<or> node = ip @ '':'' @ nat_digits (unat p) \<and>
      curl_url_set X [] (url_part (version_url (node @ '':9095''))) \<noteq> CURLUE_OK"
    and accepted: "curl_url_set X [] (url_part (node_url ip p ''/version'')) = CURLUE_OK"
    and short: "length node \<le> 1000"
    and test: "test_reachable X ip p (print_text T (''probing '' @ node @ ''...'') e) = (rc, e')"
  shows "probe X T node e = print_text T ((if fst (http_client_new X (print_text T (''probing '' @ node @ ''...'') e)) = None
    then ''internal error.'' else if rc = 0 then ''ok.'' else ''unreachable.'') @ [newline]) e'"
proof -
  let ?e = "print_text T (''probing '' @ node @ ''...'') e"
  let ?url = "node_url ip p ''/version''"
  have p: "nat_digits 9095 = ''9095''" by (simp add: nat_digits.simps char_of_def bit_0)
  have first: "version_url (node @ '':9095'') = ?url \<or> version_url node = ?url \<and>
      curl_url_set X [] (url_part (version_url (node @ '':9095''))) \<noteq> CURLUE_OK"
    using node p by (auto simp: version_url_def node_url_def)
  have "length (version_url (node @ '':9095'')) < 4097" "length (version_url node) < 4097"
    using short by (simp_all add: version_url_def)
  then have "length ?url < 4097" using first by metis
  note whole = snprintf_whole [OF this order_refl, simplified]
  obtain client e1 where new: "http_client_new X ?e = (client, e1)" by fastforce
  show ?thesis
  proof (cases client)
    case None
    with new whole test show ?thesis by (simp add: probe_def test_reachable_def Let_def)
  next
    case (Some c)
    with new have new: "http_client_new X ?e = (Some c, e1)" by simp
    have "http_client_set_url X ?url c = (0, c\<lparr>hc_url := [url_part ?url]\<rparr>)"
      using set_url_accepted [of X c ?url] client_new_url [OF new] accepted by simp
    then show ?thesis
      unfolding probe_asks [OF new first accepted short]
      using new test whole mk_error_nonzero neg_nonzero [OF http_status_neg]
      by (auto simp: test_reachable_def asks_version_def verdict_def Let_def split: prod.splits if_splits)
  qed
qed

definition printing_terminal :: "string terminal" where
  \<comment> \<open>the world is what was printed\<close>
  "printing_terminal = \<lparr>tty_out = (\<lambda>s w. w @ s), tty_err = (\<lambda>s w. w), tty_system = (\<lambda>s w. w), tty_home = None,
     tty_cwd = ''/'', tty_realpath = id, tty_pid = 1\<rparr>"

definition prober_ext :: "(string, string) ext" where
  \<comment> \<open>a URL with two ports is refused\<close>
  "prober_ext = sample_ext\<lparr>curl_url_set := (\<lambda>log call.
     if uc_text call = Some ''http://10.0.0.2:5002:9095/version'' then 3 else 0)\<rparr>"

definition prober_env :: "string env" where
  "prober_env = \<lparr>env_err = 0, env_errno = 0, env_fs = [''nodes'' \<mapsto> FFile (''10.0.0.1'' @ newline # ''10.0.0.2:5002'')],
     env_curl_ready = True, env_world = []\<rparr>"

lemma prober_ext_answers:
  "env_curl_ready e \<Longrightarrow> test_reachable prober_ext ''10.0.0.2'' 5002 e = (0, e)"
  "env_curl_ready e \<Longrightarrow> fst (http_client_new prober_ext e) \<noteq> None"
proof -
  let ?url = "node_url ''10.0.0.2'' 5002 ''/version''"
  have "length ?url < 4097" by (simp add: node_url_def nat_digits.simps)
  note snprintf_whole [OF this order_refl, simplified]
  moreover assume "env_curl_ready e"
  moreover have "e\<lparr>env_curl_ready := True\<rparr> = e" using \<open>env_curl_ready e\<close> by (cases e) simp
  ultimately show "test_reachable prober_ext ''10.0.0.2'' 5002 e = (0, e)"
    "fst (http_client_new prober_ext e) \<noteq> None"
    by (simp_all add: test_reachable_def Let_def http_client_new_def prober_ext_def sample_ext_def
        sample_curl_def sample_os_def curl_os.defs os.defs alloc_def http_client_request_def
        http_client_get_response_code_def split: write_fn.splits option.splits)
qed

theorem prober_agrees_with_the_backend_witness:
  "env_world (probe prober_ext printing_terminal ''10.0.0.2:5002'' prober_env) =
     ''probing 10.0.0.2:5002...ok.'' @ [newline]"
proof -
  have d: "nat_digits 5002 = ''5002''" by (simp add: nat_digits.simps char_of_def bit_0)
  have r: "env_curl_ready (print_text printing_terminal t prober_env)" for t by (simp add: prober_env_def)
  have w: "tty_out printing_terminal t u = u @ t" for t u by (simp add: printing_terminal_def)
  have u: "curl_url_set prober_ext [] (url_part (version_url (''10.0.0.2:5002'' @ '':9095''))) \<noteq> CURLUE_OK"
    "curl_url_set prober_ext [] (url_part (node_url ''10.0.0.2'' 5002 ''/version'')) = CURLUE_OK"
    using d by (simp_all add: prober_ext_def url_part_def version_url_def node_url_def)
  have n: "''10.0.0.2:5002'' = ''10.0.0.2'' @ '':'' @ nat_digits (unat (5002 :: port))" using d by simp
  have "probe prober_ext printing_terminal ''10.0.0.2:5002'' prober_env =
      print_text printing_terminal (''ok.'' @ [newline])
        (print_text printing_terminal (''probing '' @ ''10.0.0.2:5002'' @ ''...'') prober_env)"
    using prober_agrees_with_the_backend [OF disjI2 [OF conjI [OF n u(1)]] u(2) _ prober_ext_answers(1) [OF r]]
      prober_ext_answers(2) [OF r] by simp
  moreover have "env_world prober_env = []" by (simp add: prober_env_def)
  ultimately show ?thesis by (simp add: w)
qed

subsection \<open>The nodes that are probed\<close>

lemma probe_stream_words:
  "probe_stream X T inp e =
     (if list_all (\<lambda>w. length w < 256) (words inp) then Some (fold (probe X T) (map cstr (words inp)) e) else None)"
proof (induction X T inp e rule: probe_stream.induct)
  case (1 X T inp e)
  show ?case
  proof (cases "dropWhile is_space inp")
    case Nil
    then show ?thesis by (simp add: probe_stream.simps [of X T inp] words.simps [of inp])
  next
    case (Cons c s)
    let ?w = "takeWhile (\<lambda>c. \<not> is_space c) (c # s)" and ?r = "dropWhile (\<lambda>c. \<not> is_space c) (c # s)"
    have w: "words inp = ?w # words ?r" using Cons by (simp add: words.simps [of inp])
    have p: "probe_stream X T inp e =
        do { node \<leftarrow> sprintf_buf 256 ?w; probe_stream X T (dropWhile is_space ?r) (probe X T (cstr node) e) }"
      using Cons by (simp add: probe_stream.simps [of X T inp])
    show ?thesis
    proof (cases "length ?w < 256")
      case True
      then have s: "sprintf_buf 256 ?w = Some ?w" by (simp add: sprintf_buf_def)
      have "probe_stream X T (dropWhile is_space ?r) (probe X T (cstr ?w) e) =
          (if list_all (\<lambda>w. length w < 256) (words ?r)
           then Some (fold (probe X T) (map cstr (words ?r)) (probe X T (cstr ?w) e)) else None)"
        using 1 [OF Cons [symmetric] _, of ?w] s by simp
      with True p s w show ?thesis by simp
    next
      case False
      with p w show ?thesis by (simp add: sprintf_buf_def)
    qed
  qed
qed

text \<open>
  C32: The prober probes every argument and then every word of the file of the option -f, in this
  order, and returns 0; a word of the file with 256 characters or more runs over the array it is
  read into.
\<close>

theorem prober_probes_every_node:
  assumes "f \<noteq> []" "length f < 2048" and "sys_open_rd X f (fold (probe X T) args e) = (True, e1)"
  shows "prober_main X T [Cli_Value f] args e =
    (if list_all (\<lambda>w. length w < 256) (words (stream_of f e1))
     then Some (0, fold (probe X T) (map cstr (words (stream_of f e1))) e1) else None)"
  using assms by (simp add: prober_main_def sprintf_buf_def probe_stream_words)

theorem prober_probes_every_node_witness:
  "prober_main prober_ext printing_terminal [Cli_Value ''nodes''] [] prober_env =
     Some (0, fold (probe prober_ext printing_terminal) [''10.0.0.1'', ''10.0.0.2:5002''] prober_env)"
proof -
  have k: "fs_lookup (env_fs prober_env) ''nodes'' = Some (FFile (''10.0.0.1'' @ newline # ''10.0.0.2:5002''))"
    by (simp add: fs_lookup_def fs_key_def prober_env_def Let_def)
  have "fault prober_ext SysOpen prober_env = (False, prober_env)"
    by (simp add: fault_def prober_ext_def sample_ext_def sample_curl_def sample_os_def curl_os.defs os.defs prober_env_def)
  then have o: "sys_open_rd prober_ext ''nodes'' (fold (probe prober_ext printing_terminal) [] prober_env) = (True, prober_env)"
    using k by (simp add: sys_open_rd_def)
  have w: "words (''10.0.0.1'' @ newline # ''10.0.0.2:5002'') = [''10.0.0.1'', ''10.0.0.2:5002'']" by code_simp
  have s: "stream_of ''nodes'' prober_env = ''10.0.0.1'' @ newline # ''10.0.0.2:5002''" using k by (simp add: stream_of_def)
  have c: "map cstr [''10.0.0.1'', ''10.0.0.2:5002''] = [''10.0.0.1'', ''10.0.0.2:5002'']" by code_simp
  show ?thesis
    using prober_probes_every_node [OF _ _ o] unfolding s w c by simp
qed

end
