(* ===== verification/Spec2Isabelle.thy ===== *)
theory Spec2Isabelle
  imports Hive_Prelude Hive_Ext Hive_Error Http_Client Hive_Fs Hive_Client Hive_File Hive_Key
    Sandbird_Util Sandbird_Buffer Sandbird Sandbird_Multipart Http_Trace Oauth_Token Oauth_Flow Oauth_Login
    Http_Service Onedrive Onedrive_Store Onedrive_Drive Onedrive_Kv Onedrive_Store_Props Ipfs Ipfs_Node Ipfs_Props
    Onedrive_Keystore Onedrive_List Hive_Backends Onedrive_Login Onedrive_Renew Onedrive_Large Onedrive_Files
    Shell_Config Shell Shell_Lines Shell_Invariant Shell_Drive Shell_Node Shell_Setup Shell_Session Shell_Login Prober
begin

text \<open>
  The Elastos Hive native SDK is a C library that lets an application keep files and key-value data on
  OneDrive or on IPFS behind one interface (\<open>src/ela_hive.h\<close>), with a command shell and a prober of IPFS
  nodes (\<open>src/apps\<close>). This development models the library and the two programs and proves what their
  parts promise.

  The parts and how they interact. The application makes a client for a data directory
  (\<open>hive_client.c\<close>, \<open>mkdirs.c\<close>) and connects it to a backend, chosen in a table by the type of the
  options; the backend fills a table of methods, through which \<open>hive_file.c\<close> and \<open>hive_key.c\<close> dispatch.
  A failure is recorded in the thread's error (\<open>hive_error.c\<close>), one word with a facility and a code.
  Both backends talk HTTP through \<open>http/http_client.c\<close>, a layer over libcurl with a growing response
  body. OneDrive (\<open>vendors/onedrive/onedrive.c\<close>) needs an OAuth token (\<open>oauth/oauth_token.c\<close>), which is
  obtained with a redirect to a small server in the process (\<open>sandbird/sandbird.c\<close>), refreshed when it
  expires and kept in a file. IPFS (\<open>vendors/ipfs/ipfs.c\<close>) works on the current node of a pool
  (\<open>vendors/ipfs/ipfs_rpc.c\<close>). The shell (\<open>apps/cmd/cmd.c\<close>, \<open>apps/cmd/config.c\<close>) reads a configuration
  file, makes a client and runs the lines that are typed as operations of a connection; it has one table
  of operations for each kind of backend. The prober (\<open>apps/prober/prober.c\<close>) asks nodes for their version
  through the HTTP client.

  Conventions. The platform is LP64: \<open>int\<close> and \<open>unsigned\<close> are 32-bit words, \<open>long\<close>, \<open>size_t\<close> and \<open>ssize_t\<close>
  64-bit words, and the conversions between them are written out, since several errors of the sources
  are errors of conversion. An operation takes the outside as its first argument \<open>X\<close>, a record of
  functions over a type of worlds, and the environment \<open>e\<close>: the error of the thread, \<open>errno\<close>, the file
  system as a map of paths, whether libcurl is initialised, and the world. It returns an option: \<open>None\<close>
  is undefined behaviour (a store outside a buffer, a null pointer that is followed) or a loop that
  never ends. A pointer that may be null is an option inside the values. Error returns are the codes
  of the sources. What a call changes besides the environment (a token, a pool, a buffer, a stream) is
  passed in and returned.

  Theories, in the order of the layers.
    \<open>Hive_Prelude\<close>: words, buffers with bounds, C strings, formatting. \<open>Hive_Ext\<close>: the outside (allocator,
  system calls, clock, network, libcurl, cJSON) and the environment. \<open>Hive_Error\<close>: \<open>hive_error.c\<close>,
  \<open>http_status.c\<close> and the error macros; the codes are read back as they were built, and
  \<open>hive_get_strerror\<close> writes the text of the tables, with the exact condition of its overflow; the
  locale \<open>strerror_facility\<close> is the contract of a writer of texts. \<open>Http_Client\<close>: \<open>http_client.c\<close>; the
  locale \<open>byte_sink\<close> is what a transfer needs of a write callback, interpreted on the growing body and,
  in \<open>Ipfs_Props\<close>, on the callback of an IPFS read. \<open>Http_Trace\<close>: its debug dump, which never leaves its line
  and shows every byte. \<open>Hive_Fs\<close>: system calls on files,
  \<open>mkdirs.c\<close>, which makes exactly the missing directories of a path.
  \<open>Http_Service\<close>: a server as a function from requests to answers, and what an exchange with it
  returns; the hypothesis \<open>http_service\<close> is the documented behaviour of a libcurl transfer.
    \<open>Hive_Client\<close>, \<open>Hive_File\<close>, \<open>Hive_Key\<close>: the interface. The locale \<open>dispatch\<close> is the shape of its
  operations (check the arguments, look the method up, call it, record a failure) and each operation
  is an interpretation.
    \<open>Sandbird_Util\<close>, \<open>Sandbird_Buffer\<close>, \<open>Sandbird\<close>: the redirect server: string utilities, the buffer
  (locale \<open>appender\<close>: an append succeeds or changes nothing), the stream with its ordered states, the
  server loop over an explicit network that gives one batch of events for each poll of an address.
  \<open>Sandbird_Multipart\<close>:
  the reader of multipart requests, which the library does not call.
    \<open>Oauth_Token\<close>: the token, its JSON form, the login and the refresh. \<open>Oauth_Flow\<close> runs the login
  against a network that plays a browser: the authorization page and the host, port and path of the
  redirect server are what libcurl makes of the two URLs (\<open>login_urls\<close>). \<open>Oauth_Login\<close>: the properties, and a small JSON type for the
  closed examples.
    \<open>Onedrive\<close>: requests and file operations. \<open>Onedrive_Store\<close>: records of values, the method table,
  connecting. \<open>Onedrive_Drive\<close>: what each operation does against a drive that keeps its promise
  (\<open>drive_service\<close>). \<open>Onedrive_Kv\<close>: the values of a key refine a list of values; the locale \<open>value_store\<close>
  lifts the simulation of one operation to scripts and is interpreted on the drive.
  \<open>Onedrive_Store_Props\<close>, \<open>Onedrive_Files\<close>, \<open>Onedrive_Large\<close>, \<open>Onedrive_List\<close>, \<open>Onedrive_Keystore\<close>:
  properties of files and values, of fetching into a local file, of files that need an upload session (only
  the first can be put), of the listing in pages, of the key store on disk.
    \<open>Ipfs\<close>: the pool, the operations, the checks of the options. \<open>Ipfs_Node\<close>: what they do against a node
  that keeps its promise (\<open>ipfs_service\<close>). \<open>Ipfs_Props\<close>: the choice of a node, the invariant of the pool,
  reads and their errors.
    \<open>Hive_Backends\<close>: the table of backends with both of them, and two properties of the whole way from
  \<open>hive_client_connect\<close> to a working connection. \<open>Onedrive_Login\<close>: the first connection to OneDrive, from
  the missing key store through the browser and the token server to the tokens on disk. \<open>Onedrive_Renew\<close>: a
  refused token, the error that asks to try again, and the next try, which renews it.
    \<open>Shell_Config\<close>: the terminal, libconfig, the options of the two programs and the loader of the
  configuration. \<open>Shell\<close>: the commands, the tables of operations, the reader of lines and \<open>main\<close>; the state
  of the process is the record \<open>ctx\<close>, the session is the list of the characters typed. \<open>Shell_Lines\<close>: a
  typed line runs the words a reference definition gives, with the exact bounds of the two arrays.
  \<open>Shell_Invariant\<close>: the shell uses the table of its backend; the locale \<open>kind_keeping\<close> says that an
  operation keeps the kind of a connection, the locale \<open>connection_command\<close> is the shape of the commands
  that test for a missing operation, and both are interpreted on every operation and command.
  \<open>Shell_Drive\<close>, \<open>Shell_Node\<close>: what a session shows when the drive or the node keeps its promise.
  \<open>Shell_Setup\<close>: from the configuration file to a connection. \<open>Shell_Session\<close>: a whole run of the
  program over a pool of nodes that answer. \<open>Shell_Login\<close>: a whole run over OneDrive, with the login.
  \<open>Prober\<close>: the prober, whose verdict is the one of the reachability test of the IPFS backend.

  Loops, bounds and fuel. No fuel is used. The loops over strings, chunks, lists of nodes and records
  are structural or have a measure, among them the doubling of the response body (\<open>grow_size\<close>) and the
  walk over the records of a key (\<open>kv_loop\<close>). Four loops of the sources can run for ever and are partial
  functions into options: the search for a header line, the polling of the redirect server, the pages
  of a listing and the search for a node. That they return is proved where it holds (the login, a
  listing with finitely many pages, every search over a non-empty pool), and that the first does not
  return is proved for a lone carriage return. Array sizes are those of the sources: 1024 bytes for a
  URL, a typed line and the text of an error, 64 words, 256 bytes for a node of the prober, 4096 for a
  path, 512 for an authorization code, 65 for a content identifier. The hypotheses of
  the drive bound a path by 900 and the file of a single upload request by 4 MB; a larger file, up to the
  32 MB of the interface, goes through an upload session (\<open>upload_sessions\<close>).

  Assumptions about the outside are named where they are used: \<open>os_still\<close> and \<open>os_works\<close> (calls succeed),
  \<open>curl_works\<close> (handles can be made), \<open>http_service\<close> and \<open>curl_delivers\<close> (what libcurl documents about a
  transfer), \<open>json_objects\<close> and \<open>prints_back\<close> (what cJSON documents about objects and about printing),
  and the services of the two backends. Each property that uses one has a closed example in which it
  holds.

  Not modelled. Logging only forwards to another library. Reference counts and freed memory are not
  tracked, so destructors and close functions that only drop a reference have no definition; the leaks
  of the token code are outside the model. The thread that opens the authorization page runs at its
  creation and moves only the world. The Windows and macOS branches are left out.
  Of the two programs the signal handlers and the limit for core dumps are left out, \<open>getopt_long\<close> is
  given by the options it returns, and a file is read as it was when it was opened. The tests are
  programs around the library. In the
  file system \<open>.\<close> and \<open>..\<close> are ordinary names and there are no links.
\<close>

end
